(* ===== verification/GoPrelude.thy ===== *)
theory GoPrelude
  imports Main "HOL-Library.State_Monad" "HOL-Library.Word"
begin

text \<open>
  The shared vocabulary of the development.

  Every Go function that reads or writes state is a computation of type
  \<^typ>\<open>('s, 'a) state\<close> (the library's state monad, written with \<^theory_text>\<open>do\<close>): the state is passed
  along explicitly and the result comes first.  A Go result pair \<open>(value, error)\<close> is a
  sum \<open>goerr + 'a\<close>: \<open>Inl\<close> the error, \<open>Inr\<close> the value.  The usual
  \<open>if err != nil { return X{}, err }\<close> is \<open>go_try\<close>; where the code does more with the
  error, the model has the case distinction of the code.

  \<open>wp m Q s\<close> says that running \<open>m\<close> in \<open>s\<close> ends in a result and a state that satisfy \<open>Q\<close>.
  Its equations, collected in \<open>wp_simps\<close>, run a computation symbolically.  \<open>on_field\<close> lets a
  computation on a part of a record act on the whole record.
\<close>

named_theorems wp_simps "equations that run a computation symbolically"

section \<open>Weakest preconditions\<close>

definition wp :: "('s, 'a) state \<Rightarrow> ('a \<Rightarrow> 's \<Rightarrow> bool) \<Rightarrow> 's \<Rightarrow> bool" where
  "wp m Q s = (case run_state m s of (a, t) \<Rightarrow> Q a t)"

lemma wp_return [wp_simps]: "wp (State_Monad.return x) Q s = Q x s"
  by (simp add: wp_def)

lemma wp_bind [wp_simps]: "wp (State_Monad.bind m f) Q s = wp m (\<lambda>a t. wp (f a) Q t) s"
  by (simp add: wp_def split: prod.splits)

lemma wp_get [wp_simps]: "wp State_Monad.get Q s = Q s s"
  by (simp add: wp_def)

lemma wp_set [wp_simps]: "wp (State_Monad.set t) Q s = Q () t"
  by (simp add: wp_def)

lemma wp_update [wp_simps]: "wp (State_Monad.update f) Q s = Q () (f s)"
  by (simp add: wp_def State_Monad.update_def)

lemma wp_if [wp_simps]: "wp (if b then m else n) Q s = (if b then wp m Q s else wp n Q s)"
  by simp

lemma wp_case_sum [wp_simps]:
  "wp (case r of Inl e \<Rightarrow> f e | Inr x \<Rightarrow> g x) Q s =
     (case r of Inl e \<Rightarrow> wp (f e) Q s | Inr x \<Rightarrow> wp (g x) Q s)"
  by (simp split: sum.splits)

lemma wp_case_option [wp_simps]:
  "wp (case r of None \<Rightarrow> f | Some x \<Rightarrow> g x) Q s =
     (case r of None \<Rightarrow> wp f Q s | Some x \<Rightarrow> wp (g x) Q s)"
  by (simp split: option.splits)

lemma wp_case_prod [wp_simps]: "wp (case p of (a, b) \<Rightarrow> f a b) Q s = (case p of (a, b) \<Rightarrow> wp (f a b) Q s)"
  by (simp split: prod.splits)

lemma wp_let [wp_simps]: "wp (Let x f) Q s = wp (f x) Q s"
  by simp

lemma wp_iff_run: "run_state m s = (a, t) \<Longrightarrow> wp m Q s = Q a t"
  by (simp add: wp_def)

lemma wpD: "wp m Q s \<Longrightarrow> run_state m s = (a, t) \<Longrightarrow> Q a t"
  by (simp add: wp_def)

lemma wpI: "(\<And>a t. run_state m s = (a, t) \<Longrightarrow> Q a t) \<Longrightarrow> wp m Q s"
  by (simp add: wp_def split: prod.splits)

lemma wp_mono: "wp m P s \<Longrightarrow> (\<And>a t. P a t \<Longrightarrow> Q a t) \<Longrightarrow> wp m Q s"
  by (auto simp: wp_def split: prod.splits)

lemma wp_conj: "wp m (\<lambda>a t. P a t \<and> Q a t) s = (wp m P s \<and> wp m Q s)"
  by (simp add: wp_def split: prod.splits)

lemma wp_True [simp]: "wp m (\<lambda>a t. True) s"
  by (simp add: wp_def split: prod.splits)

section \<open>Errors as values\<close>

text \<open>\<open>if err != nil { return X{}, err }\<close>: the error is passed up, nothing else happens.\<close>

definition go_try ::
  "('s, 'e + 'a) state \<Rightarrow> ('a \<Rightarrow> ('s, 'e + 'b) state) \<Rightarrow> ('s, 'e + 'b) state" where
  "go_try m f = State_Monad.bind m
     (\<lambda>r. case r of Inl e \<Rightarrow> State_Monad.return (Inl e) | Inr x \<Rightarrow> f x)"

abbreviation ok :: "'a \<Rightarrow> ('s, 'e + 'a) state" where
  "ok x \<equiv> State_Monad.return (Inr x)"

abbreviation err :: "'e \<Rightarrow> ('s, 'e + 'a) state" where
  "err e \<equiv> State_Monad.return (Inl e)"

lemma wp_go_try [wp_simps]:
  "wp (go_try m f) Q s =
     wp m (\<lambda>r t. case r of Inl e \<Rightarrow> Q (Inl e) t | Inr x \<Rightarrow> wp (f x) Q t) s"
  by (simp add: go_try_def wp_def split: prod.splits sum.splits)

lemma run_go_try:
  "run_state (go_try m f) s =
     (case run_state m s of (Inl e, t) \<Rightarrow> (Inl e, t) | (Inr x, t) \<Rightarrow> run_state (f x) t)"
  by (simp add: go_try_def split: prod.splits sum.splits)

text \<open>
  \<open>wps m Q s\<close>: if \<open>m\<close> succeeds from \<open>s\<close>, then its value and its final state satisfy \<open>Q\<close>.  Along
  \<open>go_try\<close> only the successful branch remains.
\<close>

named_theorems wps_simps "equations that follow the successful branch of a computation"

definition wps :: "('s, 'e + 'a) state \<Rightarrow> ('a \<Rightarrow> 's \<Rightarrow> bool) \<Rightarrow> 's \<Rightarrow> bool" where
  "wps m Q s = wp m (\<lambda>r t. case r of Inl e \<Rightarrow> True | Inr x \<Rightarrow> Q x t) s"

lemma wps_ok [wps_simps]: "wps (ok x) Q s = Q x s"
  by (simp add: wps_def wp_simps)

lemma wps_err [wps_simps]: "wps (err e) Q s"
  by (simp add: wps_def wp_simps)

lemma wps_go_try [wps_simps]: "wps (go_try m f) Q s = wps m (\<lambda>x t. wps (f x) Q t) s"
  by (simp add: wps_def wp_def run_go_try split: prod.splits sum.splits)

lemma wps_bind [wps_simps]: "wps (State_Monad.bind m f) Q s = wp m (\<lambda>a t. wps (f a) Q t) s"
  by (simp add: wps_def wp_simps)

lemma wps_if [wps_simps]: "wps (if b then m else n) Q s = (if b then wps m Q s else wps n Q s)"
  by simp

lemma wpsD: "wps m Q s \<Longrightarrow> run_state m s = (Inr x, t) \<Longrightarrow> Q x t"
  by (simp add: wps_def wp_def)

lemma wpsI: "(\<And>x t. run_state m s = (Inr x, t) \<Longrightarrow> Q x t) \<Longrightarrow> wps m Q s"
  by (auto simp: wps_def wp_def split: prod.splits sum.splits)

lemma wps_mono: "wps m P s \<Longrightarrow> (\<And>x t. P x t \<Longrightarrow> Q x t) \<Longrightarrow> wps m Q s"
  by (auto simp: wps_def wp_def split: prod.splits sum.splits)

lemma wp_wps: "wps m P s \<Longrightarrow> (\<And>e t. Q (Inl e) t) \<Longrightarrow> (\<And>x t. P x t \<Longrightarrow> Q (Inr x) t) \<Longrightarrow> wp m Q s"
  by (auto simp: wps_def wp_def split: prod.splits sum.splits)

lemma wp_any: "(\<And>a t. Q a t) \<Longrightarrow> wp m Q s"
  by (simp add: wp_def split: prod.splits)

lemma wps_any: "(\<And>x t. Q x t) \<Longrightarrow> wps m Q s"
  by (simp add: wps_def wp_def split: prod.splits sum.splits)

section \<open>Computations on a part of the state\<close>

definition on_field ::
  "('s \<Rightarrow> 't) \<Rightarrow> ('t \<Rightarrow> 's \<Rightarrow> 's) \<Rightarrow> ('t, 'a) state \<Rightarrow> ('s, 'a) state" where
  "on_field g p m = State (\<lambda>s. case run_state m (g s) of (a, t) \<Rightarrow> (a, p t s))"

lemma run_on_field:
  "run_state (on_field g p m) s = (case run_state m (g s) of (a, t) \<Rightarrow> (a, p t s))"
  by (simp add: on_field_def)

lemma wp_on_field [wp_simps]: "wp (on_field g p m) Q s = wp m (\<lambda>a t. Q a (p t s)) (g s)"
  by (simp add: wp_def run_on_field split: prod.splits)

lemma wps_on_field [wps_simps]: "wps (on_field g p m) Q s = wps m (\<lambda>a t. Q a (p t s)) (g s)"
  by (simp add: wps_def wp_simps)

section \<open>What a computation may change\<close>

text \<open>
  A relation between the state before and the state after, reflexive and transitive, such as
  "the invariant is kept" or "this table is not touched".  A computation keeps it if all its
  steps do.
\<close>

locale frame_relation =
  fixes R :: "'s \<Rightarrow> 's \<Rightarrow> bool"
  assumes refl [intro]: "R s s"
    and trans: "R s t \<Longrightarrow> R t u \<Longrightarrow> R s u"
begin

definition keeps :: "('s, 'a) state \<Rightarrow> bool" where
  "keeps m \<longleftrightarrow> (\<forall>s. R s (snd (run_state m s)))"

lemma keepsI: "(\<And>s a t. run_state m s = (a, t) \<Longrightarrow> R s t) \<Longrightarrow> keeps m"
  unfolding keeps_def by (metis prod.collapse)

lemma keepsD: "keeps m \<Longrightarrow> run_state m s = (a, t) \<Longrightarrow> R s t"
  unfolding keeps_def by (metis snd_conv)

lemma keeps_wp: "keeps m \<Longrightarrow> wp m (\<lambda>a t. R s t) s"
  by (simp add: wp_def keeps_def split: prod.splits) (metis snd_conv)

lemma wp_keeps: "keeps m \<Longrightarrow> (\<And>a t. R s t \<Longrightarrow> Q a t) \<Longrightarrow> wp m Q s"
  by (rule wpI) (blast dest: keepsD)

lemma keeps_return: "keeps (State_Monad.return x)"
  by (rule keepsI) auto

lemma keeps_bind: "keeps m \<Longrightarrow> (\<And>a. keeps (f a)) \<Longrightarrow> keeps (State_Monad.bind m f)"
  unfolding keeps_def by (auto split: prod.splits) (metis snd_conv trans)

lemma keeps_go_try: "keeps m \<Longrightarrow> (\<And>x. keeps (f x)) \<Longrightarrow> keeps (go_try m f)"
  unfolding go_try_def by (rule keeps_bind) (auto intro: keeps_return split: sum.splits)

lemma keeps_if: "(b \<Longrightarrow> keeps m) \<Longrightarrow> (\<not> b \<Longrightarrow> keeps n) \<Longrightarrow> keeps (if b then m else n)"
  by simp

lemma keeps_case_sum:
  "(\<And>e. r = Inl e \<Longrightarrow> keeps (f e)) \<Longrightarrow> (\<And>x. r = Inr x \<Longrightarrow> keeps (g x)) \<Longrightarrow>
     keeps (case r of Inl e \<Rightarrow> f e | Inr x \<Rightarrow> g x)"
  by (simp split: sum.splits)

lemma keeps_case_option:
  "(r = None \<Longrightarrow> keeps f) \<Longrightarrow> (\<And>x. r = Some x \<Longrightarrow> keeps (g x)) \<Longrightarrow>
     keeps (case r of None \<Rightarrow> f | Some x \<Rightarrow> g x)"
  by (simp split: option.splits)

lemma keeps_case_prod: "(\<And>a b. keeps (f a b)) \<Longrightarrow> keeps (case p of (a, b) \<Rightarrow> f a b)"
  by (simp split: prod.splits)

lemma keeps_on_field: "(\<And>s t. R s (p t s)) \<Longrightarrow> keeps (on_field g p m)"
  by (auto simp: keeps_def run_on_field split: prod.splits)

lemma keeps_get: "keeps State_Monad.get"
  by (rule keepsI) auto

lemmas keeps_intros =
  keeps_return keeps_bind keeps_go_try keeps_if keeps_case_sum keeps_case_option keeps_case_prod
  keeps_get

end

section \<open>Machine integers and durations\<close>

text \<open>
  Go's \<open>int\<close>, \<open>int64\<close> and \<open>time.Duration\<close> are 64-bit two's complement numbers.  Values that
  the code only compares are read as \<^typ>\<open>int\<close>; arithmetic that can overflow goes through
  \<open>wrap64\<close>.  A duration is a number of nanoseconds.  A \<open>time.Time\<close> is its number of
  nanoseconds since 1970, so that the zero time is January 1 of year 1.
\<close>

type_synonym duration = int
type_synonym time = int

definition wrap64 :: "int \<Rightarrow> int" where
  "wrap64 x = (x + 2 ^ 63) mod 2 ^ 64 - 2 ^ 63"

definition max_int64 :: int where "max_int64 = 2 ^ 63 - 1"
definition min_int64 :: int where "min_int64 = - (2 ^ 63)"

lemma wrap64_bounds: "min_int64 \<le> wrap64 x \<and> wrap64 x \<le> max_int64"
proof -
  have "0 \<le> (x + 2 ^ 63) mod 2 ^ 64" and "(x + 2 ^ 63) mod 2 ^ 64 < (2::int) ^ 64"
    by simp_all
  then show ?thesis by (simp add: wrap64_def min_int64_def max_int64_def)
qed

lemma wrap64_id: "min_int64 \<le> x \<Longrightarrow> x \<le> max_int64 \<Longrightarrow> wrap64 x = x"
  by (simp add: wrap64_def min_int64_def max_int64_def mod_pos_pos_trivial)

lemma wrap64_sint: "wrap64 x = sint (word_of_int x :: 64 word)"
  by (simp add: wrap64_def sint_sbintrunc' signed_take_bit_eq_take_bit_shift take_bit_eq_mod)

definition millisecond :: duration where "millisecond = 1000000"
definition second :: duration where "second = 1000000000"
definition minute :: duration where "minute = 60 * second"

definition zero_time :: time where "zero_time = - 62135596800 * second"

definition time_IsZero :: "time \<Rightarrow> bool" where "time_IsZero t = (t = zero_time)"

text \<open>\<open>Time.Sub\<close> saturates at the largest and smallest duration.\<close>

definition time_Sub :: "time \<Rightarrow> time \<Rightarrow> duration" where
  "time_Sub t u = max min_int64 (min max_int64 (t - u))"

lemmas duration_defs = millisecond_def second_def minute_def zero_time_def time_IsZero_def

lemma time_Sub_ge: "d \<le> max_int64 \<Longrightarrow> min_int64 < d \<Longrightarrow> (d \<le> time_Sub t u) = (d \<le> t - u)"
  by (auto simp: time_Sub_def)

section \<open>Lists and maps\<close>

text \<open>\<open>UPDATE ... WHERE\<close> on a table kept as a list of rows, in the order of insertion.\<close>

definition update_where :: "('a \<Rightarrow> bool) \<Rightarrow> ('a \<Rightarrow> 'a) \<Rightarrow> 'a list \<Rightarrow> 'a list" where
  "update_where p f = map (\<lambda>x. if p x then f x else x)"

lemma update_where_simps [simp]:
  "update_where p f [] = []"
  "update_where p f (x # xs) = (if p x then f x else x) # update_where p f xs"
  by (simp_all add: update_where_def)

lemma length_update_where [simp]: "length (update_where p f xs) = length xs"
  by (simp add: update_where_def)

lemma update_where_append [simp]:
  "update_where p f (xs @ ys) = update_where p f xs @ update_where p f ys"
  by (simp add: update_where_def)

lemma set_update_where:
  "set (update_where p f xs) = {x \<in> set xs. \<not> p x} \<union> f ` {x \<in> set xs. p x}"
  by (auto simp: update_where_def)

lemma map_key_update_where [simp]:
  "(\<And>x. p x \<Longrightarrow> k (f x) = k x) \<Longrightarrow> map k (update_where p f xs) = map k xs"
  by (simp add: update_where_def)

lemma key_image_update_where [simp]:
  "(\<And>x. p x \<Longrightarrow> k (f x) = k x) \<Longrightarrow> k ` set (update_where p f xs) = k ` set xs"
  by (metis map_key_update_where set_map)

lemma update_where_none: "(\<And>x. x \<in> set xs \<Longrightarrow> \<not> p x) \<Longrightarrow> update_where p f xs = xs"
  by (induction xs) auto

lemma find_update_where_other:
  "(\<And>x. p x \<Longrightarrow> \<not> q x \<and> \<not> q (f x)) \<Longrightarrow> find q (update_where p f xs) = find q xs"
  by (induction xs) auto

lemma find_update_where_same:
  "(\<And>x. p x \<Longrightarrow> q (f x) = q x) \<Longrightarrow>
     find q (update_where p f xs) = map_option (\<lambda>x. if p x then f x else x) (find q xs)"
  by (induction xs) auto

lemma find_append: "find p (xs @ ys) = (case find p xs of None \<Rightarrow> find p ys | Some x \<Rightarrow> Some x)"
  by (induction xs) auto

lemma find_key_distinct:
  "distinct (map k xs) \<Longrightarrow> x \<in> set xs \<Longrightarrow> find (\<lambda>y. k y = k x) xs = Some x"
  by (induction xs) (auto simp: image_iff)

lemma find_Some_in: "find p xs = Some x \<Longrightarrow> x \<in> set xs \<and> p x"
  by (metis find_Some_iff nth_mem)

lemma find_None_key: "find (\<lambda>y. k y = v) xs = None \<longleftrightarrow> v \<notin> k ` set xs"
  by (auto simp: find_None_iff)

end
