(* ===== verification/GoStrings.thy ===== *)
theory GoStrings
  imports GoPrelude "HOL-Library.Sublist" "HOL-Library.Char_ord"
begin

text \<open>
  What the code uses of Go's \<open>strings\<close>, \<open>unicode/utf8\<close>, \<open>encoding/hex\<close> and \<open>strconv\<close>.  A Go
  string is a sequence of bytes, which is what \<^typ>\<open>string\<close> is here: a \<^typ>\<open>char\<close> is a byte,
  \<open>length\<close> is Go's \<open>len\<close>, and a character beyond ASCII is the bytes of its UTF-8 encoding.
\<close>

section \<open>Bytes\<close>

definition byte :: "char \<Rightarrow> nat" where "byte c = of_char c"

lemma byte_less [simp]: "byte c < 256"
  by (simp add: byte_def)

lemma byte_inject [simp]: "byte c = byte d \<longleftrightarrow> c = d"
  by (simp add: byte_def)

lemma char_of_byte [simp]: "char_of (byte c) = c"
  by (simp add: byte_def)

lemma byte_char_of [simp]: "byte (char_of n) = n mod 256"
  by (simp add: byte_def)

definition in_range :: "char \<Rightarrow> char \<Rightarrow> char \<Rightarrow> bool" where
  "in_range lo hi c = (byte lo \<le> byte c \<and> byte c \<le> byte hi)"

definition is_digit :: "char \<Rightarrow> bool" where "is_digit c = in_range CHR ''0'' CHR ''9'' c"
definition is_upper :: "char \<Rightarrow> bool" where "is_upper c = in_range CHR ''A'' CHR ''Z'' c"
definition is_lower :: "char \<Rightarrow> bool" where "is_lower c = in_range CHR ''a'' CHR ''z'' c"
definition is_ascii :: "char \<Rightarrow> bool" where "is_ascii c = (byte c < 128)"

lemmas char_class_defs = in_range_def is_digit_def is_upper_def is_lower_def is_ascii_def

section \<open>Trimming\<close>

text \<open>
  The UTF-8 encodings of the runes \<open>unicode.IsSpace\<close> holds for.  UTF-8 is prefix-free in both
  directions, so a string starts (ends) with such a rune exactly if one of these is a prefix
  (suffix) of it.
\<close>

definition space_encodings :: "string list" where
  "space_encodings =
     [[CHR 0x09], [CHR 0x0A], [CHR 0x0B], [CHR 0x0C], [CHR 0x0D], [CHR 0x20],
      [CHR 0xC2, CHR 0x85], [CHR 0xC2, CHR 0xA0], [CHR 0xE1, CHR 0x9A, CHR 0x80]]
     @ map (\<lambda>n. [CHR 0xE2, CHR 0x80, char_of (128 + n)]) [0..<11]
     @ [[CHR 0xE2, CHR 0x80, CHR 0xA8], [CHR 0xE2, CHR 0x80, CHR 0xA9],
        [CHR 0xE2, CHR 0x80, CHR 0xAF], [CHR 0xE2, CHR 0x81, CHR 0x9F],
        [CHR 0xE3, CHR 0x80, CHR 0x80]]"

function strip_prefixes :: "string list \<Rightarrow> string \<Rightarrow> string" where
  "strip_prefixes encs s =
     (case find (\<lambda>e. e \<noteq> [] \<and> take (length e) s = e) encs of
        None \<Rightarrow> s
      | Some e \<Rightarrow> strip_prefixes encs (drop (length e) s))"
  by pat_completeness auto
termination
proof (relation "measure (\<lambda>(encs, s). length s)", goal_cases)
  case 1
  show ?case by simp
next
  case (2 encs s e)
  then have "e \<noteq> []" and "take (length e) s = e" by (auto dest: find_Some_in)
  then show ?case by (cases s) auto
qed

declare strip_prefixes.simps [simp del]

definition TrimSpace :: "string \<Rightarrow> string" where
  "TrimSpace s =
     rev (strip_prefixes (map rev space_encodings) (rev (strip_prefixes space_encodings s)))"

definition TrimRight :: "char \<Rightarrow> string \<Rightarrow> string" where
  "TrimRight c s = rev (dropWhile (\<lambda>x. x = c) (rev s))"

definition Trim :: "char \<Rightarrow> string \<Rightarrow> string" where
  "Trim c s = TrimRight c (dropWhile (\<lambda>x. x = c) s)"

lemma strip_prefixes_Nil [simp]: "strip_prefixes encs [] = []"
  by (subst strip_prefixes.simps) (auto split: option.splits dest: find_Some_in)

lemma strip_prefixes_id:
  assumes "\<And>e. e \<in> set encs \<Longrightarrow> e \<noteq> [] \<Longrightarrow> s \<noteq> [] \<Longrightarrow> hd e \<noteq> hd s"
  shows "strip_prefixes encs s = s"
proof -
  have "find (\<lambda>e. e \<noteq> [] \<and> take (length e) s = e) encs = None"
    unfolding find_None_iff
  proof
    assume "\<exists>e. e \<in> set encs \<and> e \<noteq> [] \<and> take (length e) s = e"
    then obtain e where e: "e \<in> set encs" "e \<noteq> []" "take (length e) s = e" by blast
    from e(2,3) have "s \<noteq> []" by auto
    moreover from e(2,3) have "hd e = hd s" by (metis hd_take length_greater_0_conv)
    ultimately show False using e assms by blast
  qed
  then show ?thesis by (subst strip_prefixes.simps) simp
qed

lemma strip_prefixes_length: "length (strip_prefixes encs s) \<le> length s"
proof (induction encs s rule: strip_prefixes.induct)
  case (1 encs s)
  show ?case
  proof (cases "find (\<lambda>e. e \<noteq> [] \<and> take (length e) s = e) encs")
    case None
    then show ?thesis by (simp add: strip_prefixes.simps [of encs s])
  next
    case (Some e)
    then have "length (strip_prefixes encs (drop (length e) s)) \<le> length (drop (length e) s)"
      by (rule "1.IH")
    then have "length (strip_prefixes encs (drop (length e) s)) \<le> length s" by simp
    with Some show ?thesis by (simp add: strip_prefixes.simps [of encs s])
  qed
qed

lemma TrimSpace_Nil [simp]: "TrimSpace [] = []"
  by (simp add: TrimSpace_def)

lemma TrimSpace_length: "length (TrimSpace s) \<le> length s"
  by (simp add: TrimSpace_def) (metis length_rev order_trans strip_prefixes_length)

text \<open>Printable ASCII at both ends: nothing is trimmed.\<close>

definition printable :: "char \<Rightarrow> bool" where
  "printable c = (32 < byte c \<and> byte c < 127)"

lemma printable_not_space_start:
  assumes "printable c" and "e \<in> set space_encodings"
  shows "hd e \<noteq> c" and "last e \<noteq> c"
  using assms by (auto simp: printable_def space_encodings_def byte_def)

lemma TrimSpace_id:
  assumes "s \<noteq> [] \<Longrightarrow> printable (hd s)" and "s \<noteq> [] \<Longrightarrow> printable (last s)"
  shows "TrimSpace s = s"
proof -
  have left: "strip_prefixes space_encodings s = s"
    by (rule strip_prefixes_id) (use assms printable_not_space_start in blast)
  have right: "strip_prefixes (map rev space_encodings) (rev s) = rev s"
  proof (rule strip_prefixes_id)
    fix e assume "e \<in> set (map rev space_encodings)" "e \<noteq> []" "rev s \<noteq> []"
    then obtain d where d: "d \<in> set space_encodings" "e = rev d" "d \<noteq> []" "s \<noteq> []" by auto
    then show "hd e \<noteq> hd (rev s)"
      using assms(2) printable_not_space_start(2) [of "last s" d] by (simp add: hd_rev)
  qed
  show ?thesis by (simp add: TrimSpace_def left right)
qed

section \<open>Case\<close>

text \<open>
  \<open>strings.ToUpper\<close> and \<open>strings.ToLower\<close>, as far as ASCII letters of the result go: beside
  the ASCII letters, only the dotless i (U+0131) and the long s (U+017F) have an ASCII upper
  case, and only the dotted I (U+0130) and the Kelvin sign (U+212A) have an ASCII lower
  case.  Other bytes stay as they are: the callers compare the result with ASCII only.
\<close>

definition ascii_upper :: "char \<Rightarrow> char" where
  "ascii_upper c = (if is_lower c then char_of (byte c - 32) else c)"

definition ascii_lower :: "char \<Rightarrow> char" where
  "ascii_lower c = (if is_upper c then char_of (byte c + 32) else c)"

fun ToUpper :: "string \<Rightarrow> string" where
  "ToUpper [] = []"
| "ToUpper (c # d # s) =
     (if c = CHR 0xC4 \<and> d = CHR 0xB1 then CHR ''I'' # ToUpper s
      else if c = CHR 0xC5 \<and> d = CHR 0xBF then CHR ''S'' # ToUpper s
      else ascii_upper c # ToUpper (d # s))"
| "ToUpper [c] = [ascii_upper c]"

fun ToLower :: "string \<Rightarrow> string" where
  "ToLower [] = []"
| "ToLower (c # d # e # s) =
     (if c = CHR 0xC4 \<and> d = CHR 0xB0 then CHR ''i'' # ToLower (e # s)
      else if c = CHR 0xE2 \<and> d = CHR 0x84 \<and> e = CHR 0xAA then CHR ''k'' # ToLower s
      else ascii_lower c # ToLower (d # e # s))"
| "ToLower [c, d] =
     (if c = CHR 0xC4 \<and> d = CHR 0xB0 then [CHR ''i''] else [ascii_lower c, ascii_lower d])"
| "ToLower [c] = [ascii_lower c]"

lemma ToUpper_ascii: "(\<And>c. c \<in> set s \<Longrightarrow> is_ascii c) \<Longrightarrow> ToUpper s = map ascii_upper s"
proof (induction s rule: ToUpper.induct)
  case (2 c d s)
  have "is_ascii c" by (rule "2.prems") simp
  then have "c \<noteq> CHR 0xC4" "c \<noteq> CHR 0xC5" by (auto simp: is_ascii_def byte_def)
  with "2.IH"(3) "2.prems" show ?case by simp
qed simp_all

text \<open>
  \<open>strings.EqualFold\<close> against an ASCII string: beside the ASCII letters, the long s folds to s
  and the Kelvin sign to k.
\<close>

fun fold_case :: "string \<Rightarrow> string" where
  "fold_case [] = []"
| "fold_case (c # d # e # s) =
     (if c = CHR 0xC5 \<and> d = CHR 0xBF then CHR ''s'' # fold_case (e # s)
      else if c = CHR 0xE2 \<and> d = CHR 0x84 \<and> e = CHR 0xAA then CHR ''k'' # fold_case s
      else ascii_lower c # fold_case (d # e # s))"
| "fold_case [c, d] =
     (if c = CHR 0xC5 \<and> d = CHR 0xBF then [CHR ''s''] else [ascii_lower c, ascii_lower d])"
| "fold_case [c] = [ascii_lower c]"

definition EqualFold :: "string \<Rightarrow> string \<Rightarrow> bool" where
  "EqualFold s t = (fold_case s = fold_case t)"

lemma EqualFold_refl [simp]: "EqualFold s s"
  by (simp add: EqualFold_def)

text \<open>To compare literals.\<close>

lemmas EqualFold_lit = EqualFold_def ascii_lower_def char_class_defs byte_def

section \<open>Splitting\<close>

fun Split :: "char \<Rightarrow> string \<Rightarrow> string list" where
  "Split sep [] = [[]]"
| "Split sep (c # s) =
     (if c = sep then [] # Split sep s
      else (case Split sep s of [] \<Rightarrow> [[c]] | p # ps \<Rightarrow> (c # p) # ps))"

fun Join_with :: "char \<Rightarrow> string list \<Rightarrow> string" where
  "Join_with sep [] = []"
| "Join_with sep [p] = p"
| "Join_with sep (p # q # ps) = p @ sep # Join_with sep (q # ps)"

lemma Split_not_Nil [simp]: "Split sep s \<noteq> []"
  by (cases s) (auto split: list.splits)

lemma Split_no_sep: "sep \<notin> set s \<Longrightarrow> Split sep s = [s]"
  by (induction s) auto

lemma Split_append: "sep \<notin> set p \<Longrightarrow> Split sep (p @ sep # s) = p # Split sep s"
  by (induction p) auto

lemma Split_parts_no_sep: "p \<in> set (Split sep s) \<Longrightarrow> sep \<notin> set p"
proof (induction s arbitrary: p)
  case (Cons c s)
  then show ?case
    by (cases "Split sep s") (auto split: if_splits)
qed simp

lemma Join_Split [simp]: "Join_with sep (Split sep s) = s"
proof (induction s)
  case (Cons c s)
  show ?case
  proof (cases "Split sep s")
    case Nil
    then show ?thesis by simp
  next
    case (Cons p ps)
    with \<open>Join_with sep (Split sep s) = s\<close> show ?thesis by (cases ps) auto
  qed
qed simp

definition HasPrefix :: "string \<Rightarrow> string \<Rightarrow> bool" where
  "HasPrefix s p = (take (length p) s = p)"

section \<open>Numbers as text\<close>

definition hex_digit :: "nat \<Rightarrow> char" where
  "hex_digit n = (if n < 10 then char_of (48 + n) else char_of (87 + n))"

definition hex_byte :: "char \<Rightarrow> string" where
  "hex_byte c = [hex_digit (byte c div 16), hex_digit (byte c mod 16)]"

definition hex_encode :: "string \<Rightarrow> string" where
  "hex_encode s = concat (map hex_byte s)"

lemma length_hex_encode [simp]: "length (hex_encode s) = 2 * length s"
  by (induction s) (auto simp: hex_encode_def hex_byte_def)

lemma hex_digit_inject: "m < 16 \<Longrightarrow> n < 16 \<Longrightarrow> hex_digit m = hex_digit n \<Longrightarrow> m = n"
proof -
  assume m: "m < 16" and n: "n < 16" and eq: "hex_digit m = hex_digit n"
  from eq have "byte (hex_digit m) = byte (hex_digit n)" by simp
  with m n show "m = n" by (auto simp: hex_digit_def split: if_splits)
qed

lemma hex_byte_inject: "hex_byte c = hex_byte d \<Longrightarrow> c = d"
proof -
  assume "hex_byte c = hex_byte d"
  moreover have "byte c div 16 < 16" "byte d div 16 < 16"
    by (simp_all add: div_less_iff_less_mult)
  ultimately have "byte c div 16 = byte d div 16" and "byte c mod 16 = byte d mod 16"
    by (auto simp: hex_byte_def intro: hex_digit_inject)
  then have "byte c = byte d" by (metis div_mult_mod_eq)
  then show "c = d" by simp
qed

lemma hex_encode_inject: "hex_encode s = hex_encode t \<longleftrightarrow> s = t"
proof
  show "hex_encode s = hex_encode t \<Longrightarrow> s = t"
  proof (induction s arbitrary: t)
    case Nil
    then show ?case by (cases t) (auto simp: hex_encode_def hex_byte_def)
  next
    case (Cons c s)
    then obtain d u where t: "t = d # u" by (cases t) (auto simp: hex_encode_def hex_byte_def)
    with Cons.prems have "hex_byte c = hex_byte d" and "hex_encode s = hex_encode u"
      by (auto simp: hex_encode_def hex_byte_def)
    with Cons.IH t show ?case by (auto dest: hex_byte_inject)
  qed
qed simp

fun show_nat :: "nat \<Rightarrow> string" where
  "show_nat n =
     (if n < 10 then [char_of (48 + n)] else show_nat (n div 10) @ [char_of (48 + n mod 10)])"

declare show_nat.simps [simp del]

definition show_int :: "int \<Rightarrow> string" where
  "show_int i = (if i < 0 then CHR ''-'' # show_nat (nat (- i)) else show_nat (nat i))"

text \<open>\<open>strconv.Atoi\<close>: an optional sign, then decimal digits, within 64 bits.\<close>

fun digits_value :: "string \<Rightarrow> nat \<Rightarrow> nat option" where
  "digits_value [] acc = Some acc"
| "digits_value (c # cs) acc =
     (if is_digit c then digits_value cs (10 * acc + (byte c - 48)) else None)"

definition Atoi :: "string \<Rightarrow> int option" where
  "Atoi s =
     (let (neg, ds) = (case s of [] \<Rightarrow> (False, [])
                       | c # cs \<Rightarrow> if c = CHR ''-'' then (True, cs)
                                   else if c = CHR ''+'' then (False, cs) else (False, s))
      in if ds = [] then None
         else case digits_value ds 0 of
           None \<Rightarrow> None
         | Some n \<Rightarrow>
             (let i = (if neg then - int n else int n)
              in if min_int64 \<le> i \<and> i \<le> max_int64 then Some i else None))"

lemma Atoi_bounds: "Atoi s = Some i \<Longrightarrow> min_int64 \<le> i \<and> i \<le> max_int64"
  by (auto simp: Atoi_def Let_def split: if_splits option.splits list.splits)

lemma digits_value_append:
  "digits_value (xs @ ys) acc =
     (case digits_value xs acc of None \<Rightarrow> None | Some n \<Rightarrow> digits_value ys n)"
  by (induction xs arbitrary: acc) auto

lemma digits_value_show_nat: "digits_value (show_nat n) 0 = Some n"
proof (induction n rule: show_nat.induct)
  case (1 n)
  have digit: "is_digit (char_of (48 + m))" "byte (char_of (48 + m)) = 48 + m" if "m < 10" for m :: nat
    using that by (simp_all add: char_class_defs byte_def)
  show ?case
  proof (cases "n < 10")
    case True
    then show ?thesis by (subst show_nat.simps) (simp add: digit)
  next
    case False
    then have "digits_value (show_nat (n div 10)) 0 = Some (n div 10)" using "1.IH" by simp
    with False show ?thesis
      by (subst show_nat.simps) (simp add: digits_value_append digit)
  qed
qed

lemma show_nat_start: "\<exists>c s. show_nat n = c # s \<and> is_digit c"
  by (induction n rule: show_nat.induct) (subst show_nat.simps, auto simp: char_class_defs byte_def)

lemma Atoi_show_int:
  assumes "min_int64 \<le> i" and "i \<le> max_int64"
  shows "Atoi (show_int i) = Some i"
proof -
  obtain c s where c: "show_nat (nat \<bar>i\<bar>) = c # s" "is_digit c" using show_nat_start by blast
  have "c \<noteq> CHR ''-''" "c \<noteq> CHR ''+''" using c(2) by (auto simp: char_class_defs byte_def)
  then show ?thesis
    using c assms digits_value_show_nat [of "nat \<bar>i\<bar>"]
    by (auto simp: Atoi_def show_int_def Let_def abs_if)
qed

end
