(* ===== verification/GoError.thy ===== *)
theory GoError
  imports GoStrings
begin

text \<open>
  Go errors.  The error values the two programs declare (\<open>var Err... = errors.New(...)\<close>) are the
  constructors of \<open>sentinel\<close>: each is a pointer of its own, so that \<open>errors.Is\<close> compares
  constructors.  \<open>goerr\<close> has one constructor per error type of the code; \<open>Message\<close> is an error
  without identity (an inline \<open>errors.New\<close>, a \<open>fmt.Errorf\<close> without \<open>%w\<close>, or an error that comes
  from outside the repository), and \<open>Wrapped p e q\<close> is \<open>fmt.Errorf\<close> of \<open>p\<close>, \<open>%w\<close> and \<open>q\<close>.

  \<open>error_chain\<close> follows \<open>Unwrap\<close>; \<open>errors_Is\<close> and the \<open>errors_As\<close> functions search it.
\<close>

section \<open>Error values and types\<close>

datatype sentinel =
    store_ErrNotFound | ErrInvalidRoom | ErrOperationInProgress
  | ErrSetupKeyConsumed | ErrCreateIntentInFlight | ErrCreateIntentComplete
  | ErrNoRoomMetadata | ErrNoProtectedRoomCode | ErrUnsupportedProtection
  | ErrRoomAlreadySaved | ErrStoredStateConflict | ErrCommandInProgress
  | ErrSwitchConfirmationRequired | ErrInvalidSwitchMode
  | ErrManagedProfileConflict | ErrManagedProfileInconsistent
  | ErrArtifactMissing | ErrArtifactSize | ErrArtifactDigest | ErrSignatureInvalid
  | ErrPublisherMismatch | ErrServiceMissing | ErrServiceAccess | ErrServiceUnavailable
  | ErrElevationRequired | ErrUnsupportedAction | ErrRemovalNotConfirmed
  | context_Canceled | context_DeadlineExceeded | os_ErrNotExist | io_EOF

datatype ErrorCode =
    ErrorInvalidRequest | ErrorRoomUnavailable | ErrorOperationConflict
  | ErrorRateLimited | ErrorServiceUnavailable | ErrorRequestFailed

datatype goerr =
    Sentinel sentinel
  | Message string
  | Wrapped string goerr string
  | HTTPError (StatusCode: int) (Code: ErrorCode) (RetryAfter: duration)
  | ProtocolError (Reason: string)
  | TransportError
  | TransactionError (Cause: "goerr option") (CleanupFailures: nat)
  | VersionMismatchError (Expected: string) (Detected: string)
  | MetadataVersionError (ExpectedVersion: int) (DetectedVersion: int)
  | RPCError (Operation: string) (RPCCode: nat)
  | RecoveryError (RecoveryOperation: string) (Attempts: nat) (RecoveryCause: goerr)

section \<open>Unwrapping\<close>

text \<open>
  \<open>TransactionError\<close> has an \<open>Unwrap\<close> method and \<open>fmt.Errorf\<close> with \<open>%w\<close> gives one;
  \<open>RecoveryError\<close> keeps a cause but has no \<open>Unwrap\<close>.
\<close>

fun error_chain :: "goerr \<Rightarrow> goerr list" where
  "error_chain (Wrapped p e q) = Wrapped p e q # error_chain e"
| "error_chain (TransactionError (Some e) n) = TransactionError (Some e) n # error_chain e"
| "error_chain e = [e]"

definition errors_Is :: "goerr \<Rightarrow> sentinel \<Rightarrow> bool" where
  "errors_Is e t = (Sentinel t \<in> set (error_chain e))"

definition errors_As_HTTPError :: "goerr \<Rightarrow> goerr option" where
  "errors_As_HTTPError e = find is_HTTPError (error_chain e)"

definition errors_As_VersionMismatch :: "goerr \<Rightarrow> goerr option" where
  "errors_As_VersionMismatch e = find is_VersionMismatchError (error_chain e)"

definition errors_As_TransportError :: "goerr \<Rightarrow> bool" where
  "errors_As_TransportError e = (TransportError \<in> set (error_chain e))"

lemma errors_Is_Sentinel [simp]: "errors_Is (Sentinel s) t \<longleftrightarrow> s = t"
  by (auto simp: errors_Is_def)

lemma errors_Is_Message [simp]: "\<not> errors_Is (Message m) t"
  by (simp add: errors_Is_def)

lemma errors_Is_Wrapped [simp]: "errors_Is (Wrapped p e q) t \<longleftrightarrow> errors_Is e t"
  by (simp add: errors_Is_def)

lemma errors_Is_TransactionError [simp]:
  "errors_Is (TransactionError c n) t \<longleftrightarrow> (\<exists>e. c = Some e \<and> errors_Is e t)"
  by (cases c) (simp_all add: errors_Is_def)

lemma errors_Is_RecoveryError [simp]: "\<not> errors_Is (RecoveryError p n e) t"
  by (simp add: errors_Is_def)

section \<open>Texts\<close>

fun sentinel_text :: "sentinel \<Rightarrow> string" where
  "sentinel_text store_ErrNotFound = ''not found''"
| "sentinel_text ErrInvalidRoom = ''room not found''"
| "sentinel_text ErrOperationInProgress = ''room operation is already in progress''"
| "sentinel_text ErrSetupKeyConsumed = ''enrollment Setup Key is no longer available''"
| "sentinel_text ErrCreateIntentInFlight = ''room create intent is already in flight''"
| "sentinel_text ErrCreateIntentComplete = ''room create intent is already complete''"
| "sentinel_text ErrNoRoomMetadata = ''no saved room metadata''"
| "sentinel_text ErrNoProtectedRoomCode = ''no protected room code''"
| "sentinel_text ErrUnsupportedProtection =
     ''current-user room code protection is unavailable on this platform''"
| "sentinel_text ErrRoomAlreadySaved = ''a room is already saved''"
| "sentinel_text ErrStoredStateConflict = ''saved room state is incomplete or inconsistent''"
| "sentinel_text ErrCommandInProgress = ''a room command is already in progress''"
| "sentinel_text ErrSwitchConfirmationRequired = ''switching rooms requires confirmation''"
| "sentinel_text ErrInvalidSwitchMode = ''switch mode must be create or join''"
| "sentinel_text ErrManagedProfileConflict =
     ''managed NetBird profile name already exists without ownership metadata''"
| "sentinel_text ErrManagedProfileInconsistent =
     ''managed NetBird profile is missing or inconsistent''"
| "sentinel_text ErrArtifactMissing = ''NetBird artifact is missing''"
| "sentinel_text ErrArtifactSize = ''NetBird artifact size mismatch''"
| "sentinel_text ErrArtifactDigest = ''NetBird artifact digest mismatch''"
| "sentinel_text ErrSignatureInvalid = ''NetBird artifact signature is invalid''"
| "sentinel_text ErrPublisherMismatch = ''NetBird artifact publisher mismatch''"
| "sentinel_text ErrServiceMissing = ''NetBird service is missing''"
| "sentinel_text ErrServiceAccess = ''NetBird service status access denied''"
| "sentinel_text ErrServiceUnavailable = ''NetBird service is unavailable''"
| "sentinel_text ErrElevationRequired = ''administrator elevation is required''"
| "sentinel_text ErrUnsupportedAction = ''unsupported privileged action''"
| "sentinel_text ErrRemovalNotConfirmed = ''NetBird service removal was not confirmed''"
| "sentinel_text context_Canceled = ''context canceled''"
| "sentinel_text context_DeadlineExceeded = ''context deadline exceeded''"
| "sentinel_text os_ErrNotExist = ''file does not exist''"
| "sentinel_text io_EOF = ''EOF''"

fun ErrorCode_text :: "ErrorCode \<Rightarrow> string" where
  "ErrorCode_text ErrorInvalidRequest = ''invalid_request''"
| "ErrorCode_text ErrorRoomUnavailable = ''room_unavailable''"
| "ErrorCode_text ErrorOperationConflict = ''operation_conflict''"
| "ErrorCode_text ErrorRateLimited = ''rate_limited''"
| "ErrorCode_text ErrorServiceUnavailable = ''service_unavailable''"
| "ErrorCode_text ErrorRequestFailed = ''request_failed''"

text \<open>The names of the gRPC status codes, by number.\<close>

definition grpc_code_names :: "string list" where
  "grpc_code_names =
     [''OK'', ''Canceled'', ''Unknown'', ''InvalidArgument'', ''DeadlineExceeded'', ''NotFound'',
      ''AlreadyExists'', ''PermissionDenied'', ''ResourceExhausted'', ''FailedPrecondition'',
      ''Aborted'', ''OutOfRange'', ''Unimplemented'', ''Internal'', ''Unavailable'', ''DataLoss'',
      ''Unauthenticated'']"

definition grpc_code_text :: "nat \<Rightarrow> string" where
  "grpc_code_text c =
     (if c < length grpc_code_names then grpc_code_names ! c
      else ''Code('' @ show_nat c @ '')'')"

fun err_text :: "goerr \<Rightarrow> string" where
  "err_text (Sentinel s) = sentinel_text s"
| "err_text (Message m) = m"
| "err_text (Wrapped p e q) = p @ err_text e @ q"
| "err_text (HTTPError status code retry) =
     ''Room API request failed with status '' @ show_int status @ '' ('' @ ErrorCode_text code @ '')''"
| "err_text (ProtocolError reason) = ''Room API returned an invalid response: '' @ reason"
| "err_text TransportError = ''Room API is unavailable''"
| "err_text (TransactionError cause n) =
     (if n = 0 then ''room enrollment transaction failed''
      else ''room enrollment transaction failed; '' @ show_nat n @ '' cleanup operations failed'')"
| "err_text (VersionMismatchError expected detected) =
     ''NetBird daemon version mismatch: expected '' @ expected @ '', detected '' @ detected"
| "err_text (MetadataVersionError expected detected) =
     ''room metadata version mismatch: expected '' @ show_int expected @ '', detected ''
       @ show_int detected"
| "err_text (RPCError operation code) =
     ''NetBird daemon RPC '' @ operation @ '' failed ('' @ grpc_code_text code @ '')''"
| "err_text (RecoveryError operation attempts cause) =
     ''NetBird '' @ operation @ '' recovery stopped after '' @ show_nat attempts @ '' attempts: ''
       @ err_text cause"

end
