(* ===== verification/RoomCrypto.thy ===== *)
theory RoomCrypto
  imports GoError
begin

text \<open>
  \<open>room-api/internal/crypto/crypto.go\<close>.  SHA-256 and AES-GCM are the parameters of a record: the
  hash, encryption under a key and a nonce, and decryption, which fails on data it does not
  authenticate.  What the code relies on is \<open>gcm_correct\<close>.  \<open>Seal\<close> draws its nonce from the
  world's random source, which is a parameter as well.
\<close>

record Primitives =
  sha256 :: "string \<Rightarrow> string"
  gcm_seal :: "string \<Rightarrow> string \<Rightarrow> string \<Rightarrow> string"
  gcm_open :: "string \<Rightarrow> string \<Rightarrow> string \<Rightarrow> string option"

definition nonce_size :: nat where "nonce_size = 12"

text \<open>\<open>aes.NewCipher\<close> takes keys of 16, 24 or 32 bytes.\<close>

definition NewCipher :: "string \<Rightarrow> goerr + string" where
  "NewCipher key =
     (if length key \<in> {16, 24, 32} then Inr key
      else Inl (Message (''crypto/aes: invalid key size '' @ show_nat (length key))))"

definition Hash :: "Primitives \<Rightarrow> string \<Rightarrow> string" where
  "Hash P v = sha256 P v"

text \<open>\<open>io.ReadFull(rand.Reader, buf)\<close>: exactly as many bytes as asked for, or an error.\<close>

type_synonym 'w random = "nat \<Rightarrow> ('w, goerr + string) state"

definition random_exact :: "'w random \<Rightarrow> bool" where
  "random_exact rnd \<longleftrightarrow>
     (\<forall>n w b w'. run_state (rnd n) w = (Inr b, w') \<longrightarrow> length b = n)"

definition gcm_correct :: "Primitives \<Rightarrow> bool" where
  "gcm_correct P \<longleftrightarrow>
     (\<forall>k n p. length k \<in> {16, 24, 32} \<longrightarrow> length n = nonce_size \<longrightarrow>
        gcm_open P k n (gcm_seal P k n p) = Some p)"

definition Seal :: "Primitives \<Rightarrow> 'w random \<Rightarrow> string \<Rightarrow> string \<Rightarrow> ('w, goerr + string) state" where
  "Seal P rnd key plaintext =
     (case NewCipher key of
        Inl e \<Rightarrow> err e
      | Inr k \<Rightarrow> go_try (rnd nonce_size) (\<lambda>nonce. ok (nonce @ gcm_seal P k nonce plaintext)))"

definition crypto_Open :: "Primitives \<Rightarrow> string \<Rightarrow> string \<Rightarrow> goerr + string" where
  "crypto_Open P key ciphertext =
     (case NewCipher key of
        Inl e \<Rightarrow> Inl e
      | Inr k \<Rightarrow>
          if length ciphertext < nonce_size then Inl (Message ''ciphertext is too short'')
          else case gcm_open P k (take nonce_size ciphertext) (drop nonce_size ciphertext) of
            None \<Rightarrow> Inl (Message ''cipher: message authentication failed'')
          | Some p \<Rightarrow> Inr p)"

section \<open>What is sealed can be opened\<close>

lemma Seal_Open:
  assumes "gcm_correct P" and "random_exact rnd"
    and "run_state (Seal P rnd key plaintext) w = (Inr c, w')"
  shows "crypto_Open P key c = Inr plaintext"
proof (cases "NewCipher key")
  case (Inl e)
  with assms(3) show ?thesis by (simp add: Seal_def)
next
  case (Inr k)
  then have k: "k = key" "length key \<in> {16, 24, 32}" by (auto simp: NewCipher_def split: if_splits)
  from assms(3) Inr obtain nonce where nonce: "run_state (rnd nonce_size) w = (Inr nonce, w')"
    and c: "c = nonce @ gcm_seal P k nonce plaintext"
    by (auto simp: Seal_def run_go_try split: prod.splits sum.splits)
  have "length nonce = nonce_size" using assms(2) nonce by (auto simp: random_exact_def)
  then have "gcm_open P key nonce (gcm_seal P key nonce plaintext) = Some plaintext"
    using assms(1) k unfolding gcm_correct_def by blast
  then show ?thesis using \<open>length nonce = nonce_size\<close> k Inr c by (simp add: crypto_Open_def)
qed

lemma Seal_key_size:
  "length key \<notin> {16, 24, 32} \<Longrightarrow> \<exists>e. run_state (Seal P rnd key plaintext) w = (Inl e, w)"
  by (simp add: Seal_def NewCipher_def)

end
