(* ===== verification/RoomStore.thy ===== *)
theory RoomStore
  imports GoError
begin

text \<open>
  \<open>room-api/internal/store/store.go\<close>: the two SQLite tables, each a list of rows in the order of
  insertion, and one definition per statement.  \<open>faults\<close> is what the database will answer:
  the next statement fails with the next error text of the list, if it is one, and then
  changes nothing; a driver's error is never one of the errors the program declares.  So every theorem holds for every pattern of database failures.

  The lemmas show that every statement keeps the primary and unique keys (\<open>db_inv\<close>), and what
  each lookup returns after each statement.  The locale \<open>keyed_table\<close> holds what the lookups
  by id, by code hash and by idempotency key have in common.
\<close>

section \<open>Rows, tables and failing statements\<close>

record Room =
  ID :: string
  CodeHash :: string
  CodeCiphertext :: string
  GroupID :: string
  SetupKeyID :: string
  SetupKeyCiphertext :: string
  PolicyID :: string
  Status :: string
  CreatedAt :: time
  DisabledAt :: "time option"
  LastError :: string

record Operation =
  IdempotencyKey :: string
  RoomID :: string
  Response :: string
  OpStatus :: string
  OpCreatedAt :: time

record Store =
  rooms :: "Room list"
  operations :: "Operation list"
  faults :: "string option list"

type_synonym 'a stmt = "(Store, goerr + 'a) state"

definition empty_store :: "string option list \<Rightarrow> Store" where
  "empty_store fs = \<lparr>rooms = [], operations = [], faults = fs\<rparr>"

definition next_fault :: "(Store, string option) state" where
  "next_fault = State (\<lambda>s. case faults s of
     [] \<Rightarrow> (None, s)
   | f # fs \<Rightarrow> (f, s\<lparr>faults := fs\<rparr>))"

definition ExecContext :: "(Store \<Rightarrow> goerr + nat \<times> Store) \<Rightarrow> nat stmt" where
  "ExecContext stmt = do {
     f \<leftarrow> next_fault;
     case f of
       Some m \<Rightarrow> err (Message m)
     | None \<Rightarrow> State (\<lambda>s. case stmt s of Inl e \<Rightarrow> (Inl e, s) | Inr (n, t) \<Rightarrow> (Inr n, t))
   }"

definition QueryContext :: "(Store \<Rightarrow> 'a) \<Rightarrow> 'a stmt" where
  "QueryContext q = do {
     f \<leftarrow> next_fault;
     case f of
       Some m \<Rightarrow> err (Message m)
     | None \<Rightarrow> State (\<lambda>s. (Inr (q s), s))
   }"

definition update_rooms :: "(Room \<Rightarrow> bool) \<Rightarrow> (Room \<Rightarrow> Room) \<Rightarrow> Store \<Rightarrow> goerr + nat \<times> Store" where
  "update_rooms p f s =
     Inr (length (filter p (rooms s)), s\<lparr>rooms := update_where p f (rooms s)\<rparr>)"

definition update_operations ::
  "(Operation \<Rightarrow> bool) \<Rightarrow> (Operation \<Rightarrow> Operation) \<Rightarrow> Store \<Rightarrow> goerr + nat \<times> Store" where
  "update_operations p f s =
     Inr (length (filter p (operations s)), s\<lparr>operations := update_where p f (operations s)\<rparr>)"

text \<open>\<open>_, err := ExecContext(...)\<close>: the number of rows is dropped.\<close>

definition exec_stmt :: "(Store \<Rightarrow> goerr + nat \<times> Store) \<Rightarrow> unit stmt" where
  "exec_stmt stmt = go_try (ExecContext stmt) (\<lambda>_. ok ())"

section \<open>The statements\<close>

definition insert_or_ignore_operation :: "Operation \<Rightarrow> Store \<Rightarrow> goerr + nat \<times> Store" where
  "insert_or_ignore_operation op s =
     (if IdempotencyKey op \<in> IdempotencyKey ` set (operations s) then Inr (0, s)
      else Inr (1, s\<lparr>operations := operations s @ [op]\<rparr>))"

definition BeginOperation :: "string \<Rightarrow> string \<Rightarrow> time \<Rightarrow> bool stmt" where
  "BeginOperation key roomID now =
     go_try
       (ExecContext (insert_or_ignore_operation
          \<lparr>IdempotencyKey = key, RoomID = roomID, Response = [],
           OpStatus = ''creating'', OpCreatedAt = now\<rparr>))
       (\<lambda>n. ok (n = 1))"

definition GetOperation :: "string \<Rightarrow> Operation stmt" where
  "GetOperation key =
     go_try (QueryContext (\<lambda>s. find (\<lambda>op. IdempotencyKey op = key) (operations s)))
       (\<lambda>row. case row of None \<Rightarrow> err (Sentinel store_ErrNotFound) | Some op \<Rightarrow> ok op)"

definition SaveOperation :: "string \<Rightarrow> string \<Rightarrow> string \<Rightarrow> unit stmt" where
  "SaveOperation key response status =
     exec_stmt (update_operations (\<lambda>op. IdempotencyKey op = key)
              (\<lambda>op. op\<lparr>Response := response, OpStatus := status\<rparr>))"

definition ResetOperation :: "string \<Rightarrow> string \<Rightarrow> unit stmt" where
  "ResetOperation key roomID =
     exec_stmt (update_operations (\<lambda>op. IdempotencyKey op = key)
              (\<lambda>op. op\<lparr>RoomID := roomID, Response := [], OpStatus := ''creating''\<rparr>))"

definition insert_room :: "Room \<Rightarrow> Store \<Rightarrow> goerr + nat \<times> Store" where
  "insert_room room s =
     (if ID room \<in> ID ` set (rooms s) then Inl (Message ''UNIQUE constraint failed: rooms.id'')
      else if CodeHash room \<in> CodeHash ` set (rooms s)
      then Inl (Message ''UNIQUE constraint failed: rooms.code_hash'')
      else Inr (1, s\<lparr>rooms := rooms s @
             [room\<lparr>GroupID := [], SetupKeyID := [], SetupKeyCiphertext := [], PolicyID := [],
                   DisabledAt := None, LastError := []\<rparr>]\<rparr>))"

definition CreateRoom :: "Room \<Rightarrow> unit stmt" where
  "CreateRoom room = exec_stmt (insert_room room)"

definition UpdateExternalIDs ::
  "string \<Rightarrow> string \<Rightarrow> string \<Rightarrow> string \<Rightarrow> string \<Rightarrow> unit stmt" where
  "UpdateExternalIDs roomID groupID setupKeyID policyID setupKeyCiphertext =
     exec_stmt (update_rooms (\<lambda>r. ID r = roomID)
              (\<lambda>r. r\<lparr>GroupID := groupID, SetupKeyID := setupKeyID,
                     SetupKeyCiphertext := setupKeyCiphertext, PolicyID := policyID\<rparr>))"

definition SetStatus :: "string \<Rightarrow> string \<Rightarrow> string \<Rightarrow> unit stmt" where
  "SetStatus roomID status lastError =
     exec_stmt (update_rooms (\<lambda>r. ID r = roomID) (\<lambda>r. r\<lparr>Status := status, LastError := lastError\<rparr>))"

definition store_Disable :: "string \<Rightarrow> time \<Rightarrow> unit stmt" where
  "store_Disable roomID now =
     exec_stmt (update_rooms (\<lambda>r. ID r = roomID)
              (\<lambda>r. r\<lparr>Status := ''disabled'', DisabledAt := Some now, LastError := []\<rparr>))"

definition scanRoom :: "Room option \<Rightarrow> Room stmt" where
  "scanRoom row = (case row of None \<Rightarrow> err (Sentinel store_ErrNotFound) | Some room \<Rightarrow> ok room)"

definition GetRoomByCodeHash :: "string \<Rightarrow> Room stmt" where
  "GetRoomByCodeHash hash =
     go_try (QueryContext (\<lambda>s. find (\<lambda>r. CodeHash r = hash) (rooms s))) scanRoom"

definition GetRoom :: "string \<Rightarrow> Room stmt" where
  "GetRoom roomID = go_try (QueryContext (\<lambda>s. find (\<lambda>r. ID r = roomID) (rooms s))) scanRoom"

definition ListRoomsByStatus :: "string \<Rightarrow> Room list stmt" where
  "ListRoomsByStatus status = QueryContext (\<lambda>s. filter (\<lambda>r. Status r = status) (rooms s))"

definition ListOperationsByStatus :: "string \<Rightarrow> Operation list stmt" where
  "ListOperationsByStatus status =
     QueryContext (\<lambda>s. filter (\<lambda>op. OpStatus op = status) (operations s))"

section \<open>Lookups by a unique key\<close>

text \<open>
  A table with a key column: what the lookups have in common once the keys of the table are
  known to be distinct.
\<close>

locale keyed_table =
  fixes rows :: "'db \<Rightarrow> 'row list"
    and key :: "'row \<Rightarrow> 'k"
    and lookup :: "'k \<Rightarrow> 'db \<Rightarrow> 'row option"
    and inv :: "'db \<Rightarrow> bool"
  assumes lookup_find: "lookup k db = find (\<lambda>r. key r = k) (rows db)"
    and keys_distinct: "inv db \<Longrightarrow> distinct (map key (rows db))"
begin

lemma lookup_row: "inv db \<Longrightarrow> r \<in> set (rows db) \<Longrightarrow> lookup (key r) db = Some r"
  by (simp add: lookup_find find_key_distinct keys_distinct)

lemma lookup_SomeD: "lookup k db = Some r \<Longrightarrow> r \<in> set (rows db) \<and> key r = k"
  by (auto simp: lookup_find dest: find_Some_in)

lemma lookup_None_iff: "lookup k db = None \<longleftrightarrow> k \<notin> key ` set (rows db)"
  by (simp add: lookup_find find_None_key)

lemma same_key_same_row:
  "inv db \<Longrightarrow> r \<in> set (rows db) \<Longrightarrow> r' \<in> set (rows db) \<Longrightarrow> key r = key r' \<Longrightarrow> r = r'"
  by (metis lookup_row option.inject)

end

definition db_inv :: "Store \<Rightarrow> bool" where
  "db_inv s \<longleftrightarrow>
     distinct (map ID (rooms s)) \<and> distinct (map CodeHash (rooms s)) \<and>
     distinct (map IdempotencyKey (operations s))"

definition room_by_id :: "string \<Rightarrow> Store \<Rightarrow> Room option" where
  "room_by_id k s = find (\<lambda>r. ID r = k) (rooms s)"

definition room_by_hash :: "string \<Rightarrow> Store \<Rightarrow> Room option" where
  "room_by_hash k s = find (\<lambda>r. CodeHash r = k) (rooms s)"

definition op_by_key :: "string \<Rightarrow> Store \<Rightarrow> Operation option" where
  "op_by_key k s = find (\<lambda>op. IdempotencyKey op = k) (operations s)"

interpretation by_id: keyed_table rooms ID room_by_id db_inv
  by unfold_locales (simp_all add: room_by_id_def db_inv_def)

interpretation by_hash: keyed_table rooms CodeHash room_by_hash db_inv
  by unfold_locales (simp_all add: room_by_hash_def db_inv_def)

interpretation by_key: keyed_table operations IdempotencyKey op_by_key db_inv
  by unfold_locales (simp_all add: op_by_key_def db_inv_def)


section \<open>What the statements do\<close>

text \<open>\<open>wps_stmts\<close>: a statement that succeeds has made exactly the change its SQL text asks for.\<close>

named_theorems wps_stmts "the successful outcome of each statement"

lemma no_faults: "faults s = fs \<Longrightarrow> s\<lparr>faults := fs\<rparr> = (s :: Store)"
  by (cases s) simp

lemma next_fault_cases: "\<exists>f fs. run_state next_fault s = (f, s\<lparr>faults := fs\<rparr>)"
  by (cases "faults s") (auto simp: next_fault_def no_faults dest: no_faults [symmetric])

lemma wp_next_fault: "(\<And>f fs. Q f (s\<lparr>faults := fs\<rparr>)) \<Longrightarrow> wp next_fault Q s"
  using next_fault_cases [of s] by (auto simp: wp_def)

lemma wps_ExecContext:
  assumes "\<And>fs n t. stmt (s\<lparr>faults := fs\<rparr>) = Inr (n, t) \<Longrightarrow> Q n t"
  shows "wps (ExecContext stmt) Q s"
  unfolding ExecContext_def wps_bind
proof (rule wp_next_fault)
  fix f fs
  show "wps (case f of Some m \<Rightarrow> err (Message m)
             | None \<Rightarrow> State (\<lambda>s. case stmt s of Inl e \<Rightarrow> (Inl e, s) | Inr (n, t) \<Rightarrow> (Inr n, t)))
          Q (s\<lparr>faults := fs\<rparr>)"
    using assms by (auto simp: wps_def wp_def split: option.splits sum.splits prod.splits)
qed

lemma wps_QueryContext:
  "(\<And>fs. Q (q (s\<lparr>faults := fs\<rparr>)) (s\<lparr>faults := fs\<rparr>)) \<Longrightarrow> wps (QueryContext q) Q s"
  unfolding QueryContext_def wps_bind
  by (rule wp_next_fault) (auto simp: wps_def wp_def split: option.splits)

lemma wps_exec_stmt:
  "(\<And>fs n t. stmt (s\<lparr>faults := fs\<rparr>) = Inr (n, t) \<Longrightarrow> Q () t) \<Longrightarrow> wps (exec_stmt stmt) Q s"
  unfolding exec_stmt_def wps_go_try by (rule wps_ExecContext) (auto simp: wps_simps)

lemma wps_update_rooms:
  "(\<And>fs. Q () (s\<lparr>faults := fs, rooms := update_where p f (rooms s)\<rparr>)) \<Longrightarrow>
     wps (exec_stmt (update_rooms p f)) Q s"
  by (rule wps_exec_stmt) (auto simp: update_rooms_def)

lemma wps_update_operations:
  "(\<And>fs. Q () (s\<lparr>faults := fs, operations := update_where p f (operations s)\<rparr>)) \<Longrightarrow>
     wps (exec_stmt (update_operations p f)) Q s"
  by (rule wps_exec_stmt) (auto simp: update_operations_def)

lemma wps_CreateRoom:
  "(\<And>fs. ID room \<notin> ID ` set (rooms s) \<Longrightarrow> CodeHash room \<notin> CodeHash ` set (rooms s) \<Longrightarrow>
      Q () (s\<lparr>faults := fs, rooms := rooms s @
               [room\<lparr>GroupID := [], SetupKeyID := [], SetupKeyCiphertext := [], PolicyID := [],
                     DisabledAt := None, LastError := []\<rparr>]\<rparr>)) \<Longrightarrow>
     wps (CreateRoom room) Q s"
  unfolding CreateRoom_def
  by (rule wps_exec_stmt) (auto simp: insert_room_def split: if_splits)

lemma wps_BeginOperation:
  assumes "\<And>fs. key \<in> IdempotencyKey ` set (operations s) \<Longrightarrow> Q False (s\<lparr>faults := fs\<rparr>)"
    and "\<And>fs. key \<notin> IdempotencyKey ` set (operations s) \<Longrightarrow>
      Q True (s\<lparr>faults := fs, operations := operations s @
        [\<lparr>IdempotencyKey = key, RoomID = roomID, Response = [], OpStatus = ''creating'',
          OpCreatedAt = now\<rparr>]\<rparr>)"
  shows "wps (BeginOperation key roomID now) Q s"
  unfolding BeginOperation_def wps_go_try
  by (rule wps_ExecContext)
     (auto simp: insert_or_ignore_operation_def wps_simps assms split: if_splits)

lemma wps_GetRoomByCodeHash:
  "(\<And>fs room. room_by_hash hash s = Some room \<Longrightarrow> Q room (s\<lparr>faults := fs\<rparr>)) \<Longrightarrow>
     wps (GetRoomByCodeHash hash) Q s"
  unfolding GetRoomByCodeHash_def wps_go_try
  by (rule wps_QueryContext) (auto simp: scanRoom_def wps_simps room_by_hash_def split: option.splits)

lemma wps_GetRoom:
  "(\<And>fs room. room_by_id roomID s = Some room \<Longrightarrow> Q room (s\<lparr>faults := fs\<rparr>)) \<Longrightarrow>
     wps (GetRoom roomID) Q s"
  unfolding GetRoom_def wps_go_try
  by (rule wps_QueryContext) (auto simp: scanRoom_def wps_simps room_by_id_def split: option.splits)

lemma wps_GetOperation:
  "(\<And>fs op. op_by_key key s = Some op \<Longrightarrow> Q op (s\<lparr>faults := fs\<rparr>)) \<Longrightarrow>
     wps (GetOperation key) Q s"
  unfolding GetOperation_def wps_go_try
  by (rule wps_QueryContext) (auto simp: wps_simps op_by_key_def split: option.splits)

text \<open>And when the database does not fail, a lookup is just the lookup.\<close>

definition healthy :: "Store \<Rightarrow> bool" where
  "healthy s = (\<forall>f \<in> set (faults s). f = None)"

lemma healthy_record [simp]:
  "healthy (s\<lparr>rooms := rs\<rparr>) = healthy s" "healthy (s\<lparr>operations := ops\<rparr>) = healthy s"
  by (simp_all add: healthy_def)

definition drop_fault :: "Store \<Rightarrow> Store" where
  "drop_fault s = s\<lparr>faults := tl (faults s)\<rparr>"

lemma drop_fault_simps [simp]:
  "rooms (drop_fault s) = rooms s" "operations (drop_fault s) = operations s"
  "healthy s \<Longrightarrow> healthy (drop_fault s)" "db_inv (drop_fault s) = db_inv s"
  "room_by_id k (drop_fault s) = room_by_id k s" "room_by_hash k (drop_fault s) = room_by_hash k s"
  "op_by_key k (drop_fault s) = op_by_key k s"
  by (simp_all add: drop_fault_def db_inv_def room_by_id_def room_by_hash_def op_by_key_def)
     (cases "faults s", simp_all add: healthy_def)

lemma run_next_fault: "healthy s \<Longrightarrow> run_state next_fault s = (None, drop_fault s)"
  by (cases s) (auto simp: next_fault_def drop_fault_def healthy_def split: list.splits)

lemma run_QueryContext: "healthy s \<Longrightarrow> run_state (QueryContext q) s = (Inr (q (drop_fault s)), drop_fault s)"
  by (simp add: QueryContext_def run_next_fault)

lemma run_GetRoomByCodeHash:
  "healthy s \<Longrightarrow> run_state (GetRoomByCodeHash hash) s =
     (case room_by_hash hash s of None \<Rightarrow> Inl (Sentinel store_ErrNotFound) | Some r \<Rightarrow> Inr r,
      drop_fault s)"
  by (simp add: GetRoomByCodeHash_def run_go_try run_QueryContext scanRoom_def room_by_hash_def
        split: option.splits)

lemma run_GetRoom:
  "healthy s \<Longrightarrow> run_state (GetRoom k) s =
     (case room_by_id k s of None \<Rightarrow> Inl (Sentinel store_ErrNotFound) | Some r \<Rightarrow> Inr r,
      drop_fault s)"
  by (simp add: GetRoom_def run_go_try run_QueryContext scanRoom_def room_by_id_def
        split: option.splits)

lemma run_GetOperation:
  "healthy s \<Longrightarrow> run_state (GetOperation k) s =
     (case op_by_key k s of None \<Rightarrow> Inl (Sentinel store_ErrNotFound) | Some op \<Rightarrow> Inr op,
      drop_fault s)"
  by (simp add: GetOperation_def run_go_try run_QueryContext op_by_key_def split: option.splits)

lemma run_ExecContext:
  "healthy s \<Longrightarrow> run_state (ExecContext stmt) s =
     (case stmt (drop_fault s) of Inl e \<Rightarrow> (Inl e, drop_fault s) | Inr (n, t) \<Rightarrow> (Inr n, t))"
  by (simp add: ExecContext_def run_next_fault)

lemma run_exec_stmt:
  "healthy s \<Longrightarrow> run_state (exec_stmt stmt) s =
     (case stmt (drop_fault s) of Inl e \<Rightarrow> (Inl e, drop_fault s) | Inr (n, t) \<Rightarrow> (Inr (), t))"
  by (simp add: exec_stmt_def run_go_try run_ExecContext split: sum.splits prod.splits)

section \<open>The keys are kept\<close>

definition keys_kept :: "Store \<Rightarrow> Store \<Rightarrow> bool" where
  "keys_kept s t \<longleftrightarrow> (db_inv s \<longrightarrow> db_inv t)"

interpretation db_frame: frame_relation keys_kept
  by unfold_locales (simp_all add: keys_kept_def)

lemma next_fault_keeps:
  "(\<And>s fs. R s (s\<lparr>faults := fs\<rparr>)) \<Longrightarrow> R s (snd (run_state next_fault (s :: Store)))"
  using next_fault_cases [of s] by auto

lemma keys_kept_faults [simp]: "keys_kept s (s\<lparr>faults := fs\<rparr>)"
  by (simp add: keys_kept_def db_inv_def)

lemma keys_next_fault: "db_frame.keeps next_fault"
  by (simp add: db_frame.keeps_def next_fault_keeps [of keys_kept])

lemma keys_ExecContext:
  assumes "\<And>s n t. db_inv s \<Longrightarrow> stmt s = Inr (n, t) \<Longrightarrow> db_inv t"
  shows "db_frame.keeps (ExecContext stmt)"
  unfolding ExecContext_def
  by (intro db_frame.keeps_intros keys_next_fault db_frame.keepsI)
     (auto simp: keys_kept_def dest: assms split: sum.splits prod.splits)

lemma keys_QueryContext: "db_frame.keeps (QueryContext q)"
  unfolding QueryContext_def
  by (intro db_frame.keeps_intros keys_next_fault db_frame.keepsI) (auto simp: keys_kept_def)

lemma keys_exec_stmt:
  "(\<And>s n t. db_inv s \<Longrightarrow> stmt s = Inr (n, t) \<Longrightarrow> db_inv t) \<Longrightarrow> db_frame.keeps (exec_stmt stmt)"
  unfolding exec_stmt_def by (intro db_frame.keeps_intros keys_ExecContext) auto

lemma keys_update_rooms:
  "(\<And>r. ID (f r) = ID r \<and> CodeHash (f r) = CodeHash r) \<Longrightarrow> db_frame.keeps (exec_stmt (update_rooms p f))"
  by (rule keys_exec_stmt) (auto simp: update_rooms_def db_inv_def)

lemma keys_update_operations:
  "(\<And>op. IdempotencyKey (f op) = IdempotencyKey op) \<Longrightarrow>
     db_frame.keeps (exec_stmt (update_operations p f))"
  by (rule keys_exec_stmt) (auto simp: update_operations_def db_inv_def)

lemma keys_statements:
  "db_frame.keeps (BeginOperation key roomID now)" "db_frame.keeps (GetOperation key)"
  "db_frame.keeps (SaveOperation key response status)" "db_frame.keeps (ResetOperation key roomID)"
  "db_frame.keeps (CreateRoom room)"
  "db_frame.keeps (UpdateExternalIDs roomID groupID setupKeyID policyID ciphertext)"
  "db_frame.keeps (SetStatus roomID status lastError)" "db_frame.keeps (store_Disable roomID now)"
  "db_frame.keeps (GetRoomByCodeHash hash)" "db_frame.keeps (GetRoom roomID)"
  "db_frame.keeps (ListRoomsByStatus status)" "db_frame.keeps (ListOperationsByStatus status)"
  unfolding BeginOperation_def GetOperation_def SaveOperation_def ResetOperation_def
    CreateRoom_def UpdateExternalIDs_def SetStatus_def store_Disable_def GetRoomByCodeHash_def
    GetRoom_def ListRoomsByStatus_def ListOperationsByStatus_def scanRoom_def
  by (intro db_frame.keeps_intros keys_ExecContext keys_QueryContext keys_exec_stmt
        keys_update_rooms keys_update_operations;
      force simp: insert_or_ignore_operation_def insert_room_def db_inv_def split: if_splits)+

end
