(* ===== verification/Json.thy ===== *)
theory Json
  imports GoStrings
begin

text \<open>
  What the code uses of \<open>encoding/json\<close>: rendering with \<open>json.Marshal\<close>'s escapes, and the reader
  behind \<open>json.Unmarshal\<close> and \<open>json.Decoder\<close>, with its escapes, its replacement of invalid
  UTF-8 and its limit on nesting.  A value is a tree; a number is kept as its text.

  The main result is the round trip \<open>parse_render\<close>: what \<open>json.Marshal\<close> writes is read back,
  for values whose strings are ASCII.
\<close>

section \<open>UTF-8\<close>

definition cont_byte :: "char \<Rightarrow> bool" where "cont_byte c = in_range CHR 0x80 CHR 0xBF c"

text \<open>
  The size of the rune at the start of a string, as \<open>utf8.DecodeRune\<close> finds it; 0 where the
  bytes are not the encoding of a rune.
\<close>

fun rune_size :: "string \<Rightarrow> nat" where
  "rune_size [] = 0"
| "rune_size (a # s) =
     (if byte a < 128 then 1
      else if in_range CHR 0xC2 CHR 0xDF a then
        (case s of b # _ \<Rightarrow> if cont_byte b then 2 else 0 | _ \<Rightarrow> 0)
      else if in_range CHR 0xE0 CHR 0xEF a then
        (case s of
           b # c # _ \<Rightarrow>
             if in_range (if a = CHR 0xE0 then CHR 0xA0 else CHR 0x80)
                  (if a = CHR 0xED then CHR 0x9F else CHR 0xBF) b \<and> cont_byte c then 3 else 0
         | _ \<Rightarrow> 0)
      else if in_range CHR 0xF0 CHR 0xF4 a then
        (case s of
           b # c # d # _ \<Rightarrow>
             if in_range (if a = CHR 0xF0 then CHR 0x90 else CHR 0x80)
                  (if a = CHR 0xF4 then CHR 0x8F else CHR 0xBF) b
                \<and> cont_byte c \<and> cont_byte d then 4 else 0
         | _ \<Rightarrow> 0)
      else 0)"

definition encode_rune :: "nat \<Rightarrow> string" where
  "encode_rune n =
     (if n < 128 then [char_of n]
      else if n < 2048 then [char_of (192 + n div 64), char_of (128 + n mod 64)]
      else if n < 65536 then
        [char_of (224 + n div 4096), char_of (128 + n div 64 mod 64), char_of (128 + n mod 64)]
      else
        [char_of (240 + n div 262144), char_of (128 + n div 4096 mod 64),
         char_of (128 + n div 64 mod 64), char_of (128 + n mod 64)])"

definition replacement :: string where "replacement = [CHR 0xEF, CHR 0xBF, CHR 0xBD]"

section \<open>Values and rendering\<close>

datatype json =
    JNull
  | JBool bool
  | JNum string
  | JStr string
  | JArr "json list"
  | JObj "(string \<times> json) list"

definition quote_mark :: char where "quote_mark = CHR 0x22"
definition backslash :: char where "backslash = CHR 0x5C"

definition html_safe :: "char \<Rightarrow> bool" where
  "html_safe c =
     (32 \<le> byte c \<and> byte c < 128 \<and> c \<noteq> quote_mark \<and> c \<noteq> backslash \<and>
      c \<noteq> CHR ''<'' \<and> c \<noteq> CHR ''>'' \<and> c \<noteq> CHR ''&'')"

definition short_escape :: "char \<Rightarrow> char option" where
  "short_escape c =
     (if c = quote_mark \<or> c = backslash then Some c
      else if c = CHR 0x08 then Some CHR ''b''
      else if c = CHR 0x0C then Some CHR ''f''
      else if c = CHR 0x0A then Some CHR ''n''
      else if c = CHR 0x0D then Some CHR ''r''
      else if c = CHR 0x09 then Some CHR ''t''
      else None)"

definition escape_ascii :: "char \<Rightarrow> string" where
  "escape_ascii c =
     (if html_safe c then [c]
      else case short_escape c of
        Some e \<Rightarrow> [backslash, e]
      | None \<Rightarrow> [backslash, CHR ''u'', CHR ''0'', CHR ''0''] @ hex_byte c)"

function escape :: "string \<Rightarrow> string" where
  "escape [] = []"
| "escape (c # s) =
     (if byte c < 128 then escape_ascii c @ escape s
      else if rune_size (c # s) = 0 then backslash # ''ufffd'' @ escape s
      else if take 3 (c # s) = [CHR 0xE2, CHR 0x80, CHR 0xA8]
      then backslash # ''u2028'' @ escape (drop 3 (c # s))
      else if take 3 (c # s) = [CHR 0xE2, CHR 0x80, CHR 0xA9]
      then backslash # ''u2029'' @ escape (drop 3 (c # s))
      else take (rune_size (c # s)) (c # s) @ escape (drop (rune_size (c # s)) (c # s)))"
  by pat_completeness auto
termination
  by (relation "measure length") (auto simp del: rune_size.simps)

definition render_string :: "string \<Rightarrow> string" where
  "render_string s = quote_mark # escape s @ [quote_mark]"

fun render :: "json \<Rightarrow> string"
  and render_elems :: "json list \<Rightarrow> string"
  and render_members :: "(string \<times> json) list \<Rightarrow> string" where
  "render JNull = ''null''"
| "render (JBool b) = (if b then ''true'' else ''false'')"
| "render (JNum n) = n"
| "render (JStr s) = render_string s"
| "render (JArr js) = CHR ''['' # render_elems js @ '']''"
| "render (JObj ms) = CHR ''{'' # render_members ms @ ''}''"
| "render_elems [] = []"
| "render_elems [j] = render j"
| "render_elems (j # k # js) = render j @ CHR '','' # render_elems (k # js)"
| "render_members [] = []"
| "render_members [(k, j)] = render_string k @ CHR '':'' # render j"
| "render_members ((k, j) # m # ms) =
     render_string k @ CHR '':'' # render j @ CHR '','' # render_members (m # ms)"

section \<open>Reading\<close>

definition is_json_space :: "char \<Rightarrow> bool" where
  "is_json_space c = (c = CHR 0x20 \<or> c = CHR 0x09 \<or> c = CHR 0x0A \<or> c = CHR 0x0D)"

definition skip_ws :: "string \<Rightarrow> string" where
  "skip_ws s = dropWhile is_json_space s"

lemma skip_ws_le: "length (skip_ws s) \<le> length s"
  by (simp add: skip_ws_def length_dropWhile_le)

lemma skip_ws_less: "length (skip_ws s) < length s \<longleftrightarrow> length (skip_ws s) \<noteq> length s"
  using skip_ws_le [of s] by linarith

definition hex_value :: "char \<Rightarrow> nat option" where
  "hex_value c =
     (if is_digit c then Some (byte c - 48)
      else if in_range CHR ''a'' CHR ''f'' c then Some (byte c - 87)
      else if in_range CHR ''A'' CHR ''F'' c then Some (byte c - 55)
      else None)"

fun hex4 :: "string \<Rightarrow> nat option" where
  "hex4 (a # b # c # d # s) =
     (case (hex_value a, hex_value b, hex_value c, hex_value d) of
        (Some w, Some x, Some y, Some z) \<Rightarrow> Some (4096 * w + 256 * x + 16 * y + z)
      | _ \<Rightarrow> None)"
| "hex4 _ = None"

definition unescape :: "char \<Rightarrow> char option" where
  "unescape c =
     (if c = quote_mark \<or> c = backslash \<or> c = CHR ''/'' then Some c
      else if c = CHR ''b'' then Some CHR 0x08
      else if c = CHR ''f'' then Some CHR 0x0C
      else if c = CHR ''n'' then Some CHR 0x0A
      else if c = CHR ''r'' then Some CHR 0x0D
      else if c = CHR ''t'' then Some CHR 0x09
      else None)"

text \<open>A surrogate takes the escaped surrogate after it along, if the two make a rune.\<close>

definition surrogate_pair :: "nat \<Rightarrow> string \<Rightarrow> nat option" where
  "surrogate_pair hi s =
     (if 55296 \<le> hi \<and> hi < 56320 \<and> take 2 s = [backslash, CHR ''u'']
      then (case hex4 (drop 2 s) of
              Some lo \<Rightarrow>
                if 56320 \<le> lo \<and> lo < 57344
                then Some (65536 + (hi - 55296) * 1024 + (lo - 56320)) else None
            | None \<Rightarrow> None)
      else None)"

definition prepend :: "string \<Rightarrow> (string \<times> 'a) option \<Rightarrow> (string \<times> 'a) option" where
  "prepend p r = map_option (\<lambda>(s, x). (p @ s, x)) r"

lemma prepend_Some [simp]: "prepend p (Some (s, x)) = Some (p @ s, x)"
  by (simp add: prepend_def)

function parse_chars :: "string \<Rightarrow> (string \<times> string) option" where
  "parse_chars [] = None"
| "parse_chars (c # s) =
     (if c = quote_mark then Some ([], s)
      else if byte c < 32 then None
      else if c = backslash then
        (if s = [] then None
         else if hd s = CHR ''u'' then
           (case hex4 (tl s) of
              None \<Rightarrow> None
            | Some n \<Rightarrow>
                if 55296 \<le> n \<and> n < 57344 then
                  (case surrogate_pair n (drop 5 s) of
                     Some m \<Rightarrow> prepend (encode_rune m) (parse_chars (drop 11 s))
                   | None \<Rightarrow> prepend replacement (parse_chars (drop 5 s)))
                else prepend (encode_rune n) (parse_chars (drop 5 s)))
         else (case unescape (hd s) of
                 None \<Rightarrow> None
               | Some d \<Rightarrow> prepend [d] (parse_chars (tl s))))
      else if byte c < 128 then prepend [c] (parse_chars s)
      else if rune_size (c # s) = 0 then prepend replacement (parse_chars s)
      else prepend (take (rune_size (c # s)) (c # s))
             (parse_chars (drop (rune_size (c # s)) (c # s))))"
  by pat_completeness auto
termination
  by (relation "measure length") (auto simp del: rune_size.simps)

text \<open>Numbers: \<open>-?(0|[1-9][0-9]*)(\.[0-9]+)?([eE][+-]?[0-9]+)?\<close>, kept as text.\<close>

definition span_digits :: "string \<Rightarrow> string \<times> string" where
  "span_digits s = (takeWhile is_digit s, dropWhile is_digit s)"

definition parse_fraction :: "string \<Rightarrow> (string \<times> string) option" where
  "parse_fraction s =
     (case s of
        c # r \<Rightarrow>
          if c = CHR ''.'' then
            (let (ds, t) = span_digits r in if ds = [] then None else Some (c # ds, t))
          else Some ([], s)
      | [] \<Rightarrow> Some ([], []))"

definition parse_exponent :: "string \<Rightarrow> (string \<times> string) option" where
  "parse_exponent s =
     (case s of
        c # r \<Rightarrow>
          if c = CHR ''e'' \<or> c = CHR ''E'' then
            (let (sg, r') = (if r \<noteq> [] \<and> (hd r = CHR ''+'' \<or> hd r = CHR ''-'')
                             then ([hd r], tl r) else ([], r));
                 (ds, t) = span_digits r'
             in if ds = [] then None else Some (c # sg @ ds, t))
          else Some ([], s)
      | [] \<Rightarrow> Some ([], []))"

definition parse_number :: "string \<Rightarrow> (string \<times> string) option" where
  "parse_number s =
     (let (sg, r) = (if s \<noteq> [] \<and> hd s = CHR ''-'' then ([CHR ''-''], tl s) else ([], s));
          (ds, t) = (if r \<noteq> [] \<and> hd r = CHR ''0'' then (''0'', tl r) else span_digits r)
      in if ds = [] then None
         else case parse_fraction t of
           None \<Rightarrow> None
         | Some (fr, u) \<Rightarrow>
             (case parse_exponent u of None \<Rightarrow> None | Some (ex, v) \<Rightarrow> Some (sg @ ds @ fr @ ex, v)))"

definition strip_literal :: "string \<Rightarrow> string \<Rightarrow> string option" where
  "strip_literal p s = (if HasPrefix s p then Some (drop (length p) s) else None)"

text \<open>
  The first argument is the nesting that is still allowed; \<open>encoding/json\<close> stops at 10000.
  The comparison of lengths, always true, shows that the reader comes to an end.
\<close>

function parse_value :: "nat \<Rightarrow> string \<Rightarrow> (json \<times> string) option"
  and parse_elems :: "nat \<Rightarrow> string \<Rightarrow> (json list \<times> string) option"
  and parse_members :: "nat \<Rightarrow> string \<Rightarrow> ((string \<times> json) list \<times> string) option" where
  "parse_value d s =
     (case s of
        [] \<Rightarrow> None
      | c # r \<Rightarrow>
          if c = quote_mark then
            (case parse_chars r of None \<Rightarrow> None | Some (x, t) \<Rightarrow> Some (JStr x, t))
          else if c = CHR ''['' then
            (if d = 0 then None
             else if HasPrefix (skip_ws r) '']'' then Some (JArr [], tl (skip_ws r))
             else (case parse_elems (d - 1) r of
                     None \<Rightarrow> None | Some (js, t) \<Rightarrow> Some (JArr js, t)))
          else if c = CHR ''{'' then
            (if d = 0 then None
             else if HasPrefix (skip_ws r) ''}'' then Some (JObj [], tl (skip_ws r))
             else (case parse_members (d - 1) r of
                     None \<Rightarrow> None | Some (ms, t) \<Rightarrow> Some (JObj ms, t)))
          else if c = CHR ''t'' then map_option (\<lambda>t. (JBool True, t)) (strip_literal ''true'' s)
          else if c = CHR ''f'' then map_option (\<lambda>t. (JBool False, t)) (strip_literal ''false'' s)
          else if c = CHR ''n'' then map_option (\<lambda>t. (JNull, t)) (strip_literal ''null'' s)
          else map_option (\<lambda>(n, t). (JNum n, t)) (parse_number s))"
| "parse_elems d s =
     (case parse_value d (skip_ws s) of
        None \<Rightarrow> None
      | Some (j, r) \<Rightarrow>
          (case skip_ws r of
             [] \<Rightarrow> None
           | c # t \<Rightarrow>
               if c = CHR '']'' then Some ([j], t)
               else if c = CHR '','' \<and> length t < length s
               then (case parse_elems d t of None \<Rightarrow> None | Some (js, u) \<Rightarrow> Some (j # js, u))
               else None))"
| "parse_members d s =
     (case skip_ws s of
        [] \<Rightarrow> None
      | q # r0 \<Rightarrow>
          if q \<noteq> quote_mark then None
          else case parse_chars r0 of
            None \<Rightarrow> None
          | Some (k, r1) \<Rightarrow>
              (case skip_ws r1 of
                 [] \<Rightarrow> None
               | c # r2 \<Rightarrow>
                   if c \<noteq> CHR '':'' \<or> \<not> length r2 < length s then None
                   else case parse_value d (skip_ws r2) of
                     None \<Rightarrow> None
                   | Some (j, r3) \<Rightarrow>
                       (case skip_ws r3 of
                          [] \<Rightarrow> None
                        | e # t \<Rightarrow>
                            if e = CHR ''}'' then Some ([(k, j)], t)
                            else if e = CHR '','' \<and> length t < length s
                            then (case parse_members d t of
                                    None \<Rightarrow> None | Some (ms, u) \<Rightarrow> Some ((k, j) # ms, u))
                            else None)))"
  by pat_completeness auto
termination
  by (relation "measures
        [\<lambda>x. case x of Inl (d, s) \<Rightarrow> d | Inr (Inl (d, s)) \<Rightarrow> d | Inr (Inr (d, s)) \<Rightarrow> d,
         \<lambda>x. case x of Inl (d, s) \<Rightarrow> length s | Inr (Inl (d, s)) \<Rightarrow> length s
                      | Inr (Inr (d, s)) \<Rightarrow> length s,
         \<lambda>x. case x of Inl _ \<Rightarrow> 0 | Inr _ \<Rightarrow> (1::nat)]")
     (auto simp: skip_ws_less intro: le_less_trans [OF skip_ws_le])

declare parse_value.simps [simp del] parse_elems.simps [simp del] parse_members.simps [simp del]

definition max_nesting :: nat where "max_nesting = 10000"

text \<open>\<open>json.Unmarshal\<close> reads one value and wants nothing but space after it.\<close>

definition parse_json :: "string \<Rightarrow> json option" where
  "parse_json s =
     (case parse_value max_nesting (skip_ws s) of
        None \<Rightarrow> None
      | Some (j, r) \<Rightarrow> if skip_ws r = [] then Some j else None)"

section \<open>Decoding into structs\<close>

text \<open>
  A member of an object goes to the field whose name it matches up to case; members without a
  field are skipped, \<open>null\<close> leaves a field as it is, and a value of the wrong type makes
  \<open>Unmarshal\<close> return an error (\<open>None\<close>).
\<close>

fun decode_string :: "json \<Rightarrow> string \<Rightarrow> string option" where
  "decode_string (JStr s) old = Some s"
| "decode_string JNull old = Some old"
| "decode_string j old = None"

fun decode_bool :: "json \<Rightarrow> bool \<Rightarrow> bool option" where
  "decode_bool (JBool b) old = Some b"
| "decode_bool JNull old = Some old"
| "decode_bool j old = None"

fun decode_members :: "(string \<Rightarrow> json \<Rightarrow> 'r \<Rightarrow> 'r option) \<Rightarrow> (string \<times> json) list \<Rightarrow> 'r \<Rightarrow> 'r option" where
  "decode_members f [] r = Some r"
| "decode_members f ((k, j) # ms) r =
     (case f k j r of None \<Rightarrow> None | Some r' \<Rightarrow> decode_members f ms r')"

fun decode_struct :: "(string \<Rightarrow> json \<Rightarrow> 'r \<Rightarrow> 'r option) \<Rightarrow> json \<Rightarrow> 'r \<Rightarrow> 'r option" where
  "decode_struct f (JObj ms) r = decode_members f ms r"
| "decode_struct f JNull r = Some r"
| "decode_struct f j r = None"

fun decode_int :: "json \<Rightarrow> int \<Rightarrow> int option" where
  "decode_int (JNum n) old = Atoi n"
| "decode_int JNull old = Some old"
| "decode_int j old = None"

fun decode_all :: "(json \<Rightarrow> 'a option) \<Rightarrow> json list \<Rightarrow> 'a list option" where
  "decode_all f [] = Some []"
| "decode_all f (j # js) =
     (case f j of None \<Rightarrow> None | Some x \<Rightarrow> map_option (Cons x) (decode_all f js))"

fun decode_list :: "(json \<Rightarrow> 'a option) \<Rightarrow> json \<Rightarrow> 'a list \<Rightarrow> 'a list option" where
  "decode_list f (JArr js) old = decode_all f js"
| "decode_list f JNull old = Some []"
| "decode_list f j old = None"

section \<open>The round trip\<close>

text \<open>
  The round trip is proved for ASCII texts and for natural numbers.  A number ends where the text
  goes on with something that cannot be part of it.
\<close>

definition plain_number :: "string \<Rightarrow> bool" where
  "plain_number n \<longleftrightarrow> n \<noteq> [] \<and> list_all is_digit n \<and> (hd n = CHR ''0'' \<longrightarrow> length n = 1)"

definition number_end :: "string \<Rightarrow> bool" where
  "number_end s \<longleftrightarrow>
     s = [] \<or> \<not> (is_digit (hd s) \<or> hd s = CHR ''.'' \<or> hd s = CHR ''e'' \<or> hd s = CHR ''E'')"

lemma number_end_simps [simp]:
  "number_end []" "number_end (CHR '','' # s)" "number_end (CHR ''}'' # s)" "number_end (CHR '']'' # s)"
  "number_end (CHR 0x0A # s)"
  by (simp_all add: number_end_def char_class_defs byte_def)

lemma plain_number_start: "plain_number n \<Longrightarrow> \<exists>c r. n = c # r \<and> is_digit c \<and> \<not> is_json_space c \<and> c \<noteq> CHR '']''"
  by (cases n) (auto simp: plain_number_def char_class_defs byte_def is_json_space_def)

fun ascii_json :: "json \<Rightarrow> bool" where
  "ascii_json (JStr s) = list_all is_ascii s"
| "ascii_json (JArr js) = list_all ascii_json js"
| "ascii_json (JObj ms) = list_all (\<lambda>(k, j). list_all is_ascii k \<and> ascii_json j) ms"
| "ascii_json (JNum n) = plain_number n"
| "ascii_json j = True"

fun nesting :: "json \<Rightarrow> nat" where
  "nesting (JArr js) = Suc (Max (insert 0 (nesting ` set js)))"
| "nesting (JObj ms) = Suc (Max (insert 0 ((\<lambda>(k, j). nesting j) ` set ms)))"
| "nesting j = 0"

lemma hex_value_digit: "n < 16 \<Longrightarrow> hex_value (hex_digit n) = Some n"
  by (auto simp: hex_value_def hex_digit_def char_class_defs byte_def)

lemma hex4_hex_byte: "hex4 (CHR ''0'' # CHR ''0'' # hex_byte c @ s) = Some (byte c)"
proof -
  have "byte c div 16 < 16" by (simp add: div_less_iff_less_mult)
  then show ?thesis
    by (simp add: hex_byte_def hex_value_digit) (simp add: hex_value_def char_class_defs byte_def)
qed

lemma parse_chars_escape_ascii:
  assumes "is_ascii c"
  shows "parse_chars (escape_ascii c @ s) = prepend [c] (parse_chars s)"
proof (cases "html_safe c")
  case True
  then show ?thesis by (simp add: escape_ascii_def html_safe_def)
next
  case unsafe: False
  show ?thesis
  proof (cases "short_escape c")
    case (Some e)
    then show ?thesis
      using unsafe
      by (auto simp: escape_ascii_def short_escape_def unescape_def quote_mark_def backslash_def
            byte_def split: if_splits)
  next
    case None
    have "hex4 (''00'' @ hex_byte c @ s) = Some (byte c)" using hex4_hex_byte by simp
    moreover have "drop 5 (CHR ''u'' # ''00'' @ hex_byte c @ s) = s" by (simp add: hex_byte_def)
    moreover have "byte c < 128" using assms by (simp add: is_ascii_def)
    ultimately show ?thesis
      using unsafe None
      by (simp add: escape_ascii_def encode_rune_def quote_mark_def backslash_def byte_def)
  qed
qed

lemma parse_chars_escape:
  "list_all is_ascii s \<Longrightarrow> parse_chars (escape s @ quote_mark # rest) = Some (s, rest)"
proof (induction s)
  case (Cons c s)
  then show ?case
    using parse_chars_escape_ascii [of c "escape s @ quote_mark # rest"]
    by (simp add: is_ascii_def)
qed simp

lemma skip_ws_Cons [simp]: "\<not> is_json_space c \<Longrightarrow> skip_ws (c # s) = c # s"
  by (simp add: skip_ws_def)

lemma skip_ws_Nil [simp]: "skip_ws [] = []"
  by (simp add: skip_ws_def)

lemma render_start:
  "ascii_json j \<Longrightarrow> \<exists>c r. render j = c # r \<and> \<not> is_json_space c \<and> c \<noteq> CHR '']''"
  by (cases j) (auto simp: render_string_def quote_mark_def is_json_space_def
      dest!: plain_number_start)

lemma skip_ws_render: "ascii_json j \<Longrightarrow> skip_ws (render j @ s) = render j @ s"
  using render_start [of j] by auto

lemma skip_ws_render_string: "skip_ws (render_string k @ s) = render_string k @ s"
  by (simp add: render_string_def quote_mark_def is_json_space_def)

lemma nesting_member:
  "nesting (JArr js) \<le> d \<Longrightarrow> d \<noteq> 0 \<and> (\<forall>j \<in> set js. nesting j \<le> d - 1)"
  "nesting (JObj ms) \<le> d \<Longrightarrow> d \<noteq> 0 \<and> (\<forall>(k, j) \<in> set ms. nesting j \<le> d - 1)"
  by (auto simp: Suc_le_eq)

lemma parse_elems_last:
  assumes "ascii_json j" and "parse_value d (render j @ CHR '']'' # rest) = Some (j, CHR '']'' # rest)"
  shows "parse_elems d (render j @ CHR '']'' # rest) = Some ([j], rest)"
  using assms
  by (subst parse_elems.simps) (simp add: skip_ws_render is_json_space_def)

lemma parse_elems_more:
  assumes "ascii_json j" and "parse_value d (render j @ CHR '','' # s) = Some (j, CHR '','' # s)"
    and "parse_elems d s = Some (js, rest)"
  shows "parse_elems d (render j @ CHR '','' # s) = Some (j # js, rest)"
  using assms
  by (subst parse_elems.simps) (simp add: skip_ws_render is_json_space_def)

lemma parse_members_last:
  assumes "list_all is_ascii k" and "ascii_json j"
    and "parse_value d (render j @ CHR ''}'' # rest) = Some (j, CHR ''}'' # rest)"
  shows "parse_members d (render_string k @ CHR '':'' # render j @ CHR ''}'' # rest)
           = Some ([(k, j)], rest)"
  using assms
  by (subst parse_members.simps)
     (simp add: skip_ws_render_string skip_ws_render is_json_space_def,
      simp add: render_string_def parse_chars_escape skip_ws_render is_json_space_def)

lemma parse_members_more:
  assumes "list_all is_ascii k" and "ascii_json j"
    and "parse_value d (render j @ CHR '','' # s) = Some (j, CHR '','' # s)"
    and "parse_members d s = Some (ms, rest)"
  shows "parse_members d (render_string k @ CHR '':'' # render j @ CHR '','' # s)
           = Some ((k, j) # ms, rest)"
  using assms
  by (subst parse_members.simps)
     (simp add: skip_ws_render_string skip_ws_render is_json_space_def,
      simp add: render_string_def parse_chars_escape skip_ws_render is_json_space_def)

lemma parse_number_plain:
  assumes "plain_number n" and "number_end rest"
  shows "parse_number (n @ rest) = Some (n, rest)"
proof -
  have tails: "parse_fraction rest = Some ([], rest)" "parse_exponent rest = Some ([], rest)"
    using assms(2) by (auto simp: parse_fraction_def parse_exponent_def number_end_def split: list.splits)
  from assms(1) obtain c cs where n: "n = c # cs" and c: "is_digit c" "list_all is_digit cs"
    by (cases n) (auto simp: plain_number_def)
  have m: "c \<noteq> CHR ''-''" using c(1) by (auto simp: char_class_defs byte_def)
  show ?thesis
  proof (cases "c = CHR ''0''")
    case True
    with assms(1) have "cs = []" by (simp add: plain_number_def n)
    with True show ?thesis by (simp add: n parse_number_def tails)
  next
    case False
    have "takeWhile is_digit (n @ rest) = n" "dropWhile is_digit (n @ rest) = rest"
      using c assms(2)
      by (auto simp: n number_end_def list_all_iff takeWhile_eq_all_conv takeWhile_append
          dropWhile_append dropWhile_eq_self_iff) (cases rest; simp)+
    with False m show ?thesis by (simp add: n parse_number_def span_digits_def tails)
  qed
qed

lemma parse_render_aux:
  "ascii_json j \<Longrightarrow> nesting j \<le> d \<Longrightarrow> (\<And>n. j = JNum n \<Longrightarrow> number_end rest) \<Longrightarrow> parse_value d (render j @ rest) = Some (j, rest)"
  "js \<noteq> [] \<Longrightarrow> list_all ascii_json js \<Longrightarrow> \<forall>j \<in> set js. nesting j \<le> d \<Longrightarrow>
     parse_elems d (render_elems js @ CHR '']'' # rest) = Some (js, rest)"
  "ms \<noteq> [] \<Longrightarrow> list_all (\<lambda>(k, j). list_all is_ascii k \<and> ascii_json j) ms \<Longrightarrow>
     \<forall>(k, j) \<in> set ms. nesting j \<le> d \<Longrightarrow>
     parse_members d (render_members ms @ CHR ''}'' # rest) = Some (ms, rest)"
proof (induction j and js and ms arbitrary: d rest and d rest and d rest
    rule: render_render_elems_render_members.induct)
  case (3 n)
  then obtain c cs where n: "n = c # cs" and c: "is_digit c"
    by (cases n) (auto simp: plain_number_def)
  have "c \<notin> {quote_mark, CHR ''['', CHR ''{'', CHR ''t'', CHR ''f'', CHR ''n''}"
    using c by (auto simp: char_class_defs byte_def quote_mark_def)
  moreover have "parse_number (n @ rest) = Some (n, rest)"
    using 3 by (intro parse_number_plain) auto
  ultimately show ?case
    by (subst parse_value.simps) (simp add: n)
next
  case (4 s)
  then show ?case
    by (subst parse_value.simps) (simp add: render_string_def parse_chars_escape)
next
  case (5 js)
  note d = nesting_member(1) [OF "5.prems"(2)]
  show ?case
  proof (cases js)
    case Nil
    with d show ?thesis
      by (subst parse_value.simps) (simp add: quote_mark_def is_json_space_def HasPrefix_def)
  next
    case (Cons j' js')
    with "5.prems"(1) obtain c r where "render j' = c # r" "\<not> is_json_space c" "c \<noteq> CHR '']''"
      using render_start [of j'] by auto
    with Cons have "\<not> HasPrefix (skip_ws (render_elems js @ CHR '']'' # rest)) '']''"
      by (cases js') (auto simp: HasPrefix_def)
    moreover have "parse_elems (d - 1) (render_elems js @ CHR '']'' # rest) = Some (js, rest)"
      using "5.IH" [of "d - 1" rest] "5.prems"(1) d Cons by simp
    ultimately show ?thesis
      using d by (subst parse_value.simps) (simp add: quote_mark_def)
  qed
next
  case (6 ms)
  note d = nesting_member(2) [OF "6.prems"(2)]
  show ?case
  proof (cases ms)
    case Nil
    with d show ?thesis
      by (subst parse_value.simps) (simp add: quote_mark_def is_json_space_def HasPrefix_def)
  next
    case (Cons m' ms')
    obtain k' j' where m': "m' = (k', j')" by (cases m')
    have "\<not> HasPrefix (skip_ws (render_members ms @ CHR ''}'' # rest)) ''}''"
      using Cons m' by (cases ms') (auto simp: HasPrefix_def render_string_def quote_mark_def is_json_space_def)
    moreover have "parse_members (d - 1) (render_members ms @ CHR ''}'' # rest) = Some (ms, rest)"
      using "6.IH" [of "d - 1" rest] "6.prems"(1) d Cons by simp
    ultimately show ?thesis
      using d by (subst parse_value.simps) (simp add: quote_mark_def)
  qed
next
  case (8 j)
  then show ?case by (simp add: parse_elems_last)
next
  case (9 j k js)
  then show ?case by (simp add: parse_elems_more)
next
  case (11 k j)
  then show ?case by (simp add: parse_members_last)
next
  case (12 k j m ms)
  then show ?case by (simp add: parse_members_more)
qed (auto simp: parse_value.simps strip_literal_def HasPrefix_def quote_mark_def)

lemma parse_render:
  "ascii_json j \<Longrightarrow> nesting j \<le> max_nesting \<Longrightarrow> parse_json (render j) = Some j"
  using parse_render_aux(1) [of j max_nesting "[]"] skip_ws_render [of j "[]"]
  by (simp add: parse_json_def)

end
