(* ===== verification/GoHttp.thy ===== *)
theory GoHttp
  imports GoError Json
begin

text \<open>
  HTTP as the client code of both programs uses it: a request with its method, URL, headers and
  body, a response with its status, headers and body, and a transport that turns one into the
  other or fails.  The transport is a parameter of every client: it stands for
  \<open>http.Client.Do\<close>, and for the check of the URL in \<open>http.NewRequest\<close>, whose error the code
  hands up the same way.
\<close>

record http_request =
  rq_method :: string
  rq_url :: string
  rq_headers :: "(string \<times> string) list"
  rq_body :: "string option"

record http_response =
  rs_status :: int
  rs_headers :: "(string \<times> string) list"
  rs_body :: string

type_synonym 'w transport = "http_request \<Rightarrow> ('w, goerr + http_response) state"

text \<open>\<open>Header.Get\<close>: the first value of the header, whose name is matched without case.\<close>

definition header_get :: "(string \<times> string) list \<Rightarrow> string \<Rightarrow> string" where
  "header_get hs name =
     (case find (\<lambda>(k, v). EqualFold k name) hs of None \<Rightarrow> [] | Some (k, v) \<Rightarrow> v)"

text \<open>\<open>json.NewDecoder(body).Decode(&x)\<close> reads the first value and leaves the rest.\<close>

definition decode_next :: "(json \<Rightarrow> 'a option) \<Rightarrow> string \<Rightarrow> goerr + 'a \<times> string" where
  "decode_next dec body =
     (if skip_ws body = [] then Inl (Sentinel io_EOF)
      else case parse_value max_nesting (skip_ws body) of
        None \<Rightarrow> Inl (Message ''invalid JSON'')
      | Some (j, rest) \<Rightarrow>
          (case dec j of
             None \<Rightarrow> Inl (Message ''json: cannot unmarshal'')
           | Some x \<Rightarrow> Inr (x, rest)))"

definition decode_first :: "(json \<Rightarrow> 'a option) \<Rightarrow> string \<Rightarrow> goerr + 'a" where
  "decode_first dec body = map_sum id fst (decode_next dec body)"

lemma skip_ws_idem [simp]: "skip_ws (skip_ws s) = skip_ws s"
  by (simp add: skip_ws_def dropWhile_idem)

text \<open>What \<open>json.Marshal\<close> wrote, a decoder reads first, whatever follows.\<close>

lemma decode_next_render:
  assumes "ascii_json j" and "nesting j \<le> max_nesting" and "dec j = Some x"
    and "number_end s"
  shows "decode_next dec (render j @ s) = Inr (x, s)"
proof -
  have "parse_value max_nesting (render j @ s) = Some (j, s)"
    using parse_render_aux(1) [of j max_nesting s] assms by simp
  moreover have "render j @ s \<noteq> []" using render_start [OF assms(1)] by auto
  ultimately show ?thesis using assms by (simp add: decode_next_def skip_ws_render)
qed

end
