(* ===== verification/NetbirdClient.thy ===== *)
theory NetbirdClient
  imports GoHttp
begin

text \<open>
  \<open>room-api/internal/netbird/client.go\<close>: the client of NetBird's management API.  The types are
  the structs of the file, each with its zero value and its decoder; an operation builds one HTTP
  request, sends it over the transport, which is a parameter, and decodes the answer.
\<close>

section \<open>Types\<close>

record PeerMinimum =
  pm_ID :: string
  pm_Name :: string

record Group =
  g_ID :: string
  g_Name :: string
  g_Peers :: "PeerMinimum list"
  g_PeersCount :: int
  g_Resources :: "json option"
  g_ResourcesCount :: int

record GroupMinimum =
  gm_ID :: string
  gm_Name :: string
  gm_PeersCount :: int
  gm_ResourcesCount :: int

record Peer =
  p_ID :: string
  p_Name :: string
  p_IP :: string
  p_Connected :: bool
  p_Hostname :: string
  p_LastLogin :: string
  p_Groups :: "GroupMinimum list"

record SetupKey =
  sk_ID :: string
  sk_Key :: string
  sk_Name :: string
  sk_Expires :: string
  sk_Type :: string
  sk_Valid :: bool
  sk_Revoked :: bool
  sk_UsedTimes :: int
  sk_LastUsed :: string
  sk_AutoGroups :: "string list"
  sk_UsageLimit :: int
  sk_Ephemeral :: bool
  sk_AllowExtraDNSLabels :: bool

text \<open>The embedded struct of the code, with the outer \<open>key\<close> field that hides the inner one.\<close>

record SetupKeyClear =
  skc_SetupKey :: SetupKey
  skc_Key :: string

record GroupRef =
  gr_ID :: string
  gr_Name :: string

record PolicyRule =
  pr_ID :: string
  pr_Name :: string
  pr_Description :: string
  pr_Enabled :: bool
  pr_Action :: string
  pr_Protocol :: string
  pr_Bidirectional :: bool
  pr_Sources :: "GroupRef list"
  pr_Destinations :: "GroupRef list"

record Policy =
  pol_ID :: string
  pol_Name :: string
  pol_Description :: string
  pol_Enabled :: bool
  pol_Rules :: "PolicyRule list"

record policyRuleRequest =
  prr_Name :: string
  prr_Description :: string
  prr_Enabled :: bool
  prr_Action :: string
  prr_Protocol :: string
  prr_Bidirectional :: bool
  prr_Sources :: "string list"
  prr_Destinations :: "string list"

record policyRequest =
  preq_Name :: string
  preq_Description :: string
  preq_Enabled :: bool
  preq_Rules :: "policyRuleRequest list"

section \<open>Reading answers\<close>

definition zero_Group :: Group where
  "zero_Group = \<lparr>g_ID = [], g_Name = [], g_Peers = [], g_PeersCount = 0, g_Resources = None,
                 g_ResourcesCount = 0\<rparr>"

definition decode_PeerMinimum :: "json \<Rightarrow> PeerMinimum option" where
  "decode_PeerMinimum j = decode_struct (\<lambda>k v r.
     if EqualFold k ''id'' then map_option (\<lambda>x. r\<lparr>pm_ID := x\<rparr>) (decode_string v (pm_ID r))
     else if EqualFold k ''name'' then map_option (\<lambda>x. r\<lparr>pm_Name := x\<rparr>) (decode_string v (pm_Name r))
     else Some r) j \<lparr>pm_ID = [], pm_Name = []\<rparr>"

definition decode_Group :: "json \<Rightarrow> Group option" where
  "decode_Group j = decode_struct (\<lambda>k v r.
     if EqualFold k ''id'' then map_option (\<lambda>x. r\<lparr>g_ID := x\<rparr>) (decode_string v (g_ID r))
     else if EqualFold k ''name'' then map_option (\<lambda>x. r\<lparr>g_Name := x\<rparr>) (decode_string v (g_Name r))
     else if EqualFold k ''peers''
     then map_option (\<lambda>x. r\<lparr>g_Peers := x\<rparr>) (decode_list decode_PeerMinimum v (g_Peers r))
     else if EqualFold k ''peers_count''
     then map_option (\<lambda>x. r\<lparr>g_PeersCount := x\<rparr>) (decode_int v (g_PeersCount r))
     else if EqualFold k ''resources'' then Some (r\<lparr>g_Resources := Some v\<rparr>)
     else if EqualFold k ''resources_count''
     then map_option (\<lambda>x. r\<lparr>g_ResourcesCount := x\<rparr>) (decode_int v (g_ResourcesCount r))
     else Some r) j zero_Group"

definition decode_GroupMinimum :: "json \<Rightarrow> GroupMinimum option" where
  "decode_GroupMinimum j = decode_struct (\<lambda>k v r.
     if EqualFold k ''id'' then map_option (\<lambda>x. r\<lparr>gm_ID := x\<rparr>) (decode_string v (gm_ID r))
     else if EqualFold k ''name'' then map_option (\<lambda>x. r\<lparr>gm_Name := x\<rparr>) (decode_string v (gm_Name r))
     else if EqualFold k ''peers_count''
     then map_option (\<lambda>x. r\<lparr>gm_PeersCount := x\<rparr>) (decode_int v (gm_PeersCount r))
     else if EqualFold k ''resources_count''
     then map_option (\<lambda>x. r\<lparr>gm_ResourcesCount := x\<rparr>) (decode_int v (gm_ResourcesCount r))
     else Some r) j \<lparr>gm_ID = [], gm_Name = [], gm_PeersCount = 0, gm_ResourcesCount = 0\<rparr>"

definition decode_Peer :: "json \<Rightarrow> Peer option" where
  "decode_Peer j = decode_struct (\<lambda>k v r.
     if EqualFold k ''id'' then map_option (\<lambda>x. r\<lparr>p_ID := x\<rparr>) (decode_string v (p_ID r))
     else if EqualFold k ''name'' then map_option (\<lambda>x. r\<lparr>p_Name := x\<rparr>) (decode_string v (p_Name r))
     else if EqualFold k ''ip'' then map_option (\<lambda>x. r\<lparr>p_IP := x\<rparr>) (decode_string v (p_IP r))
     else if EqualFold k ''connected''
     then map_option (\<lambda>x. r\<lparr>p_Connected := x\<rparr>) (decode_bool v (p_Connected r))
     else if EqualFold k ''hostname''
     then map_option (\<lambda>x. r\<lparr>p_Hostname := x\<rparr>) (decode_string v (p_Hostname r))
     else if EqualFold k ''last_login''
     then map_option (\<lambda>x. r\<lparr>p_LastLogin := x\<rparr>) (decode_string v (p_LastLogin r))
     else if EqualFold k ''groups''
     then map_option (\<lambda>x. r\<lparr>p_Groups := x\<rparr>) (decode_list decode_GroupMinimum v (p_Groups r))
     else Some r) j
     \<lparr>p_ID = [], p_Name = [], p_IP = [], p_Connected = False, p_Hostname = [], p_LastLogin = [],
      p_Groups = []\<rparr>"

definition json_text :: "json \<Rightarrow> string option" where
  "json_text j = decode_string j []"

definition setup_key_member :: "string \<Rightarrow> json \<Rightarrow> SetupKey \<Rightarrow> SetupKey option" where
  "setup_key_member k v r =
     (if EqualFold k ''id'' then map_option (\<lambda>x. r\<lparr>sk_ID := x\<rparr>) (decode_string v (sk_ID r))
      else if EqualFold k ''key'' then map_option (\<lambda>x. r\<lparr>sk_Key := x\<rparr>) (decode_string v (sk_Key r))
      else if EqualFold k ''name'' then map_option (\<lambda>x. r\<lparr>sk_Name := x\<rparr>) (decode_string v (sk_Name r))
      else if EqualFold k ''expires''
      then map_option (\<lambda>x. r\<lparr>sk_Expires := x\<rparr>) (decode_string v (sk_Expires r))
      else if EqualFold k ''type'' then map_option (\<lambda>x. r\<lparr>sk_Type := x\<rparr>) (decode_string v (sk_Type r))
      else if EqualFold k ''valid''
      then map_option (\<lambda>x. r\<lparr>sk_Valid := x\<rparr>) (decode_bool v (sk_Valid r))
      else if EqualFold k ''revoked''
      then map_option (\<lambda>x. r\<lparr>sk_Revoked := x\<rparr>) (decode_bool v (sk_Revoked r))
      else if EqualFold k ''used_times''
      then map_option (\<lambda>x. r\<lparr>sk_UsedTimes := x\<rparr>) (decode_int v (sk_UsedTimes r))
      else if EqualFold k ''last_used''
      then map_option (\<lambda>x. r\<lparr>sk_LastUsed := x\<rparr>) (decode_string v (sk_LastUsed r))
      else if EqualFold k ''auto_groups''
      then map_option (\<lambda>x. r\<lparr>sk_AutoGroups := x\<rparr>) (decode_list json_text v (sk_AutoGroups r))
      else if EqualFold k ''usage_limit''
      then map_option (\<lambda>x. r\<lparr>sk_UsageLimit := x\<rparr>) (decode_int v (sk_UsageLimit r))
      else if EqualFold k ''ephemeral''
      then map_option (\<lambda>x. r\<lparr>sk_Ephemeral := x\<rparr>) (decode_bool v (sk_Ephemeral r))
      else if EqualFold k ''allow_extra_dns_labels''
      then map_option (\<lambda>x. r\<lparr>sk_AllowExtraDNSLabels := x\<rparr>) (decode_bool v (sk_AllowExtraDNSLabels r))
      else Some r)"

definition zero_SetupKey :: SetupKey where
  "zero_SetupKey =
     \<lparr>sk_ID = [], sk_Key = [], sk_Name = [], sk_Expires = [], sk_Type = [], sk_Valid = False,
      sk_Revoked = False, sk_UsedTimes = 0, sk_LastUsed = [], sk_AutoGroups = [],
      sk_UsageLimit = 0, sk_Ephemeral = False, sk_AllowExtraDNSLabels = False\<rparr>"

definition decode_SetupKey :: "json \<Rightarrow> SetupKey option" where
  "decode_SetupKey j = decode_struct setup_key_member j zero_SetupKey"

definition decode_SetupKeyClear :: "json \<Rightarrow> SetupKeyClear option" where
  "decode_SetupKeyClear j = decode_struct (\<lambda>k v r.
     if EqualFold k ''key'' then map_option (\<lambda>x. r\<lparr>skc_Key := x\<rparr>) (decode_string v (skc_Key r))
     else map_option (\<lambda>x. r\<lparr>skc_SetupKey := x\<rparr>) (setup_key_member k v (skc_SetupKey r))) j
     \<lparr>skc_SetupKey = zero_SetupKey, skc_Key = []\<rparr>"

definition decode_GroupRef :: "json \<Rightarrow> GroupRef option" where
  "decode_GroupRef j = decode_struct (\<lambda>k v r.
     if EqualFold k ''id'' then map_option (\<lambda>x. r\<lparr>gr_ID := x\<rparr>) (decode_string v (gr_ID r))
     else if EqualFold k ''name'' then map_option (\<lambda>x. r\<lparr>gr_Name := x\<rparr>) (decode_string v (gr_Name r))
     else Some r) j \<lparr>gr_ID = [], gr_Name = []\<rparr>"

definition decode_PolicyRule :: "json \<Rightarrow> PolicyRule option" where
  "decode_PolicyRule j = decode_struct (\<lambda>k v r.
     if EqualFold k ''id'' then map_option (\<lambda>x. r\<lparr>pr_ID := x\<rparr>) (decode_string v (pr_ID r))
     else if EqualFold k ''name'' then map_option (\<lambda>x. r\<lparr>pr_Name := x\<rparr>) (decode_string v (pr_Name r))
     else if EqualFold k ''description''
     then map_option (\<lambda>x. r\<lparr>pr_Description := x\<rparr>) (decode_string v (pr_Description r))
     else if EqualFold k ''enabled''
     then map_option (\<lambda>x. r\<lparr>pr_Enabled := x\<rparr>) (decode_bool v (pr_Enabled r))
     else if EqualFold k ''action''
     then map_option (\<lambda>x. r\<lparr>pr_Action := x\<rparr>) (decode_string v (pr_Action r))
     else if EqualFold k ''protocol''
     then map_option (\<lambda>x. r\<lparr>pr_Protocol := x\<rparr>) (decode_string v (pr_Protocol r))
     else if EqualFold k ''bidirectional''
     then map_option (\<lambda>x. r\<lparr>pr_Bidirectional := x\<rparr>) (decode_bool v (pr_Bidirectional r))
     else if EqualFold k ''sources''
     then map_option (\<lambda>x. r\<lparr>pr_Sources := x\<rparr>) (decode_list decode_GroupRef v (pr_Sources r))
     else if EqualFold k ''destinations''
     then map_option (\<lambda>x. r\<lparr>pr_Destinations := x\<rparr>) (decode_list decode_GroupRef v (pr_Destinations r))
     else Some r) j
     \<lparr>pr_ID = [], pr_Name = [], pr_Description = [], pr_Enabled = False, pr_Action = [],
      pr_Protocol = [], pr_Bidirectional = False, pr_Sources = [], pr_Destinations = []\<rparr>"

definition decode_Policy :: "json \<Rightarrow> Policy option" where
  "decode_Policy j = decode_struct (\<lambda>k v r.
     if EqualFold k ''id'' then map_option (\<lambda>x. r\<lparr>pol_ID := x\<rparr>) (decode_string v (pol_ID r))
     else if EqualFold k ''name'' then map_option (\<lambda>x. r\<lparr>pol_Name := x\<rparr>) (decode_string v (pol_Name r))
     else if EqualFold k ''description''
     then map_option (\<lambda>x. r\<lparr>pol_Description := x\<rparr>) (decode_string v (pol_Description r))
     else if EqualFold k ''enabled''
     then map_option (\<lambda>x. r\<lparr>pol_Enabled := x\<rparr>) (decode_bool v (pol_Enabled r))
     else if EqualFold k ''rules''
     then map_option (\<lambda>x. r\<lparr>pol_Rules := x\<rparr>) (decode_list decode_PolicyRule v (pol_Rules r))
     else Some r) j
     \<lparr>pol_ID = [], pol_Name = [], pol_Description = [], pol_Enabled = False, pol_Rules = []\<rparr>"


section \<open>Writing requests\<close>

definition json_strings :: "string list \<Rightarrow> json" where
  "json_strings xs = JArr (map JStr xs)"

definition encode_policyRuleRequest :: "policyRuleRequest \<Rightarrow> json" where
  "encode_policyRuleRequest r = JObj
     [(''name'', JStr (prr_Name r)),
      (''description'', JStr (prr_Description r)),
      (''enabled'', JBool (prr_Enabled r)),
      (''action'', JStr (prr_Action r)),
      (''protocol'', JStr (prr_Protocol r)),
      (''bidirectional'', JBool (prr_Bidirectional r)),
      (''sources'', json_strings (prr_Sources r)),
      (''destinations'', json_strings (prr_Destinations r))]"

text \<open>A nil slice, which is what \<open>Rules\<close> is when nothing was appended, is written as \<open>null\<close>.\<close>

definition encode_policyRequest :: "policyRequest \<Rightarrow> json" where
  "encode_policyRequest p = JObj
     [(''name'', JStr (preq_Name p)),
      (''description'', JStr (preq_Description p)),
      (''enabled'', JBool (preq_Enabled p)),
      (''rules'', if preq_Rules p = [] then JNull
                  else JArr (map encode_policyRuleRequest (preq_Rules p)))]"

section \<open>The client\<close>

record 'w Client =
  c_baseURL :: string
  c_pat :: string
  c_http :: "'w transport"

definition netbird_New :: "string \<Rightarrow> string \<Rightarrow> 'w transport \<Rightarrow> 'w Client" where
  "netbird_New baseURL pat http =
     \<lparr>c_baseURL = TrimRight CHR ''/'' baseURL, c_pat = pat, c_http = http\<rparr>"

definition client_request :: "'w Client \<Rightarrow> string \<Rightarrow> string \<Rightarrow> json option \<Rightarrow> http_request" where
  "client_request c method path input =
     \<lparr>rq_method = method, rq_url = c_baseURL c @ path,
      rq_headers =
        [(''Authorization'', ''Token '' @ c_pat c), (''Accept'', ''application/json'')] @
        (if input = None then [] else [(''Content-Type'', ''application/json'')]),
      rq_body = map_option render input\<rparr>"

text \<open>
  The last argument reads the body of a successful answer: \<open>no_output\<close> where the code passes no
  target, \<open>decode_first\<close> of the target's decoder otherwise.
\<close>

definition no_output :: "string \<Rightarrow> goerr + unit" where
  "no_output body = Inr ()"

definition client_do ::
  "'w Client \<Rightarrow> string \<Rightarrow> string \<Rightarrow> json option \<Rightarrow> (string \<Rightarrow> goerr + 'a) \<Rightarrow> ('w, goerr + 'a) state" where
  "client_do c method path input output =
     go_try (c_http c (client_request c method path input)) (\<lambda>resp.
       if rs_status resp < 200 \<or> rs_status resp \<ge> 300
       then err (Message (''netbird API '' @ method @ '' '' @ path @ '' returned HTTP '' @
                          show_int (rs_status resp)))
       else State_Monad.return (output (rs_body resp)))"

definition decode_array :: "(json \<Rightarrow> 'a option) \<Rightarrow> json \<Rightarrow> 'a list option" where
  "decode_array f j = decode_list f j []"

definition ListGroups :: "'w Client \<Rightarrow> ('w, goerr + Group list) state" where
  "ListGroups c = client_do c ''GET'' ''/api/groups'' None (decode_first (decode_array decode_Group))"

definition FindGroupByName :: "'w Client \<Rightarrow> string \<Rightarrow> ('w, goerr + Group option) state" where
  "FindGroupByName c name =
     go_try (ListGroups c) (\<lambda>groups. ok (find (\<lambda>group. g_Name group = name) groups))"

definition CreateGroup :: "'w Client \<Rightarrow> string \<Rightarrow> ('w, goerr + Group) state" where
  "CreateGroup c name =
     client_do c ''POST'' ''/api/groups''
       (Some (JObj [(''name'', JStr name), (''peers'', JArr [])])) (decode_first decode_Group)"

definition DeleteGroup :: "'w Client \<Rightarrow> string \<Rightarrow> ('w, goerr + unit) state" where
  "DeleteGroup c gid = client_do c ''DELETE'' (''/api/groups/'' @ gid) None no_output"

definition ListSetupKeys :: "'w Client \<Rightarrow> ('w, goerr + SetupKey list) state" where
  "ListSetupKeys c =
     client_do c ''GET'' ''/api/setup-keys'' None (decode_first (decode_array decode_SetupKey))"

definition CreateSetupKey :: "'w Client \<Rightarrow> string \<Rightarrow> string \<Rightarrow> ('w, goerr + SetupKeyClear) state" where
  "CreateSetupKey c name groupID =
     client_do c ''POST'' ''/api/setup-keys''
       (Some (JObj
          [(''allow_extra_dns_labels'', JBool False), (''auto_groups'', json_strings [groupID]),
           (''ephemeral'', JBool False), (''expires_in'', JNum ''0''), (''name'', JStr name),
           (''type'', JStr ''reusable''), (''usage_limit'', JNum ''0'')]))
       (decode_first decode_SetupKeyClear)"

definition RevokeSetupKey :: "'w Client \<Rightarrow> string \<Rightarrow> string list \<Rightarrow> ('w, goerr + unit) state" where
  "RevokeSetupKey c kid groups =
     client_do c ''PUT'' (''/api/setup-keys/'' @ kid)
       (Some (JObj [(''auto_groups'', json_strings groups), (''revoked'', JBool True)])) no_output"

definition DeleteSetupKey :: "'w Client \<Rightarrow> string \<Rightarrow> ('w, goerr + unit) state" where
  "DeleteSetupKey c kid = client_do c ''DELETE'' (''/api/setup-keys/'' @ kid) None no_output"

definition ListPolicies :: "'w Client \<Rightarrow> ('w, goerr + Policy list) state" where
  "ListPolicies c =
     client_do c ''GET'' ''/api/policies'' None (decode_first (decode_array decode_Policy))"

definition room_policy_request :: "string \<Rightarrow> string \<Rightarrow> policyRequest" where
  "room_policy_request name groupID =
     \<lparr>preq_Name = name, preq_Description = ''Room-internal policy managed by Room API'',
      preq_Enabled = True,
      preq_Rules =
        [\<lparr>prr_Name = name @ ''-rule'', prr_Description = ''Allow Peers in the same room'',
          prr_Enabled = True, prr_Action = ''accept'', prr_Protocol = ''all'',
          prr_Bidirectional = True, prr_Sources = [groupID], prr_Destinations = [groupID]\<rparr>]\<rparr>"

definition CreateRoomPolicy :: "'w Client \<Rightarrow> string \<Rightarrow> string \<Rightarrow> ('w, goerr + Policy) state" where
  "CreateRoomPolicy c name groupID =
     client_do c ''POST'' ''/api/policies''
       (Some (encode_policyRequest (room_policy_request name groupID))) (decode_first decode_Policy)"

definition DeletePolicy :: "'w Client \<Rightarrow> string \<Rightarrow> ('w, goerr + unit) state" where
  "DeletePolicy c pid = client_do c ''DELETE'' (''/api/policies/'' @ pid) None no_output"

definition disable_policy_request :: "Policy \<Rightarrow> policyRequest" where
  "disable_policy_request policy =
     \<lparr>preq_Name = pol_Name policy, preq_Description = pol_Description policy,
      preq_Enabled = False,
      preq_Rules = map (\<lambda>rule.
        \<lparr>prr_Name = pr_Name rule, prr_Description = pr_Description rule,
         prr_Enabled = pr_Enabled rule, prr_Action = pr_Action rule,
         prr_Protocol = pr_Protocol rule, prr_Bidirectional = pr_Bidirectional rule,
         prr_Sources = map gr_ID (pr_Sources rule),
         prr_Destinations = map gr_ID (pr_Destinations rule)\<rparr>) (pol_Rules policy)\<rparr>"

definition DisablePolicy :: "'w Client \<Rightarrow> Policy \<Rightarrow> ('w, goerr + unit) state" where
  "DisablePolicy c policy =
     client_do c ''PUT'' (''/api/policies/'' @ pol_ID policy)
       (Some (encode_policyRequest (disable_policy_request policy))) no_output"

definition ListPeers :: "'w Client \<Rightarrow> ('w, goerr + Peer list) state" where
  "ListPeers c = client_do c ''GET'' ''/api/peers'' None (decode_first (decode_array decode_Peer))"

end
