(* ===== verification/RoomService.thy ===== *)
theory RoomService
  imports RoomStore RoomCrypto NetbirdClient
begin

text \<open>
  \<open>room-api/internal/rooms/service.go\<close>, with \<open>audit.go\<close>.  The state of the service is the
  database, the audit log and an outside world of any type, in which NetBird, the random source
  and the clock live.  \<open>'w NetBirdAPI\<close> is the Go interface, one field per method; \<open>client_api\<close> is
  the implementation the program uses.

  \<open>rooms_Create\<close> is cut along the stages of the Go function: \<open>create_lookup\<close> answers a repeated
  request, \<open>create_begin\<close> claims the idempotency key, \<open>provision_room\<close> and the functions after it
  create the row, the group, the setup key and the policy, undoing what was done when a step
  fails.  The lemmas on these operations are in the theories \<open>RoomServiceFrames\<close>, on what an
  operation may change, and \<open>RoomServiceSpec\<close>, on what it achieves.
\<close>

section \<open>The state and the outside\<close>

record 'w NetBirdAPI =
  api_ListGroups :: "('w, goerr + Group list) state"
  api_CreateGroup :: "string \<Rightarrow> ('w, goerr + Group) state"
  api_DeleteGroup :: "string \<Rightarrow> ('w, goerr + unit) state"
  api_ListSetupKeys :: "('w, goerr + SetupKey list) state"
  api_CreateSetupKey :: "string \<Rightarrow> string \<Rightarrow> ('w, goerr + SetupKeyClear) state"
  api_RevokeSetupKey :: "string \<Rightarrow> string list \<Rightarrow> ('w, goerr + unit) state"
  api_DeleteSetupKey :: "string \<Rightarrow> ('w, goerr + unit) state"
  api_ListPolicies :: "('w, goerr + Policy list) state"
  api_CreateRoomPolicy :: "string \<Rightarrow> string \<Rightarrow> ('w, goerr + Policy) state"
  api_DeletePolicy :: "string \<Rightarrow> ('w, goerr + unit) state"
  api_DisablePolicy :: "Policy \<Rightarrow> ('w, goerr + unit) state"
  api_ListPeers :: "('w, goerr + Peer list) state"

definition client_api :: "'w Client \<Rightarrow> 'w NetBirdAPI" where
  "client_api c =
     \<lparr>api_ListGroups = ListGroups c, api_CreateGroup = CreateGroup c,
      api_DeleteGroup = DeleteGroup c, api_ListSetupKeys = ListSetupKeys c,
      api_CreateSetupKey = CreateSetupKey c, api_RevokeSetupKey = RevokeSetupKey c,
      api_DeleteSetupKey = DeleteSetupKey c, api_ListPolicies = ListPolicies c,
      api_CreateRoomPolicy = CreateRoomPolicy c, api_DeletePolicy = DeletePolicy c,
      api_DisablePolicy = DisablePolicy c, api_ListPeers = ListPeers c\<rparr>"

record 'w Service =
  nb :: "'w NetBirdAPI"
  ManagementURL :: string
  EncryptionKey :: string
  prims :: Primitives
  rand_Read :: "'w random"
  clock :: "('w, time) state"

record 'w server =
  db :: Store
  audit_log :: "(string \<times> json) list"
  ext :: 'w

definition in_db :: "(Store, 'a) state \<Rightarrow> ('w server, 'a) state" where
  "in_db m = on_field db (\<lambda>d s. s\<lparr>db := d\<rparr>) m"

definition in_ext :: "('w, 'a) state \<Rightarrow> ('w server, 'a) state" where
  "in_ext m = on_field ext (\<lambda>w s. s\<lparr>ext := w\<rparr>) m"

text \<open>The audit line, without its time stamp, which the code adds under the key \<open>ts\<close>.\<close>

definition audit_Event :: "string \<Rightarrow> (string \<times> json) list \<Rightarrow> ('w server, unit) state" where
  "audit_Event name kvs =
     State_Monad.update (\<lambda>s. s\<lparr>audit_log := audit_log s @
       [(name, JObj ((''event'', JStr name) # kvs))]\<rparr>)"

section \<open>Responses\<close>

record RoomResponse =
  resp_RoomID :: string
  resp_RoomCode :: string
  resp_ManagementURL :: string
  resp_SetupKey :: string

record PeerView =
  pv_ID :: string
  pv_Name :: string
  pv_IP :: string
  pv_Connected :: bool
  pv_Hostname :: string

record PeerResponse =
  prs_RoomID :: string
  prs_Peers :: "PeerView list"

definition zero_RoomResponse :: RoomResponse where
  "zero_RoomResponse =
     \<lparr>resp_RoomID = [], resp_RoomCode = [], resp_ManagementURL = [], resp_SetupKey = []\<rparr>"

definition omitempty :: "string \<Rightarrow> string \<Rightarrow> (string \<times> json) list" where
  "omitempty k v = (if v = [] then [] else [(k, JStr v)])"

definition encode_RoomResponse :: "RoomResponse \<Rightarrow> json" where
  "encode_RoomResponse r = JObj
     ([(''room_id'', JStr (resp_RoomID r))] @ omitempty ''room_code'' (resp_RoomCode r) @
      [(''management_url'', JStr (resp_ManagementURL r)), (''setup_key'', JStr (resp_SetupKey r))])"

definition decode_RoomResponse :: "json \<Rightarrow> RoomResponse option" where
  "decode_RoomResponse j = decode_struct (\<lambda>k v r.
     if EqualFold k ''room_id''
     then map_option (\<lambda>x. r\<lparr>resp_RoomID := x\<rparr>) (decode_string v (resp_RoomID r))
     else if EqualFold k ''room_code''
     then map_option (\<lambda>x. r\<lparr>resp_RoomCode := x\<rparr>) (decode_string v (resp_RoomCode r))
     else if EqualFold k ''management_url''
     then map_option (\<lambda>x. r\<lparr>resp_ManagementURL := x\<rparr>) (decode_string v (resp_ManagementURL r))
     else if EqualFold k ''setup_key''
     then map_option (\<lambda>x. r\<lparr>resp_SetupKey := x\<rparr>) (decode_string v (resp_SetupKey r))
     else Some r) j zero_RoomResponse"

definition encode_PeerView :: "PeerView \<Rightarrow> json" where
  "encode_PeerView p = JObj
     ([(''id'', JStr (pv_ID p)), (''name'', JStr (pv_Name p)), (''netbird_ip'', JStr (pv_IP p)),
       (''connected'', JBool (pv_Connected p))] @ omitempty ''hostname'' (pv_Hostname p))"

definition encode_PeerResponse :: "PeerResponse \<Rightarrow> json" where
  "encode_PeerResponse r = JObj
     [(''room_id'', JStr (prs_RoomID r)), (''peers'', JArr (map encode_PeerView (prs_Peers r)))]"

section \<open>Random names\<close>

definition randomID :: "'w random \<Rightarrow> ('w, goerr + string) state" where
  "randomID rnd = go_try (rnd 12) (\<lambda>buf. ok (hex_encode buf))"

definition code_alphabet :: string where
  "code_alphabet = ''ABCDEFGHJKLMNPQRSTUVWXYZ23456789''"

definition room_code :: "string \<Rightarrow> string" where
  "room_code bytes =
     (let buf = map (\<lambda>b. code_alphabet ! (byte b mod length code_alphabet)) bytes
      in take 4 buf @ ''-'' @ take 4 (drop 4 buf) @ ''-'' @ drop 8 buf)"

definition randomRoomCode :: "'w random \<Rightarrow> ('w, goerr + string) state" where
  "randomRoomCode rnd = go_try (rnd 12) (\<lambda>buf. ok (room_code buf))"

section \<open>Create\<close>

definition findGroup :: "'w Service \<Rightarrow> string \<Rightarrow> ('w server, goerr + Group option) state" where
  "findGroup S name =
     go_try (in_ext (api_ListGroups (nb S)))
       (\<lambda>groups. ok (find (\<lambda>grp. g_Name grp = name) groups))"

definition rooms_fail ::
  "string \<Rightarrow> string \<Rightarrow> goerr \<Rightarrow> ('w server, goerr + RoomResponse) state" where
  "rooms_fail roomID idempotencyKey e = do {
     _ \<leftarrow> in_db (SetStatus roomID ''error'' (err_text e));
     _ \<leftarrow> (if idempotencyKey \<noteq> [] then in_db (SaveOperation idempotencyKey [] ''error'') else ok ());
     audit_Event ''room_provision_failed'' [(''room_id'', JStr roomID), (''error'', JStr (err_text e))];
     err e
   }"

text \<open>
  What an idempotency key is known for: nothing or a failed attempt (\<open>Proceed\<close>, with
  \<open>retryOperation\<close>), or the response to give again.
\<close>

datatype create_lookup = Replay RoomResponse | Proceed (retryOperation: bool)

definition create_lookup :: "'w Service \<Rightarrow> string \<Rightarrow> ('w server, goerr + create_lookup) state" where
  "create_lookup S idempotencyKey =
     (if idempotencyKey = [] then ok (Proceed False)
      else do {
        r \<leftarrow> in_db (GetOperation idempotencyKey);
        case r of
          Inr op \<Rightarrow>
            if OpStatus op = ''creating'' then err (Sentinel ErrOperationInProgress)
            else if OpStatus op = ''error'' then ok (Proceed True)
            else (case crypto_Open (prims S) (EncryptionKey S) (Response op) of
                Inl openErr \<Rightarrow> err (Wrapped ''open idempotent response: '' openErr [])
              | Inr clear \<Rightarrow>
                  (case Option.bind (parse_json clear) decode_RoomResponse of
                     None \<Rightarrow> err (Wrapped ''decode idempotent response: '' (Message ''invalid JSON'') [])
                   | Some response \<Rightarrow> ok (Replay response)))
        | Inl e \<Rightarrow>
            if errors_Is e store_ErrNotFound then ok (Proceed False) else err e
      })"

definition create_begin ::
  "'w Service \<Rightarrow> string \<Rightarrow> bool \<Rightarrow> string \<Rightarrow> ('w server, goerr + unit) state" where
  "create_begin S idempotencyKey retry roomID =
     (if idempotencyKey = [] then ok ()
      else
        go_try (if retry then in_db (ResetOperation idempotencyKey roomID) else ok ()) (\<lambda>_. do {
          now \<leftarrow> in_ext (clock S);
          go_try (in_db (BeginOperation idempotencyKey roomID now)) (\<lambda>created.
            if \<not> created \<and> \<not> retry then err (Sentinel ErrOperationInProgress) else ok ())
        }))"

text \<open>The group of the room, and whether this call created it.\<close>

definition room_group :: "'w Service \<Rightarrow> string \<Rightarrow> ('w server, goerr + Group \<times> bool) state" where
  "room_group S resourceName =
     go_try (findGroup S resourceName) (\<lambda>found. case found of
         Some grp \<Rightarrow> ok (grp, False)
       | None \<Rightarrow>
           go_try (in_ext (api_CreateGroup (nb S) resourceName)) (\<lambda>grp. ok (grp, True)))"

definition undo_group :: "'w Service \<Rightarrow> bool \<Rightarrow> string \<Rightarrow> ('w server, unit) state" where
  "undo_group S createdGroup groupID =
     (if createdGroup
      then do { _ \<leftarrow> in_ext (api_DeleteGroup (nb S) groupID); State_Monad.return () }
      else State_Monad.return ())"

definition undo_key :: "'w Service \<Rightarrow> string \<Rightarrow> string \<Rightarrow> ('w server, unit) state" where
  "undo_key S keyID groupID = do {
     _ \<leftarrow> in_ext (api_RevokeSetupKey (nb S) keyID [groupID]);
     State_Monad.return ()
   }"

definition finish_room ::
  "'w Service \<Rightarrow> string \<Rightarrow> string \<Rightarrow> string \<Rightarrow> Group \<Rightarrow> SetupKeyClear \<Rightarrow>
     ('w server, goerr + RoomResponse) state" where
  "finish_room S idempotencyKey roomID code grp key =
     go_try (in_db (SetStatus roomID ''active'' [])) (\<lambda>_.
       let response = \<lparr>resp_RoomID = roomID, resp_RoomCode = code,
                       resp_ManagementURL = ManagementURL S, resp_SetupKey = skc_Key key\<rparr>
       in go_try
            (if idempotencyKey \<noteq> []
             then go_try (in_ext (Seal (prims S) (rand_Read S) (EncryptionKey S)
                                    (render (encode_RoomResponse response))))
                    (\<lambda>ciphertext. in_db (SaveOperation idempotencyKey ciphertext ''active''))
             else ok ())
            (\<lambda>_. do {
               audit_Event ''room_created'' [(''room_id'', JStr roomID), (''group_id'', JStr (g_ID grp))];
               ok response
             }))"

definition provision_policy ::
  "'w Service \<Rightarrow> string \<Rightarrow> string \<Rightarrow> string \<Rightarrow> Group \<Rightarrow> bool \<Rightarrow> SetupKeyClear \<Rightarrow> string \<Rightarrow>
     ('w server, goerr + RoomResponse) state" where
  "provision_policy S idempotencyKey roomID code grp createdGroup key keyCiphertext = do {
     r \<leftarrow> in_ext (api_CreateRoomPolicy (nb S) (''room-'' @ roomID @ ''-internal'') (g_ID grp));
     case r of
       Inl e \<Rightarrow> do {
         undo_key S (sk_ID (skc_SetupKey key)) (g_ID grp);
         undo_group S createdGroup (g_ID grp);
         rooms_fail roomID idempotencyKey (Wrapped ''create policy: '' e [])
       }
     | Inr policy \<Rightarrow> do {
         r \<leftarrow> in_db (UpdateExternalIDs roomID (g_ID grp) (sk_ID (skc_SetupKey key))
                     (pol_ID policy) keyCiphertext);
         case r of
           Inl e \<Rightarrow> do {
             _ \<leftarrow> in_ext (api_DeletePolicy (nb S) (pol_ID policy));
             undo_key S (sk_ID (skc_SetupKey key)) (g_ID grp);
             undo_group S True (g_ID grp);
             rooms_fail roomID idempotencyKey (Wrapped ''save policy: '' e [])
           }
         | Inr _ \<Rightarrow> finish_room S idempotencyKey roomID code grp key
       }
   }"

definition provision_key ::
  "'w Service \<Rightarrow> string \<Rightarrow> string \<Rightarrow> string \<Rightarrow> Group \<Rightarrow> bool \<Rightarrow>
     ('w server, goerr + RoomResponse) state" where
  "provision_key S idempotencyKey roomID code grp createdGroup = do {
     r \<leftarrow> in_ext (api_CreateSetupKey (nb S) (''room-'' @ roomID) (g_ID grp));
     case r of
       Inl e \<Rightarrow> do {
         undo_group S createdGroup (g_ID grp);
         rooms_fail roomID idempotencyKey (Wrapped ''create setup key: '' e [])
       }
     | Inr key \<Rightarrow> do {
         r \<leftarrow> in_ext (Seal (prims S) (rand_Read S) (EncryptionKey S) (skc_Key key));
         case r of
           Inl e \<Rightarrow> do {
             undo_key S (sk_ID (skc_SetupKey key)) (g_ID grp);
             undo_group S createdGroup (g_ID grp);
             rooms_fail roomID idempotencyKey (Wrapped ''encrypt setup key: '' e [])
           }
         | Inr keyCiphertext \<Rightarrow> do {
             r \<leftarrow> in_db (UpdateExternalIDs roomID (g_ID grp) (sk_ID (skc_SetupKey key)) []
                         keyCiphertext);
             case r of
               Inl e \<Rightarrow> do {
                 undo_key S (sk_ID (skc_SetupKey key)) (g_ID grp);
                 undo_group S createdGroup (g_ID grp);
                 rooms_fail roomID idempotencyKey (Wrapped ''save resources: '' e [])
               }
             | Inr _ \<Rightarrow>
                 provision_policy S idempotencyKey roomID code grp createdGroup key keyCiphertext
           }
       }
   }"

definition provision_room ::
  "'w Service \<Rightarrow> string \<Rightarrow> string \<Rightarrow> string \<Rightarrow> ('w server, goerr + RoomResponse) state" where
  "provision_room S idempotencyKey roomID code =
     go_try (in_ext (Seal (prims S) (rand_Read S) (EncryptionKey S) code)) (\<lambda>codeCiphertext. do {
       now \<leftarrow> in_ext (clock S);
       go_try
         (in_db (CreateRoom
            \<lparr>ID = roomID, CodeHash = Hash (prims S) code, CodeCiphertext = codeCiphertext,
             GroupID = [], SetupKeyID = [], SetupKeyCiphertext = [], PolicyID = [],
             Status = ''creating'', CreatedAt = now, DisabledAt = None, LastError = []\<rparr>))
         (\<lambda>_. do {
            r \<leftarrow> room_group S (''room-'' @ roomID);
            case r of
              Inl e \<Rightarrow> rooms_fail roomID idempotencyKey (Wrapped ''create group: '' e [])
            | Inr (grp, createdGroup) \<Rightarrow>
                provision_key S idempotencyKey roomID code grp createdGroup
          })
     })"

definition rooms_Create :: "'w Service \<Rightarrow> string \<Rightarrow> ('w server, goerr + RoomResponse) state" where
  "rooms_Create S idempotencyKey =
     go_try (create_lookup S idempotencyKey) (\<lambda>l. case l of
         Replay response \<Rightarrow> ok response
       | Proceed retry \<Rightarrow>
           go_try (in_ext (randomID (rand_Read S))) (\<lambda>roomID.
           go_try (in_ext (randomRoomCode (rand_Read S))) (\<lambda>code.
           go_try (create_begin S idempotencyKey retry roomID) (\<lambda>_.
             provision_room S idempotencyKey roomID code))))"

section \<open>Reconcile\<close>

definition remove_resources :: "'w Service \<Rightarrow> Room \<Rightarrow> ('w server, unit) state" where
  "remove_resources S room = do {
     (if PolicyID room \<noteq> []
      then do { _ \<leftarrow> in_ext (api_DeletePolicy (nb S) (PolicyID room)); State_Monad.return () }
      else State_Monad.return ());
     (if SetupKeyID room \<noteq> []
      then do {
        _ \<leftarrow> in_ext (api_RevokeSetupKey (nb S) (SetupKeyID room) [GroupID room]);
        _ \<leftarrow> in_ext (api_DeleteSetupKey (nb S) (SetupKeyID room));
        State_Monad.return () }
      else State_Monad.return ());
     (if GroupID room \<noteq> []
      then do { _ \<leftarrow> in_ext (api_DeleteGroup (nb S) (GroupID room)); State_Monad.return () }
      else State_Monad.return ())
   }"

definition reconcile_operation :: "'w Service \<Rightarrow> Operation \<Rightarrow> ('w server, goerr + unit) state" where
  "reconcile_operation S operation = do {
     r \<leftarrow> in_db (GetRoom (RoomID operation));
     case r of
       Inl e \<Rightarrow>
         if errors_Is e store_ErrNotFound
         then in_db (SaveOperation (IdempotencyKey operation) [] ''error'')
         else err e
     | Inr room \<Rightarrow> do {
         remove_resources S room;
         go_try (in_db (SetStatus (ID room) ''error'' ''provisioning interrupted and reconciled'')) (\<lambda>_.
         go_try (in_db (SaveOperation (IdempotencyKey operation) [] ''error'')) (\<lambda>_. do {
           audit_Event ''room_provision_reconciled'' [(''room_id'', JStr (ID room))];
           ok ()
         }))
       }
   }"

fun reconcile_operations :: "'w Service \<Rightarrow> Operation list \<Rightarrow> ('w server, goerr + unit) state" where
  "reconcile_operations S [] = ok ()"
| "reconcile_operations S (operation # ops) =
     go_try (reconcile_operation S operation) (\<lambda>_. reconcile_operations S ops)"

definition rooms_Reconcile :: "'w Service \<Rightarrow> ('w server, goerr + unit) state" where
  "rooms_Reconcile S =
     go_try (in_db (ListOperationsByStatus ''creating'')) (reconcile_operations S)"

section \<open>Join, Peers, Disable\<close>

text \<open>The room a code stands for; every failure of the lookup is the same error.\<close>

definition code_room :: "'w Service \<Rightarrow> string \<Rightarrow> ('w server, goerr + Room) state" where
  "code_room S code = in_db (GetRoomByCodeHash (Hash (prims S) (TrimSpace code)))"

definition rooms_Join :: "'w Service \<Rightarrow> string \<Rightarrow> ('w server, goerr + RoomResponse) state" where
  "rooms_Join S code = do {
     r \<leftarrow> code_room S code;
     case r of
       Inl e \<Rightarrow> err (Sentinel ErrInvalidRoom)
     | Inr room \<Rightarrow>
         if Status room \<noteq> ''active'' then err (Sentinel ErrInvalidRoom)
         else (case crypto_Open (prims S) (EncryptionKey S) (SetupKeyCiphertext room) of
             Inl e \<Rightarrow> err e
           | Inr key \<Rightarrow> do {
               audit_Event ''room_joined'' [(''room_id'', JStr (ID room))];
               ok \<lparr>resp_RoomID = ID room, resp_RoomCode = [],
                   resp_ManagementURL = ManagementURL S, resp_SetupKey = key\<rparr>
             })
   }"

definition peer_in_group :: "string \<Rightarrow> Peer \<Rightarrow> bool" where
  "peer_in_group groupID peer = list_ex (\<lambda>grp. gm_ID grp = groupID) (p_Groups peer)"

definition peer_view :: "Peer \<Rightarrow> PeerView" where
  "peer_view peer =
     \<lparr>pv_ID = p_ID peer, pv_Name = p_Name peer, pv_IP = p_IP peer,
      pv_Connected = p_Connected peer, pv_Hostname = p_Hostname peer\<rparr>"

definition rooms_Peers :: "'w Service \<Rightarrow> string \<Rightarrow> ('w server, goerr + PeerResponse) state" where
  "rooms_Peers S code = do {
     r \<leftarrow> code_room S code;
     case r of
       Inl e \<Rightarrow> err (Sentinel ErrInvalidRoom)
     | Inr room \<Rightarrow>
         if Status room \<noteq> ''active'' then err (Sentinel ErrInvalidRoom)
         else go_try (in_ext (api_ListPeers (nb S))) (\<lambda>peers.
           ok \<lparr>prs_RoomID = ID room,
               prs_Peers = map peer_view (filter (peer_in_group (GroupID room)) peers)\<rparr>)
   }"

definition rooms_Disable :: "'w Service \<Rightarrow> string \<Rightarrow> ('w server, goerr + unit) state" where
  "rooms_Disable S code = do {
     r \<leftarrow> code_room S code;
     case r of
       Inl e \<Rightarrow> err (Sentinel ErrInvalidRoom)
     | Inr room \<Rightarrow>
         if Status room = ''disabled'' then ok ()
         else
           go_try (in_ext (api_RevokeSetupKey (nb S) (SetupKeyID room) [GroupID room])) (\<lambda>_.
           go_try (if PolicyID room \<noteq> [] then in_ext (api_DeletePolicy (nb S) (PolicyID room))
                   else ok ()) (\<lambda>_. do {
             now \<leftarrow> in_ext (clock S);
             go_try (in_db (store_Disable (ID room) now)) (\<lambda>_. do {
               audit_Event ''room_disabled'' [(''room_id'', JStr (ID room))];
               ok ()
             })
           }))
   }"

definition DisableDefaultPolicy :: "'w Service \<Rightarrow> ('w server, goerr + unit) state" where
  "DisableDefaultPolicy S =
     go_try (in_ext (api_ListPolicies (nb S))) (\<lambda>policies.
       case find (\<lambda>policy. pol_Name policy = ''Default'' \<and> pol_Enabled policy) policies of
         None \<Rightarrow> ok ()
       | Some policy \<Rightarrow>
           go_try (in_ext (api_DisablePolicy (nb S) policy)) (\<lambda>_. do {
             audit_Event ''default_policy_disabled'' [(''policy_id'', JStr (pol_ID policy))];
             ok ()
           }))"

end
