(* ===== verification/RateLimiter.thy ===== *)
theory RateLimiter
  imports GoPrelude
begin

text \<open>
  The fixed-window limiter of \<open>room-api/internal/httpapi/server.go\<close>: one counter per client,
  started at the client's first request and again at the first request a window later.
\<close>

section \<open>State and operation\<close>

record counter =
  started :: time
  cnt :: int

record limiter =
  lim :: int
  window :: duration
  clients :: "string \<Rightarrow> counter option"

definition newLimiter :: "int \<Rightarrow> limiter" where
  "newLimiter n = \<lparr>lim = (if n < 1 then 1 else n), window = minute, clients = Map.empty\<rparr>"

text \<open>A missing key of a Go map reads as the zero value.\<close>

definition entry_of :: "limiter \<Rightarrow> string \<Rightarrow> counter" where
  "entry_of l c = (case clients l c of None \<Rightarrow> \<lparr>started = zero_time, cnt = 0\<rparr> | Some e \<Rightarrow> e)"

definition Allow :: "string \<Rightarrow> time \<Rightarrow> limiter \<Rightarrow> bool \<times> limiter" where
  "Allow client now l =
     (let entry = entry_of l client
      in if time_IsZero (started entry) \<or> time_Sub now (started entry) \<ge> window l
         then (True, l\<lparr>clients := (clients l)(client \<mapsto> \<lparr>started = now, cnt = 1\<rparr>)\<rparr>)
         else if cnt entry \<ge> lim l then (False, l)
         else (True, l\<lparr>clients := (clients l)(client \<mapsto> entry\<lparr>cnt := cnt entry + 1\<rparr>)\<rparr>))"

text \<open>A run of requests, each a client and the time it is read at; the result lists the decisions.\<close>

fun allow_all :: "(string \<times> time) list \<Rightarrow> limiter \<Rightarrow> bool list \<times> limiter" where
  "allow_all [] l = ([], l)"
| "allow_all ((c, t) # rs) l =
     (let (b, l') = Allow c t l; (bs, l'') = allow_all rs l' in (b # bs, l''))"

text \<open>The requests of client \<open>c\<close> let through at a time in \<open>[a, b)\<close>.\<close>

definition passed ::
  "string \<Rightarrow> time \<Rightarrow> time \<Rightarrow> (string \<times> time) list \<Rightarrow> bool list \<Rightarrow> int" where
  "passed c a b rs bs =
     int (length (filter (\<lambda>((c', t), b'). b' \<and> c' = c \<and> a \<le> t \<and> t < b) (zip rs bs)))"

definition in_order :: "(string \<times> time) list \<Rightarrow> bool" where
  "in_order rs \<longleftrightarrow> sorted (map snd rs) \<and> (\<forall>(c, t) \<in> set rs. zero_time < t)"

section \<open>One request\<close>

lemma passed_Nil [simp]: "passed c a b [] bs = 0"
  by (simp add: passed_def)

lemma passed_Cons [simp]:
  "passed c a b ((c', t) # rs) (b' # bs) =
     (if b' \<and> c' = c \<and> a \<le> t \<and> t < b then 1 else 0) + passed c a b rs bs"
  by (simp add: passed_def)

lemma in_order_Cons:
  "in_order ((c, t) # rs) \<longleftrightarrow>
     zero_time < t \<and> (\<forall>(c', t') \<in> set rs. t \<le> t') \<and> in_order rs"
  by (auto simp: in_order_def)

lemma entry_of_newLimiter [simp]: "entry_of (newLimiter n) c = \<lparr>started = zero_time, cnt = 0\<rparr>"
  by (simp add: entry_of_def newLimiter_def)

lemma entry_of_update [simp]: "entry_of (l\<lparr>clients := (clients l)(c \<mapsto> e)\<rparr>) c = e"
  by (simp add: entry_of_def)

lemma newLimiter_config [simp]:
  "lim (newLimiter n) = max 1 n" "window (newLimiter n) = minute"
  by (auto simp: newLimiter_def)

lemma Allow_config [simp]:
  "lim (snd (Allow c t l)) = lim l" "window (snd (Allow c t l)) = window l"
  by (simp_all add: Allow_def Let_def)

lemma entry_of_Allow_other [simp]: "c' \<noteq> c \<Longrightarrow> entry_of (snd (Allow c' t l)) c = entry_of l c"
  by (simp add: Allow_def entry_of_def Let_def)

text \<open>
  What one request of the client does to its counter: a new window, a further request in the
  window, or a refusal.
\<close>

lemma Allow_cases:
  assumes "window l = minute"
  obtains (fresh) "started (entry_of l c) = zero_time \<or> minute \<le> t - started (entry_of l c)"
      and "fst (Allow c t l)" and "entry_of (snd (Allow c t l)) c = \<lparr>started = t, cnt = 1\<rparr>"
    | (more) "started (entry_of l c) \<noteq> zero_time" and "t - started (entry_of l c) < minute"
      and "cnt (entry_of l c) < lim l" and "fst (Allow c t l)"
      and "entry_of (snd (Allow c t l)) c =
             \<lparr>started = started (entry_of l c), cnt = cnt (entry_of l c) + 1\<rparr>"
    | (refused) "started (entry_of l c) \<noteq> zero_time" and "t - started (entry_of l c) < minute"
      and "lim l \<le> cnt (entry_of l c)" and "\<not> fst (Allow c t l)" and "snd (Allow c t l) = l"
proof -
  have sub: "minute \<le> time_Sub t u \<longleftrightarrow> minute \<le> t - u" for u
    by (rule time_Sub_ge) (simp_all add: minute_def second_def max_int64_def min_int64_def)
  show thesis
  proof (cases "time_IsZero (started (entry_of l c)) \<or> time_Sub t (started (entry_of l c)) \<ge> window l")
    case True
    then show thesis
      using assms sub by (intro fresh) (auto simp: Allow_def Let_def entry_of_def time_IsZero_def)
  next
    case False
    note window_open = this
    show thesis
    proof (cases "lim l \<le> cnt (entry_of l c)")
      case True
      with window_open show thesis
        using assms sub by (intro refused) (auto simp: Allow_def Let_def time_IsZero_def)
    next
      case False
      with window_open show thesis
        using assms sub by (intro more) (auto simp: Allow_def Let_def entry_of_def time_IsZero_def)
    qed
  qed
qed

lemma allow_all_Cons [simp]:
  "allow_all ((c, t) # rs) l =
     (fst (Allow c t l) # fst (allow_all rs (snd (Allow c t l))),
      snd (allow_all rs (snd (Allow c t l))))"
  by (simp add: Let_def split: prod.splits)

declare allow_all.simps(2) [simp del]

section \<open>The bound over any window\<close>

text \<open>
  \<open>window_inv a now acc L e\<close>: with \<open>acc\<close> requests of the client let through in
  \<open>[a, a + minute)\<close> so far, the last request read at \<open>now\<close> and the counter \<open>e\<close>.  The window of
  \<open>e\<close> starts before, in or after the interval; only two windows can meet the interval.
\<close>

definition window_inv :: "time \<Rightarrow> time \<Rightarrow> int \<Rightarrow> int \<Rightarrow> counter \<Rightarrow> bool" where
  "window_inv a now acc L e \<longleftrightarrow>
     0 \<le> cnt e \<and> cnt e \<le> L \<and> started e \<le> now \<and> 0 \<le> acc \<and> (now < a \<longrightarrow> acc = 0) \<and>
     (started e = zero_time \<longrightarrow> cnt e = 0) \<and>
     (if started e < a then acc \<le> cnt e
      else if started e < a + minute then acc \<le> L + cnt e
      else acc \<le> 2 * L)"

lemma window_inv_step:
  assumes inv: "window_inv a now acc (lim l) (entry_of l c)"
    and t: "now \<le> t" "zero_time < t" and config: "window l = minute" "1 \<le> lim l"
  shows "window_inv a t (acc + (if fst (Allow c t l) \<and> a \<le> t \<and> t < a + minute then 1 else 0))
           (lim l) (entry_of (snd (Allow c t l)) c)"
  using config(1)
proof (cases rule: Allow_cases [of l c t])
  case fresh
  have long: "minute \<le> t - started (entry_of l c) \<or> (started (entry_of l c) = zero_time)"
    using fresh(1) by blast
  show ?thesis
  proof (cases "t < a")
    case True
    then show ?thesis using inv fresh t config(2) by (auto simp: window_inv_def)
  next
    case False
    then show ?thesis
      using inv fresh t config(2) by (auto simp: window_inv_def split: if_splits)
  qed
next
  case more
  then show ?thesis using inv t by (auto simp: window_inv_def split: if_splits)
next
  case refused
  then show ?thesis using inv t by (auto simp: window_inv_def split: if_splits)
qed

lemma window_inv_other:
  "window_inv a now acc L e \<Longrightarrow> now \<le> t \<Longrightarrow> t < a \<or> a \<le> now \<or> acc = 0 \<Longrightarrow> window_inv a t acc L e"
  by (auto simp: window_inv_def)

lemma window_inv_bound: "window_inv a now acc L e \<Longrightarrow> acc \<le> 2 * L"
  by (auto simp: window_inv_def split: if_splits)

lemma window_inv_run:
  assumes "window_inv a now acc (lim l) (entry_of l c)"
    and "in_order rs" and "\<forall>(c', t) \<in> set rs. now \<le> t"
    and "window l = minute" and "1 \<le> lim l"
  shows "acc + passed c a (a + minute) rs (fst (allow_all rs l)) \<le> 2 * lim l"
  using assms
proof (induction rs arbitrary: now acc l)
  case Nil
  then show ?case by (auto dest: window_inv_bound)
next
  case (Cons r rs)
  obtain c' t where r: "r = (c', t)" by (cases r)
  let ?l = "snd (Allow c' t l)"
  let ?acc = "acc + (if fst (Allow c' t l) \<and> c' = c \<and> a \<le> t \<and> t < a + minute then 1 else 0)"
  from Cons.prems r have t: "now \<le> t" "zero_time < t" "\<forall>(c', t') \<in> set rs. t \<le> t'" "in_order rs"
    by (auto simp: in_order_Cons)
  have "window_inv a t ?acc (lim ?l) (entry_of ?l c)"
  proof (cases "c' = c")
    case True
    with window_inv_step [OF Cons.prems(1) t(1,2) Cons.prems(4,5)] show ?thesis by simp
  next
    case False
    with Cons.prems(1) t(1) show ?thesis
      by (auto intro!: window_inv_other [of a now] simp: window_inv_def)
  qed
  then have "?acc + passed c a (a + minute) rs (fst (allow_all rs ?l)) \<le> 2 * lim ?l"
    by (rule Cons.IH) (use t Cons.prems in auto)
  then show ?case by (simp add: r add.assoc)
qed

lemma window_inv_start: "window_inv a zero_time 0 (max 1 n) \<lparr>started = zero_time, cnt = 0\<rparr>"
  by (auto simp: window_inv_def)

section \<open>Refusals are justified\<close>

lemma allow_all_snoc:
  "allow_all (rs @ [(c, t)]) l =
     (fst (allow_all rs l) @ [fst (Allow c t (snd (allow_all rs l)))],
      snd (Allow c t (snd (allow_all rs l))))"
  by (induction rs arbitrary: l) auto

lemma length_allow_all [simp]: "length (fst (allow_all rs l)) = length rs"
  by (induction rs arbitrary: l) auto

lemma allow_all_config [simp]:
  "lim (snd (allow_all rs l)) = lim l" "window (snd (allow_all rs l)) = window l"
  by (induction rs arbitrary: l) auto

lemma passed_snoc:
  "length bs = length rs \<Longrightarrow>
     passed c a b (rs @ [(c', t)]) (bs @ [b']) =
       passed c a b rs bs + (if b' \<and> c' = c \<and> a \<le> t \<and> t < b then 1 else 0)"
  by (simp add: passed_def)

lemma passed_nonneg: "0 \<le> passed c a b rs bs"
  by (simp add: passed_def)

lemma in_order_snoc:
  "in_order (rs @ [(c, t)]) \<longleftrightarrow>
     in_order rs \<and> zero_time < t \<and> (\<forall>(c', t') \<in> set rs. t' \<le> t)"
  by (auto simp: in_order_def sorted_append)

text \<open>
  \<open>counter_inv\<close>: the counter started with some earlier request, and counts no more than the
  requests let through since.
\<close>

definition counter_inv ::
  "time \<Rightarrow> string \<Rightarrow> (string \<times> time) list \<Rightarrow> bool list \<Rightarrow> counter \<Rightarrow> bool" where
  "counter_inv b c rs bs e \<longleftrightarrow>
     started e \<in> insert zero_time (snd ` set rs) \<and> cnt e \<le> passed c (started e) b rs bs"

lemma counter_inv_step:
  assumes inv: "counter_inv b c rs bs (entry_of l c)" and config: "window l = minute"
    and t: "zero_time < t" "\<forall>(c', t') \<in> set rs. t' \<le> t" "t < b" and len: "length bs = length rs"
  shows "counter_inv b c (rs @ [(c', t)]) (bs @ [fst (Allow c' t l)])
           (entry_of (snd (Allow c' t l)) c)"
proof (cases "c' = c")
  case False
  with inv len show ?thesis by (auto simp: counter_inv_def passed_snoc)
next
  case True
  have "started (entry_of l c) \<le> t" using inv t by (auto simp: counter_inv_def)
  with config show ?thesis
  proof (cases rule: Allow_cases [of l c t])
    case fresh
    then show ?thesis
      using t len passed_nonneg [of c t b rs bs] by (simp add: counter_inv_def passed_snoc True)
  next
    case more
    with inv t len \<open>started (entry_of l c) \<le> t\<close> show ?thesis
      by (auto simp: counter_inv_def passed_snoc True)
  next
    case refused
    with inv len show ?thesis by (auto simp: counter_inv_def passed_snoc True)
  qed
qed

lemma counter_inv_run:
  assumes "in_order rs" and "\<forall>(c', t) \<in> set rs. t < b"
  shows "counter_inv b c rs (fst (allow_all rs (newLimiter n)))
           (entry_of (snd (allow_all rs (newLimiter n))) c)"
  using assms
proof (induction rs rule: rev_induct)
  case Nil
  then show ?case by (simp add: counter_inv_def)
next
  case (snoc r rs)
  obtain c' t where r: "r = (c', t)" by (cases r)
  with snoc have "counter_inv b c rs (fst (allow_all rs (newLimiter n)))
      (entry_of (snd (allow_all rs (newLimiter n))) c)"
    by (auto simp: in_order_snoc)
  with snoc.prems r show ?case
    by (auto simp: allow_all_snoc in_order_snoc intro!: counter_inv_step)
qed

section \<open>Clients do not share a budget\<close>

definition decisions_for :: "string \<Rightarrow> (string \<times> time) list \<Rightarrow> bool list \<Rightarrow> bool list" where
  "decisions_for c rs bs = map snd (filter (\<lambda>((c', t), b). c' = c) (zip rs bs))"

lemma Allow_local:
  assumes "entry_of l c = entry_of m c" "lim l = lim m" "window l = window m"
  shows "fst (Allow c t l) = fst (Allow c t m)"
    and "entry_of (snd (Allow c t l)) c = entry_of (snd (Allow c t m)) c"
  using assms by (simp_all add: Allow_def Let_def)

lemma decisions_local:
  assumes "entry_of l c = entry_of m c" "lim l = lim m" "window l = window m"
  shows "decisions_for c rs (fst (allow_all rs l)) =
           fst (allow_all (filter (\<lambda>(c', t). c' = c) rs) m)"
  using assms
proof (induction rs arbitrary: l m)
  case Nil
  then show ?case by (simp add: decisions_for_def)
next
  case (Cons r rs)
  obtain c' t where r: "r = (c', t)" by (cases r)
  show ?case
  proof (cases "c' = c")
    case True
    note same = Allow_local [OF Cons.prems, of t]
    with Cons.IH [OF same(2)] Cons.prems(2,3) True show ?thesis
      by (simp add: r decisions_for_def)
  next
    case False
    with Cons.IH [of "snd (Allow c' t l)" m] Cons.prems show ?thesis
      by (simp add: r decisions_for_def)
  qed
qed


section \<open>Properties\<close>

lemma passed_mono: "a \<le> a' \<Longrightarrow> passed c a' b rs bs \<le> passed c a b rs bs"
proof -
  assume "a \<le> a'"
  then have "length (filter (\<lambda>((c', t), b'). b' \<and> c' = c \<and> a' \<le> t \<and> t < b) xs) \<le>
      length (filter (\<lambda>((c', t), b'). b' \<and> c' = c \<and> a \<le> t \<and> t < b) xs)" for xs
    by (induction xs) auto
  then show ?thesis by (simp add: passed_def)
qed



text \<open>
  No client is refused without reason: when a request is refused, the limiter has let at least
  the limit of requests of this very client through within the minute before.
\<close>

theorem refusal_justified:
  assumes "in_order (rs @ [(c, t)])"
    and "\<not> fst (Allow c t (snd (allow_all rs (newLimiter n))))"
  shows "max 1 n \<le> passed c (t - minute + 1) (t + 1) rs (fst (allow_all rs (newLimiter n)))"
proof -
  let ?l = "snd (allow_all rs (newLimiter n))"
  have w: "window ?l = minute" "lim ?l = max 1 n" by simp_all
  have inv: "counter_inv (t + 1) c rs (fst (allow_all rs (newLimiter n))) (entry_of ?l c)"
    by (rule counter_inv_run) (use assms(1) in \<open>auto simp: in_order_snoc\<close>)
  from w(1) show ?thesis
  proof (cases rule: Allow_cases [of ?l c t])
    case refused
    then have "max 1 n \<le> passed c (started (entry_of ?l c)) (t + 1) rs (fst (allow_all rs (newLimiter n)))"
      using inv w(2) by (auto simp: counter_inv_def)
    also have "\<dots> \<le> passed c (t - minute + 1) (t + 1) rs (fst (allow_all rs (newLimiter n)))"
      using refused by (intro passed_mono) simp
    finally show ?thesis .
  qed (use assms(2) in simp_all)
qed

theorem refusal_justified_witness:
  "max 1 1 \<le> passed ''a'' (9 - minute + 1) (9 + 1) [(''a'', 5)]
     (fst (allow_all [(''a'', 5)] (newLimiter 1)))"
proof (rule refusal_justified)
  show "in_order ([(''a'', 5)] @ [(''a'', 9)])" by (simp add: in_order_def zero_time_def second_def)
  have "snd (allow_all [(''a'', 5)] (newLimiter 1)) =
      (newLimiter 1)\<lparr>clients := [''a'' \<mapsto> \<lparr>started = 5, cnt = 1\<rparr>]\<rparr>"
    by (simp add: newLimiter_def Allow_def Let_def time_IsZero_def entry_of_def)
  then show "\<not> fst (Allow ''a'' 9 (snd (allow_all [(''a'', 5)] (newLimiter 1))))"
    by (simp add: newLimiter_def Allow_def Let_def time_IsZero_def entry_of_def time_Sub_def max_int64_def
        min_int64_def zero_time_def second_def minute_def)
qed

text \<open>
  Clients do not share a budget: the decisions on one client's requests are those of a limiter
  that sees no other client.
\<close>

theorem clients_independent:
  "decisions_for c rs (fst (allow_all rs (newLimiter n))) =
     fst (allow_all (filter (\<lambda>(c', t). c' = c) rs) (newLimiter n))"
  by (rule decisions_local) simp_all

end
