(* ===== verification/HttpApi.thy ===== *)
theory HttpApi
  imports RoomService RateLimiter "HOL-Library.Signed_Division"
begin

text \<open>
  \<open>room-api/internal/httpapi/server.go\<close>: routing, the handlers, the three rate limiters and the
  provisioning slots.  The state adds them to the state of the room service.  A handler turns a
  request into a response; \<open>createRoom\<close> is cut into \<open>create_enter\<close>, everything up to the slot and
  the check of the key, and \<open>create_leave\<close>, which gives the slot back, so that requests which
  overlap can be described by their steps.
\<close>

section \<open>Requests and responses\<close>

record Request =
  Method :: string
  Path :: string
  Header :: "(string \<times> string) list"
  ContentLength :: int
  Body :: string
  RemoteAddr :: string

record HttpConfig =
  AdminToken :: string
  MaxBodyBytes :: int
  CreateRatePerMinute :: int
  JoinRatePerMinute :: int
  PeerRatePerMinute :: int
  ProvisionConcurrency :: nat

record 'w HttpServer =
  service :: "'w Service"
  http_cfg :: HttpConfig

record 'w api =
  svc :: "'w server"
  createLimit :: limiter
  joinLimit :: limiter
  peerLimit :: limiter
  provision :: nat
  api_log :: "string list"

definition http_New :: "'w server \<Rightarrow> HttpConfig \<Rightarrow> 'w api" where
  "http_New s cfg =
     \<lparr>svc = s, createLimit = newLimiter (CreateRatePerMinute cfg),
      joinLimit = newLimiter (JoinRatePerMinute cfg),
      peerLimit = newLimiter (PeerRatePerMinute cfg), provision = 0, api_log = []\<rparr>"

definition in_svc :: "('w server, 'a) state \<Rightarrow> ('w api, 'a) state" where
  "in_svc m = on_field svc (\<lambda>v a. a\<lparr>svc := v\<rparr>) m"

definition log_Printf :: "string \<Rightarrow> ('w api, unit) state" where
  "log_Printf line = State_Monad.update (\<lambda>a. a\<lparr>api_log := api_log a @ [line]\<rparr>)"

definition writeJSON :: "int \<Rightarrow> json \<Rightarrow> http_response" where
  "writeJSON status value =
     \<lparr>rs_status = status,
      rs_headers = [(''Content-Type'', ''application/json''), (''Cache-Control'', ''no-store'')],
      rs_body = render value @ [CHR 0x0A]\<rparr>"

definition writeError :: "int \<Rightarrow> string \<Rightarrow> http_response" where
  "writeError status message = writeJSON status (JObj [(''error'', JStr message)])"

definition http_NotFound :: http_response where
  "http_NotFound =
     \<lparr>rs_status = 404,
      rs_headers = [(''Content-Type'', ''text/plain; charset=utf-8''),
                    (''X-Content-Type-Options'', ''nosniff'')],
      rs_body = ''404 page not found'' @ [CHR 0x0A]\<rparr>"

section \<open>The client's address\<close>

text \<open>\<open>net.SplitHostPort\<close>: the host, or nothing where it returns an error.\<close>

definition index_of :: "char \<Rightarrow> string \<Rightarrow> nat option" where
  "index_of c s = (let p = takeWhile (\<lambda>x. x \<noteq> c) s in if length p < length s then Some (length p) else None)"

definition last_index_of :: "char \<Rightarrow> string \<Rightarrow> nat option" where
  "last_index_of c s = map_option (\<lambda>i. length s - 1 - i) (index_of c (rev s))"

definition SplitHostPort :: "string \<Rightarrow> string option" where
  "SplitHostPort hostport =
     (case last_index_of CHR '':'' hostport of
        None \<Rightarrow> None
      | Some i \<Rightarrow>
          if hd hostport = CHR ''['' then
            (case index_of CHR '']'' hostport of
               None \<Rightarrow> None
             | Some closing \<Rightarrow>
                 if closing + 1 \<noteq> i then None
                 else if CHR ''['' \<in> set (drop 1 hostport) then None
                 else if CHR '']'' \<in> set (drop (closing + 1) hostport) then None
                 else Some (take (closing - 1) (drop 1 hostport)))
          else
            (let host = take i hostport
             in if CHR '':'' \<in> set host then None
                else if CHR ''['' \<in> set hostport then None
                else if CHR '']'' \<in> set hostport then None
                else Some host))"

definition remoteIP :: "Request \<Rightarrow> string" where
  "remoteIP r =
     (let forwarded = TrimSpace (hd (Split CHR '','' (header_get (Header r) ''X-Forwarded-For'')))
      in if forwarded \<noteq> [] then forwarded
         else case SplitHostPort (RemoteAddr r) of Some host \<Rightarrow> host | None \<Rightarrow> RemoteAddr r)"

section \<open>Authorization and bodies\<close>

definition authorizedAdmin :: "HttpConfig \<Rightarrow> Request \<Rightarrow> bool" where
  "authorizedAdmin cfg r =
     (if AdminToken cfg = [] then False
      else header_get (Header r) ''X-Room-Admin-Token'' = AdminToken cfg)"

text \<open>
  \<open>MaxBytesReader\<close> turns a read beyond the limit into an error, which one of the two calls of
  \<open>Decode\<close> then reports; the second has to find the end of the body.
\<close>

definition decodeJSON :: "(json \<Rightarrow> 'a option) \<Rightarrow> int \<Rightarrow> Request \<Rightarrow> 'a option" where
  "decodeJSON target limit r =
     (let limit' = (if limit \<le> 0 then 4096 else limit)
      in if int (length (Body r)) > limit' then None
         else case decode_next target (Body r) of
           Inl e \<Rightarrow> None
         | Inr (x, rest) \<Rightarrow> if skip_ws rest = [] then Some x else None)"

definition decode_join_request :: "json \<Rightarrow> string option" where
  "decode_join_request j = decode_struct (\<lambda>k v code.
     if EqualFold k ''room_code'' then decode_string v code else Some code) j []"

section \<open>The handlers\<close>

definition take_permit ::
  "('w api \<Rightarrow> limiter) \<Rightarrow> (limiter \<Rightarrow> 'w api \<Rightarrow> 'w api) \<Rightarrow> 'w HttpServer \<Rightarrow> Request \<Rightarrow> ('w api, bool) state" where
  "take_permit get put H r = do {
     now \<leftarrow> in_svc (in_ext (clock (service H)));
     on_field get put (State (Allow (remoteIP r) now))
   }"

text \<open>The \<open>select\<close> on the channel \<open>provision\<close>, whose capacity is \<open>ProvisionConcurrency\<close>.\<close>

definition acquire_slot :: "'w HttpServer \<Rightarrow> ('w api, bool) state" where
  "acquire_slot H = State (\<lambda>a.
     if provision a < ProvisionConcurrency (http_cfg H)
     then (True, a\<lparr>provision := provision a + 1\<rparr>) else (False, a))"

text \<open>\<open>Inl\<close> is an early answer, \<open>Inr\<close> the idempotency key of a request that has its slot.\<close>

definition create_enter :: "'w HttpServer \<Rightarrow> Request \<Rightarrow> ('w api, http_response + string) state" where
  "create_enter H r =
     (if ContentLength r > MaxBodyBytes (http_cfg H)
      then err (writeError 413 ''request body too large'')
      else do {
        allowed \<leftarrow> take_permit createLimit (\<lambda>l a. a\<lparr>createLimit := l\<rparr>) H r;
        if \<not> allowed then err (writeError 429 ''rate limit exceeded'')
        else do {
          acquired \<leftarrow> acquire_slot H;
          if \<not> acquired then err (writeError 503 ''room provisioning busy'')
          else ok (TrimSpace (header_get (Header r) ''Idempotency-Key''))
        }
      })"

definition create_leave :: "('w api, unit) state" where
  "create_leave = State_Monad.update (\<lambda>a. a\<lparr>provision := provision a - 1\<rparr>)"

definition create_work :: "'w HttpServer \<Rightarrow> string \<Rightarrow> ('w api, http_response) state" where
  "create_work H idempotency =
     (if length idempotency > 128
      then State_Monad.return (writeError 400 ''invalid idempotency key'')
      else do {
        r \<leftarrow> in_svc (rooms_Create (service H) idempotency);
        case r of
          Inl e \<Rightarrow>
            if errors_Is e ErrOperationInProgress
            then State_Monad.return (writeError 409 ''room operation in progress'')
            else do {
              log_Printf (''room creation failed: '' @ err_text e);
              State_Monad.return (writeError 502 ''room provisioning failed'')
            }
        | Inr response \<Rightarrow> State_Monad.return (writeJSON 201 (encode_RoomResponse response))
      })"

definition createRoom :: "'w HttpServer \<Rightarrow> Request \<Rightarrow> ('w api, http_response) state" where
  "createRoom H r = do {
     entered \<leftarrow> create_enter H r;
     case entered of
       Inl answer \<Rightarrow> State_Monad.return answer
     | Inr idempotency \<Rightarrow> do {
         answer \<leftarrow> create_work H idempotency;
         create_leave;
         State_Monad.return answer
       }
   }"

definition joinRoom :: "'w HttpServer \<Rightarrow> Request \<Rightarrow> ('w api, http_response) state" where
  "joinRoom H r = do {
     allowed \<leftarrow> take_permit joinLimit (\<lambda>l a. a\<lparr>joinLimit := l\<rparr>) H r;
     if \<not> allowed then State_Monad.return (writeError 429 ''rate limit exceeded'')
     else case decodeJSON decode_join_request (MaxBodyBytes (http_cfg H)) r of
       None \<Rightarrow> State_Monad.return (writeError 400 ''invalid request'')
     | Some code \<Rightarrow>
         if code = [] then State_Monad.return (writeError 400 ''invalid request'')
         else do {
           res \<leftarrow> in_svc (rooms_Join (service H) code);
           case res of
             Inl e \<Rightarrow>
               if errors_Is e ErrInvalidRoom
               then State_Monad.return (writeError 404 ''room unavailable'')
               else do {
                 log_Printf (''room join failed: '' @ err_text e);
                 State_Monad.return (writeError 500 ''room unavailable'')
               }
           | Inr response \<Rightarrow>
               State_Monad.return (writeJSON 200 (encode_RoomResponse (response\<lparr>resp_RoomCode := []\<rparr>)))
         }
   }"

definition list_peers :: "'w HttpServer \<Rightarrow> string \<Rightarrow> Request \<Rightarrow> ('w api, http_response) state" where
  "list_peers H code r = do {
     allowed \<leftarrow> take_permit peerLimit (\<lambda>l a. a\<lparr>peerLimit := l\<rparr>) H r;
     if \<not> allowed then State_Monad.return (writeError 429 ''rate limit exceeded'')
     else do {
       res \<leftarrow> in_svc (rooms_Peers (service H) code);
       case res of
         Inl e \<Rightarrow>
           if errors_Is e ErrInvalidRoom
           then State_Monad.return (writeError 404 ''room unavailable'')
           else do {
             log_Printf (''peer listing failed: '' @ err_text e);
             State_Monad.return (writeError 502 ''peer listing unavailable'')
           }
       | Inr response \<Rightarrow> State_Monad.return (writeJSON 200 (encode_PeerResponse response))
     }
   }"

definition disable_room :: "'w HttpServer \<Rightarrow> string \<Rightarrow> Request \<Rightarrow> ('w api, http_response) state" where
  "disable_room H code r =
     (if \<not> authorizedAdmin (http_cfg H) r
      then State_Monad.return (writeError 401 ''unauthorized'')
      else do {
        res \<leftarrow> in_svc (rooms_Disable (service H) code);
        case res of
          Inl e \<Rightarrow>
            if errors_Is e ErrInvalidRoom
            then State_Monad.return (writeError 404 ''room unavailable'')
            else do {
              log_Printf (''room disable failed: '' @ err_text e);
              State_Monad.return (writeError 502 ''room disable failed'')
            }
        | Inr _ \<Rightarrow> State_Monad.return \<lparr>rs_status = 204, rs_headers = [], rs_body = []\<rparr>
      })"

definition roomAction :: "'w HttpServer \<Rightarrow> Request \<Rightarrow> ('w api, http_response) state" where
  "roomAction H r =
     (case Split CHR ''/'' (Trim CHR ''/'' (Path r)) of
        [_, code, action] \<Rightarrow>
          if code = [] then State_Monad.return (writeError 404 ''not found'')
          else if Method r = ''GET'' \<and> action = ''peers'' then list_peers H code r
          else if Method r = ''POST'' \<and> action = ''disable'' then disable_room H code r
          else State_Monad.return (writeError 404 ''not found'')
      | _ \<Rightarrow> State_Monad.return (writeError 404 ''not found''))"

definition serve :: "'w HttpServer \<Rightarrow> Request \<Rightarrow> ('w api, http_response) state" where
  "serve H r =
     (if Path r = ''/healthz'' \<or> Path r = ''/rooms/healthz''
      then State_Monad.return (writeJSON 200 (JObj [(''status'', JStr ''ok'')]))
      else if Method r = ''POST'' \<and> Path r = ''/rooms'' then createRoom H r
      else if Method r = ''POST'' \<and> Path r = ''/rooms/join'' then joinRoom H r
      else if HasPrefix (Path r) ''/rooms/'' then roomAction H r
      else State_Monad.return http_NotFound)"

definition ServeHTTP :: "'w HttpServer \<Rightarrow> Request \<Rightarrow> ('w api, http_response) state" where
  "ServeHTTP H r = do {
     begun \<leftarrow> in_svc (in_ext (clock (service H)));
     answer \<leftarrow> serve H r;
     now \<leftarrow> in_svc (in_ext (clock (service H)));
     in_svc (audit_Event ''http_request''
       [(''method'', JStr (Method r)), (''path'', JStr (Path r)),
        (''status'', JNum (show_int (rs_status answer))),
        (''duration_ms'', JNum (show_int (time_Sub now begun sdiv millisecond))),
        (''remote'', JStr (remoteIP r))]);
     State_Monad.return answer
   }"

end
