(* ===== verification/RoomConfig.thy ===== *)
theory RoomConfig
  imports RoomCrypto HttpApi
begin

text \<open>
  \<open>room-api/internal/config/config.go\<close>: the configuration of the room API from environment
  variables, and what \<open>main\<close> makes of it.  The environment is a function that gives the empty
  string for a variable that is not set, like \<open>os.Getenv\<close>.
\<close>

section \<open>Base64\<close>

text \<open>\<open>base64.StdEncoding\<close>: padded, line breaks skipped, spare bits of the last group ignored.\<close>

definition b64_alphabet :: string where
  "b64_alphabet = ''ABCDEFGHIJKLMNOPQRSTUVWXYZabcdefghijklmnopqrstuvwxyz0123456789+/''"

definition b64_value :: "char \<Rightarrow> nat option" where
  "b64_value c = index_of c b64_alphabet"

definition b64_bytes :: "nat \<Rightarrow> nat \<Rightarrow> nat \<Rightarrow> nat \<Rightarrow> string" where
  "b64_bytes w x y z =
     [char_of (4 * w + x div 16), char_of (16 * (x mod 16) + y div 4), char_of (64 * (y mod 4) + z)]"

fun b64_groups :: "string \<Rightarrow> string option" where
  "b64_groups [] = Some []"
| "b64_groups (a # b # c # d # s) =
     (case (b64_value a, b64_value b) of
        (Some w, Some x) \<Rightarrow>
          if s = [] \<and> c = CHR ''='' \<and> d = CHR ''='' then Some (take 1 (b64_bytes w x 0 0))
          else (case (b64_value c, b64_value d) of
              (Some y, Some z) \<Rightarrow> map_option ((@) (b64_bytes w x y z)) (b64_groups s)
            | (Some y, None) \<Rightarrow> if s = [] \<and> d = CHR ''='' then Some (take 2 (b64_bytes w x y 0)) else None
            | _ \<Rightarrow> None)
      | _ \<Rightarrow> None)"
| "b64_groups _ = None"

definition b64_DecodeString :: "string \<Rightarrow> string option" where
  "b64_DecodeString s = b64_groups (filter (\<lambda>c. c \<noteq> CHR 0x0A \<and> c \<noteq> CHR 0x0D) s)"

section \<open>Load\<close>

record Config =
  cfg_Addr :: string
  cfg_ManagementURL :: string
  cfg_PAT :: string
  cfg_EncryptionKey :: string
  cfg_DBPath :: string
  cfg_AdminToken :: string
  cfg_CreateRatePerMinute :: int
  cfg_JoinRatePerMinute :: int
  cfg_PeerRatePerMinute :: int
  cfg_MaxBodyBytes :: int
  cfg_ProvisionConcurrency :: int

type_synonym environ = "string \<Rightarrow> string"

definition env :: "environ \<Rightarrow> string \<Rightarrow> string \<Rightarrow> string" where
  "env getenv name fallback = (if getenv name \<noteq> [] then getenv name else fallback)"

definition intEnv :: "environ \<Rightarrow> string \<Rightarrow> int \<Rightarrow> int" where
  "intEnv getenv name fallback =
     (case Atoi (env getenv name (show_int fallback)) of None \<Rightarrow> fallback | Some v \<Rightarrow> v)"

text \<open>\<open>strconv.ParseInt\<close> with base 10 and 64 bits reads what \<open>Atoi\<close> reads.\<close>

definition int64Env :: "environ \<Rightarrow> string \<Rightarrow> int \<Rightarrow> int" where
  "int64Env getenv name fallback =
     (case Atoi (env getenv name (show_int fallback)) of None \<Rightarrow> fallback | Some v \<Rightarrow> v)"

definition encryptionKey :: "Primitives \<Rightarrow> string \<Rightarrow> goerr + string" where
  "encryptionKey P v =
     (if v = [] then Inl (Message ''ROOM_API_ENCRYPTION_KEY is required'')
      else case b64_DecodeString v of
        Some decoded \<Rightarrow>
          if length decoded = 32 then Inr decoded
          else if length v = 32 then Inr v else Inr (sha256 P v)
      | None \<Rightarrow> if length v = 32 then Inr v else Inr (sha256 P v))"

definition load_fields :: "environ \<Rightarrow> Config" where
  "load_fields getenv =
     \<lparr>cfg_Addr = env getenv ''ROOM_API_ADDR'' '':8080'',
      cfg_ManagementURL =
        TrimRight CHR ''/'' (env getenv ''NETBIRD_MANAGEMENT_URL'' ''https://legengen.top''),
      cfg_PAT = getenv ''NETBIRD_PAT'',
      cfg_EncryptionKey = [],
      cfg_DBPath = env getenv ''ROOM_API_DB_PATH'' ''/var/lib/room-api/rooms.db'',
      cfg_AdminToken = getenv ''ROOM_API_ADMIN_TOKEN'',
      cfg_CreateRatePerMinute = intEnv getenv ''ROOM_API_CREATE_RATE_PER_MINUTE'' 5,
      cfg_JoinRatePerMinute = intEnv getenv ''ROOM_API_JOIN_RATE_PER_MINUTE'' 30,
      cfg_PeerRatePerMinute = intEnv getenv ''ROOM_API_PEER_RATE_PER_MINUTE'' 60,
      cfg_MaxBodyBytes = int64Env getenv ''ROOM_API_MAX_BODY_BYTES'' 4096,
      cfg_ProvisionConcurrency = intEnv getenv ''ROOM_API_PROVISION_CONCURRENCY'' 2\<rparr>"

definition Load :: "Primitives \<Rightarrow> environ \<Rightarrow> goerr + Config" where
  "Load P getenv =
     (let c = load_fields getenv
      in if cfg_PAT c = [] then Inl (Message ''NETBIRD_PAT is required'')
         else if cfg_CreateRatePerMinute c < 1 \<or> cfg_JoinRatePerMinute c < 1 \<or>
                 cfg_PeerRatePerMinute c < 1 \<or> cfg_ProvisionConcurrency c < 1
         then Inl (Message ''rate limits and provision concurrency must be positive'')
         else case encryptionKey P (getenv ''ROOM_API_ENCRYPTION_KEY'') of
           Inl e \<Rightarrow> Inl e
         | Inr key \<Rightarrow> Inr (c\<lparr>cfg_EncryptionKey := key\<rparr>))"

section \<open>What main wires together\<close>

definition main_service ::
  "Config \<Rightarrow> Primitives \<Rightarrow> 'w random \<Rightarrow> ('w, time) state \<Rightarrow> 'w transport \<Rightarrow> 'w Service" where
  "main_service c P rnd clk http =
     \<lparr>nb = client_api (netbird_New (cfg_ManagementURL c) (cfg_PAT c) http),
      ManagementURL = cfg_ManagementURL c, EncryptionKey = cfg_EncryptionKey c,
      prims = P, rand_Read = rnd, clock = clk\<rparr>"

definition main_handler :: "Config \<Rightarrow> 'w Service \<Rightarrow> 'w HttpServer" where
  "main_handler c S =
     \<lparr>service = S,
      http_cfg = \<lparr>AdminToken = cfg_AdminToken c, MaxBodyBytes = cfg_MaxBodyBytes c,
                  CreateRatePerMinute = cfg_CreateRatePerMinute c,
                  JoinRatePerMinute = cfg_JoinRatePerMinute c,
                  PeerRatePerMinute = cfg_PeerRatePerMinute c,
                  ProvisionConcurrency = nat (cfg_ProvisionConcurrency c)\<rparr>\<rparr>"

section \<open>A loaded configuration is usable\<close>

text \<open>SHA-256 digests have 32 bytes.\<close>

definition digest_size :: "Primitives \<Rightarrow> bool" where
  "digest_size P \<longleftrightarrow> (\<forall>v. length (sha256 P v) = 32)"

lemma encryptionKey_length: "digest_size P \<Longrightarrow> encryptionKey P v = Inr key \<Longrightarrow> length key = 32"
  by (auto simp: encryptionKey_def digest_size_def split: if_splits option.splits)

lemma TrimRight_last: "TrimRight c s \<noteq> [] \<Longrightarrow> last (TrimRight c s) \<noteq> c"
  using hd_dropWhile [of "\<lambda>x. x = c" "rev s"] by (simp add: TrimRight_def last_rev)

lemma Load_InrD:
  assumes "Load P getenv = Inr c"
  shows "\<exists>key. encryptionKey P (getenv ''ROOM_API_ENCRYPTION_KEY'') = Inr key \<and>
    c = (load_fields getenv)\<lparr>cfg_EncryptionKey := key\<rparr> \<and> cfg_PAT (load_fields getenv) \<noteq> [] \<and>
    \<not> (cfg_CreateRatePerMinute (load_fields getenv) < 1 \<or> cfg_JoinRatePerMinute (load_fields getenv) < 1 \<or>
       cfg_PeerRatePerMinute (load_fields getenv) < 1 \<or> cfg_ProvisionConcurrency (load_fields getenv) < 1)"
proof (cases "encryptionKey P (getenv ''ROOM_API_ENCRYPTION_KEY'')")
  case (Inl e)
  then show ?thesis using assms unfolding Load_def Let_def by (metis Inl_Inr_False sum.case(1))
next
  case (Inr key)
  then show ?thesis using assms unfolding Load_def Let_def by (metis Inl_Inr_False sum.case(2) sum.inject(2))
qed

text \<open>
  A configuration that \<open>Load\<close> accepts can be used: it has a NetBird token, the limits that
  keep the limiters and the provisioning slots working, a management URL that does not end in
  a slash, and an encryption key of 32 bytes, whatever form it was given in, so that no call
  of \<open>Seal\<close> or \<open>Open\<close> refuses the key.
\<close>

theorem Load_usable:
  assumes "digest_size P" and "Load P getenv = Inr c"
  shows "cfg_PAT c \<noteq> [] \<and> 1 \<le> cfg_CreateRatePerMinute c \<and> 1 \<le> cfg_JoinRatePerMinute c \<and>
    1 \<le> cfg_PeerRatePerMinute c \<and> 1 \<le> cfg_ProvisionConcurrency c \<and>
    (cfg_ManagementURL c \<noteq> [] \<longrightarrow> last (cfg_ManagementURL c) \<noteq> CHR ''/'') \<and>
    length (cfg_EncryptionKey c) = 32 \<and>
    NewCipher (cfg_EncryptionKey c) = Inr (cfg_EncryptionKey c)"
proof -
  let ?c = "load_fields getenv"
  obtain key where key: "encryptionKey P (getenv ''ROOM_API_ENCRYPTION_KEY'') = Inr key"
    and c: "c = ?c\<lparr>cfg_EncryptionKey := key\<rparr>"
    and ok: "cfg_PAT ?c \<noteq> []" "\<not> (cfg_CreateRatePerMinute ?c < 1 \<or> cfg_JoinRatePerMinute ?c < 1 \<or>
                 cfg_PeerRatePerMinute ?c < 1 \<or> cfg_ProvisionConcurrency ?c < 1)"
    using assms(2) Load_InrD by blast
  have "length key = 32" using encryptionKey_length [OF assms(1) key] .
  moreover have "cfg_ManagementURL ?c \<noteq> [] \<longrightarrow> last (cfg_ManagementURL ?c) \<noteq> CHR ''/''"
    using TrimRight_last by (simp add: load_fields_def)
  ultimately show ?thesis using ok by (simp add: c NewCipher_def)
qed

definition sample_environ :: environ where
  "sample_environ name =
     (if name = ''NETBIRD_PAT'' then ''token''
      else if name = ''ROOM_API_ENCRYPTION_KEY'' then ''secret''
      else if name = ''NETBIRD_MANAGEMENT_URL'' then ''https://nb.example//'' else [])"

definition digest_prims :: Primitives where
  "digest_prims = \<lparr>sha256 = (\<lambda>s. replicate 32 CHR ''d''), gcm_seal = (\<lambda>k n p. p),
                   gcm_open = (\<lambda>k n c. Some c)\<rparr>"

lemma sample_Load:
  "Load digest_prims sample_environ = Inr ((load_fields sample_environ)\<lparr>cfg_EncryptionKey := replicate 32 CHR ''d''\<rparr>)"
  "cfg_ManagementURL (load_fields sample_environ) = ''https://nb.example''"
  unfolding Load_def Let_def
  by (simp_all add: load_fields_def sample_environ_def env_def intEnv_def Atoi_show_int min_int64_def
      max_int64_def encryptionKey_def b64_DecodeString_def b64_value_def b64_alphabet_def index_of_def
      digest_prims_def TrimRight_def numeral_eq_Suc)

theorem Load_usable_witness:
  "1 \<le> cfg_ProvisionConcurrency (load_fields sample_environ) \<and>
     last (cfg_ManagementURL (load_fields sample_environ)) \<noteq> CHR ''/''"
proof -
  have "digest_size digest_prims" by (simp add: digest_size_def digest_prims_def)
  from Load_usable [OF this sample_Load(1)] show ?thesis by (simp add: sample_Load(2))
qed

end
