(* ===== verification/RoomServiceFrames.thy ===== *)
theory RoomServiceFrames
  imports RoomService
begin

text \<open>
  What the operations of the room service may change, for every world, every pattern of database
  faults and every answer of NetBird.  Three relations between the state before and after:
  \<open>server_keys\<close>, the database invariant is kept; \<open>tables_same\<close>, no row is touched;
  \<open>only_room k\<close>, no room is added or removed and only the one with id \<open>k\<close> may change.
\<close>

section \<open>The relations\<close>

definition server_keys :: "'w server \<Rightarrow> 'w server \<Rightarrow> bool" where
  "server_keys s t = keys_kept (db s) (db t)"

definition tables_same :: "'w server \<Rightarrow> 'w server \<Rightarrow> bool" where
  "tables_same s t \<longleftrightarrow> rooms (db t) = rooms (db s) \<and> operations (db t) = operations (db s)"

definition only_room :: "string \<Rightarrow> 'w server \<Rightarrow> 'w server \<Rightarrow> bool" where
  "only_room k s t \<longleftrightarrow>
     map ID (rooms (db t)) = map ID (rooms (db s)) \<and>
     filter (\<lambda>r. ID r \<noteq> k) (rooms (db t)) = filter (\<lambda>r. ID r \<noteq> k) (rooms (db s))"

interpretation keys_frame: frame_relation server_keys
  by unfold_locales (auto simp: server_keys_def keys_kept_def)

interpretation same_frame: frame_relation tables_same
  by unfold_locales (auto simp: tables_same_def)

interpretation room_frame: frame_relation "only_room k" for k
  by unfold_locales (auto simp: only_room_def)

section \<open>Steps\<close>

lemma keys_in_db: "db_frame.keeps m \<Longrightarrow> keys_frame.keeps (in_db m)"
  by (auto simp: db_frame.keeps_def keys_frame.keeps_def in_db_def run_on_field server_keys_def
      split: prod.splits) (metis snd_conv)

lemma keys_in_ext: "keys_frame.keeps (in_ext m)"
  unfolding in_ext_def by (rule keys_frame.keeps_on_field) (simp add: server_keys_def keys_kept_def)

lemma keys_audit: "keys_frame.keeps (audit_Event name fs)"
  by (simp add: keys_frame.keeps_def audit_Event_def State_Monad.update_def server_keys_def
      keys_kept_def)

lemma same_in_ext: "same_frame.keeps (in_ext m)"
  unfolding in_ext_def by (rule same_frame.keeps_on_field) (simp add: tables_same_def)

lemma same_audit: "same_frame.keeps (audit_Event name fs)"
  by (simp add: same_frame.keeps_def audit_Event_def State_Monad.update_def tables_same_def)

lemma same_query: "same_frame.keeps (in_db (QueryContext q))"
proof (rule same_frame.keepsI)
  fix s a t
  assume "run_state (in_db (QueryContext q)) s = (a, t)"
  then show "tables_same s t"
    using next_fault_cases [of "db s"]
    by (auto simp: in_db_def run_on_field QueryContext_def tables_same_def split: option.splits)
qed

lemma in_db_go_try: "in_db (go_try m f) = go_try (in_db m) (\<lambda>x. in_db (f x))"
  by (rule state.expand) (auto simp: in_db_def run_on_field run_go_try split: prod.splits sum.splits)

lemma in_db_return: "in_db (State_Monad.return x) = State_Monad.return x"
  by (rule state.expand) (auto simp: in_db_def run_on_field)

lemma same_lookups:
  "same_frame.keeps (in_db (GetOperation key))" "same_frame.keeps (in_db (GetRoom k))"
  "same_frame.keeps (in_db (GetRoomByCodeHash h))"
  "same_frame.keeps (in_db (ListOperationsByStatus status))"
  unfolding GetOperation_def GetRoom_def GetRoomByCodeHash_def ListOperationsByStatus_def
    scanRoom_def in_db_go_try in_db_return
  by (intro same_frame.keeps_intros same_query;
      auto simp: in_db_return intro: same_frame.keeps_return split: option.splits)+

lemma tables_only_room: "tables_same s t \<Longrightarrow> only_room k s t"
  by (simp add: tables_same_def only_room_def)

lemma room_same: "same_frame.keeps m \<Longrightarrow> room_frame.keeps k m"
  by (simp add: same_frame.keeps_def room_frame.keeps_def tables_only_room)

lemma filter_update_where_other:
  "(\<And>x. p x \<Longrightarrow> \<not> q x \<and> \<not> q (f x)) \<Longrightarrow> filter q (update_where p f xs) = filter q xs"
  by (induction xs) auto

lemma only_room_exec:
  assumes "\<And>d n d'. stmt d = Inr (n, d') \<Longrightarrow>
    rooms d' = rooms d \<or> (\<exists>f. (\<forall>r. ID (f r) = ID r) \<and> rooms d' = update_where (\<lambda>r. ID r = k) f (rooms d))"
  shows "room_frame.keeps k (in_db (exec_stmt stmt))"
proof (rule room_frame.keepsI)
  fix s a t
  assume r: "run_state (in_db (exec_stmt stmt)) s = (a, t)"
  obtain f fs where nf: "run_state next_fault (db s) = (f, (db s)\<lparr>faults := fs\<rparr>)"
    using next_fault_cases by blast
  have "only_room k s (s\<lparr>db := d'\<rparr>)" if "stmt ((db s)\<lparr>faults := fs\<rparr>) = Inr (n, d')" for n d'
    using assms [OF that] by (auto simp: only_room_def filter_update_where_other)
  then show "only_room k s t"
    using r nf
    by (auto simp: in_db_def run_on_field exec_stmt_def run_go_try ExecContext_def only_room_def
        split: option.splits sum.splits prod.splits)
qed

lemma only_room_update_rooms:
  "(\<And>r. ID (f r) = ID r) \<Longrightarrow> room_frame.keeps k (in_db (exec_stmt (update_rooms (\<lambda>r. ID r = k) f)))"
  by (intro only_room_exec disjI2 exI [of _ f]) (auto simp: update_rooms_def)

lemma only_room_update_operations:
  "room_frame.keeps k (in_db (exec_stmt (update_operations p f)))"
  by (intro only_room_exec disjI1) (auto simp: update_operations_def)

lemma room_statements:
  "room_frame.keeps k (in_db (SetStatus k status e))"
  "room_frame.keeps k (in_db (UpdateExternalIDs k g sk p c))"
  "room_frame.keeps k (in_db (store_Disable k now))"
  "room_frame.keeps k (in_db (SaveOperation key response status))"
  "room_frame.keeps k (in_db (ResetOperation key roomID))"
  unfolding SetStatus_def UpdateExternalIDs_def store_Disable_def SaveOperation_def
    ResetOperation_def
  by (rule only_room_update_rooms only_room_update_operations; simp)+

lemma room_BeginOperation: "room_frame.keeps k (in_db (BeginOperation key roomID now))"
proof -
  have "BeginOperation key roomID now =
     go_try (ExecContext (insert_or_ignore_operation
          \<lparr>IdempotencyKey = key, RoomID = roomID, Response = [],
           OpStatus = ''creating'', OpCreatedAt = now\<rparr>)) (\<lambda>n. ok (n = 1))"
    by (rule BeginOperation_def)
  moreover have "room_frame.keeps k (in_db (ExecContext (insert_or_ignore_operation op)))" for op
  proof (rule room_frame.keepsI)
    fix s a t
    assume r: "run_state (in_db (ExecContext (insert_or_ignore_operation op))) s = (a, t)"
    obtain f fs where "run_state next_fault (db s) = (f, (db s)\<lparr>faults := fs\<rparr>)"
      using next_fault_cases by blast
    with r show "only_room k s t"
      by (auto simp: in_db_def run_on_field ExecContext_def only_room_def
          insert_or_ignore_operation_def split: option.splits if_splits)
  qed
  ultimately show ?thesis
    by (auto simp: in_db_go_try in_db_return intro!: room_frame.keeps_go_try room_frame.keeps_return)
qed

lemmas room_steps =
  room_frame.keeps_intros room_statements room_BeginOperation
  room_same [OF same_in_ext] room_same [OF same_audit]
  room_same [OF same_lookups(1)] room_same [OF same_lookups(2)] room_same [OF same_lookups(3)]

lemmas keys_steps =
  keys_frame.keeps_intros keys_in_ext keys_audit keys_statements [THEN keys_in_db]

section \<open>The operations\<close>

lemmas create_stages =
  rooms_Create_def create_lookup_def create_begin_def provision_room_def provision_key_def
  provision_policy_def finish_room_def rooms_fail_def room_group_def findGroup_def undo_key_def
  undo_group_def Let_def

lemma keys_Create: "keys_frame.keeps (rooms_Create S key)"
  unfolding create_stages
  by (intro keys_steps; (simp split: create_lookup.split)?; (intro allI conjI impI keys_steps)?)

lemma keys_reconcile_operation: "keys_frame.keeps (reconcile_operation S op)"
  unfolding reconcile_operation_def remove_resources_def by (intro keys_steps)

lemma keys_reconcile_operations: "keys_frame.keeps (reconcile_operations S ops)"
  by (induction ops) (auto intro!: keys_steps keys_reconcile_operation)

lemma keys_Reconcile: "keys_frame.keeps (rooms_Reconcile S)"
  unfolding rooms_Reconcile_def by (intro keys_steps keys_reconcile_operations)

lemma keys_Join: "keys_frame.keeps (rooms_Join S code)"
  unfolding rooms_Join_def code_room_def by (intro keys_steps)

lemma keys_Peers: "keys_frame.keeps (rooms_Peers S code)"
  unfolding rooms_Peers_def code_room_def by (intro keys_steps)

lemma keys_Disable: "keys_frame.keeps (rooms_Disable S code)"
  unfolding rooms_Disable_def code_room_def by (intro keys_steps)

lemma keys_DisableDefaultPolicy: "keys_frame.keeps (DisableDefaultPolicy S)"
  unfolding DisableDefaultPolicy_def by (intro keys_steps)

lemma same_Join: "same_frame.keeps (rooms_Join S code)"
  unfolding rooms_Join_def code_room_def
  by (intro same_frame.keeps_intros same_lookups same_in_ext same_audit)

lemma same_Peers: "same_frame.keeps (rooms_Peers S code)"
  unfolding rooms_Peers_def code_room_def
  by (intro same_frame.keeps_intros same_lookups same_in_ext same_audit)

lemma same_DisableDefaultPolicy: "same_frame.keeps (DisableDefaultPolicy S)"
  unfolding DisableDefaultPolicy_def
  by (intro same_frame.keeps_intros same_in_ext same_audit)

lemma same_create_lookup: "same_frame.keeps (create_lookup S key)"
  unfolding create_lookup_def by (intro same_frame.keeps_intros same_lookups)

lemma room_create_begin: "room_frame.keeps k (create_begin S key retry roomID)"
  unfolding create_begin_def by (intro room_steps)

lemma room_rooms_fail: "room_frame.keeps k (rooms_fail k key e)"
  unfolding rooms_fail_def by (intro room_steps)

lemma room_provision_key: "room_frame.keeps k (provision_key S key k code grp created)"
  unfolding provision_key_def provision_policy_def finish_room_def undo_key_def undo_group_def
    Let_def
  by (intro room_steps room_rooms_fail)

lemma room_room_group: "room_frame.keeps k (room_group S name)"
  unfolding room_group_def findGroup_def by (intro room_steps)

end
