(* ===== verification/RoomServiceSpec.thy ===== *)
theory RoomServiceSpec
  imports RoomServiceFrames
begin

text \<open>
  What the operations of the room service achieve: the row a successful \<open>Create\<close> leaves behind,
  the answer to a repeated request, what \<open>Join\<close> and \<open>Peers\<close> disclose, and what \<open>Disable\<close> and
  \<open>Reconcile\<close> leave.  All of it holds for any NetBird and any pattern of database faults unless
  a database without faults is assumed.
\<close>

section \<open>Rules for the steps\<close>

lemma wp_in_ext_any: "(\<And>a w. Q a (s\<lparr>ext := w\<rparr>)) \<Longrightarrow> wp (in_ext m) Q s"
  by (simp add: in_ext_def wp_simps wp_any)

lemma wps_in_ext_any: "(\<And>x w. Q x (s\<lparr>ext := w\<rparr>)) \<Longrightarrow> wps (in_ext m) Q s"
  by (simp add: in_ext_def wps_simps wps_any)

lemma wps_in_db: "wps m (\<lambda>x d. Q x (s\<lparr>db := d\<rparr>)) (db s) \<Longrightarrow> wps (in_db m) Q s"
  by (simp add: in_db_def wps_simps)

lemma wp_audit [wp_simps]:
  "wp (audit_Event name kvs) Q s = Q () (s\<lparr>audit_log := audit_log s @
       [(name, JObj ((''event'', JStr name) # kvs))]\<rparr>)"
  by (simp add: audit_Event_def wp_simps)

lemma wps_bind_case:
  "(\<And>e t. wps (f e) Q t) \<Longrightarrow> wps m (\<lambda>x t. wps (g x) Q t) s \<Longrightarrow>
     wps (State_Monad.bind m (\<lambda>r. case r of Inl e \<Rightarrow> f e | Inr x \<Rightarrow> g x)) Q s"
  unfolding wps_bind by (rule wp_wps, assumption, simp_all)

lemma wps_fail: "wps (rooms_fail roomID key e) Q s"
  unfolding rooms_fail_def by (simp add: wps_bind wp_any wps_err)

lemma wps_then_fail: "(\<And>t. wps n Q t) \<Longrightarrow> wps (State_Monad.bind m (\<lambda>_. n)) Q s"
  by (simp add: wps_bind wp_any)

lemma wps_Seal:
  assumes "gcm_correct P" and "random_exact rnd"
    and "\<And>c w. crypto_Open P k c = Inr p \<Longrightarrow> Q c (s\<lparr>ext := w\<rparr>)"
  shows "wps (in_ext (Seal P rnd k p)) Q s"
  unfolding in_ext_def wps_on_field
  by (rule wpsI) (auto intro: assms(3) Seal_Open [OF assms(1,2)])

lemma update_where_fresh: "k \<notin> g ` set xs \<Longrightarrow> update_where (\<lambda>r. g r = k) f xs = xs"
  by (rule update_where_none) auto

section \<open>The stages of Create\<close>

definition sealed_services :: "'w Service \<Rightarrow> bool" where
  "sealed_services S \<longleftrightarrow> gcm_correct (prims S) \<and> random_exact (rand_Read S)"

definition saved_response :: "'w Service \<Rightarrow> string \<Rightarrow> RoomResponse \<Rightarrow> Store \<Rightarrow> bool" where
  "saved_response S key resp d \<longleftrightarrow>
     (\<exists>op. op_by_key key d = Some op \<and> OpStatus op = ''active'' \<and>
        crypto_Open (prims S) (EncryptionKey S) (Response op) = Inr (render (encode_RoomResponse resp)))"

definition has_operation :: "string \<Rightarrow> Store \<Rightarrow> bool" where
  "has_operation key d \<longleftrightarrow> key \<in> IdempotencyKey ` set (operations d)"

lemma has_operation_record [simp]:
  "has_operation key (d\<lparr>rooms := rs\<rparr>) = has_operation key d"
  "has_operation key (d\<lparr>faults := fs\<rparr>) = has_operation key d"
  by (auto simp: has_operation_def)

lemma op_by_key_update:
  "(\<And>op. IdempotencyKey (f op) = IdempotencyKey op) \<Longrightarrow> key \<in> IdempotencyKey ` set (operations d) \<Longrightarrow>
     \<exists>op. op_by_key key d = Some op \<and>
       find (\<lambda>op. IdempotencyKey op = key)
         (update_where (\<lambda>op. IdempotencyKey op = key) f (operations d)) = Some (f op)"
  by (cases "op_by_key key d")
     (auto simp: op_by_key_def find_update_where_same find_None_key dest: find_Some_in)

definition active_room :: "'w Service \<Rightarrow> RoomResponse \<Rightarrow> Room \<Rightarrow> bool" where
  "active_room S resp room \<longleftrightarrow>
     ID room = resp_RoomID resp \<and> Status room = ''active'' \<and>
     CodeHash room = Hash (prims S) (resp_RoomCode resp) \<and>
     crypto_Open (prims S) (EncryptionKey S) (CodeCiphertext room) = Inr (resp_RoomCode resp) \<and>
     crypto_Open (prims S) (EncryptionKey S) (SetupKeyCiphertext room) = Inr (resp_SetupKey resp) \<and>
     resp_ManagementURL resp = ManagementURL S"

text \<open>The answer of a successful \<open>Create\<close>, and its copy for the next request with the same key.\<close>

definition created_response ::
  "'w Service \<Rightarrow> string \<Rightarrow> string \<Rightarrow> string \<Rightarrow> SetupKeyClear \<Rightarrow> RoomResponse \<Rightarrow> 'w server \<Rightarrow> bool" where
  "created_response S key roomID code k resp t \<longleftrightarrow>
     resp = \<lparr>resp_RoomID = roomID, resp_RoomCode = code, resp_ManagementURL = ManagementURL S,
             resp_SetupKey = skc_Key k\<rparr> \<and>
     (key \<noteq> [] \<longrightarrow> saved_response S key resp (db t))"

lemma wps_finish_room:
  assumes "sealed_services S" and "rooms (db s) = rs @ [r]" and "ID r = roomID"
    and "roomID \<notin> ID ` set rs" and "key \<noteq> [] \<Longrightarrow> has_operation key (db s)"
  shows "wps (finish_room S key roomID code grp k)
    (\<lambda>resp t. rooms (db t) = rs @ [r\<lparr>Status := ''active'', LastError := []\<rparr>] \<and>
       created_response S key roomID code k resp t) s"
proof -
  let ?resp = "\<lparr>resp_RoomID = roomID, resp_RoomCode = code, resp_ManagementURL = ManagementURL S,
               resp_SetupKey = skc_Key k\<rparr>"
  have saved: "saved_response S key ?resp d"
    if "has_operation key d'"
      and "crypto_Open (prims S) (EncryptionKey S) c = Inr (render (encode_RoomResponse ?resp))"
      and "operations d = update_where (\<lambda>op. IdempotencyKey op = key)
            (\<lambda>op. op\<lparr>Response := c, OpStatus := ''active''\<rparr>) (operations d')"
    for d d' c
    using that op_by_key_update [of "\<lambda>op. op\<lparr>Response := c, OpStatus := ''active''\<rparr>" key d']
    by (auto simp: saved_response_def op_by_key_def has_operation_def)
  have fresh: "update_where (\<lambda>r. ID r = roomID) f (rs @ [r]) = rs @ [f r]" for f
    using assms(3,4) by (simp add: update_where_fresh)
  show ?thesis
    unfolding finish_room_def Let_def wps_go_try SetStatus_def
    apply (intro wps_in_db wps_update_rooms)
    using assms(1,2,5)
    by (cases "key = []")
       (auto simp: wps_simps wp_simps fresh SaveOperation_def sealed_services_def
          created_response_def
          intro!: wps_Seal wps_in_db wps_update_operations saved [where d' = "db s"]
          simp del: update_where_append)
qed


definition provisioned ::
  "'w Service \<Rightarrow> string \<Rightarrow> string \<Rightarrow> Room list \<Rightarrow> Room \<Rightarrow> RoomResponse \<Rightarrow> 'w server \<Rightarrow> bool" where
  "provisioned S key code rs r resp t \<longleftrightarrow>
     (\<exists>(grp :: Group) k c pid.
        rooms (db t) = rs @ [r\<lparr>GroupID := g_ID grp, SetupKeyID := sk_ID (skc_SetupKey k),
          SetupKeyCiphertext := c, PolicyID := pid, Status := ''active'', LastError := []\<rparr>] \<and>
        crypto_Open (prims S) (EncryptionKey S) c = Inr (skc_Key k) \<and>
        created_response S key (ID r) code k resp t)"

lemma wps_provision_policy:
  assumes "sealed_services S" and "rooms (db s) = rs @ [r]" and "ID r = roomID"
    and "roomID \<notin> ID ` set rs" and "key \<noteq> [] \<Longrightarrow> has_operation key (db s)"
    and "crypto_Open (prims S) (EncryptionKey S) c = Inr (skc_Key k)"
  shows "wps (provision_policy S key roomID code grp created k c)
    (\<lambda>resp t. provisioned S key code rs r resp t) s"
  unfolding provision_policy_def
proof (rule wps_bind_case, goal_cases)
  case (1 e t)
  show ?case by (intro wps_then_fail wps_fail)
next
  case 2
  show ?case
  proof (rule wps_in_ext_any, rule wps_bind_case, goal_cases)
    case (1 policy w e t)
    show ?case by (intro wps_then_fail wps_fail)
  next
    case (2 policy w)
    show ?case unfolding UpdateExternalIDs_def
    proof (rule wps_in_db, rule wps_update_rooms, goal_cases)
      case (1 fs)
      have "rooms (db s) = rs @ [r] \<Longrightarrow>
          update_where (\<lambda>r. ID r = roomID) f (rooms (db s)) = rs @ [f r]" for f
        using assms(3,4) by (simp add: update_where_fresh)
      then show ?case
        by (intro wps_mono [OF wps_finish_room [where rs = rs
              and r = "r\<lparr>GroupID := g_ID grp, SetupKeyID := sk_ID (skc_SetupKey k),
                         SetupKeyCiphertext := c, PolicyID := pol_ID policy\<rparr>",
              OF assms(1) _ _ assms(4)]])
           (use assms in \<open>auto simp: provisioned_def\<close>)
    qed
  qed
qed

lemma wps_provision_key:
  assumes "sealed_services S" and "rooms (db s) = rs @ [r]" and "ID r = roomID"
    and "roomID \<notin> ID ` set rs" and "key \<noteq> [] \<Longrightarrow> has_operation key (db s)"
  shows "wps (provision_key S key roomID code grp created)
    (\<lambda>resp t. provisioned S key code rs r resp t) s"
  unfolding provision_key_def
proof (rule wps_bind_case, goal_cases)
  case (1 e t)
  show ?case by (intro wps_then_fail wps_fail)
next
  case 2
  show ?case
  proof (rule wps_in_ext_any, rule wps_bind_case, goal_cases)
    case (1 k w e t)
    show ?case by (intro wps_then_fail wps_fail)
  next
    case (2 k w)
    have g: "gcm_correct (prims S)" "random_exact (rand_Read S)"
      using assms(1) by (simp_all add: sealed_services_def)
    show ?case
    proof (rule wps_Seal [OF g], rule wps_bind_case, goal_cases)
      case (1 c w e t)
      show ?case by (intro wps_then_fail wps_fail)
    next
      case (2 c w')
      show ?case unfolding UpdateExternalIDs_def
      proof (rule wps_in_db, rule wps_update_rooms, goal_cases)
        case (1 fs)
        have "update_where (\<lambda>r. ID r = roomID) f (rooms (db s)) = rs @ [f r]" for f
          using assms(2-4) by (simp add: update_where_fresh)
        then show ?case
          by (intro wps_mono [OF wps_provision_policy [where rs = rs
                and r = "r\<lparr>GroupID := g_ID grp, SetupKeyID := sk_ID (skc_SetupKey k),
                           SetupKeyCiphertext := c, PolicyID := []\<rparr>",
                OF assms(1) _ _ assms(4)]])
             (use assms 2 in \<open>auto simp: provisioned_def\<close>)
      qed
    qed
  qed
qed


text \<open>The row of the new room: sealed, active, under a new id and a new code hash.\<close>

definition new_room ::
  "'w Service \<Rightarrow> string \<Rightarrow> RoomResponse \<Rightarrow> 'w server \<Rightarrow> 'w server \<Rightarrow> Room \<Rightarrow> bool" where
  "new_room S key resp s t room \<longleftrightarrow>
     rooms (db t) = rooms (db s) @ [room] \<and> active_room S resp room \<and>
     ID room \<notin> ID ` set (rooms (db s)) \<and> CodeHash room \<notin> CodeHash ` set (rooms (db s)) \<and>
     (key \<noteq> [] \<longrightarrow> saved_response S key resp (db t))"

lemma wps_provision_room:
  assumes "sealed_services S" and "key \<noteq> [] \<Longrightarrow> has_operation key (db s)"
  shows "wps (provision_room S key roomID code)
    (\<lambda>resp t. resp_RoomID resp = roomID \<and> resp_RoomCode resp = code \<and>
       (\<exists>room. new_room S key resp s t room)) s"
proof -
  have g: "gcm_correct (prims S)" "random_exact (rand_Read S)"
    using assms(1) by (simp_all add: sealed_services_def)
  show ?thesis
    unfolding provision_room_def wps_go_try
  proof (rule wps_Seal [OF g], unfold wps_bind, rule wp_in_ext_any, unfold wps_go_try,
      rule wps_in_db, rule wps_CreateRoom, goal_cases)
    case (1 c w now w' fs)
    note new = this
    let ?r = "\<lparr>ID = roomID, CodeHash = Hash (prims S) code, CodeCiphertext = c,
             GroupID = [], SetupKeyID = [], SetupKeyCiphertext = [], PolicyID = [],
             Status = ''creating'', CreatedAt = now, DisabledAt = None, LastError = []\<rparr>"
    show ?case
    proof (rule wps_bind_case, rule wps_fail, unfold room_group_def findGroup_def, goal_cases)
      case 1
      show ?case
        unfolding wps_go_try
      proof (rule wps_in_ext_any, goal_cases)
        case (1 groups w'')
        have key: "wps (provision_key S key roomID code grp created)
             (\<lambda>resp t. resp_RoomID resp = roomID \<and> resp_RoomCode resp = code \<and>
                (\<exists>room. new_room S key resp s t room)) u"
          if "rooms (db u) = rooms (db s) @ [?r]" and "operations (db u) = operations (db s)"
          for grp created u
          using new that assms
          by (intro wps_mono [OF wps_provision_key [where rs = "rooms (db s)" and r = ?r]])
             (auto simp: provisioned_def new_room_def created_response_def active_room_def
                has_operation_def)
        show ?case
          by (cases "find (\<lambda>grp. g_Name grp = ''room-'' @ roomID) groups")
             (auto simp: wps_simps intro!: wps_in_ext_any key)
      qed
    qed
  qed
qed

lemma wps_create_begin:
  assumes "key \<noteq> []" and "retry \<Longrightarrow> has_operation key (db s)"
  shows "wps (create_begin S key retry roomID)
    (\<lambda>_ t. rooms (db t) = rooms (db s) \<and> has_operation key (db t)) s"
proof -
  have "has_operation key (d\<lparr>operations := update_where (\<lambda>op. IdempotencyKey op = key)
          (\<lambda>op. op\<lparr>RoomID := roomID, Response := [], OpStatus := ''creating''\<rparr>) (operations d)\<rparr>)"
    if "has_operation key d" for d
    using that by (simp add: has_operation_def)
  then show ?thesis
    using assms unfolding create_begin_def ResetOperation_def
    by (cases retry)
       (auto simp: wps_simps has_operation_def
         intro!: wps_in_db wps_update_operations wp_in_ext_any wps_BeginOperation)
qed

lemma wps_create_lookup:
  "wps (create_lookup S key) (\<lambda>l t. rooms (db t) = rooms (db s) \<and> operations (db t) = operations (db s) \<and>
     (\<forall>op. key \<noteq> [] \<longrightarrow> op_by_key key (db s) = Some op \<longrightarrow> OpStatus op = ''error'' \<longrightarrow>
        (\<forall>resp. l \<noteq> Replay resp)) \<and>
     (\<forall>resp. l = Replay resp \<longrightarrow> key \<noteq> [] \<and> op_by_key key (db s) \<noteq> None) \<and>
     (l = Proceed True \<longrightarrow> has_operation key (db s))) s"
proof -
  have "tables_same s (snd (run_state (create_lookup S key) s))"
    using same_create_lookup unfolding same_frame.keeps_def by blast
  then have same: "wps (create_lookup S key)
       (\<lambda>l t. rooms (db t) = rooms (db s) \<and> operations (db t) = operations (db s)) s"
    by (auto simp: wps_def wp_def tables_same_def split: prod.splits sum.splits)
  obtain a d where ga: "run_state (GetOperation key) (db s) = (a, d)" by fastforce
  have row: "op_by_key key (db s) = Some op" if "a = Inr op" for op
    using wpsD [OF wps_GetOperation [of key "db s" "\<lambda>op _. op_by_key key (db s) = Some op"] ga [unfolded that]]
    by simp
  then have has: "has_operation key (db s)" if "a = Inr op" for op
    using that by (auto simp: has_operation_def op_by_key_def dest: find_Some_in)
  have "wps (create_lookup S key) (\<lambda>l t.
     (\<forall>op. key \<noteq> [] \<longrightarrow> op_by_key key (db s) = Some op \<longrightarrow> OpStatus op = ''error'' \<longrightarrow>
        (\<forall>resp. l \<noteq> Replay resp)) \<and>
     (\<forall>resp. l = Replay resp \<longrightarrow> key \<noteq> [] \<and> op_by_key key (db s) \<noteq> None) \<and>
     (l = Proceed True \<longrightarrow> has_operation key (db s))) s"
    using row has ga
    by (auto simp: create_lookup_def wps_def wp_def in_db_def run_on_field
        split: sum.splits option.splits prod.splits if_splits)
  with same show ?thesis by (auto simp: wps_def wp_def split: prod.splits sum.splits)
qed


text \<open>Ids and codes are made of twelve random bytes each.\<close>

definition generated_names :: "RoomResponse \<Rightarrow> bool" where
  "generated_names resp \<longleftrightarrow>
     (\<exists>b c. length b = 12 \<and> length c = 12 \<and>
        resp_RoomID resp = hex_encode b \<and> resp_RoomCode resp = room_code c)"

lemma wps_randomID:
  "random_exact rnd \<Longrightarrow> (\<And>b w. length b = 12 \<Longrightarrow> Q (hex_encode b) (s\<lparr>ext := w\<rparr>)) \<Longrightarrow>
     wps (in_ext (randomID rnd)) Q s"
  unfolding in_ext_def wps_on_field randomID_def wps_go_try
  by (rule wpsI) (force simp: random_exact_def wps_simps)

lemma wps_randomRoomCode:
  "random_exact rnd \<Longrightarrow> (\<And>b w. length b = 12 \<Longrightarrow> Q (room_code b) (s\<lparr>ext := w\<rparr>)) \<Longrightarrow>
     wps (in_ext (randomRoomCode rnd)) Q s"
  unfolding in_ext_def wps_on_field randomRoomCode_def wps_go_try
  by (rule wpsI) (force simp: random_exact_def wps_simps)

lemma wps_Create:
  assumes "sealed_services S"
  shows "wps (rooms_Create S key)
    (\<lambda>resp t. ((\<exists>room. new_room S key resp s t room) \<and> generated_names resp) \<or>
       (key \<noteq> [] \<and> (\<exists>op. op_by_key key (db s) = Some op \<and> OpStatus op \<noteq> ''error''))) s"
  unfolding rooms_Create_def wps_go_try
proof (rule wps_mono [OF wps_create_lookup], goal_cases)
  case (1 l t)
  note look = this
  show ?case
  proof (cases l)
    case (Replay resp)
    then show ?thesis using look by (auto simp: wps_simps)
  next
    case (Proceed retry)
    have prov: "wps (provision_room S key (hex_encode b) (room_code c))
        (\<lambda>resp t. ((\<exists>room. new_room S key resp s t room) \<and> generated_names resp) \<or> Q) u"
      if "rooms (db u) = rooms (db s)" and "key \<noteq> [] \<Longrightarrow> has_operation key (db u)"
        and "length b = 12" "length c = 12" for u b c Q
      using that by (intro wps_mono [OF wps_provision_room [OF assms]])
        (auto simp: new_room_def generated_names_def)
    have rnd: "random_exact (rand_Read S)" using assms by (simp add: sealed_services_def)
    show ?thesis
    proof (cases "key = []")
      case True
      then show ?thesis
        using look Proceed
        by (auto simp: wps_simps create_begin_def
             intro!: wps_randomID [OF rnd] wps_randomRoomCode [OF rnd] prov [unfolded True, where Q = False, simplified])
    next
      case False
      then have begun: "wps (create_begin S key retry roomID) P u"
        if "rooms (db u) = rooms (db s)" "operations (db u) = operations (db s)"
          and "\<And>v. rooms (db v) = rooms (db s) \<Longrightarrow> has_operation key (db v) \<Longrightarrow> P () v" for roomID u P
        using look Proceed that
        by (intro wps_mono [OF wps_create_begin]) (auto simp: has_operation_def)
      show ?thesis
        using look Proceed False
        by (simp add: wps_simps) (intro wps_randomID [OF rnd] wps_randomRoomCode [OF rnd] begun prov; simp)
    qed
  qed
qed

section \<open>The response and its copy\<close>

definition ascii_response :: "RoomResponse \<Rightarrow> bool" where
  "ascii_response r \<longleftrightarrow>
     list_all is_ascii (resp_RoomID r) \<and> list_all is_ascii (resp_RoomCode r) \<and>
     list_all is_ascii (resp_ManagementURL r) \<and> list_all is_ascii (resp_SetupKey r)"

lemma decode_encode_RoomResponse: "decode_RoomResponse (encode_RoomResponse r) = Some r"
  by (cases r) (simp add: decode_RoomResponse_def encode_RoomResponse_def omitempty_def
      zero_RoomResponse_def EqualFold_def ascii_lower_def char_class_defs byte_def)

lemma parse_RoomResponse:
  assumes "ascii_response r"
  shows "parse_json (render (encode_RoomResponse r)) = Some (encode_RoomResponse r)"
proof (rule parse_render)
  show "ascii_json (encode_RoomResponse r)"
    using assms by (auto simp: encode_RoomResponse_def ascii_response_def omitempty_def is_ascii_def byte_def)
  show "nesting (encode_RoomResponse r) \<le> max_nesting"
    by (simp add: encode_RoomResponse_def omitempty_def max_nesting_def)
qed


section \<open>Names\<close>

lemma hex_encode_ascii: "list_all is_ascii (hex_encode b)"
proof -
  have "byte (hex_digit (byte c div 16)) < 128" "byte (hex_digit (byte c mod 16)) < 128" for c
    using less_mult_imp_div_less [of "byte c" 16 16] by (auto simp: hex_digit_def)
  then show ?thesis by (auto simp: list_all_iff hex_encode_def hex_byte_def is_ascii_def)
qed

lemma code_alphabet_member: "code_alphabet ! (byte b mod length code_alphabet) \<in> set code_alphabet"
  by (rule nth_mem) (simp add: code_alphabet_def)

lemma set_room_code: "set (room_code b) \<subseteq> insert CHR ''-'' (set code_alphabet)"
  using code_alphabet_member by (auto simp: room_code_def Let_def dest!: in_set_takeD in_set_dropD)

lemma room_code_ascii: "list_all is_ascii (room_code b)"
proof -
  have "\<forall>c \<in> insert CHR ''-'' (set code_alphabet). is_ascii c"
    by (simp add: code_alphabet_def is_ascii_def byte_def)
  then show ?thesis using set_room_code by (auto simp: list_all_iff)
qed

lemma TrimSpace_room_code: "TrimSpace (room_code b) = room_code b"
proof -
  have "\<forall>c \<in> insert CHR ''-'' (set code_alphabet). printable c"
    by (simp add: code_alphabet_def printable_def char_class_defs byte_def)
  then have "c \<in> set (room_code b) \<Longrightarrow> printable c" for c using set_room_code by blast
  then show ?thesis by (intro TrimSpace_id) auto
qed

lemma generated_names_ascii:
  "generated_names r \<Longrightarrow> list_all is_ascii (resp_RoomID r) \<and> list_all is_ascii (resp_RoomCode r)"
  by (auto simp: generated_names_def hex_encode_ascii room_code_ascii)

section \<open>Answering again, and joining\<close>

lemma run_in_db: "run_state (in_db m) s = (case run_state m (db s) of (a, d) \<Rightarrow> (a, s\<lparr>db := d\<rparr>))"
  by (simp add: in_db_def run_on_field)

lemma run_Create_replay:
  assumes "key \<noteq> []" and "saved_response S key resp (db s)" and "ascii_response resp"
    and "healthy (db s)"
  shows "run_state (rooms_Create S key) s = (Inr resp, s\<lparr>db := drop_fault (db s)\<rparr>)"
proof -
  have "run_state (create_lookup S key) s = (Inr (Replay resp), s\<lparr>db := drop_fault (db s)\<rparr>)"
    using assms
    by (auto simp: create_lookup_def run_in_db run_GetOperation saved_response_def
        parse_RoomResponse decode_encode_RoomResponse)
  then show ?thesis by (simp add: rooms_Create_def run_go_try)
qed

lemma run_code_room:
  "healthy (db s) \<Longrightarrow> run_state (code_room S code) s =
     (case room_by_hash (Hash (prims S) (TrimSpace code)) (db s) of
        None \<Rightarrow> Inl (Sentinel store_ErrNotFound) | Some r \<Rightarrow> Inr r, s\<lparr>db := drop_fault (db s)\<rparr>)"
  by (simp add: code_room_def run_in_db run_GetRoomByCodeHash)

lemma run_Join:
  assumes "healthy (db s)"
  shows "fst (run_state (rooms_Join S code) s) =
    (case room_by_hash (Hash (prims S) (TrimSpace code)) (db s) of
       None \<Rightarrow> Inl (Sentinel ErrInvalidRoom)
     | Some room \<Rightarrow>
         if Status room \<noteq> ''active'' then Inl (Sentinel ErrInvalidRoom)
         else map_sum id (\<lambda>key.
           \<lparr>resp_RoomID = ID room, resp_RoomCode = [], resp_ManagementURL = ManagementURL S,
            resp_SetupKey = key\<rparr>)
           (crypto_Open (prims S) (EncryptionKey S) (SetupKeyCiphertext room)))"
  using assms
  by (auto simp: rooms_Join_def run_code_room audit_Event_def State_Monad.update_def
      split: option.splits sum.splits)


section \<open>Properties of Create and Join\<close>

definition first_use :: "string \<Rightarrow> Store \<Rightarrow> bool" where
  "first_use key d \<longleftrightarrow> key = [] \<or> (\<forall>op. op_by_key key d = Some op \<longrightarrow> OpStatus op = ''error'')"

lemma Create_outcome:
  assumes "sealed_services S" and "first_use key (db s)"
    and "run_state (rooms_Create S key) s = (Inr resp, t)"
  shows "\<exists>room. new_room S key resp s t room" and "generated_names resp"
  using wpsD [OF wps_Create [OF assms(1)] assms(3)] assms(2) by (auto simp: first_use_def)

text \<open>
  C14: When \<open>Create\<close> succeeds for a key that has no finished attempt, it has added exactly one
  room: active, with the id and the hash of the code it returns, both new, and with the code and
  the NetBird setup key it returns sealed under the configured key.
\<close>

theorem Create_new_room:
  assumes "sealed_services S" and "first_use key (db s)"
    and "run_state (rooms_Create S key) s = (Inr resp, t)"
  shows "\<exists>room. rooms (db t) = rooms (db s) @ [room] \<and> active_room S resp room \<and>
     ID room \<notin> ID ` set (rooms (db s)) \<and> CodeHash room \<notin> CodeHash ` set (rooms (db s))"
  using Create_outcome(1) [OF assms] by (auto simp: new_room_def)

text \<open>
  C2: End to end: whoever enters the code that a successful \<open>Create\<close> returned, with any white
  space around it, gets from \<open>Join\<close> the same room, management URL and setup key that the creator
  got, and not the code.
\<close>

theorem Create_then_Join:
  assumes "sealed_services S" and "first_use key (db s)" and "db_inv (db s)"
    and "run_state (rooms_Create S key) s = (Inr resp, t)"
    and "healthy (db t)" and "TrimSpace code = resp_RoomCode resp"
  shows "fst (run_state (rooms_Join S code) t) = Inr (resp\<lparr>resp_RoomCode := []\<rparr>)"
proof -
  obtain room where room: "new_room S key resp s t room"
    using Create_outcome(1) [OF assms(1,2,4)] by blast
  have "server_keys s t" using keys_frame.keepsD [OF keys_Create assms(4)] .
  then have "db_inv (db t)" using assms(3) by (simp add: server_keys_def keys_kept_def)
  then have "room_by_hash (CodeHash room) (db t) = Some room"
    using room by (intro by_hash.lookup_row) (simp_all add: new_room_def)
  then show ?thesis
    using room assms(5,6) by (simp add: run_Join new_room_def active_room_def)
qed

text \<open>
  C4: \<open>Create\<close> is idempotent: after it has succeeded for a key, a repeated request with the key
  gets the very same response, from any later state in which the operation's row is still
  there, without a call to NetBird and without a change to the tables.
\<close>

theorem Create_idempotent:
  assumes "sealed_services S" and "key \<noteq> []" and "first_use key (db s)"
    and "run_state (rooms_Create S key) s = (Inr resp, t)"
    and "list_all is_ascii (ManagementURL S)" and "list_all is_ascii (resp_SetupKey resp)"
    and "op_by_key key (db u) = op_by_key key (db t)" and "healthy (db u)"
  shows "run_state (rooms_Create S key) u = (Inr resp, u\<lparr>db := drop_fault (db u)\<rparr>)"
proof (rule run_Create_replay)
  obtain room where room: "new_room S key resp s t room" and names: "generated_names resp"
    using Create_outcome [OF assms(1,3,4)] by blast
  then show "saved_response S key resp (db u)"
    using assms(2,7) by (simp add: new_room_def saved_response_def)
  show "ascii_response resp"
    using generated_names_ascii [OF names] room assms(5,6)
    by (simp add: ascii_response_def new_room_def active_room_def)
qed (use assms in simp_all)

end
