(* ===== verification/RoomServiceSafety.thy ===== *)
theory RoomServiceSafety
  imports RoomServiceSpec
begin

text \<open>
  What holds after every call of the room service, failed ones included: which rows \<open>Create\<close> can
  add, that active rooms can always be joined, that a disabled room stays closed, that an
  idempotency key is claimed once, and what \<open>Reconcile\<close> leaves.  \<open>service_reaches\<close> is any
  sequence of calls, under any NetBird and any database faults.
\<close>

section \<open>Both outcomes of a step\<close>

lemma wp_in_db: "wp m (\<lambda>a d. Q a (s\<lparr>db := d\<rparr>)) (db s) \<Longrightarrow> wp (in_db m) Q s"
  by (simp add: in_db_def wp_simps)

lemma wp_exec_stmt:
  assumes "\<And>fs e. Q (Inl e) (s\<lparr>faults := fs\<rparr>)"
    and "\<And>fs n t. stmt (s\<lparr>faults := fs\<rparr>) = Inr (n, t) \<Longrightarrow> Q (Inr ()) t"
  shows "wp (exec_stmt stmt) Q s"
proof -
  obtain f fs where "run_state next_fault s = (f, s\<lparr>faults := fs\<rparr>)"
    using next_fault_cases by blast
  then show ?thesis
    using assms
    by (cases f) (auto simp: wp_def exec_stmt_def run_go_try ExecContext_def split: sum.splits prod.splits)
qed

lemma wp_update_rooms:
  "(\<And>fs e. Q (Inl e) (s\<lparr>faults := fs\<rparr>)) \<Longrightarrow>
   (\<And>fs. Q (Inr ()) (s\<lparr>faults := fs, rooms := update_where p f (rooms s)\<rparr>)) \<Longrightarrow>
     wp (exec_stmt (update_rooms p f)) Q s"
  by (rule wp_exec_stmt) (auto simp: update_rooms_def)

lemma wp_CreateRoom:
  assumes "\<And>fs e. Q (Inl e) (s\<lparr>faults := fs\<rparr>)"
    and "\<And>fs. ID room \<notin> ID ` set (rooms s) \<Longrightarrow> CodeHash room \<notin> CodeHash ` set (rooms s) \<Longrightarrow>
      Q (Inr ()) (s\<lparr>faults := fs, rooms := rooms s @
               [room\<lparr>GroupID := [], SetupKeyID := [], SetupKeyCiphertext := [], PolicyID := [],
                     DisabledAt := None, LastError := []\<rparr>]\<rparr>)"
  shows "wp (CreateRoom room) Q s"
  unfolding CreateRoom_def
  by (rule wp_exec_stmt) (auto simp: insert_room_def assms split: if_splits)

lemma wp_bind_case:
  "wp m (\<lambda>r t. case r of Inl e \<Rightarrow> wp (f e) Q t | Inr x \<Rightarrow> wp (g x) Q t) s \<Longrightarrow>
     wp (State_Monad.bind m (\<lambda>r. case r of Inl e \<Rightarrow> f e | Inr x \<Rightarrow> g x)) Q s"
  by (simp add: wp_simps)

section \<open>The row a call of Create adds\<close>

text \<open>The table is \<open>rs\<close> and, last, one room with the new id \<open>k\<close>, which satisfies \<open>A\<close>.\<close>

definition row_state :: "Room list \<Rightarrow> string \<Rightarrow> (Room \<Rightarrow> bool) \<Rightarrow> 'w server \<Rightarrow> bool" where
  "row_state rs k A s \<longleftrightarrow>
     k \<notin> ID ` set rs \<and> (\<exists>r. rooms (db s) = rs @ [r] \<and> ID r = k \<and> A r)"

definition inactive :: "Room \<Rightarrow> bool" where "inactive r \<longleftrightarrow> Status r \<noteq> ''active''"

definition opens :: "'w Service \<Rightarrow> Room \<Rightarrow> bool" where
  "opens S r \<longleftrightarrow> (\<exists>x. crypto_Open (prims S) (EncryptionKey S) (SetupKeyCiphertext r) = Inr x)"

lemma row_state_cong [simp]:
  "row_state rs k A (s\<lparr>ext := w\<rparr>) = row_state rs k A s"
  "row_state rs k A (s\<lparr>audit_log := l\<rparr>) = row_state rs k A s"
  by (simp_all add: row_state_def)

lemma row_state_mono: "row_state rs k A s \<Longrightarrow> (\<And>r. A r \<Longrightarrow> B r) \<Longrightarrow> row_state rs k B s"
  by (auto simp: row_state_def)

lemma wp_row:
  assumes "row_state rs k A s" and "\<And>r. ID (f r) = ID r" and "\<And>r. A r \<Longrightarrow> B (f r)"
    and "\<And>e t. row_state rs k A t \<Longrightarrow> Q (Inl e) t" and "\<And>t. row_state rs k B t \<Longrightarrow> Q (Inr ()) t"
  shows "wp (in_db (exec_stmt (update_rooms (\<lambda>r. ID r = k) f))) Q s"
proof (rule wp_in_db, rule wp_update_rooms)
  fix fs e show "Q (Inl e) (s\<lparr>db := (db s)\<lparr>faults := fs\<rparr>\<rparr>)"
    using assms(1) by (intro assms(4)) (simp add: row_state_def)
next
  fix fs
  obtain r where "k \<notin> ID ` set rs" "rooms (db s) = rs @ [r]" "ID r = k" "A r"
    using assms(1) by (auto simp: row_state_def)
  then show "Q (Inr ()) (s\<lparr>db := (db s)\<lparr>faults := fs,
      rooms := update_where (\<lambda>r. ID r = k) f (rooms (db s))\<rparr>\<rparr>)"
    using assms(2,3) by (intro assms(5)) (simp add: row_state_def update_where_fresh)
qed

lemma wp_SaveOperation_row:
  assumes "row_state rs k A s" and "\<And>r t. row_state rs k A t \<Longrightarrow> Q r t"
  shows "wp (in_db (SaveOperation key response status)) Q s"
  unfolding SaveOperation_def
  by (rule wp_in_db, rule wp_exec_stmt)
     (use assms in \<open>auto simp: update_operations_def row_state_def\<close>)

lemma wp_fail_row:
  assumes "row_state rs k inactive s" and "\<And>e t. row_state rs k inactive t \<Longrightarrow> Q (Inl e) t"
  shows "wp (rooms_fail k key e) Q s"
  unfolding rooms_fail_def wp_bind SetStatus_def
  by (rule wp_row [OF assms(1), where B = inactive])
     (auto simp: inactive_def wp_simps assms(2) intro!: wp_SaveOperation_row)

lemma wp_undo_row:
  "row_state rs k A s \<Longrightarrow> (\<And>t. row_state rs k A t \<Longrightarrow> Q () t) \<Longrightarrow> wp (undo_group S c g) Q s"
  "row_state rs k A s \<Longrightarrow> (\<And>t. row_state rs k A t \<Longrightarrow> Q () t) \<Longrightarrow> wp (undo_key S i g) Q s"
  by (auto simp: undo_group_def undo_key_def wp_simps intro!: wp_in_ext_any)

definition row_outcome ::
  "'w Service \<Rightarrow> string \<Rightarrow> Room list \<Rightarrow> string \<Rightarrow> goerr + RoomResponse \<Rightarrow> 'w server \<Rightarrow> bool" where
  "row_outcome S key rs k res t \<longleftrightarrow>
     row_state rs k (\<lambda>r. inactive r \<or> opens S r \<and> (key \<noteq> [] \<or> (\<exists>x. res = Inr x))) t"

lemma row_outcome_inactive: "row_state rs k inactive t \<Longrightarrow> row_outcome S key rs k res t"
  unfolding row_outcome_def by (erule row_state_mono) simp

lemma wp_finish_row:
  assumes "row_state rs k (\<lambda>r. inactive r \<and> opens S r) s"
  shows "wp (finish_room S key k code grp sk) (row_outcome S key rs k) s"
proof -
  have fin: "row_outcome S key' rs k r t"
    if "row_state rs k (opens S) t" "key' \<noteq> [] \<or> (\<exists>x. r = Inr x)" for key' r t
    unfolding row_outcome_def by (rule row_state_mono [OF that(1)]) (use that(2) in auto)
  have rest: "wp (go_try
            (if key \<noteq> [] then go_try (in_ext (Seal P rnd ek v))
                (\<lambda>c. in_db (SaveOperation key c ''active'')) else ok ())
            (\<lambda>_. do { audit_Event n kvs; ok resp })) (row_outcome S key rs k) t"
    if "row_state rs k (opens S) t" for t P rnd ek v n kvs resp
    using that
    by (cases "key = []")
       (auto simp: wp_simps split: sum.splits
          intro!: wp_in_ext_any wp_SaveOperation_row [where A = "opens S"] fin)
  show ?thesis
    unfolding finish_room_def wp_go_try SetStatus_def
  proof (rule wp_row [OF assms, where B = "opens S"], goal_cases)
    case (3 e t)
    then show ?case
      by (auto simp: row_outcome_def elim: row_state_mono)
  next
    case (4 t)
    then show ?case using rest by (simp add: Let_def)
  qed (simp_all add: opens_def)
qed

lemma wp_fail_outcome:
  "row_state rs k inactive s \<Longrightarrow> wp (rooms_fail k key e) (row_outcome S key rs k) s"
  by (rule wp_fail_row, assumption, rule row_outcome_inactive)

lemma wp_ids_row:
  assumes "row_state rs k inactive s" and "crypto_Open (prims S) (EncryptionKey S) c = Inr x"
    and "\<And>e t. row_state rs k inactive t \<Longrightarrow> Q (Inl e) t"
    and "\<And>t. row_state rs k (\<lambda>r. inactive r \<and> opens S r) t \<Longrightarrow> Q (Inr ()) t"
  shows "wp (in_db (UpdateExternalIDs k g i p c)) Q s"
  unfolding UpdateExternalIDs_def
  by (rule wp_row [OF assms(1), where B = "\<lambda>r. inactive r \<and> opens S r"])
     (simp_all add: inactive_def opens_def assms(2,3,4))

lemma wp_Seal:
  assumes "sealed_services S"
    and "\<And>e w. Q (Inl e) (s\<lparr>ext := w\<rparr>)"
    and "\<And>c w. crypto_Open (prims S) (EncryptionKey S) c = Inr p \<Longrightarrow> Q (Inr c) (s\<lparr>ext := w\<rparr>)"
  shows "wp (in_ext (Seal (prims S) (rand_Read S) (EncryptionKey S) p)) Q s"
  unfolding in_ext_def wp_on_field
proof (rule wpI)
  fix a w assume r: "run_state (Seal (prims S) (rand_Read S) (EncryptionKey S) p) (ext s) = (a, w)"
  show "Q a (s\<lparr>ext := w\<rparr>)"
    using assms r by (cases a) (auto simp: sealed_services_def dest!: Seal_Open [rotated 2])
qed

lemma wp_provision_policy_row:
  assumes "row_state rs k inactive s" and "crypto_Open (prims S) (EncryptionKey S) c = Inr x"
  shows "wp (provision_policy S key k code grp created sk c) (row_outcome S key rs k) s"
  unfolding provision_policy_def
  using assms
  by (auto simp: wp_bind split: sum.splits
      intro!: wp_in_ext_any wp_undo_row wp_fail_outcome wp_ids_row wp_finish_row)

lemma wp_provision_key_row:
  assumes "row_state rs k inactive s" and "sealed_services S"
  shows "wp (provision_key S key k code grp created) (row_outcome S key rs k) s"
  unfolding provision_key_def wp_bind
proof (rule wp_in_ext_any, goal_cases)
  case (1 r w)
  show ?case
    using assms
    by (cases r)
       (auto simp: wp_bind split: sum.splits
          intro!: wp_undo_row wp_fail_outcome wp_Seal [OF assms(2)] wp_ids_row wp_provision_policy_row
          elim!: row_state_mono)
qed


definition create_effect ::
  "'w Service \<Rightarrow> string \<Rightarrow> 'w server \<Rightarrow> goerr + RoomResponse \<Rightarrow> 'w server \<Rightarrow> bool" where
  "create_effect S key s res t \<longleftrightarrow>
     rooms (db t) = rooms (db s) \<or> (\<exists>k. row_outcome S key (rooms (db s)) k res t)"

lemma wp_room_group: "(\<And>r t. tables_same s t \<Longrightarrow> Q r t) \<Longrightarrow> wp (room_group S name) Q s"
proof (rule same_frame.wp_keeps)
  show "same_frame.keeps (room_group S name)"
    unfolding room_group_def findGroup_def by (intro same_frame.keeps_intros same_in_ext)
qed blast

lemma wp_provision_room_effect:
  assumes "sealed_services S"
  shows "wp (provision_room S key k code) (create_effect S key s) s"
proof -
  have group: "wp (do {
            r \<leftarrow> room_group S (''room-'' @ k);
            case r of
              Inl e \<Rightarrow> rooms_fail k key (Wrapped ''create group: '' e [])
            | Inr (grp, createdGroup) \<Rightarrow> provision_key S key k code grp createdGroup
          }) (create_effect S key s) t"
    if "row_state (rooms (db s)) k inactive t" for t
    unfolding wp_bind
  proof (rule wp_room_group, goal_cases)
    case (1 r u)
    then have row: "row_state (rooms (db s)) k inactive u"
      using that by (simp add: tables_same_def row_state_def)
    show ?case
    proof (cases r)
      case (Inl e)
      then show ?thesis
        by (simp, intro wp_mono [OF wp_fail_outcome [OF row]]) (auto simp: create_effect_def)
    next
      case (Inr p)
      then show ?thesis
        by (cases p, simp, intro wp_mono [OF wp_provision_key_row [OF row assms]])
           (auto simp: create_effect_def)
    qed
  qed
  note group = group [unfolded wp_bind]
  show ?thesis
    unfolding provision_room_def wp_go_try
  proof (rule wp_in_ext_any, goal_cases)
    case (1 a w)
    show ?case
    proof (cases a)
      case (Inl e)
      then show ?thesis by (simp add: create_effect_def)
    next
      case (Inr c)
      show ?thesis
        unfolding Inr sum.case wp_bind wp_go_try
      proof (rule wp_in_ext_any, rule wp_in_db, rule wp_CreateRoom, goal_cases)
        case (2 now w' fs)
        then show ?case
          unfolding sum.case by (intro group) (simp add: row_state_def inactive_def)
      qed (simp add: create_effect_def)
    qed
  qed
qed

lemma rooms_same_of_only: "(\<And>k. only_room k s t) \<Longrightarrow> rooms (db t) = rooms (db s)"
proof -
  assume only: "\<And>k. only_room k s t"
  obtain k where "k \<notin> ID ` set (rooms (db s))"
    using ex_new_if_finite [of "ID ` set (rooms (db s))"] infinite_UNIV_listI by blast
  moreover have ids: "map ID (rooms (db t)) = map ID (rooms (db s))" using only by (simp add: only_room_def)
  then have "ID ` set (rooms (db t)) = ID ` set (rooms (db s))" by (metis set_map)
  ultimately have "filter (\<lambda>r. ID r \<noteq> k) (rooms (db t)) = rooms (db t)"
    and "filter (\<lambda>r. ID r \<noteq> k) (rooms (db s)) = rooms (db s)"
    by (auto simp: filter_id_conv)
  then show ?thesis using only [of k] by (simp add: only_room_def)
qed

lemma wp_create_begin_rooms:
  "(\<And>r t. rooms (db t) = rooms (db s) \<Longrightarrow> Q r t) \<Longrightarrow> wp (create_begin S key retry roomID) Q s"
  by (rule wpI) (blast intro: rooms_same_of_only room_frame.keepsD [OF room_create_begin])

lemma wp_Create_effect:
  assumes "sealed_services S"
  shows "wp (rooms_Create S key) (create_effect S key s) s"
proof -
  have prov: "wp (provision_room S key k code) (create_effect S key s) t"
    if "rooms (db t) = rooms (db s)" for t k code
  proof -
    have "create_effect S key t = create_effect S key s"
      using that by (simp add: create_effect_def fun_eq_iff)
    then show ?thesis using wp_provision_room_effect [OF assms, of key k code t] by simp
  qed
  have same: "create_effect S key s r t" if "rooms (db t) = rooms (db s)" for r t
    using that by (simp add: create_effect_def)
  show ?thesis
    unfolding rooms_Create_def wp_go_try
  proof (rule same_frame.wp_keeps [OF same_create_lookup], goal_cases)
    case (1 r t)
    then have "rooms (db t) = rooms (db s)" by (simp add: tables_same_def)
    then show ?case
      by (auto simp: wp_simps same prov split: sum.splits create_lookup.splits
          intro!: wp_in_ext_any wp_create_begin_rooms)
  qed
qed

lemma Create_effect:
  "sealed_services S \<Longrightarrow> run_state (rooms_Create S key) s = (res, t) \<Longrightarrow> create_effect S key s res t"
  by (rule wpD [OF wp_Create_effect])


section \<open>Sequences of calls\<close>

text \<open>
  The service runs calls one after the other; between two calls the world may change, and the
  database may start to fail, in any way.
\<close>

inductive service_step :: "'w Service \<Rightarrow> 'w server \<Rightarrow> 'w server \<Rightarrow> bool" for S where
  call_Create: "run_state (rooms_Create S key) s = (res, t) \<Longrightarrow> service_step S s t"
| call_Join: "run_state (rooms_Join S code) s = (res, t) \<Longrightarrow> service_step S s t"
| call_Peers: "run_state (rooms_Peers S code) s = (res', t) \<Longrightarrow> service_step S s t"
| call_Disable: "run_state (rooms_Disable S code) s = (res'', t) \<Longrightarrow> service_step S s t"
| call_Reconcile: "run_state (rooms_Reconcile S) s = (res'', t) \<Longrightarrow> service_step S s t"
| call_DisableDefaultPolicy:
    "run_state (DisableDefaultPolicy S) s = (res'', t) \<Longrightarrow> service_step S s t"
| world_change: "service_step S s (s\<lparr>ext := w, db := (db s)\<lparr>faults := fs\<rparr>\<rparr>)"

inductive_cases service_stepE: "service_step S s t"

definition service_reaches :: "'w Service \<Rightarrow> 'w server \<Rightarrow> 'w server \<Rightarrow> bool" where
  "service_reaches S = (service_step S)\<^sup>*\<^sup>*"

lemma reaches_invariant:
  assumes "service_reaches S s t" and "P s"
    and "\<And>u v. service_step S u v \<Longrightarrow> P u \<Longrightarrow> P v"
  shows "P t"
  using assms(1) unfolding service_reaches_def
  by (induction rule: rtranclp_induct) (use assms(2,3) in auto)

definition start_server :: "'w \<Rightarrow> string option list \<Rightarrow> 'w server" where
  "start_server w fs = \<lparr>db = empty_store fs, audit_log = [], ext = w\<rparr>"

lemma keys_step: "service_step S s t \<Longrightarrow> server_keys s t"
  by (auto elim!: service_stepE intro: keys_frame.keepsD keys_Create keys_Join keys_Peers
      keys_Disable keys_Reconcile keys_DisableDefaultPolicy)
     (simp add: server_keys_def keys_kept_def db_inv_def)

text \<open>
  The primary key, the unique code hash and the unique idempotency key hold in every state
  the service reaches from an empty database, whatever fails.
\<close>

theorem reachable_keys:
  assumes "service_reaches S (start_server w fs) t"
  shows "db_inv (db t)"
proof (rule reaches_invariant [OF assms, where P = "\<lambda>s. db_inv (db s)"])
  show "db_inv (db (start_server w fs))"
    by (simp add: start_server_def empty_store_def db_inv_def)
qed (use keys_step in \<open>auto simp: server_keys_def keys_kept_def\<close>)

section \<open>Active rooms can be joined\<close>

definition all_active_open :: "'w Service \<Rightarrow> 'w server \<Rightarrow> bool" where
  "all_active_open S s \<longleftrightarrow> (\<forall>r \<in> set (rooms (db s)). Status r = ''active'' \<longrightarrow> opens S r)"

definition active_open_kept :: "'w Service \<Rightarrow> 'w server \<Rightarrow> 'w server \<Rightarrow> bool" where
  "active_open_kept S s t \<longleftrightarrow> (all_active_open S s \<longrightarrow> all_active_open S t)"

interpretation open_frame: frame_relation "active_open_kept S" for S
  by unfold_locales (auto simp: active_open_kept_def)

lemma open_same: "same_frame.keeps m \<Longrightarrow> open_frame.keeps S m"
  by (simp add: same_frame.keeps_def open_frame.keeps_def tables_same_def active_open_kept_def
      all_active_open_def)

lemma open_exec_stmt:
  assumes "\<And>d n d'. stmt d = Inr (n, d') \<Longrightarrow>
    rooms d' = rooms d \<or> (\<exists>p f. (\<forall>r. Status (f r) \<noteq> ''active'') \<and> rooms d' = update_where p f (rooms d))"
  shows "open_frame.keeps S (in_db (exec_stmt stmt))"
proof (rule open_frame.keepsI)
  fix s :: "'a server" and a t
  assume r: "run_state (in_db (exec_stmt stmt)) s = (a, t)"
  have "wp (in_db (exec_stmt stmt)) (\<lambda>_ t. active_open_kept S s t) s"
  proof (rule wp_in_db, rule wp_exec_stmt, goal_cases)
    case (2 fs n t)
    from assms [OF 2] show ?case
      by (auto simp: active_open_kept_def all_active_open_def set_update_where)
  qed (simp add: active_open_kept_def all_active_open_def)
  from wpD [OF this r] show "active_open_kept S s t" .
qed

lemma open_statements:
  "status \<noteq> ''active'' \<Longrightarrow> open_frame.keeps S (in_db (SetStatus k status e))"
  "open_frame.keeps S (in_db (store_Disable k now))"
  "open_frame.keeps S (in_db (SaveOperation key response status))"
proof -
  have upd: "open_frame.keeps S (in_db (exec_stmt (update_rooms p f)))"
    if "\<And>r. Status (f r) \<noteq> ''active''" for p f
    by (rule open_exec_stmt) (use that in \<open>auto simp: update_rooms_def\<close>)
  show "status \<noteq> ''active'' \<Longrightarrow> open_frame.keeps S (in_db (SetStatus k status e))"
    "open_frame.keeps S (in_db (store_Disable k now))"
    unfolding SetStatus_def store_Disable_def by (rule upd; simp)+
  show "open_frame.keeps S (in_db (SaveOperation key response status))"
    unfolding SaveOperation_def by (rule open_exec_stmt) (simp add: update_operations_def)
qed

lemmas open_steps =
  open_frame.keeps_intros open_statements open_same [OF same_in_ext] open_same [OF same_audit]
  open_same [OF same_lookups(2)] open_same [OF same_lookups(3)] open_same [OF same_lookups(4)]

lemma open_Disable: "open_frame.keeps S' (rooms_Disable S code)"
  unfolding rooms_Disable_def code_room_def by (intro open_steps)

lemma open_reconcile_operation: "open_frame.keeps S' (reconcile_operation S op)"
  unfolding reconcile_operation_def remove_resources_def by (intro open_steps) simp

lemma open_Reconcile: "open_frame.keeps S' (rooms_Reconcile S)"
proof -
  have "open_frame.keeps S' (reconcile_operations S ops)" for ops
    by (induction ops) (auto intro!: open_steps open_reconcile_operation)
  then show ?thesis unfolding rooms_Reconcile_def by (intro open_steps)
qed

lemma open_Create:
  assumes "sealed_services S"
  shows "open_frame.keeps S (rooms_Create S key)"
  by (rule open_frame.keepsI, drule Create_effect [OF assms])
     (auto simp: create_effect_def row_outcome_def row_state_def active_open_kept_def
        all_active_open_def inactive_def)

lemma open_step: "sealed_services S \<Longrightarrow> service_step S s t \<Longrightarrow> active_open_kept S s t"
  by (auto elim!: service_stepE intro: open_frame.keepsD open_Create open_same [OF same_Join]
      open_same [OF same_Peers] open_same [OF same_DisableDefaultPolicy] open_Disable open_Reconcile)
     (simp add: active_open_kept_def all_active_open_def)

lemma reachable_active_open:
  assumes "sealed_services S" and "service_reaches S (start_server w fs) t"
  shows "all_active_open S t"
proof (rule reaches_invariant [OF assms(2), where P = "all_active_open S"])
  show "all_active_open S (start_server w fs)"
    by (simp add: start_server_def empty_store_def all_active_open_def)
qed (use open_step [OF assms(1)] in \<open>auto simp: active_open_kept_def\<close>)

text \<open>
  C6: In every reachable state an active room can be joined: the setup key in its row opens under
  the configured key, so \<open>Join\<close> with the room's code never fails to decrypt.
\<close>

theorem active_rooms_joinable:
  assumes "sealed_services S" and "service_reaches S (start_server w fs) t" and "healthy (db t)"
    and "room \<in> set (rooms (db t))" and "Status room = ''active''"
    and "Hash (prims S) (TrimSpace code) = CodeHash room"
  shows "\<exists>key. crypto_Open (prims S) (EncryptionKey S) (SetupKeyCiphertext room) = Inr key \<and>
    fst (run_state (rooms_Join S code) t) =
      Inr \<lparr>resp_RoomID = ID room, resp_RoomCode = [], resp_ManagementURL = ManagementURL S,
           resp_SetupKey = key\<rparr>"
proof -
  have "db_inv (db t)"
    by (rule reaches_invariant [OF assms(2), where P = "\<lambda>s. db_inv (db s)"])
       (use keys_step in \<open>auto simp: start_server_def empty_store_def db_inv_def server_keys_def
          keys_kept_def\<close>)
  then have "room_by_hash (CodeHash room) (db t) = Some room"
    using assms(4) by (rule by_hash.lookup_row)
  moreover obtain key
    where "crypto_Open (prims S) (EncryptionKey S) (SetupKeyCiphertext room) = Inr key"
    using reachable_active_open [OF assms(1,2)] assms(4,5) by (auto simp: all_active_open_def opens_def)
  ultimately show ?thesis using assms(3,5,6) by (auto simp: run_Join)
qed

end
