(* ===== verification/RoomServiceReconcile.thy ===== *)
theory RoomServiceReconcile
  imports RoomServiceSafety
begin

text \<open>
  The life of a room and of an operation: which rows a call of \<open>Create\<close> leaves when it fails, that
  a disabled room stays closed, what \<open>Reconcile\<close> does to the operations and rooms of interrupted
  calls, and that an idempotency key is claimed once.
\<close>

section \<open>What a failed Create leaves\<close>

text \<open>
  C15: No call of \<open>Create\<close>, successful or not, changes a room that exists; it adds at most one.
  When it fails, that room is not active, unless the call carried an idempotency key.
\<close>

theorem Create_touches_no_room:
  assumes "sealed_services S" and "run_state (rooms_Create S key) s = (res, t)"
  shows "\<exists>added. rooms (db t) = rooms (db s) @ added \<and> length added \<le> 1 \<and>
    (\<forall>room \<in> set added. ID room \<notin> ID ` set (rooms (db s)) \<and>
       (key = [] \<longrightarrow> Status room = ''active'' \<longrightarrow> (\<exists>resp. res = Inr resp)))"
proof -
  consider "rooms (db t) = rooms (db s)"
    | k where "row_outcome S key (rooms (db s)) k res t"
    using Create_effect [OF assms] by (auto simp: create_effect_def)
  then show ?thesis
  proof cases
    case 1
    then show ?thesis by (intro exI [of _ "[]"]) simp
  next
    case (2 k)
    then obtain r where "rooms (db t) = rooms (db s) @ [r]" "k \<notin> ID ` set (rooms (db s))" "ID r = k"
      "inactive r \<or> opens S r \<and> (key \<noteq> [] \<or> (\<exists>x. res = Inr x))"
      by (auto simp: row_outcome_def row_state_def)
    then show ?thesis by (intro exI [of _ "[r]"]) (auto simp: inactive_def)
  qed
qed

section \<open>A disabled room stays closed\<close>

definition still_closed :: "'w server \<Rightarrow> 'w server \<Rightarrow> bool" where
  "still_closed s t \<longleftrightarrow>
     (\<forall>r \<in> set (rooms (db s)). inactive r \<longrightarrow>
        (\<exists>r' \<in> set (rooms (db t)). CodeHash r' = CodeHash r \<and> inactive r'))"

interpretation closed_frame: frame_relation still_closed
  by unfold_locales (auto simp: still_closed_def, metis)

lemma closed_same: "same_frame.keeps m \<Longrightarrow> closed_frame.keeps m"
  by (simp add: same_frame.keeps_def closed_frame.keeps_def tables_same_def still_closed_def) metis

lemma closed_exec_stmt:
  assumes "\<And>d n d'. stmt d = Inr (n, d') \<Longrightarrow>
    rooms d' = rooms d \<or>
    (\<exists>p f. (\<forall>r. inactive (f r) \<and> CodeHash (f r) = CodeHash r) \<and> rooms d' = update_where p f (rooms d))"
  shows "closed_frame.keeps (in_db (exec_stmt stmt))"
proof (rule closed_frame.keepsI)
  fix s :: "'a server" and a t
  assume r: "run_state (in_db (exec_stmt stmt)) s = (a, t)"
  have "wp (in_db (exec_stmt stmt)) (\<lambda>_ t. still_closed s t) s"
  proof (rule wp_in_db, rule wp_exec_stmt, goal_cases)
    case (2 fs n t)
    from assms [OF 2] show ?case
      by (auto simp: still_closed_def set_update_where) blast
  qed (auto simp: still_closed_def)
  from wpD [OF this r] show "still_closed s t" .
qed

lemma closed_statements:
  "status \<noteq> ''active'' \<Longrightarrow> closed_frame.keeps (in_db (SetStatus k status e))"
  "closed_frame.keeps (in_db (store_Disable k now))"
  "closed_frame.keeps (in_db (SaveOperation key response status))"
proof -
  have upd: "closed_frame.keeps (in_db (exec_stmt (update_rooms p f)))"
    if "\<And>r. inactive (f r) \<and> CodeHash (f r) = CodeHash r" for p f
    by (rule closed_exec_stmt) (use that in \<open>auto simp: update_rooms_def\<close>)
  show "status \<noteq> ''active'' \<Longrightarrow> closed_frame.keeps (in_db (SetStatus k status e))"
    "closed_frame.keeps (in_db (store_Disable k now))"
    unfolding SetStatus_def store_Disable_def by (rule upd; simp add: inactive_def)+
  show "closed_frame.keeps (in_db (SaveOperation key response status))"
    unfolding SaveOperation_def by (rule closed_exec_stmt) (simp add: update_operations_def)
qed

lemmas closed_steps =
  closed_frame.keeps_intros closed_statements closed_same [OF same_in_ext]
  closed_same [OF same_audit] closed_same [OF same_lookups(2)] closed_same [OF same_lookups(3)]
  closed_same [OF same_lookups(4)]

lemma closed_Disable: "closed_frame.keeps (rooms_Disable S code)"
  unfolding rooms_Disable_def code_room_def by (intro closed_steps)

lemma closed_Reconcile: "closed_frame.keeps (rooms_Reconcile S)"
proof -
  have "closed_frame.keeps (reconcile_operation S op)" for op
    unfolding reconcile_operation_def remove_resources_def by (intro closed_steps) simp
  then have "closed_frame.keeps (reconcile_operations S ops)" for ops
    by (induction ops) (auto intro!: closed_steps)
  then show ?thesis unfolding rooms_Reconcile_def by (intro closed_steps)
qed

lemma closed_Create: "sealed_services S \<Longrightarrow> closed_frame.keeps (rooms_Create S key)"
  by (rule closed_frame.keepsI, drule Create_effect)
     (auto simp: create_effect_def row_outcome_def row_state_def still_closed_def)

lemma closed_step: "sealed_services S \<Longrightarrow> service_step S s t \<Longrightarrow> still_closed s t"
  by (auto elim!: service_stepE intro: closed_frame.keepsD closed_Create closed_same [OF same_Join]
      closed_same [OF same_Peers] closed_same [OF same_DisableDefaultPolicy] closed_Disable
      closed_Reconcile)
     (auto simp: still_closed_def)

definition hash_closed :: "string \<Rightarrow> 'w server \<Rightarrow> bool" where
  "hash_closed h s \<longleftrightarrow>
     db_inv (db s) \<and> (\<exists>r \<in> set (rooms (db s)). CodeHash r = h \<and> inactive r)"

lemma hash_closed_step:
  "sealed_services S \<Longrightarrow> service_step S s t \<Longrightarrow> hash_closed h s \<Longrightarrow> hash_closed h t"
  using closed_step keys_step
  by (fastforce simp: hash_closed_def still_closed_def server_keys_def keys_kept_def)

lemma wps_code_room:
  "(\<And>fs room. room_by_hash (Hash (prims S) (TrimSpace code)) (db s) = Some room \<Longrightarrow>
      Q room (s\<lparr>db := (db s)\<lparr>faults := fs\<rparr>\<rparr>)) \<Longrightarrow>
     wps (code_room S code) Q s"
  unfolding code_room_def by (rule wps_in_db, rule wps_GetRoomByCodeHash)

lemma closed_code_room:
  assumes "hash_closed (Hash (prims S) (TrimSpace code)) s"
    and "run_state (code_room S code) s = (Inr room, t)"
  shows "inactive room"
proof -
  have "room_by_hash (Hash (prims S) (TrimSpace code)) (db s) = Some room"
    using wpsD [OF wps_code_room [where Q = "\<lambda>room _. room_by_hash (Hash (prims S) (TrimSpace code))
       (db s) = Some room"] assms(2)] by simp
  then show ?thesis
    using assms(1) by_hash.lookup_row by (fastforce simp: hash_closed_def)
qed

lemma closed_Join_Peers:
  assumes "hash_closed (Hash (prims S) (TrimSpace code)) s"
  shows "fst (run_state (rooms_Join S code) s) = Inl (Sentinel ErrInvalidRoom)"
    and "fst (run_state (rooms_Peers S code) s) = Inl (Sentinel ErrInvalidRoom)"
    and "ext (snd (run_state (rooms_Peers S code) s)) = ext s"
proof -
  obtain r t where run: "run_state (code_room S code) s = (r, t)" by fastforce
  have e: "ext t = ext s"
    using run by (auto simp: code_room_def run_in_db split: prod.splits)
  show "fst (run_state (rooms_Join S code) s) = Inl (Sentinel ErrInvalidRoom)"
    "fst (run_state (rooms_Peers S code) s) = Inl (Sentinel ErrInvalidRoom)"
    "ext (snd (run_state (rooms_Peers S code) s)) = ext s"
    using run e closed_code_room [OF assms]
    by (cases r; auto simp: rooms_Join_def rooms_Peers_def inactive_def)+
qed

lemma Disable_closes:
  assumes "db_inv (db s)" and "run_state (rooms_Disable S code) s = (Inr (), t)"
  shows "hash_closed (Hash (prims S) (TrimSpace code)) t"
proof -
  let ?h = "Hash (prims S) (TrimSpace code)"
  have inv: "db_inv (db t)"
    using keys_frame.keepsD [OF keys_Disable assms(2)] assms(1)
    by (simp add: server_keys_def keys_kept_def)
  have "wps (rooms_Disable S code)
      (\<lambda>_ t. \<exists>r \<in> set (rooms (db t)). CodeHash r = ?h \<and> inactive r) s"
    unfolding rooms_Disable_def
  proof (rule wps_bind_case, rule wps_err, rule wps_code_room, goal_cases)
    case (1 fs room)
    then have room: "room \<in> set (rooms (db s))" "CodeHash room = ?h"
      using by_hash.lookup_SomeD by blast+
    show ?case
    proof (cases "Status room = ''disabled''")
      case True
      then show ?thesis using room by (auto simp: wps_simps inactive_def)
    next
      case False
      have "wps (in_db (store_Disable (ID room) now))
          (\<lambda>_ t. \<exists>r \<in> set (rooms (db t)). CodeHash r = ?h \<and> inactive r) u"
        if "rooms (db u) = rooms (db s)" for now and u :: "'a server"
        unfolding store_Disable_def
      proof (rule wps_in_db, rule wps_update_rooms, goal_cases)
        case (1 fs)
        show ?case
          using room that
          by (auto simp: set_update_where inactive_def intro!: bexI [of _ room] bexI
              [of _ "room\<lparr>Status := ''disabled'', DisabledAt := Some now, LastError := []\<rparr>"])
      qed
      note disabled = this
      show ?thesis
        using False
        by (auto simp: wps_simps wp_simps intro!: wps_in_ext_any wp_in_ext_any wps_mono [OF disabled])
    qed
  qed
  from wpsD [OF this assms(2)] inv show ?thesis by (simp add: hash_closed_def)
qed

text \<open>
  C3: Disabling is final: once \<open>Disable\<close> has answered without an error, no later sequence of calls,
  with or without failures, lets anyone join the room or list its peers again: both report the
  same error as for an unknown code, and \<open>Peers\<close> does not even ask NetBird.
\<close>

theorem disabled_forever:
  assumes "sealed_services S" and "db_inv (db s)"
    and "run_state (rooms_Disable S code) s = (Inr (), t)" and "service_reaches S t u"
    and "TrimSpace code' = TrimSpace code"
  shows "fst (run_state (rooms_Join S code') u) = Inl (Sentinel ErrInvalidRoom) \<and>
    fst (run_state (rooms_Peers S code') u) = Inl (Sentinel ErrInvalidRoom) \<and>
    ext (snd (run_state (rooms_Peers S code') u)) = ext u"
proof -
  have "hash_closed (Hash (prims S) (TrimSpace code)) u"
    by (rule reaches_invariant [where P = "hash_closed (Hash (prims S) (TrimSpace code))",
          OF assms(4) Disable_closes [OF assms(2,3)]])
       (rule hash_closed_step [OF assms(1)])
  then show ?thesis using closed_Join_Peers [of S code' u] assms(5) by simp
qed


section \<open>What Reconcile does\<close>

abbreviation failed_op :: "Operation \<Rightarrow> Operation" where
  "failed_op op \<equiv> op\<lparr>Response := [], OpStatus := ''error''\<rparr>"

abbreviation failed_room :: "Room \<Rightarrow> Room" where
  "failed_room r \<equiv> r\<lparr>Status := ''error'', LastError := ''provisioning interrupted and reconciled''\<rparr>"

lemma update_where_twice:
  "(\<And>x. f (f x) = f x) \<Longrightarrow> (\<And>x. p (f x) = p x) \<Longrightarrow>
     update_where p f (update_where q f xs) = update_where (\<lambda>x. q x \<or> p x) f xs"
  by (induction xs) auto

lemma wp_GetRoom:
  assumes "\<And>fs m. Q (Inl (Message m)) (s\<lparr>faults := fs\<rparr>)"
    and "\<And>fs. room_by_id k s = None \<Longrightarrow> Q (Inl (Sentinel store_ErrNotFound)) (s\<lparr>faults := fs\<rparr>)"
    and "\<And>fs room. room_by_id k s = Some room \<Longrightarrow> Q (Inr room) (s\<lparr>faults := fs\<rparr>)"
  shows "wp (GetRoom k) Q s"
proof -
  obtain f fs where "run_state next_fault s = (f, s\<lparr>faults := fs\<rparr>)"
    using next_fault_cases by blast
  then show ?thesis
    using assms
    by (cases f) (auto simp: wp_def GetRoom_def run_go_try QueryContext_def scanRoom_def
        room_by_id_def split: option.splits)
qed

lemma same_remove_resources: "same_frame.keeps (remove_resources S room)"
  unfolding remove_resources_def by (intro same_frame.keeps_intros same_in_ext)

lemma wps_mark_failed:
  assumes "\<And>t. operations (db t) = update_where (\<lambda>q. IdempotencyKey q = key) failed_op (operations (db s)) \<Longrightarrow>
    rooms (db t) = rooms (db s) \<Longrightarrow> Q () t"
  shows "wps (in_db (SaveOperation key [] ''error'')) Q s"
  unfolding SaveOperation_def by (rule wps_in_db, rule wps_update_operations) (simp add: assms)

lemma wps_reconcile_operation:
  "wps (reconcile_operation S op)
     (\<lambda>_ t. operations (db t) =
          update_where (\<lambda>q. IdempotencyKey q = IdempotencyKey op) failed_op (operations (db s)) \<and>
        rooms (db t) = update_where (\<lambda>r. ID r = RoomID op) failed_room (rooms (db s))) s"
  unfolding reconcile_operation_def wps_bind
proof (rule wp_in_db, rule wp_GetRoom, goal_cases)
  case (1 fs m)
  then show ?case by (simp add: wps_simps)
next
  case (2 fs)
  then have "update_where (\<lambda>r. ID r = RoomID op) failed_room (rooms (db s)) = rooms (db s)"
    by (intro update_where_none) (force simp: by_id.lookup_None_iff)
  then show ?case by (auto intro!: wps_mark_failed)
next
  case (3 fs room)
  then have key: "ID room = RoomID op" using by_id.lookup_SomeD by blast
  have "wps (in_db (SetStatus (RoomID op) ''error'' ''provisioning interrupted and reconciled''))
      (\<lambda>_ t. operations (db t) = operations (db s) \<and>
         rooms (db t) = update_where (\<lambda>r. ID r = RoomID op) failed_room (rooms (db s))) u"
    if "tables_same s u" for u
    unfolding SetStatus_def
    by (rule wps_in_db, rule wps_update_rooms) (use that in \<open>auto simp: tables_same_def\<close>)
  note mark = this
  show ?case
    unfolding sum.case wps_bind
  proof (rule same_frame.wp_keeps [OF same_remove_resources], goal_cases)
    case (1 _ t)
    then have "tables_same s t" by (simp add: tables_same_def)
    then show ?case
      unfolding key wps_go_try
      by (intro wps_mono [OF mark]) (auto simp: wps_simps wp_simps intro!: wps_mark_failed)
  qed
qed

lemma wps_reconcile_operations:
  "wps (reconcile_operations S ops)
     (\<lambda>_ t. operations (db t) =
          update_where (\<lambda>q. IdempotencyKey q \<in> IdempotencyKey ` set ops) failed_op (operations (db s)) \<and>
        rooms (db t) = update_where (\<lambda>r. ID r \<in> RoomID ` set ops) failed_room (rooms (db s))) s"
proof (induction ops arbitrary: s)
  case Nil
  show ?case by (simp add: wps_simps update_where_none)
next
  case (Cons op ops)
  show ?case
    unfolding reconcile_operations.simps wps_go_try
  proof (rule wps_mono [OF wps_reconcile_operation], rule wps_mono [OF Cons.IH], goal_cases)
    case (1 _ t _ u)
    then show ?case by (simp add: update_where_twice insert_iff)
  qed
qed

lemma update_where_cong:
  "(\<And>x. x \<in> set xs \<Longrightarrow> p x = q x) \<Longrightarrow> update_where p f xs = update_where q f xs"
  by (induction xs) auto

lemma Reconcile_outcome:
  assumes "db_inv (db s)" and "run_state (rooms_Reconcile S) s = (Inr (), t)"
  shows "operations (db t) =
      update_where (\<lambda>op. OpStatus op = ''creating'') failed_op (operations (db s))"
    and "rooms (db t) =
      update_where (\<lambda>r. \<exists>op \<in> set (operations (db s)). OpStatus op = ''creating'' \<and> RoomID op = ID r)
        failed_room (rooms (db s))"
proof -
  let ?ops = "filter (\<lambda>op. OpStatus op = ''creating'') (operations (db s))"
  have "wps (rooms_Reconcile S)
     (\<lambda>_ t. operations (db t) =
          update_where (\<lambda>q. IdempotencyKey q \<in> IdempotencyKey ` set ?ops) failed_op (operations (db s)) \<and>
        rooms (db t) = update_where (\<lambda>r. ID r \<in> RoomID ` set ?ops) failed_room (rooms (db s))) s"
    unfolding rooms_Reconcile_def wps_go_try ListOperationsByStatus_def
    by (rule wps_in_db, rule wps_QueryContext, rule wps_mono [OF wps_reconcile_operations]) simp
  from wpsD [OF this assms(2)]
  have t: "operations (db t) =
      update_where (\<lambda>q. IdempotencyKey q \<in> IdempotencyKey ` set ?ops) failed_op (operations (db s))"
    "rooms (db t) = update_where (\<lambda>r. ID r \<in> RoomID ` set ?ops) failed_room (rooms (db s))"
    by simp_all
  show "operations (db t) =
      update_where (\<lambda>op. OpStatus op = ''creating'') failed_op (operations (db s))"
    unfolding t(1) using by_key.same_key_same_row [OF assms(1)]
    by (intro update_where_cong) (fastforce simp: image_iff)
  show "rooms (db t) =
      update_where (\<lambda>r. \<exists>op \<in> set (operations (db s)). OpStatus op = ''creating'' \<and> RoomID op = ID r)
        failed_room (rooms (db s))"
    unfolding t(2) by (intro update_where_cong) (auto simp: image_iff)
qed

text \<open>
  A successful \<open>Reconcile\<close> turns every interrupted operation into a failed one without a
  response, and the room of each into a failed room; every other row is as before.  So no
  operation is left in progress, and each of these keys can be used again.
\<close>

theorem Reconcile_settles:
  assumes "db_inv (db s)" and "run_state (rooms_Reconcile S) s = (Inr (), t)"
  shows "operations (db t) = map (\<lambda>op. if OpStatus op = ''creating''
        then op\<lparr>Response := [], OpStatus := ''error''\<rparr> else op) (operations (db s)) \<and>
    rooms (db t) = map (\<lambda>r. if \<exists>op \<in> set (operations (db s)). OpStatus op = ''creating'' \<and> RoomID op = ID r
        then r\<lparr>Status := ''error'', LastError := ''provisioning interrupted and reconciled''\<rparr> else r)
      (rooms (db s)) \<and>
    (\<forall>op \<in> set (operations (db t)). OpStatus op \<noteq> ''creating'')"
  using Reconcile_outcome [OF assms] by (auto simp: update_where_def)

text \<open>
  The rooms that \<open>Reconcile\<close> fails need not be unfinished: a room that is active while its
  operation is still marked as creating loses its NetBird resources and becomes a failed room.
\<close>

theorem Reconcile_fails_active_room:
  assumes "db_inv (db s)" and "run_state (rooms_Reconcile S) s = (Inr (), t)"
    and "room \<in> set (rooms (db s))" and "Status room = ''active''"
    and "op \<in> set (operations (db s))" and "OpStatus op = ''creating''" and "RoomID op = ID room"
  shows "\<exists>room' \<in> set (rooms (db t)). ID room' = ID room \<and> CodeHash room' = CodeHash room \<and>
    Status room' = ''error''"
proof -
  have "failed_room room \<in> set (rooms (db t))"
    using Reconcile_outcome(2) [OF assms(1,2)] assms(3,5,6,7) by (auto simp: set_update_where)
  then show ?thesis by (intro bexI) simp_all
qed

section \<open>Claiming an idempotency key\<close>

definition keys_stay :: "'w server \<Rightarrow> 'w server \<Rightarrow> bool" where
  "keys_stay s t \<longleftrightarrow>
     IdempotencyKey ` set (operations (db s)) \<subseteq> IdempotencyKey ` set (operations (db t))"

interpretation stay_frame: frame_relation keys_stay
  by unfold_locales (auto simp: keys_stay_def)

lemma stay_same: "same_frame.keeps m \<Longrightarrow> stay_frame.keeps m"
  by (simp add: same_frame.keeps_def stay_frame.keeps_def tables_same_def keys_stay_def)

lemma stay_exec_stmt:
  assumes "\<And>d n d'. stmt d = Inr (n, d') \<Longrightarrow>
    IdempotencyKey ` set (operations d) \<subseteq> IdempotencyKey ` set (operations d')"
  shows "stay_frame.keeps (in_db (exec_stmt stmt))"
proof (rule stay_frame.keepsI)
  fix s :: "'a server" and a t
  assume r: "run_state (in_db (exec_stmt stmt)) s = (a, t)"
  have "wp (in_db (exec_stmt stmt)) (\<lambda>_ t. keys_stay s t) s"
  proof (rule wp_in_db, rule wp_exec_stmt, goal_cases)
    case (2 fs n t)
    from assms [OF 2] show ?case by (simp add: keys_stay_def)
  qed (simp add: keys_stay_def)
  from wpD [OF this r] show "keys_stay s t" .
qed

lemma stay_statements:
  "stay_frame.keeps (in_db (SetStatus k status e))"
  "stay_frame.keeps (in_db (UpdateExternalIDs k g sk p c))"
  "stay_frame.keeps (in_db (store_Disable k now))"
  "stay_frame.keeps (in_db (CreateRoom room))"
  "stay_frame.keeps (in_db (SaveOperation key response status))"
  "stay_frame.keeps (in_db (ResetOperation key roomID))"
  unfolding SetStatus_def UpdateExternalIDs_def store_Disable_def CreateRoom_def SaveOperation_def
    ResetOperation_def
  by (rule stay_exec_stmt; auto simp: update_rooms_def insert_room_def update_operations_def
        split: if_splits)+

lemma stay_BeginOperation: "stay_frame.keeps (in_db (BeginOperation key roomID now))"
proof (rule stay_frame.keepsI)
  fix s :: "'a server" and a t
  assume r: "run_state (in_db (BeginOperation key roomID now)) s = (a, t)"
  obtain f fs where "run_state next_fault (db s) = (f, (db s)\<lparr>faults := fs\<rparr>)"
    using next_fault_cases by blast
  with r show "keys_stay s t"
    by (auto simp: run_in_db BeginOperation_def run_go_try ExecContext_def keys_stay_def
        insert_or_ignore_operation_def split: option.splits if_splits)
qed

lemmas stay_steps =
  stay_frame.keeps_intros stay_statements stay_BeginOperation stay_same [OF same_in_ext]
  stay_same [OF same_audit] same_lookups [THEN stay_same]

lemma stay_Create: "stay_frame.keeps (rooms_Create S key)"
  unfolding create_stages
  by (intro stay_steps; (simp split: create_lookup.split)?; (intro allI conjI impI stay_steps)?)

lemma stay_Disable: "stay_frame.keeps (rooms_Disable S code)"
  unfolding rooms_Disable_def code_room_def by (intro stay_steps)

lemma stay_Reconcile: "stay_frame.keeps (rooms_Reconcile S)"
proof -
  have "stay_frame.keeps (reconcile_operation S op)" for op
    unfolding reconcile_operation_def remove_resources_def by (intro stay_steps)
  then have "stay_frame.keeps (reconcile_operations S ops)" for ops
    by (induction ops) (auto intro!: stay_steps)
  then show ?thesis unfolding rooms_Reconcile_def by (intro stay_steps)
qed

lemma stay_step: "service_step S s t \<Longrightarrow> keys_stay s t"
  by (auto elim!: service_stepE intro: stay_frame.keepsD stay_Create stay_same [OF same_Join]
      stay_same [OF same_Peers] stay_same [OF same_DisableDefaultPolicy] stay_Disable stay_Reconcile)
     (simp add: keys_stay_def)

text \<open>
  Of the calls that found no row for an idempotency key, one claims it: after one of them has
  begun its operation, and whatever calls follow, every other is refused, with or without
  database faults, so a key is never provisioned twice in its first use.
\<close>

theorem first_use_claimed_once:
  assumes "key \<noteq> []" and "run_state (create_begin S key False roomA) s = (Inr (), t)"
    and "service_reaches S t u"
  shows "\<exists>e. fst (run_state (create_begin S key False roomB) u) = Inl e"
proof -
  have t: "has_operation key (db t)"
    using wpsD [OF wps_create_begin [OF assms(1), of False] assms(2)] by simp
  have u: "has_operation key (db u)"
    by (rule reaches_invariant [where P = "\<lambda>s. has_operation key (db s)", OF assms(3) t])
       (use stay_step in \<open>fastforce simp: keys_stay_def has_operation_def\<close>)
  have "wps (create_begin S key False roomB) (\<lambda>_ _. False) u"
    using u assms(1)
    by (auto simp: create_begin_def wps_simps has_operation_def
        intro!: wp_in_ext_any wps_in_db wps_BeginOperation)
  from wpsD [OF this] show ?thesis
    by (cases "run_state (create_begin S key False roomB) u"; cases "fst (run_state (create_begin S key False roomB) u)") auto
qed


lemma run_create_lookup:
  assumes "key \<noteq> []" and "healthy (db s)" and "op_by_key key (db s) = Some op"
  shows "OpStatus op = ''creating'' \<Longrightarrow>
      run_state (create_lookup S key) s =
        (Inl (Sentinel ErrOperationInProgress), s\<lparr>db := drop_fault (db s)\<rparr>)"
    and "OpStatus op = ''error'' \<Longrightarrow>
      run_state (create_lookup S key) s = (Inr (Proceed True), s\<lparr>db := drop_fault (db s)\<rparr>)"
  using assms by (simp_all add: create_lookup_def run_in_db run_GetOperation)

lemma run_Create_blocked:
  "key \<noteq> [] \<Longrightarrow> healthy (db s) \<Longrightarrow> op_by_key key (db s) = Some op \<Longrightarrow> OpStatus op = ''creating'' \<Longrightarrow>
     run_state (rooms_Create S key) s =
       (Inl (Sentinel ErrOperationInProgress), s\<lparr>db := drop_fault (db s)\<rparr>)"
  by (simp add: rooms_Create_def run_go_try run_create_lookup(1))

text \<open>
  An operation that is still marked as creating blocks its key: \<open>Create\<close> reports that it is in
  progress, and changes no table and calls neither NetBird nor the random source.
\<close>

theorem creating_operation_blocks:
  assumes "key \<noteq> []" and "healthy (db s)" and "op_by_key key (db s) = Some op"
    and "OpStatus op = ''creating''"
  shows "run_state (rooms_Create S key) s =
    (Inl (Sentinel ErrOperationInProgress), s\<lparr>db := drop_fault (db s)\<rparr>)"
  by (rule run_Create_blocked [OF assms])

lemma run_retry_begin:
  assumes "key \<noteq> []" and "healthy (db s)" and "has_operation key (db s)"
  shows "\<exists>t. run_state (create_begin S key True roomID) s = (Inr (), t) \<and> healthy (db t) \<and>
    has_operation key (db t)"
proof -
  obtain now w where c: "run_state (clock S) (ext s) = (now, w)" by fastforce
  have "IdempotencyKey ` set (update_where p (\<lambda>op. op\<lparr>RoomID := roomID, Response := [],
      OpStatus := ''creating''\<rparr>) (operations (db s))) = IdempotencyKey ` set (operations (db s))" for p
    by simp
  then show ?thesis
    using assms c
    by (simp add: create_begin_def run_go_try run_in_db ResetOperation_def BeginOperation_def
        run_exec_stmt update_operations_def run_ExecContext insert_or_ignore_operation_def
        has_operation_def in_ext_def run_on_field)
qed

text \<open>
  C31: A failed operation can be claimed twice: when two calls with its key have both looked it up
  before either begins, both begin, and both go on to create a room.
\<close>

theorem retry_claimed_twice:
  assumes "key \<noteq> []" and "healthy (db s)" and "op_by_key key (db s) = Some op"
    and "OpStatus op = ''error''"
  shows "\<exists>s1 s2 s3 s4.
    run_state (create_lookup S key) s = (Inr (Proceed True), s1) \<and>
    run_state (create_lookup S key) s1 = (Inr (Proceed True), s2) \<and>
    run_state (create_begin S key True roomA) s2 = (Inr (), s3) \<and>
    run_state (create_begin S key True roomB) s3 = (Inr (), s4)"
proof -
  let ?s1 = "s\<lparr>db := drop_fault (db s)\<rparr>"
  let ?s2 = "?s1\<lparr>db := drop_fault (db ?s1)\<rparr>"
  have "run_state (create_lookup S key) s = (Inr (Proceed True), ?s1)"
    by (rule run_create_lookup(2) [OF assms])
  moreover have "run_state (create_lookup S key) ?s1 = (Inr (Proceed True), ?s2)"
    by (rule run_create_lookup(2) [OF assms(1) _ _ assms(4)]) (use assms in simp_all)
  moreover have "healthy (db ?s2)" "has_operation key (db ?s2)"
    using assms by (auto simp: has_operation_def op_by_key_def dest: find_Some_in)
  then obtain s3 where "run_state (create_begin S key True roomA) ?s2 = (Inr (), s3)"
    "healthy (db s3)" "has_operation key (db s3)"
    using run_retry_begin [OF assms(1)] by blast
  moreover then obtain s4 where "run_state (create_begin S key True roomB) s3 = (Inr (), s4)"
    using run_retry_begin [OF assms(1)] by blast
  ultimately show ?thesis by blast
qed

end
