(* ===== verification/RoomMain.thy ===== *)
theory RoomMain
  imports RoomConfig RoomServiceReconcile
begin

text \<open>
  \<open>room-api/cmd/room-api/main.go\<close> from the flags to the moment the server listens, with the opening and the
  health check of the database (\<open>store.go\<close>).  The directory, SQLite's opening of a file and what its integrity
  check says are parameters.  The listener, the signals and the shutdown are not modelled.
\<close>

section \<open>The database\<close>

text \<open>The statement of \<open>migrate\<close> makes the tables and the index if they are not there.\<close>

definition migrate :: "unit stmt" where
  "migrate = exec_stmt (\<lambda>s. Inr (0, s))"

record start_env =
  se_MkdirAll :: "string \<Rightarrow> goerr option"
  se_sql_Open :: "string \<Rightarrow> goerr option"
  se_Dir :: "string \<Rightarrow> string"
  se_integrity :: string

definition store_Open :: "start_env \<Rightarrow> string \<Rightarrow> unit stmt" where
  "store_Open E p =
     (case se_sql_Open E (p @ ''?_busy_timeout=5000&_journal_mode=WAL'') of
        Some e \<Rightarrow> err e
      | None \<Rightarrow> migrate)"

definition MustHealthy :: "start_env \<Rightarrow> unit stmt" where
  "MustHealthy E = do {
     r \<leftarrow> QueryContext (\<lambda>_. se_integrity E);
     (case r of
        Inr result \<Rightarrow> if result = ''ok'' then ok () else err (Message ''store health check failed'')
      | Inl e \<Rightarrow> err (Message ''store health check failed''))
   }"

section \<open>main\<close>

record main_flags =
  mf_migrateDefault :: bool
  mf_healthcheck :: bool

text \<open>\<open>log.Fatal\<close>, a return with what was printed, or a server, with the logged error of \<open>Reconcile\<close>.\<close>

datatype 'w started = Fatal goerr | Exits string | Serves "goerr option" "'w HttpServer"

definition fatal :: "('s, goerr + 'a) state \<Rightarrow> ('a \<Rightarrow> ('s, 'w started) state) \<Rightarrow> ('s, 'w started) state" where
  "fatal m f = do { r \<leftarrow> m; (case r of Inl e \<Rightarrow> State_Monad.return (Fatal e) | Inr x \<Rightarrow> f x) }"

text \<open>The steps with a configuration and an open database.\<close>

definition main_serve :: "main_flags \<Rightarrow> Config \<Rightarrow> 'w Service \<Rightarrow> ('w server, 'w started) state" where
  "main_serve flags cfg S =
     (if mf_migrateDefault flags then
        fatal (DisableDefaultPolicy S) (\<lambda>_. State_Monad.return (Exits ''default policy disabled''))
      else do {
        r \<leftarrow> rooms_Reconcile S;
        State_Monad.return (Serves (case r of Inl e \<Rightarrow> Some e | Inr _ \<Rightarrow> None) (main_handler cfg S))
      })"

definition room_api_main ::
  "start_env \<Rightarrow> environ \<Rightarrow> main_flags \<Rightarrow> Primitives \<Rightarrow> 'w random \<Rightarrow> ('w, time) state \<Rightarrow> 'w transport \<Rightarrow>
     ('w server, 'w started) state" where
  "room_api_main E getenv flags P rnd clk http =
     (case Load P getenv of
        Inl e \<Rightarrow> State_Monad.return (Fatal e)
      | Inr cfg \<Rightarrow>
          (case se_MkdirAll E (se_Dir E (cfg_DBPath cfg)) of
             Some e \<Rightarrow> State_Monad.return (Fatal e)
           | None \<Rightarrow>
               fatal (in_db (store_Open E (cfg_DBPath cfg))) (\<lambda>_.
                 if mf_healthcheck flags then
                   fatal (in_db (MustHealthy E)) (\<lambda>_. State_Monad.return (Exits []))
                 else main_serve flags cfg (main_service cfg P rnd clk http))))"

section \<open>What the start of the server promises\<close>

lemma same_exec_nothing: "same_frame.keeps (in_db migrate)"
proof (rule same_frame.keepsI)
  fix s a t
  assume r: "run_state (in_db migrate) s = (a, t :: 'a server)"
  obtain f fs where nf: "run_state next_fault (db s) = (f, (db s)\<lparr>faults := fs\<rparr>)"
    using next_fault_cases by blast
  show "tables_same s t"
    using r nf
    by (auto simp: migrate_def in_db_def run_on_field exec_stmt_def run_go_try ExecContext_def tables_same_def
        split: option.splits sum.splits prod.splits)
qed

lemma same_start: "same_frame.keeps (in_db (store_Open E p))" "same_frame.keeps (in_db (MustHealthy E))"
proof -
  show "same_frame.keeps (in_db (store_Open E p))"
  proof (cases "se_sql_Open E (p @ ''?_busy_timeout=5000&_journal_mode=WAL'')")
    case None
    then show ?thesis by (simp add: store_Open_def same_exec_nothing)
  next
    case (Some e)
    then show ?thesis by (auto simp: store_Open_def in_db_def run_on_field tables_same_def intro!: same_frame.keepsI)
  qed
  have "same_frame.keeps (in_db (QueryContext (\<lambda>_. se_integrity E)))" by (rule same_query)
  then show "same_frame.keeps (in_db (MustHealthy E))"
    unfolding same_frame.keeps_def MustHealthy_def in_db_def run_on_field
    by (auto split: prod.splits sum.splits)
qed

lemma wp_fatal: "wp (fatal m f) Q s = wp m (\<lambda>r t. case r of Inl e \<Rightarrow> Q (Fatal e) t | Inr x \<Rightarrow> wp (f x) Q t) s"
  by (auto simp: fatal_def wp_def split: prod.splits sum.splits)

lemma wp_same_start:
  "(\<And>r t. tables_same s t \<Longrightarrow> Q r t) \<Longrightarrow> wp (in_db (store_Open E p)) Q s"
  "(\<And>r t. tables_same s t \<Longrightarrow> Q r t) \<Longrightarrow> wp (in_db (MustHealthy E)) Q s"
  "(\<And>r t. tables_same s t \<Longrightarrow> Q r t) \<Longrightarrow> wp (DisableDefaultPolicy S) Q s"
  by (rule same_frame.wp_keeps, rule same_start same_DisableDefaultPolicy, blast)+

text \<open>What the configuration of a server that listens satisfies.\<close>

definition usable :: "Config \<Rightarrow> bool" where
  "usable c \<longleftrightarrow> cfg_PAT c \<noteq> [] \<and> 1 \<le> cfg_CreateRatePerMinute c \<and> 1 \<le> cfg_JoinRatePerMinute c \<and>
     1 \<le> cfg_PeerRatePerMinute c \<and> 1 \<le> cfg_ProvisionConcurrency c \<and> length (cfg_EncryptionKey c) = 32"

lemma Load_is_usable: "digest_size P \<Longrightarrow> Load P getenv = Inr c \<Longrightarrow> usable c"
  by (drule Load_InrD) (auto simp: usable_def encryptionKey_length)

text \<open>Every row as it was, but the interrupted operations and their rooms have failed.\<close>

definition settled :: "Store \<Rightarrow> Store \<Rightarrow> bool" where
  "settled d d' \<longleftrightarrow>
     operations d' = update_where (\<lambda>op. OpStatus op = ''creating'') failed_op (operations d) \<and>
     rooms d' = update_where (\<lambda>r. \<exists>op \<in> set (operations d). OpStatus op = ''creating'' \<and> RoomID op = ID r)
       failed_room (rooms d)"

lemma main_serve_outcome:
  assumes "db_inv (db s0)" "tables_same s0 s"
  shows "wp (main_serve flags cfg S)
    (\<lambda>r t. case r of
       Fatal e \<Rightarrow> tables_same s0 t
     | Exits msg \<Rightarrow> mf_migrateDefault flags \<and> tables_same s0 t
     | Serves failed handler \<Rightarrow> \<not> mf_migrateDefault flags \<and> handler = main_handler cfg S \<and>
         (failed = None \<longrightarrow> settled (db s0) (db t))) s"
proof (cases "mf_migrateDefault flags")
  case True
  with assms(2) show ?thesis
    by (auto simp: main_serve_def wp_fatal wp_simps intro!: wp_same_start(3)
        split: sum.splits intro: same_frame.trans)
next
  case False
  obtain r t where r: "run_state (rooms_Reconcile S) s = (r, t)" by fastforce
  have s: "db_inv (db s)" "settled (db s0) = settled (db s)"
    using assms by (auto simp: db_inv_def tables_same_def settled_def fun_eq_iff)
  have "settled (db s0) (db t)" if "r = Inr ()"
    using Reconcile_outcome [OF s(1)] r that unfolding s(2) settled_def by blast
  with False r show ?thesis
    by (simp add: main_serve_def wp_simps) (simp add: wp_def split: sum.splits)
qed

text \<open>
  C38: How the room API starts: a start that fails, a health check and the migration of the default policy change
  no row; the health check comes first.  A server that listens has a usable configuration, and if \<open>Reconcile\<close> did
  not fail, every operation that the last run left in progress has failed with its room and nothing else changed.
\<close>
theorem start_outcome:
  assumes "digest_size P" "db_inv (db s)"
    and "run_state (room_api_main E getenv flags P rnd clk http) s = (r, t)"
  shows "case r of
      Fatal e \<Rightarrow> tables_same s t
    | Exits msg \<Rightarrow> (if mf_healthcheck flags then msg = [] else mf_migrateDefault flags) \<and> tables_same s t
    | Serves failed handler \<Rightarrow> \<not> mf_healthcheck flags \<and> \<not> mf_migrateDefault flags \<and>
        (\<exists>c. Load P getenv = Inr c \<and> usable c \<and> handler = main_handler c (main_service c P rnd clk http)) \<and>
        (failed = None \<longrightarrow> settled (db s) (db t))" (is "?Q r t")
proof -
  have "wp (room_api_main E getenv flags P rnd clk http) ?Q s"
  proof (cases "Load P getenv")
    case (Inl e)
    then show ?thesis by (auto simp: room_api_main_def wp_simps)
  next
    case (Inr c)
    note usable = Load_is_usable [OF assms(1) Inr]
    show ?thesis
    proof (cases "se_MkdirAll E (se_Dir E (cfg_DBPath c))")
      case (Some e)
      with Inr show ?thesis by (auto simp: room_api_main_def wp_simps)
    next
      case None
      have healthy: "wp (fatal (in_db (MustHealthy E)) (\<lambda>_. State_Monad.return (Exits []))) ?Q s1"
        if "tables_same s s1" "mf_healthcheck flags" for s1
        using that by (auto simp: wp_fatal wp_simps intro!: wp_same_start(2) split: sum.splits
            intro: same_frame.trans)
      have serve: "wp (main_serve flags c (main_service c P rnd clk http)) ?Q s1"
        if "tables_same s s1" "\<not> mf_healthcheck flags" for s1
        by (rule wp_mono [OF main_serve_outcome [OF assms(2) that(1)]])
          (use that Inr usable in \<open>auto split: started.splits\<close>)
      have "room_api_main E getenv flags P rnd clk http = fatal (in_db (store_Open E (cfg_DBPath c))) (\<lambda>_.
          if mf_healthcheck flags then fatal (in_db (MustHealthy E)) (\<lambda>_. State_Monad.return (Exits []))
          else main_serve flags c (main_service c P rnd clk http))"
        by (simp add: room_api_main_def Inr None)
      moreover have "wp (if mf_healthcheck flags
            then fatal (in_db (MustHealthy E)) (\<lambda>_. State_Monad.return (Exits []))
            else main_serve flags c (main_service c P rnd clk http)) ?Q s1" if "tables_same s s1" for s1
        using healthy [OF that] serve [OF that] by presburger
      moreover have "?Q (Fatal e) s1" if "tables_same s s1" for e s1 using that by simp
      ultimately show ?thesis
        by (simp only: wp_fatal) (rule wp_same_start(1), simp only: split: sum.splits, blast)
    qed
  qed
  then show ?thesis by (simp add: wp_def assms(3))
qed

definition sample_start :: start_env where
  "sample_start = \<lparr>se_MkdirAll = (\<lambda>_. None), se_sql_Open = (\<lambda>_. None), se_Dir = (\<lambda>p. p), se_integrity = ''ok''\<rparr>"

lemma start_outcome_witness:
  "\<exists>t handler. run_state (room_api_main sample_start sample_environ
        \<lparr>mf_migrateDefault = False, mf_healthcheck = False\<rparr> digest_prims (\<lambda>n. State_Monad.return (Inr []))
        (State_Monad.return 0) (\<lambda>_. State_Monad.return (Inl (Message ''offline''))))
      \<lparr>db = empty_store [], audit_log = [], ext = ()\<rparr> = (Serves None handler, t) \<and>
     rooms (db t) = [] \<and> 1 \<le> ProvisionConcurrency (http_cfg handler)"
proof -
  let ?main = "room_api_main sample_start sample_environ \<lparr>mf_migrateDefault = False, mf_healthcheck = False\<rparr>
      digest_prims (\<lambda>n. State_Monad.return (Inr [])) (State_Monad.return 0)
      (\<lambda>_. State_Monad.return (Inl (Message ''offline'')))"
  let ?s = "\<lparr>db = empty_store [], audit_log = [], ext = ()\<rparr>"
  have digest: "digest_size digest_prims" by (simp add: digest_size_def digest_prims_def)
  have inv: "db_inv (db ?s)" by (simp add: db_inv_def empty_store_def)
  obtain handler t where run: "run_state ?main ?s = (Serves None handler, t)"
    by (simp add: room_api_main_def sample_Load sample_start_def store_Open_def fatal_def migrate_def exec_stmt_def
        ExecContext_def next_fault_def empty_store_def in_db_def main_serve_def rooms_Reconcile_def
        ListOperationsByStatus_def QueryContext_def run_on_field run_go_try)
  from start_outcome [OF digest inv run] run show ?thesis
    by (auto simp: settled_def empty_store_def usable_def main_handler_def update_where_def)
qed

end
