(* ===== verification/HttpApiSpec.thy ===== *)
theory HttpApiSpec
  imports HttpApi RoomServiceReconcile
begin

text \<open>
  Properties of the HTTP layer: who may change a room, what an anonymous client can learn from the
  answers, and that the provisioning slots bound the calls to \<open>Create\<close> in flight, for any
  interleaving of requests.
\<close>

section \<open>Steps\<close>

definition api_same :: "'w api \<Rightarrow> 'w api \<Rightarrow> bool" where
  "api_same a b \<longleftrightarrow> tables_same (svc a) (svc b)"

definition slots_same :: "'w api \<Rightarrow> 'w api \<Rightarrow> bool" where
  "slots_same a b \<longleftrightarrow> provision b = provision a"

interpretation api_frame: frame_relation api_same
  by unfold_locales (auto simp: api_same_def tables_same_def)

interpretation slot_frame: frame_relation slots_same
  by unfold_locales (auto simp: slots_same_def)

lemma api_in_svc: "same_frame.keeps m \<Longrightarrow> api_frame.keeps (in_svc m)"
  by (auto simp: same_frame.keeps_def api_frame.keeps_def in_svc_def run_on_field api_same_def
      split: prod.splits) (metis snd_conv)

lemma slot_in_svc: "slot_frame.keeps (in_svc m)"
  unfolding in_svc_def by (rule slot_frame.keeps_on_field) (simp add: slots_same_def)

lemma api_log: "api_frame.keeps (log_Printf l)" "slot_frame.keeps (log_Printf l)"
  by (simp_all add: api_frame.keeps_def slot_frame.keeps_def log_Printf_def State_Monad.update_def
      api_same_def tables_same_def slots_same_def)

lemma api_take_permit:
  "(\<And>a l. svc (put l a) = svc a) \<Longrightarrow> api_frame.keeps (take_permit get put H r)"
  "(\<And>a l. provision (put l a) = provision a) \<Longrightarrow> slot_frame.keeps (take_permit get put H r)"
  unfolding take_permit_def
  by (intro api_frame.keeps_intros api_in_svc same_in_ext api_frame.keeps_on_field slot_frame.keeps_intros
        slot_in_svc slot_frame.keeps_on_field; simp add: api_same_def tables_same_def slots_same_def)+

lemma api_slots:
  "api_frame.keeps (acquire_slot H)" "api_frame.keeps create_leave"
  by (simp_all add: api_frame.keeps_def acquire_slot_def create_leave_def State_Monad.update_def
      api_same_def tables_same_def)

section \<open>Only an authorized request changes a room\<close>

lemmas api_steps = api_frame.keeps_intros api_in_svc api_log api_slots api_take_permit

lemma api_create_enter: "api_frame.keeps (create_enter H r)"
  unfolding create_enter_def by (intro api_steps) simp

lemma api_joinRoom: "api_frame.keeps (joinRoom H r)"
  unfolding joinRoom_def by (intro api_steps same_Join) simp

lemma api_list_peers: "api_frame.keeps (list_peers H code r)"
  unfolding list_peers_def by (intro api_steps same_Peers) simp

lemma api_roomAction:
  assumes "\<not> authorizedAdmin (http_cfg H) r"
  shows "api_frame.keeps (roomAction H r)"
  unfolding roomAction_def disable_room_def
  by (auto simp: assms intro!: api_frame.keeps_return api_list_peers split: list.splits)

lemma wp_createRoom_rooms:
  assumes "sealed_services (service H)"
  shows "wp (createRoom H r)
    (\<lambda>_ b. \<exists>added. rooms (db (svc b)) = rooms (db (svc a)) @ added \<and> length added \<le> 1) a"
proof -
  let ?Q = "\<lambda>b. \<exists>added. rooms (db (svc b)) = rooms (db (svc a)) @ added \<and> length added \<le> 1"
  have work: "wp (create_work H key) (\<lambda>_. ?Q) b" if "api_same a b" for key b
  proof -
    have "wp (rooms_Create (service H) key)
        (\<lambda>_ v. \<exists>added. rooms (db v) = rooms (db (svc a)) @ added \<and> length added \<le> 1) (svc b)"
    proof (rule wp_mono [OF wp_Create_effect [OF assms]], goal_cases)
      case (1 res v)
      then show ?case
        using that
        by (auto simp: create_effect_def row_outcome_def row_state_def api_same_def tables_same_def)
    qed
    then show ?thesis
      unfolding create_work_def in_svc_def
      by (auto simp: wp_simps log_Printf_def wp_on_field split: sum.splits
          elim!: wp_mono intro: exI [of _ "[]"])
         (use that in \<open>auto simp: api_same_def tables_same_def\<close>)
  qed
  show ?thesis
    unfolding createRoom_def wp_bind
  proof (rule api_frame.wp_keeps [OF api_create_enter], goal_cases)
    case (1 x b)
    then show ?case
      by (auto simp: wp_simps create_leave_def api_same_def tables_same_def split: sum.splits
          intro!: wp_mono [OF work])
  qed
qed


lemma wp_serve_rooms:
  assumes "sealed_services (service H)" and "\<not> authorizedAdmin (http_cfg H) r"
  shows "wp (serve H r) (\<lambda>_ b. \<exists>added. rooms (db (svc b)) = rooms (db (svc a)) @ added \<and> length added \<le> 1 \<and>
    (added \<noteq> [] \<longrightarrow> Method r = ''POST'' \<and> Path r = ''/rooms'')) a"
proof (cases "Method r = ''POST'' \<and> Path r = ''/rooms''")
  case True
  then show ?thesis
    using wp_createRoom_rooms [OF assms(1), of r a] by (simp add: serve_def)
next
  case False
  have "api_frame.keeps (serve H r)"
    unfolding serve_def
    using False by (auto intro!: api_frame.keeps_return api_joinRoom api_roomAction [OF assms(2)])
  then show ?thesis
    by (rule api_frame.wp_keeps) (auto simp: api_same_def tables_same_def)
qed

lemma api_clock: "api_frame.keeps (in_svc (in_ext m))" "api_frame.keeps (in_svc (audit_Event n kvs))"
  by (intro api_in_svc same_in_ext same_audit)+

text \<open>
  C32: Only the administrator changes a room: whatever a request without the configured token
  asks for, every room is as it was afterwards, and the only rooms it can add is one, with
  \<open>POST /rooms\<close>.  An empty token in the configuration authorizes nobody.
\<close>

theorem unauthorized_changes_no_room:
  assumes "sealed_services (service H)"
    and "AdminToken (http_cfg H) = [] \<or>
      header_get (Header r) ''X-Room-Admin-Token'' \<noteq> AdminToken (http_cfg H)"
    and "run_state (ServeHTTP H r) a = (answer, b)"
  shows "\<exists>added. rooms (db (svc b)) = rooms (db (svc a)) @ added \<and> length added \<le> 1 \<and>
    (added \<noteq> [] \<longrightarrow> Method r = ''POST'' \<and> Path r = ''/rooms'')"
proof -
  have unauthorized: "\<not> authorizedAdmin (http_cfg H) r"
    using assms(2) by (auto simp: authorizedAdmin_def)
  have "wp (ServeHTTP H r) (\<lambda>_ b. \<exists>added. rooms (db (svc b)) = rooms (db (svc a)) @ added \<and>
      length added \<le> 1 \<and> (added \<noteq> [] \<longrightarrow> Method r = ''POST'' \<and> Path r = ''/rooms'')) a"
    unfolding ServeHTTP_def wp_bind
  proof (rule api_frame.wp_keeps [OF api_clock(1)], goal_cases)
    case (1 x c)
    then have c: "rooms (db (svc c)) = rooms (db (svc a))" by (simp add: api_same_def tables_same_def)
    show ?case
    proof (rule wp_mono [OF wp_serve_rooms [OF assms(1) unauthorized]],
        rule api_frame.wp_keeps [OF api_clock(1)], rule api_frame.wp_keeps [OF api_clock(2)], goal_cases)
      case 1
      then show ?case unfolding wp_return using c by (auto simp: api_same_def tables_same_def)
    qed
  qed
  from wpD [OF this assms(3)] show ?thesis .
qed

section \<open>What the answers tell\<close>

definition not_joinable :: "'w HttpServer \<Rightarrow> string \<Rightarrow> 'w api \<Rightarrow> bool" where
  "not_joinable H code a \<longleftrightarrow>
     (\<forall>room. room_by_hash (Hash (prims (service H)) (TrimSpace code)) (db (svc a)) = Some room \<longrightarrow>
        Status room \<noteq> ''active'')"

lemma run_in_svc: "run_state (in_svc m) a = (case run_state m (svc a) of (x, v) \<Rightarrow> (x, a\<lparr>svc := v\<rparr>))"
  by (simp add: in_svc_def run_on_field)

lemma refused_Join_Peers:
  assumes "\<And>room. room_by_hash (Hash (prims S) (TrimSpace code)) (db s) = Some room \<Longrightarrow>
    Status room \<noteq> ''active''"
  shows "fst (run_state (rooms_Join S code) s) = Inl (Sentinel ErrInvalidRoom)"
    and "fst (run_state (rooms_Peers S code) s) = Inl (Sentinel ErrInvalidRoom)"
proof -
  obtain r t where run: "run_state (code_room S code) s = (r, t)" by fastforce
  have "Status room \<noteq> ''active''" if "r = Inr room" for room
    using wpsD [OF wps_code_room [where Q = "\<lambda>room _. Status room \<noteq> ''active''"] run [unfolded that]]
      assms by blast
  then show "fst (run_state (rooms_Join S code) s) = Inl (Sentinel ErrInvalidRoom)"
    "fst (run_state (rooms_Peers S code) s) = Inl (Sentinel ErrInvalidRoom)"
    using run by (cases r; simp add: rooms_Join_def rooms_Peers_def)+
qed

lemma run_take_permit:
  "run_state (take_permit get put H r) a =
     (let (now, w) = run_state (clock (service H)) (ext (svc a));
          c = a\<lparr>svc := (svc a)\<lparr>ext := w\<rparr>\<rparr>;
          (b, l) = Allow (remoteIP r) now (get c)
      in (b, put l c))"
  by (simp add: take_permit_def run_in_svc in_ext_def run_on_field Let_def split: prod.splits)

text \<open>
  A code that cannot be joined tells nothing: whether it is unknown, or belongs to a room
  that is disabled, failed or still being created, or whether the database fails, a client
  gets the same bytes from \<open>POST /rooms/join\<close>; nothing but its own rate limit and its own body
  decides which bytes.
\<close>

theorem join_tells_nothing:
  assumes "\<And>code. decodeJSON decode_join_request (MaxBodyBytes (http_cfg H)) r = Some code \<Longrightarrow>
      not_joinable H code a \<and> not_joinable H code a'"
    and "joinLimit a = joinLimit a'" and "ext (svc a) = ext (svc a')"
  shows "fst (run_state (joinRoom H r) a) = fst (run_state (joinRoom H r) a')"
proof -
  have "fst (run_state (joinRoom H r) c) =
    (if \<not> fst (Allow (remoteIP r) (fst (run_state (clock (service H)) (ext (svc c)))) (joinLimit c))
     then writeError 429 ''rate limit exceeded''
     else if decodeJSON decode_join_request (MaxBodyBytes (http_cfg H)) r \<in> {None, Some []}
     then writeError 400 ''invalid request'' else writeError 404 ''room unavailable'')"
    if "\<And>code. decodeJSON decode_join_request (MaxBodyBytes (http_cfg H)) r = Some code \<Longrightarrow>
      not_joinable H code c" for c
  proof (cases "decodeJSON decode_join_request (MaxBodyBytes (http_cfg H)) r")
    case None
    then show ?thesis by (simp add: joinRoom_def run_take_permit Let_def split: prod.splits)
  next
    case (Some code)
    have closed: "x = Inl (Sentinel ErrInvalidRoom)"
      if "run_state (rooms_Join (service H) code) (svc c\<lparr>ext := w\<rparr>) = (x, v)" for x v w
      using refused_Join_Peers(1) [of "service H" code "svc c\<lparr>ext := w\<rparr>"]
        \<open>\<And>code. _ \<Longrightarrow> not_joinable H code c\<close> [OF Some] that
      by (auto simp: not_joinable_def)
    show ?thesis
      using Some
      by (auto simp: joinRoom_def run_take_permit Let_def run_in_svc dest!: closed split: prod.splits)
  qed
  then show ?thesis using assms by simp
qed


section \<open>Refused requests cost nothing\<close>

lemma writeError_status [simp]: "rs_status (writeError n m) = n" "rs_status (writeJSON n j) = n"
  by (simp_all add: writeError_def writeJSON_def)

lemma create_work_status:
  "rs_status (fst (run_state (create_work H key) a)) \<in> {201, 400, 409, 502}"
  by (auto simp: create_work_def run_in_svc split: prod.splits sum.splits)

text \<open>
  A call of \<open>POST /rooms\<close> that is refused, because its body is too large, the client is over
  its limit, or all provisioning slots are taken, reaches neither the database nor NetBird: at
  most the clock was read, and the slots are as before.
\<close>

theorem refused_create_is_free:
  assumes "run_state (createRoom H r) a = (answer, b)" and "rs_status answer \<in> {413, 429, 503}"
  shows "db (svc b) = db (svc a) \<and> audit_log (svc b) = audit_log (svc a) \<and>
    provision b = provision a \<and>
    ext (svc b) \<in> {ext (svc a), snd (run_state (clock (service H)) (ext (svc a)))}"
proof -
  obtain x c where enter: "run_state (create_enter H r) a = (x, c)" by fastforce
  show ?thesis
  proof (cases x)
    case (Inl e)
    then have "b = c" using assms(1) enter by (simp add: createRoom_def)
    then show ?thesis
      using enter Inl
      by (auto simp: create_enter_def run_take_permit Let_def acquire_slot_def
          split: if_splits prod.splits)
  next
    case (Inr key)
    then have "answer = fst (run_state (create_work H key) c)"
      using assms(1) enter by (auto simp: createRoom_def split: prod.splits)
    then show ?thesis using create_work_status [of H key c] assms(2) by auto
  qed
qed

section \<open>Overlapping requests\<close>

text \<open>
  Requests overlap: each call of \<open>POST /rooms\<close> enters and, later, works and leaves, and other
  requests come in between.  The list holds the keys of the calls that have entered.
\<close>

inductive flow_step ::
  "'w HttpServer \<Rightarrow> 'w api \<times> string list \<Rightarrow> 'w api \<times> string list \<Rightarrow> bool" for H where
  flow_enter: "run_state (create_enter H r) a = (Inr key, b) \<Longrightarrow> flow_step H (a, ks) (b, key # ks)"
| flow_refuse: "run_state (create_enter H r) a = (Inl answer, b) \<Longrightarrow> flow_step H (a, ks) (b, ks)"
| flow_finish: "key \<in> set ks \<Longrightarrow> run_state (create_work H key) a = (answer, b) \<Longrightarrow>
    run_state create_leave b = ((), c) \<Longrightarrow> flow_step H (a, ks) (c, remove1 key ks)"
| flow_join: "run_state (joinRoom H r) a = (answer, b) \<Longrightarrow> flow_step H (a, ks) (b, ks)"
| flow_action: "run_state (roomAction H r) a = (answer, b) \<Longrightarrow> flow_step H (a, ks) (b, ks)"

inductive_cases flow_stepE: "flow_step H (a, ks) q"

lemmas slot_steps = slot_frame.keeps_intros slot_in_svc api_log api_take_permit

lemma slot_handlers:
  "slot_frame.keeps (create_work H key)" "slot_frame.keeps (joinRoom H r)"
  "slot_frame.keeps (roomAction H r)"
proof -
  show "slot_frame.keeps (create_work H key)"
    unfolding create_work_def by (intro slot_steps)
  show "slot_frame.keeps (joinRoom H r)"
    unfolding joinRoom_def by (intro slot_steps) simp
  have "slot_frame.keeps (list_peers H code r)" "slot_frame.keeps (disable_room H code r)" for code
    unfolding list_peers_def disable_room_def by (intro slot_steps; simp)+
  then show "slot_frame.keeps (roomAction H r)"
    unfolding roomAction_def by (auto intro!: slot_frame.keeps_return split: list.splits)
qed

lemma create_enter_slot:
  assumes "run_state (create_enter H r) a = (x, b)"
  shows "case x of
      Inl e \<Rightarrow> provision b = provision a
    | Inr key \<Rightarrow> provision b = provision a + 1 \<and> provision a < ProvisionConcurrency (http_cfg H)"
  using assms
  by (auto simp: create_enter_def run_take_permit Let_def acquire_slot_def
      split: if_splits prod.splits)

lemma flow_step_slots:
  assumes "flow_step H p q"
    and "provision (fst p) = length (snd p)" and "length (snd p) \<le> ProvisionConcurrency (http_cfg H)"
  shows "provision (fst q) = length (snd q) \<and> length (snd q) \<le> ProvisionConcurrency (http_cfg H)"
  using assms
proof (induction rule: flow_step.induct)
  case (flow_enter r a key b ks)
  then show ?case using create_enter_slot [OF flow_enter.hyps] by simp
next
  case (flow_refuse r a answer b ks)
  then show ?case using create_enter_slot [OF flow_refuse.hyps] by simp
next
  case (flow_finish key ks a answer b c)
  have "provision b = provision a"
    using slot_frame.keepsD [OF slot_handlers(1) flow_finish.hyps(2)] by (simp add: slots_same_def)
  moreover have "provision c = provision b - 1"
    using flow_finish.hyps(3) by (auto simp: create_leave_def State_Monad.update_def)
  ultimately show ?case
    using flow_finish by (auto simp: length_remove1)
next
  case (flow_join r a answer b ks)
  then show ?case
    using slot_frame.keepsD [OF slot_handlers(2) flow_join.hyps] by (simp add: slots_same_def)
next
  case (flow_action r a answer b ks)
  then show ?case
    using slot_frame.keepsD [OF slot_handlers(3) flow_action.hyps] by (simp add: slots_same_def)
qed

text \<open>
  C33: However requests overlap, never more than \<open>ProvisionConcurrency\<close> calls of \<open>POST /rooms\<close> are
  provisioning, and every slot that is taken belongs to one of them: no answer leaks a slot.
\<close>

theorem provisioning_bounded:
  assumes "(flow_step H)\<^sup>*\<^sup>* (http_New s (http_cfg H), []) (a, ks)"
  shows "provision a = length ks \<and> length ks \<le> ProvisionConcurrency (http_cfg H)"
proof -
  have "provision (fst q) = length (snd q) \<and> length (snd q) \<le> ProvisionConcurrency (http_cfg H)"
    if "(flow_step H)\<^sup>*\<^sup>* (http_New s (http_cfg H), []) q" for q
    using that
    by (induction rule: rtranclp_induct) (auto simp: http_New_def dest: flow_step_slots)
  from this [OF assms] show ?thesis by simp
qed

end
