(* ===== verification/RoomServiceWitness.thy ===== *)
theory RoomServiceWitness
  imports RoomServiceReconcile
begin

text \<open>
  Concrete runs of the room service.  The world is a counter that the random source reads, the
  hash and the cipher do nothing, and NetBird grants every request: the smallest environment in
  which all assumptions of the properties hold.  Each witness applies a property to such a run.
\<close>

section \<open>A concrete environment\<close>

definition sample_prims :: Primitives where
  "sample_prims = \<lparr>sha256 = (\<lambda>s. s), gcm_seal = (\<lambda>k n p. p), gcm_open = (\<lambda>k n c. Some c)\<rparr>"

definition sample_random :: "nat random" where
  "sample_random n = State (\<lambda>w. (Inr (replicate n (char_of w)), w + 1))"

definition sample_key :: SetupKeyClear where
  "sample_key = \<lparr>skc_SetupKey = zero_SetupKey\<lparr>sk_ID := ''k1''\<rparr>, skc_Key = ''SECRET''\<rparr>"

definition sample_api :: "nat NetBirdAPI" where
  "sample_api =
     \<lparr>api_ListGroups = ok [],
      api_CreateGroup = (\<lambda>name. ok (zero_Group\<lparr>g_ID := ''g1'', g_Name := name\<rparr>)),
      api_DeleteGroup = (\<lambda>_. ok ()), api_ListSetupKeys = ok [],
      api_CreateSetupKey = (\<lambda>name gid. ok sample_key),
      api_RevokeSetupKey = (\<lambda>_ _. ok ()), api_DeleteSetupKey = (\<lambda>_. ok ()),
      api_ListPolicies = ok [],
      api_CreateRoomPolicy = (\<lambda>name gid. ok \<lparr>pol_ID = ''p1'', pol_Name = name,
         pol_Description = [], pol_Enabled = True, pol_Rules = []\<rparr>),
      api_DeletePolicy = (\<lambda>_. ok ()), api_DisablePolicy = (\<lambda>_. ok ()), api_ListPeers = ok []\<rparr>"

definition sample_service :: "nat Service" where
  "sample_service =
     \<lparr>nb = sample_api, ManagementURL = ''https://nb.example'',
      EncryptionKey = replicate 16 CHR ''k'', prims = sample_prims, rand_Read = sample_random,
      clock = State_Monad.return 0\<rparr>"

lemma sample_sealed: "sealed_services sample_service"
  by (simp add: sealed_services_def sample_service_def gcm_correct_def sample_prims_def
      random_exact_def sample_random_def)

lemma sample_Seal:
  "length k = 16 \<Longrightarrow> run_state (Seal sample_prims sample_random k p) w =
     (Inr (replicate 12 (char_of w) @ p), w + 1)"
  by (simp add: Seal_def NewCipher_def sample_prims_def sample_random_def run_go_try nonce_size_def)

lemma sample_Open: "length k = 16 \<Longrightarrow> length n = 12 \<Longrightarrow> crypto_Open sample_prims k (n @ p) = Inr p"
  by (simp add: crypto_Open_def NewCipher_def sample_prims_def nonce_size_def)

lemmas sample_run =
  run_go_try run_in_db run_on_field in_ext_def audit_Event_def State_Monad.update_def
  start_server_def empty_store_def randomID_def randomRoomCode_def sample_service_def
  sample_random_def sample_api_def sample_Seal run_exec_stmt healthy_def drop_fault_def

lemmas sample_stmts =
  CreateRoom_def SetStatus_def UpdateExternalIDs_def SaveOperation_def BeginOperation_def
  GetOperation_def insert_room_def update_rooms_def update_operations_def
  insert_or_ignore_operation_def exec_stmt_def ExecContext_def QueryContext_def next_fault_def

definition sample_response :: RoomResponse where
  "sample_response =
     \<lparr>resp_RoomID = hex_encode (replicate 12 (char_of (0::nat))),
      resp_RoomCode = room_code (replicate 12 (char_of (1::nat))),
      resp_ManagementURL = ''https://nb.example'', resp_SetupKey = ''SECRET''\<rparr>"

definition sample_room :: Room where
  "sample_room =
     \<lparr>ID = resp_RoomID sample_response,
      CodeHash = Hash sample_prims (resp_RoomCode sample_response),
      CodeCiphertext = replicate 12 (char_of (2::nat)) @ resp_RoomCode sample_response,
      GroupID = ''g1'', SetupKeyID = ''k1'',
      SetupKeyCiphertext = replicate 12 (char_of (3::nat)) @ ''SECRET'',
      PolicyID = ''p1'', Status = ''active'', CreatedAt = 0, DisabledAt = None, LastError = []\<rparr>"

definition sample_audit :: "(string \<times> json) list" where
  "sample_audit = [(''room_created'', JObj
     [(''event'', JStr ''room_created''), (''room_id'', JStr (resp_RoomID sample_response)),
      (''group_id'', JStr ''g1'')])]"

definition sample_after :: "nat server" where
  "sample_after =
     \<lparr>db = \<lparr>rooms = [sample_room], operations = [], faults = []\<rparr>, audit_log = sample_audit, ext = 4\<rparr>"

lemma sample_create:
  "run_state (rooms_Create sample_service []) (start_server 0 []) = (Inr sample_response, sample_after)"
  by (simp add: create_stages sample_run sample_stmts sample_key_def sample_after_def sample_audit_def
      sample_room_def sample_response_def numeral_eq_Suc)

definition sample_op :: "string \<Rightarrow> string \<Rightarrow> Operation" where
  "sample_op response status =
     \<lparr>IdempotencyKey = ''once'', RoomID = resp_RoomID sample_response, Response = response,
      OpStatus = status, OpCreatedAt = 0\<rparr>"

definition sample_saved :: string where
  "sample_saved = replicate 12 (char_of (4::nat)) @ render (encode_RoomResponse sample_response)"

definition sample_keyed_after :: "nat server" where
  "sample_keyed_after =
     \<lparr>db = \<lparr>rooms = [sample_room], operations = [sample_op sample_saved ''active''], faults = []\<rparr>,
      audit_log = sample_audit, ext = 5\<rparr>"

lemma sample_create_keyed:
  "run_state (rooms_Create sample_service ''once'') (start_server 0 []) =
     (Inr sample_response, sample_keyed_after)"
  by (simp add: create_stages sample_run sample_stmts sample_key_def sample_keyed_after_def
      sample_saved_def sample_op_def sample_audit_def sample_room_def sample_response_def
      numeral_eq_Suc del: render.simps)

text \<open>The last statement of the call fails: the room is active, the operation still creating.\<close>

definition sample_half :: "nat server" where
  "sample_half =
     \<lparr>db = \<lparr>rooms = [sample_room], operations = [sample_op [] ''creating''], faults = []\<rparr>,
      audit_log = [], ext = 5\<rparr>"

lemma sample_create_half:
  "run_state (rooms_Create sample_service ''once'')
       (start_server 0 [None, None, None, None, None, None, Some ''disk full'']) =
     (Inl (Message ''disk full''), sample_half)"
  by (simp add: create_stages sample_run sample_stmts sample_key_def sample_half_def
      sample_op_def sample_room_def sample_response_def
      numeral_eq_Suc del: render.simps)


text \<open>A step of the state machine from each run.\<close>

lemma sample_reaches: "service_reaches sample_service (start_server 0 []) sample_after"
  unfolding service_reaches_def using call_Create [OF sample_create] by blast

lemma sample_db [simp]:
  "healthy (db sample_after)" "db_inv (db sample_after)" "healthy (db sample_keyed_after)"
  "db_inv (db (start_server w fs))" "db_inv (db sample_half)" "healthy (db sample_half)"
  by (simp_all add: sample_after_def sample_keyed_after_def sample_half_def healthy_def db_inv_def
      start_server_def empty_store_def)

lemma sample_first_use [simp]: "first_use key (db (start_server w fs))"
  by (simp add: first_use_def op_by_key_def start_server_def empty_store_def)

section \<open>Create and Join\<close>

theorem Create_new_room_witness:
  "\<exists>room. rooms (db sample_after) = rooms (db (start_server (0::nat) [])) @ [room] \<and>
     active_room sample_service sample_response room"
  using Create_new_room [OF sample_sealed sample_first_use sample_create] by blast

theorem Create_then_Join_witness:
  "fst (run_state (rooms_Join sample_service (resp_RoomCode sample_response)) sample_after) =
     Inr (sample_response\<lparr>resp_RoomCode := []\<rparr>)"
  by (rule Create_then_Join [OF sample_sealed sample_first_use _ sample_create])
     (simp_all add: sample_response_def TrimSpace_room_code)

theorem Create_idempotent_witness:
  "run_state (rooms_Create sample_service ''once'') sample_keyed_after =
     (Inr sample_response, sample_keyed_after\<lparr>db := drop_fault (db sample_keyed_after)\<rparr>)"
  by (rule Create_idempotent [OF sample_sealed _ sample_first_use sample_create_keyed])
     (simp_all add: sample_service_def sample_response_def is_ascii_def byte_def)

theorem reachable_keys_witness: "db_inv (db sample_after)"
  using reachable_keys [OF sample_reaches] .

theorem active_rooms_joinable_witness:
  "\<exists>key. fst (run_state (rooms_Join sample_service (resp_RoomCode sample_response)) sample_after) =
     Inr \<lparr>resp_RoomID = ID sample_room, resp_RoomCode = [],
          resp_ManagementURL = ''https://nb.example'', resp_SetupKey = key\<rparr>"
  using active_rooms_joinable [OF sample_sealed sample_reaches,
      of sample_room "resp_RoomCode sample_response"]
  by (auto simp: sample_after_def healthy_def sample_room_def sample_service_def sample_response_def
      TrimSpace_room_code)

theorem Create_touches_no_room_witness:
  "\<exists>added. rooms (db sample_after) = rooms (db (start_server (0::nat) [])) @ added \<and> length added \<le> 1"
  using Create_touches_no_room [OF sample_sealed sample_create] by blast

section \<open>Disable\<close>

definition sample_disabled :: "nat server" where
  "sample_disabled = snd (run_state (rooms_Disable sample_service (resp_RoomCode sample_response)) sample_after)"

lemma sample_disable:
  "run_state (rooms_Disable sample_service (resp_RoomCode sample_response)) sample_after =
     (Inr (), sample_disabled)"
  by (simp add: sample_disabled_def rooms_Disable_def run_code_room sample_run store_Disable_def
      update_rooms_def room_by_hash_def sample_after_def sample_room_def sample_response_def
      TrimSpace_room_code)

theorem disabled_forever_witness:
  "fst (run_state (rooms_Join sample_service (resp_RoomCode sample_response)) sample_disabled) =
     Inl (Sentinel ErrInvalidRoom)"
  using disabled_forever [OF sample_sealed _ sample_disable, of sample_disabled]
  by (simp add: service_reaches_def)

section \<open>Reconcile and idempotency keys\<close>

definition sample_reconciled :: "nat server" where
  "sample_reconciled = snd (run_state (rooms_Reconcile sample_service) sample_half)"

lemma sample_reconcile: "run_state (rooms_Reconcile sample_service) sample_half = (Inr (), sample_reconciled)"
  by (simp add: sample_reconciled_def rooms_Reconcile_def ListOperationsByStatus_def
      run_QueryContext reconcile_operation_def remove_resources_def GetRoom_def scanRoom_def sample_run
      SetStatus_def SaveOperation_def update_rooms_def update_operations_def sample_half_def
      sample_op_def sample_room_def)

theorem Reconcile_settles_witness:
  "map OpStatus (operations (db sample_reconciled)) = [''error'']"
  unfolding Reconcile_settles [OF sample_db(5) sample_reconcile, THEN conjunct1]
  by (simp add: sample_half_def sample_op_def)

theorem Reconcile_fails_active_room_witness:
  "\<exists>room' \<in> set (rooms (db sample_reconciled)). ID room' = ID sample_room \<and> Status room' = ''error''"
  using Reconcile_fails_active_room [OF _ sample_reconcile, of sample_room "sample_op [] ''creating''"]
  by (auto simp: sample_half_def sample_room_def sample_op_def db_inv_def)

definition sample_begun :: "nat server" where
  "sample_begun = snd (run_state (create_begin sample_service ''once'' False ''r1'') (start_server 0 []))"

lemma sample_begin:
  "run_state (create_begin sample_service ''once'' False ''r1'') (start_server 0 []) = (Inr (), sample_begun)"
  by (simp add: sample_begun_def create_begin_def sample_run sample_stmts)

theorem first_use_claimed_once_witness:
  "\<exists>e. fst (run_state (create_begin sample_service ''once'' False ''r2'') sample_begun) = Inl e"
  by (rule first_use_claimed_once [OF _ sample_begin]) (simp_all add: service_reaches_def)

theorem creating_operation_blocks_witness:
  "run_state (rooms_Create sample_service ''once'') sample_half =
     (Inl (Sentinel ErrOperationInProgress), sample_half\<lparr>db := drop_fault (db sample_half)\<rparr>)"
  by (rule creating_operation_blocks [of _ _ "sample_op [] ''creating''"])
     (simp_all add: op_by_key_def sample_half_def sample_op_def healthy_def)

definition sample_errored :: "nat server" where
  "sample_errored = sample_half\<lparr>db := \<lparr>rooms = [], operations = [sample_op [] ''error''], faults = []\<rparr>\<rparr>"

theorem retry_claimed_twice_witness:
  "\<exists>s1 s2 s3 s4.
    run_state (create_lookup sample_service ''once'') sample_errored = (Inr (Proceed True), s1) \<and>
    run_state (create_lookup sample_service ''once'') s1 = (Inr (Proceed True), s2) \<and>
    run_state (create_begin sample_service ''once'' True ''a'') s2 = (Inr (), s3) \<and>
    run_state (create_begin sample_service ''once'' True ''b'') s3 = (Inr (), s4)"
  by (rule retry_claimed_twice [of _ _ "sample_op [] ''error''"])
     (simp_all add: op_by_key_def sample_errored_def sample_op_def healthy_def)


end
