(* ===== verification/HttpApiWitness.thy ===== *)
theory HttpApiWitness
  imports HttpApiSpec RoomServiceWitness
begin

text \<open>Concrete requests against the environment of \<open>RoomServiceWitness\<close>.\<close>

definition sample_cfg :: HttpConfig where
  "sample_cfg =
     \<lparr>AdminToken = ''admin'', MaxBodyBytes = 4096, CreateRatePerMinute = 5, JoinRatePerMinute = 30,
      PeerRatePerMinute = 60, ProvisionConcurrency = 2\<rparr>"

definition sample_handler :: "nat HttpServer" where
  "sample_handler = \<lparr>service = sample_service, http_cfg = sample_cfg\<rparr>"

definition sample_request :: "string \<Rightarrow> string \<Rightarrow> int \<Rightarrow> Request" where
  "sample_request m p n =
     \<lparr>Method = m, Path = p, Header = [], ContentLength = n, Body = [], RemoteAddr = ''10.0.0.9:4711''\<rparr>"

definition sample_http :: "nat api" where
  "sample_http = http_New (start_server 0 []) sample_cfg"

theorem unauthorized_changes_no_room_witness:
  "\<exists>added. rooms (db (svc (snd (run_state
      (ServeHTTP sample_handler (sample_request ''POST'' ''/rooms'' 0)) sample_http)))) = added \<and>
    length added \<le> 1"
  using unauthorized_changes_no_room
    [of sample_handler "sample_request ''POST'' ''/rooms'' 0" sample_http,
     OF _ _ prod.collapse [symmetric]] sample_sealed
  by (simp add: sample_handler_def sample_cfg_def sample_request_def header_get_def sample_http_def
      http_New_def start_server_def empty_store_def)

definition sample_http_disabled :: "nat api" where
  "sample_http_disabled = sample_http\<lparr>svc := (start_server 0 [])\<lparr>db :=
     \<lparr>rooms = [sample_room\<lparr>Status := ''disabled''\<rparr>], operations = [], faults = [Some ''io error'']\<rparr>\<rparr>\<rparr>"

theorem join_tells_nothing_witness:
  "fst (run_state (joinRoom sample_handler (sample_request ''POST'' ''/rooms/join'' 0)) sample_http) =
   fst (run_state (joinRoom sample_handler (sample_request ''POST'' ''/rooms/join'' 0)) sample_http_disabled)"
  by (rule join_tells_nothing)
     (auto simp: not_joinable_def sample_http_def sample_http_disabled_def http_New_def start_server_def
        empty_store_def room_by_hash_def)

theorem refused_create_is_free_witness:
  "db (svc (snd (run_state (createRoom sample_handler (sample_request ''POST'' ''/rooms'' 5000)) sample_http))) =
     db (svc sample_http)"
  using refused_create_is_free
    [of sample_handler "sample_request ''POST'' ''/rooms'' 5000" sample_http,
     OF prod.collapse [symmetric]]
  by (simp add: createRoom_def create_enter_def sample_handler_def sample_cfg_def sample_request_def)

definition sample_entered :: "nat api" where
  "sample_entered = snd (run_state (create_enter sample_handler (sample_request ''POST'' ''/rooms'' 0)) sample_http)"

lemma sample_enter:
  "run_state (create_enter sample_handler (sample_request ''POST'' ''/rooms'' 0)) sample_http =
     (Inr [], sample_entered)"
  by (simp add: sample_entered_def create_enter_def run_take_permit Let_def acquire_slot_def
      sample_handler_def sample_cfg_def sample_request_def sample_http_def http_New_def
      sample_service_def start_server_def newLimiter_def Allow_def entry_of_def time_IsZero_def
      header_get_def)

theorem provisioning_bounded_witness: "provision sample_entered = 1"
  using provisioning_bounded [of sample_handler "start_server 0 []" sample_entered "[[]]"]
    flow_enter [OF sample_enter, of "[]"]
  by (auto simp: sample_http_def sample_handler_def)

end
