(* ===== verification/ClientHeap.thy ===== *)
theory ClientHeap
  imports GoError
begin

text \<open>
  The objects the client shares by reference: the setup keys of
  \<open>client/internal/netbird/adapter.go\<close>, and the enrollment secrets and create intents of
  \<open>client/internal/roomapi/client.go\<close>.  A pointer is an index into the list of the objects of its
  type; \<open>nil\<close> is \<open>None\<close>.  \<open>outside\<close> is the world beyond the process (daemon, network, disk,
  clock): what it holds is left to the parameters that act on it.

  A \<open>context.Context\<close> is kept as the way it was derived, so that a call the code makes with
  \<open>context.WithoutCancel\<close> can be told from one made with the caller's context; whether a
  context has ended is the world's decision.
\<close>

datatype go_context =
    Background
  | WithTimeout go_context duration
  | WithCancel go_context
  | WithoutCancel go_context

record enrollmentSecret =
  es_key :: "nat option"
  es_consumed :: bool

record CreateIntent =
  ci_key :: string
  ci_inFlight :: bool
  ci_complete :: bool

record 'w client =
  setup_keys :: "string list"
  secrets :: "enrollmentSecret list"
  intents :: "CreateIntent list"
  outside :: 'w

definition in_world :: "('w, 'a) state \<Rightarrow> ('w client, 'a) state" where
  "in_world = on_field outside (\<lambda>w s. s\<lparr>outside := w\<rparr>)"

lemma wp_in_world [wp_simps]:
  "wp (in_world m) Q s = wp m (\<lambda>a w. Q a (s\<lparr>outside := w\<rparr>)) (outside s)"
  by (simp add: in_world_def wp_simps)

lemma wps_in_world [wps_simps]:
  "wps (in_world m) Q s = wps m (\<lambda>a w. Q a (s\<lparr>outside := w\<rparr>)) (outside s)"
  by (simp add: in_world_def wps_simps)

lemma run_in_world:
  "run_state (in_world m) s =
     (case run_state m (outside s) of (a, w) \<Rightarrow> (a, s\<lparr>outside := w\<rparr>))"
  by (simp add: in_world_def run_on_field)

section \<open>Setup keys\<close>

text \<open>
  A \<open>*SetupKey\<close> owns a copy of the bytes.  After \<open>Clear\<close> its value is \<open>nil\<close>, which nothing
  in the code tells from the empty slice.
\<close>

definition NewSetupKey :: "string \<Rightarrow> ('w client, nat) state" where
  "NewSetupKey value = do {
     s \<leftarrow> State_Monad.get;
     State_Monad.set (s\<lparr>setup_keys := setup_keys s @ [value]\<rparr>);
     State_Monad.return (length (setup_keys s))
   }"

definition SetupKey_Clear :: "nat option \<Rightarrow> ('w client, unit) state" where
  "SetupKey_Clear key =
     (case key of
        None \<Rightarrow> State_Monad.return ()
      | Some p \<Rightarrow> State_Monad.update (\<lambda>s. s\<lparr>setup_keys := (setup_keys s)[p := []]\<rparr>))"

definition SetupKey_value :: "nat \<Rightarrow> 'w client \<Rightarrow> string" where
  "SetupKey_value p s = (if p < length (setup_keys s) then setup_keys s ! p else [])"

text \<open>The three ways in which Go prints a value; each of them hides the key.\<close>

definition redacted :: string where "redacted = ''[REDACTED]''"

definition SetupKey_String :: "nat option \<Rightarrow> 'w client \<Rightarrow> string" where
  "SetupKey_String key s = redacted"

definition SetupKey_Format :: "nat option \<Rightarrow> char \<Rightarrow> 'w client \<Rightarrow> string" where
  "SetupKey_Format key verb s = redacted"

definition SetupKey_LogValue :: "nat option \<Rightarrow> 'w client \<Rightarrow> string" where
  "SetupKey_LogValue key s = redacted"

definition SetupKey_MarshalJSON :: "nat option \<Rightarrow> 'w client \<Rightarrow> goerr + string" where
  "SetupKey_MarshalJSON key s = Inl (Message ''Setup Key serialization is forbidden'')"

lemma wp_NewSetupKey [wp_simps]:
  "wp (NewSetupKey v) Q s = Q (length (setup_keys s)) (s\<lparr>setup_keys := setup_keys s @ [v]\<rparr>)"
  by (simp add: NewSetupKey_def wp_simps)

lemma wp_SetupKey_Clear [wp_simps]:
  "wp (SetupKey_Clear key) Q s =
     (case key of None \<Rightarrow> Q () s
      | Some p \<Rightarrow> Q () (s\<lparr>setup_keys := (setup_keys s)[p := []]\<rparr>))"
  by (simp add: SetupKey_Clear_def wp_simps split: option.splits)

lemma SetupKey_value_update [simp]:
  "SetupKey_value q (s\<lparr>setup_keys := (setup_keys s)[p := v]\<rparr>) =
     (if q = p \<and> p < length (setup_keys s) then v else SetupKey_value q s)"
  by (auto simp: SetupKey_value_def)

lemma SetupKey_value_outside [simp]: "SetupKey_value p (s\<lparr>outside := w\<rparr>) = SetupKey_value p s"
  by (simp add: SetupKey_value_def)

text \<open>How long the key is held: nothing but \<open>Clear\<close> empties it, and it is never filled again.\<close>

definition keys_monotone :: "'w client \<Rightarrow> 'w client \<Rightarrow> bool" where
  "keys_monotone s t \<longleftrightarrow>
     length (setup_keys s) \<le> length (setup_keys t) \<and>
     (\<forall>p < length (setup_keys s). setup_keys t ! p = setup_keys s ! p \<or> setup_keys t ! p = [])"

interpretation keys: frame_relation keys_monotone
proof unfold_locales
  fix s t u :: "'w client"
  assume "keys_monotone s t" and "keys_monotone t u"
  then show "keys_monotone s u"
    unfolding keys_monotone_def by (metis order_less_le_trans order_trans)
qed (simp add: keys_monotone_def)

lemma keys_NewSetupKey: "keys.keeps (NewSetupKey v)"
  by (rule keys.keepsI) (auto simp: NewSetupKey_def keys_monotone_def nth_append)

lemma keys_SetupKey_Clear: "keys.keeps (SetupKey_Clear key)"
proof (rule keys.keepsI)
  fix s t :: "'w client" and a
  assume "run_state (SetupKey_Clear key) s = (a, t)"
  moreover have "(setup_keys s)[q := []] ! p = setup_keys s ! p \<or> (setup_keys s)[q := []] ! p = []"
    if "p < length (setup_keys s)" for p q
    using that by (cases "p = q") simp_all
  ultimately show "keys_monotone s t"
    by (cases key)
       (auto simp: SetupKey_Clear_def keys_monotone_def State_Monad.update_def, blast)
qed

lemma keys_in_world: "keys.keeps (in_world m)"
  by (rule keys.keepsI) (auto simp: run_in_world keys_monotone_def split: prod.splits)

end
