(* ===== verification/NbTypes.thy ===== *)
theory NbTypes
  imports ClientHeap
begin

text \<open>
  The NetBird port of the client (\<open>client/internal/netbird/adapter.go\<close>) and the translation of
  the daemon's messages into it (\<open>normalize.go\<close>).

  The messages are records of the fields the code reads; a pointer that may be \<open>nil\<close> is an
  option.  Three operations on them belong to the protobuf library and are a parameter: the
  validity and the value of a time stamp, and the name of an enumeration's value (from the table
  in the generated code).
\<close>

section \<open>The port\<close>

datatype DaemonState =
    DaemonIdle | DaemonConnecting | DaemonConnected | DaemonNeedsLogin | DaemonLoginFailed
  | DaemonSessionExpired | DaemonUnknown | DaemonUnset

text \<open>\<open>DaemonUnset\<close> is the zero value, the empty string, of a snapshot nobody filled in.\<close>

datatype PeerState = PeerIdle | PeerConnecting | PeerConnected | PeerUnknown

datatype PathType = PathNone | PathP2P | PathRelay

record Profile =
  prof_ID :: string
  prof_Name :: string
  prof_IsActive :: bool
  prof_Username :: string

definition no_profile :: Profile where
  "no_profile = \<lparr>prof_ID = [], prof_Name = [], prof_IsActive = False, prof_Username = []\<rparr>"

record DaemonPeer =
  dp_PublicKey :: string
  dp_FQDN :: string
  dp_NetBirdIP :: string
  dp_NetBirdIPv6 :: string
  dp_State :: PeerState
  dp_Path :: PathType
  dp_RelayAddress :: string
  dp_LastHandshake :: time
  dp_BytesReceived :: int
  dp_BytesSent :: int

record DaemonSnapshot =
  ds_DaemonVersion :: string
  ds_DaemonState :: DaemonState
  ds_ManagementURL :: string
  ds_ManagementConnected :: bool
  ds_SignalURL :: string
  ds_SignalConnected :: bool
  ds_LocalNetBirdIP :: string
  ds_LocalNetBirdIPv6 :: string
  ds_Peers :: "DaemonPeer list"

definition no_snapshot :: DaemonSnapshot where
  "no_snapshot = \<lparr>ds_DaemonVersion = [], ds_DaemonState = DaemonUnset, ds_ManagementURL = [],
     ds_ManagementConnected = False, ds_SignalURL = [], ds_SignalConnected = False,
     ds_LocalNetBirdIP = [], ds_LocalNetBirdIPv6 = [], ds_Peers = []\<rparr>"

record NbEvent =
  ev_ID :: string
  ev_Severity :: string
  ev_Category :: string
  ev_UserMessage :: string
  ev_OccurredAt :: time

record EnrollmentRequest =
  er_ManagementURL :: string
  er_ProfileID :: string
  er_Hostname :: string
  er_SetupKey :: "nat option"

text \<open>
  \<open>interface Adapter\<close>.  \<open>Status\<close> hands back a snapshot together with an error.  \<open>Subscribe\<close>
  opens the two channels (or reports on them, at once, why not) and \<open>ad_Recv\<close> is what the next
  read from them yields.
\<close>

datatype sub_message = SubEvent NbEvent | SubFailure goerr | SubClosed

record 's Adapter =
  ad_DaemonVersion :: "go_context \<Rightarrow> ('s, goerr + string) state"
  ad_Status :: "go_context \<Rightarrow> ('s, DaemonSnapshot \<times> goerr option) state"
  ad_ListProfiles :: "go_context \<Rightarrow> ('s, goerr + Profile list) state"
  ad_ActiveProfile :: "go_context \<Rightarrow> ('s, goerr + Profile) state"
  ad_CreateProfile :: "go_context \<Rightarrow> string \<Rightarrow> ('s, goerr + Profile) state"
  ad_SelectProfile :: "go_context \<Rightarrow> string \<Rightarrow> ('s, goerr + unit) state"
  ad_RemoveProfile :: "go_context \<Rightarrow> string \<Rightarrow> ('s, goerr + unit) state"
  ad_Enroll :: "go_context \<Rightarrow> EnrollmentRequest \<Rightarrow> ('s, goerr + unit) state"
  ad_Connect :: "go_context \<Rightarrow> string \<Rightarrow> ('s, goerr + unit) state"
  ad_Disconnect :: "go_context \<Rightarrow> string \<Rightarrow> ('s, goerr + unit) state"
  ad_Deregister :: "go_context \<Rightarrow> string \<Rightarrow> ('s, goerr + unit) state"
  ad_Subscribe :: "go_context \<Rightarrow> ('s, goerr option) state"
  ad_Recv :: "go_context \<Rightarrow> ('s, sub_message) state"

section \<open>The messages of the daemon\<close>

record Timestamp =
  ts_Seconds :: int
  ts_Nanos :: int

record protobuf =
  ts_IsValid :: "Timestamp \<Rightarrow> bool"
  ts_AsTime :: "Timestamp \<Rightarrow> time"
  EnumStringOf :: "(int \<times> string) list \<Rightarrow> int \<Rightarrow> string"

record pb_PeerState =
  pps_IP :: string
  pps_Ipv6 :: string
  pps_PubKey :: string
  pps_ConnStatus :: string
  pps_Relayed :: bool
  pps_Fqdn :: string
  pps_LastWireguardHandshake :: "Timestamp option"
  pps_BytesRx :: int
  pps_BytesTx :: int
  pps_RelayAddress :: string

record pb_LocalPeerState =
  pls_IP :: string
  pls_Ipv6 :: string

record pb_ServerState =
  pss_URL :: string
  pss_Connected :: bool

record pb_FullStatus =
  pfs_ManagementState :: "pb_ServerState option"
  pfs_SignalState :: "pb_ServerState option"
  pfs_LocalPeerState :: "pb_LocalPeerState option"
  pfs_Peers :: "pb_PeerState option list"

record pb_StatusResponse =
  psr_Status :: string
  psr_FullStatus :: "pb_FullStatus option"
  psr_DaemonVersion :: string

record pb_Profile =
  ppr_Id :: string
  ppr_Name :: string
  ppr_IsActive :: bool

record pb_SystemEvent =
  pse_Id :: string
  pse_Severity :: int
  pse_Category :: int
  pse_UserMessage :: string
  pse_Timestamp :: "Timestamp option"

definition SystemEvent_Severity_name :: "(int \<times> string) list" where
  "SystemEvent_Severity_name = [(0, ''INFO''), (1, ''WARNING''), (2, ''ERROR''), (3, ''CRITICAL'')]"

definition SystemEvent_Category_name :: "(int \<times> string) list" where
  "SystemEvent_Category_name =
     [(0, ''NETWORK''), (1, ''DNS''), (2, ''AUTHENTICATION''), (3, ''CONNECTIVITY''),
      (4, ''SYSTEM'')]"

section \<open>Normalization\<close>

definition normalizeDaemonState :: "string \<Rightarrow> DaemonState" where
  "normalizeDaemonState value =
     (let v = ToLower value in
      if v = ''idle'' then DaemonIdle
      else if v = ''connecting'' then DaemonConnecting
      else if v = ''connected'' then DaemonConnected
      else if v = ''needslogin'' then DaemonNeedsLogin
      else if v = ''loginfailed'' then DaemonLoginFailed
      else if v = ''sessionexpired'' then DaemonSessionExpired
      else DaemonUnknown)"

definition normalizePeerState :: "string \<Rightarrow> PeerState" where
  "normalizePeerState value =
     (let v = ToLower value in
      if v = ''idle'' then PeerIdle
      else if v = ''connecting'' then PeerConnecting
      else if v = ''connected'' then PeerConnected
      else PeerUnknown)"

definition normalize_peer :: "protobuf \<Rightarrow> pb_PeerState \<Rightarrow> DaemonPeer" where
  "normalize_peer pb source =
     (let state = normalizePeerState (pps_ConnStatus source) in
      \<lparr>dp_PublicKey = pps_PubKey source, dp_FQDN = pps_Fqdn source,
       dp_NetBirdIP = pps_IP source, dp_NetBirdIPv6 = pps_Ipv6 source,
       dp_State = state,
       dp_Path = (if state = PeerConnected
                  then (if pps_Relayed source then PathRelay else PathP2P) else PathNone),
       dp_RelayAddress = pps_RelayAddress source,
       dp_LastHandshake =
         (case pps_LastWireguardHandshake source of
            None \<Rightarrow> zero_time
          | Some handshake \<Rightarrow> if ts_IsValid pb handshake then ts_AsTime pb handshake else zero_time),
       dp_BytesReceived = pps_BytesRx source, dp_BytesSent = pps_BytesTx source\<rparr>)"

definition NormalizeStatus :: "protobuf \<Rightarrow> pb_StatusResponse option \<Rightarrow> DaemonSnapshot" where
  "NormalizeStatus pb response =
     (case response of
        None \<Rightarrow> no_snapshot
      | Some r \<Rightarrow>
          let result = no_snapshot\<lparr>ds_DaemonVersion := psr_DaemonVersion r,
                                   ds_DaemonState := normalizeDaemonState (psr_Status r)\<rparr> in
          (case psr_FullStatus r of
             None \<Rightarrow> result
           | Some full \<Rightarrow>
               let result = (case pfs_ManagementState full of None \<Rightarrow> result | Some m \<Rightarrow>
                     result\<lparr>ds_ManagementURL := pss_URL m,
                            ds_ManagementConnected := pss_Connected m\<rparr>);
                   result = (case pfs_SignalState full of None \<Rightarrow> result | Some g \<Rightarrow>
                     result\<lparr>ds_SignalURL := pss_URL g, ds_SignalConnected := pss_Connected g\<rparr>);
                   result = (case pfs_LocalPeerState full of None \<Rightarrow> result | Some l \<Rightarrow>
                     result\<lparr>ds_LocalNetBirdIP := pls_IP l, ds_LocalNetBirdIPv6 := pls_Ipv6 l\<rparr>)
               in result\<lparr>ds_Peers := map (normalize_peer pb) (List.map_filter id (pfs_Peers full))\<rparr>))"

definition NormalizeProfiles :: "pb_Profile option list option \<Rightarrow> Profile list" where
  "NormalizeProfiles response =
     (case response of
        None \<Rightarrow> []
      | Some profiles \<Rightarrow>
          map (\<lambda>source. \<lparr>prof_ID = ppr_Id source, prof_Name = ppr_Name source,
                         prof_IsActive = ppr_IsActive source, prof_Username = []\<rparr>)
            (List.map_filter id profiles))"

definition no_event :: NbEvent where
  "no_event = \<lparr>ev_ID = [], ev_Severity = [], ev_Category = [], ev_UserMessage = [],
               ev_OccurredAt = zero_time\<rparr>"

definition NormalizeEvent :: "protobuf \<Rightarrow> pb_SystemEvent option \<Rightarrow> NbEvent" where
  "NormalizeEvent pb event =
     (case event of
        None \<Rightarrow> no_event
      | Some source \<Rightarrow>
          \<lparr>ev_ID = pse_Id source,
           ev_Severity = ToLower (EnumStringOf pb SystemEvent_Severity_name (pse_Severity source)),
           ev_Category = ToLower (EnumStringOf pb SystemEvent_Category_name (pse_Category source)),
           ev_UserMessage = pse_UserMessage source,
           ev_OccurredAt =
             (case pse_Timestamp source of
                None \<Rightarrow> zero_time
              | Some timestamp \<Rightarrow>
                  if ts_IsValid pb timestamp then ts_AsTime pb timestamp else zero_time)\<rparr>)"

section \<open>What normalization guarantees\<close>

text \<open>A peer has a path exactly when it is connected.\<close>

definition peer_consistent :: "DaemonPeer \<Rightarrow> bool" where
  "peer_consistent p \<longleftrightarrow> (dp_Path p = PathNone) = (dp_State p \<noteq> PeerConnected)"

lemma normalize_peer_consistent: "peer_consistent (normalize_peer pb source)"
  by (simp add: normalize_peer_def peer_consistent_def Let_def)

lemma NormalizeStatus_Peers:
  "ds_Peers (NormalizeStatus pb response) =
     (case response of None \<Rightarrow> []
      | Some r \<Rightarrow> (case psr_FullStatus r of None \<Rightarrow> []
          | Some full \<Rightarrow> map (normalize_peer pb) (List.map_filter id (pfs_Peers full))))"
  by (simp add: NormalizeStatus_def no_snapshot_def Let_def split: option.splits)

lemma NormalizeStatus_peers_consistent:
  "p \<in> set (ds_Peers (NormalizeStatus pb response)) \<Longrightarrow> peer_consistent p"
  by (auto simp: NormalizeStatus_Peers normalize_peer_consistent split: option.splits)

lemma NormalizeStatus_version [simp]:
  "ds_DaemonVersion (NormalizeStatus pb (Some r)) = psr_DaemonVersion r"
  by (simp add: NormalizeStatus_def no_snapshot_def Let_def split: option.splits)

lemma NormalizeStatus_control_plane:
  "ds_ManagementConnected (NormalizeStatus pb (Some r)) \<Longrightarrow>
     \<exists>full m. psr_FullStatus r = Some full \<and> pfs_ManagementState full = Some m \<and> pss_Connected m"
  by (auto simp: NormalizeStatus_def no_snapshot_def Let_def split: option.splits)

end
