(* ===== verification/SessionState.thy ===== *)
theory SessionState
  imports NbTypes "HOL-Library.Word"
begin

text \<open>
  The state of a room session (\<open>client/internal/session/state.go\<close>): \<open>Derive\<close> computes what to show
  from the facts, \<open>Machine\<close> remembers it and counts the changes.  The mutex makes \<open>Apply\<close> and
  \<open>Snapshot\<close> atomic, so each is one step.
\<close>

section \<open>Definitions\<close>

datatype SessionState =
    StateNoRoom | StateEnrolling | StateControlPlaneConnected | StateWaitingForPeer
  | StateConnectingPeer | StateConnectedP2P | StateConnectedRelay | StateReconnecting
  | StateRecoverableError

record Facts =
  RoomSaved :: bool
  EnrollmentInProgress :: bool
  ReconnectInProgress :: bool
  UserDisconnected :: bool
  RecoverableError :: bool
  ControlPlaneReady :: bool
  MembershipKnown :: bool
  OtherRoomPeerCount :: int
  DaemonPeers :: "DaemonPeer list"

text \<open>\<open>Facts{}\<close>: the code writes the facts that differ from it.\<close>

definition no_facts :: Facts where
  "no_facts = \<lparr>RoomSaved = False, EnrollmentInProgress = False, ReconnectInProgress = False,
     UserDisconnected = False, RecoverableError = False, ControlPlaneReady = False,
     MembershipKnown = False, OtherRoomPeerCount = 0, DaemonPeers = []\<rparr>"

definition control_plane_ready :: "DaemonSnapshot \<Rightarrow> bool" where
  "control_plane_ready snapshot \<longleftrightarrow> ds_ManagementConnected snapshot \<and> ds_SignalConnected snapshot"

definition FactsFromDaemon :: "bool \<Rightarrow> bool \<Rightarrow> int \<Rightarrow> DaemonSnapshot \<Rightarrow> Facts" where
  "FactsFromDaemon roomSaved membershipKnown otherRoomPeerCount snapshot =
     no_facts\<lparr>RoomSaved := roomSaved, ControlPlaneReady := control_plane_ready snapshot,
       MembershipKnown := membershipKnown, OtherRoomPeerCount := otherRoomPeerCount,
       DaemonPeers := ds_Peers snapshot\<rparr>"

fun preferred_path :: "PathType \<Rightarrow> DaemonPeer list \<Rightarrow> PathType" where
  "preferred_path path [] = path"
| "preferred_path path (peer # peers) =
     (if dp_State peer \<noteq> PeerConnected then preferred_path path peers
      else (case dp_Path peer of
              PathP2P \<Rightarrow> PathP2P
            | PathRelay \<Rightarrow> preferred_path PathRelay peers
            | PathNone \<Rightarrow> preferred_path path peers))"

definition preferredConnectedPath :: "DaemonPeer list \<Rightarrow> PathType" where
  "preferredConnectedPath peers = preferred_path PathNone peers"

definition Derive :: "Facts \<Rightarrow> SessionState \<times> PathType" where
  "Derive facts =
     (if RecoverableError facts then (StateRecoverableError, PathNone)
      else if EnrollmentInProgress facts then (StateEnrolling, PathNone)
      else if \<not> RoomSaved facts then (StateNoRoom, PathNone)
      else if ReconnectInProgress facts then (StateReconnecting, PathNone)
      else if UserDisconnected facts then (StateControlPlaneConnected, PathNone)
      else
        let path = preferredConnectedPath (DaemonPeers facts) in
        case path of
          PathP2P \<Rightarrow> (StateConnectedP2P, path)
        | PathRelay \<Rightarrow> (StateConnectedRelay, path)
        | PathNone \<Rightarrow>
            if \<not> ControlPlaneReady facts then (StateReconnecting, PathNone)
            else if \<not> MembershipKnown facts then (StateControlPlaneConnected, PathNone)
            else if OtherRoomPeerCount facts \<le> 0 then (StateWaitingForPeer, PathNone)
            else (StateConnectingPeer, PathNone))"

record SessionSnapshot =
  ss_Revision :: "64 word"
  ss_State :: SessionState
  ss_Path :: PathType

text \<open>The machine holds the same three fields; \<open>Snapshot\<close> copies them.\<close>

record Machine =
  mc_revision :: "64 word"
  mc_state :: SessionState
  mc_path :: PathType

definition NewMachine :: Machine where
  "NewMachine = \<lparr>mc_revision = 0, mc_state = StateNoRoom, mc_path = PathNone\<rparr>"

definition Machine_Snapshot :: "Machine \<Rightarrow> SessionSnapshot" where
  "Machine_Snapshot m =
     \<lparr>ss_Revision = mc_revision m, ss_State = mc_state m, ss_Path = mc_path m\<rparr>"

definition Machine_Apply :: "Facts \<Rightarrow> (Machine, SessionSnapshot) state" where
  "Machine_Apply facts = do {
     m \<leftarrow> State_Monad.get;
     let (state, path) = Derive facts;
     (if state \<noteq> mc_state m \<or> path \<noteq> mc_path m
      then State_Monad.set (m\<lparr>mc_revision := mc_revision m + 1, mc_state := state, mc_path := path\<rparr>)
      else State_Monad.return ());
     m \<leftarrow> State_Monad.get;
     State_Monad.return (Machine_Snapshot m)
   }"

section \<open>The path that is shown\<close>

definition has_path :: "PathType \<Rightarrow> DaemonPeer list \<Rightarrow> bool" where
  "has_path path peers \<longleftrightarrow> (\<exists>p \<in> set peers. dp_State p = PeerConnected \<and> dp_Path p = path)"

lemma has_path_simps [simp]:
  "\<not> has_path path []"
  "has_path path (p # ps) \<longleftrightarrow> dp_State p = PeerConnected \<and> dp_Path p = path \<or> has_path path ps"
  by (auto simp: has_path_def)

lemma preferred_path_eq:
  "preferred_path path peers =
     (if has_path PathP2P peers then PathP2P
      else if has_path PathRelay peers then PathRelay else path)"
proof (induction peers arbitrary: path)
  case (Cons p peers)
  then show ?case by (cases "dp_Path p") simp_all
qed simp

lemma preferredConnectedPath_eq:
  "preferredConnectedPath peers =
     (if has_path PathP2P peers then PathP2P
      else if has_path PathRelay peers then PathRelay else PathNone)"
  by (simp add: preferredConnectedPath_def preferred_path_eq)

lemma preferredConnectedPath_order:
  "set peers = set peers' \<Longrightarrow> preferredConnectedPath peers = preferredConnectedPath peers'"
  by (simp add: preferredConnectedPath_eq has_path_def)

text \<open>State and path always agree: a path is shown in the two connected states and nowhere else.\<close>

definition state_path_agree :: "SessionState \<Rightarrow> PathType \<Rightarrow> bool" where
  "state_path_agree state path \<longleftrightarrow>
     path = (case state of StateConnectedP2P \<Rightarrow> PathP2P | StateConnectedRelay \<Rightarrow> PathRelay
             | _ \<Rightarrow> PathNone)"

lemma Derive_agree: "Derive facts = (state, path) \<Longrightarrow> state_path_agree state path"
  by (auto simp: Derive_def state_path_agree_def Let_def split: if_splits PathType.splits)

lemma Derive_connected:
  assumes "Derive facts = (state, path)" and "path \<noteq> PathNone"
  shows "RoomSaved facts \<and> \<not> UserDisconnected facts \<and>
     has_path path (DaemonPeers facts)"
  using assms
  by (auto simp: Derive_def Let_def preferredConnectedPath_eq split: if_splits PathType.splits)

section \<open>The machine\<close>

definition machine_ok :: "Machine \<Rightarrow> bool" where
  "machine_ok m \<longleftrightarrow> state_path_agree (mc_state m) (mc_path m)"

lemma machine_ok_New [simp]: "machine_ok NewMachine"
  by (simp add: machine_ok_def NewMachine_def state_path_agree_def)

lemma run_Machine_Apply:
  "run_state (Machine_Apply facts) m =
     (let m' = (if Derive facts = (mc_state m, mc_path m) then m
                else m\<lparr>mc_revision := mc_revision m + 1, mc_state := fst (Derive facts),
                       mc_path := snd (Derive facts)\<rparr>)
      in (Machine_Snapshot m', m'))"
  by (auto simp: Machine_Apply_def Let_def split: prod.splits)

lemma wp_Machine_Apply [wp_simps]:
  "wp (Machine_Apply facts) Q m =
     (let m' = (if Derive facts = (mc_state m, mc_path m) then m
                else m\<lparr>mc_revision := mc_revision m + 1, mc_state := fst (Derive facts),
                       mc_path := snd (Derive facts)\<rparr>)
      in Q (Machine_Snapshot m') m')"
  by (simp add: wp_def run_Machine_Apply Let_def)

lemma Machine_Apply_shows:
  assumes "run_state (Machine_Apply facts) m = (shown, m')"
  shows "(ss_State shown, ss_Path shown) = Derive facts" and "shown = Machine_Snapshot m'"
    and "machine_ok m'"
  using assms Derive_agree [of facts "fst (Derive facts)" "snd (Derive facts)"]
  by (auto simp: run_Machine_Apply Machine_Snapshot_def machine_ok_def Let_def split: if_splits)

text \<open>A run of the machine: the facts in the order in which they were applied.\<close>

fun apply_all :: "Facts list \<Rightarrow> Machine \<Rightarrow> SessionSnapshot list \<times> Machine" where
  "apply_all [] m = ([], m)"
| "apply_all (facts # rest) m =
     (let (shown, m) = run_state (Machine_Apply facts) m; (later, m) = apply_all rest m
      in (shown # later, m))"

fun changes :: "SessionState \<times> PathType \<Rightarrow> (SessionState \<times> PathType) list \<Rightarrow> nat" where
  "changes x [] = 0"
| "changes x (y # ys) = (if x = y then 0 else 1) + changes y ys"

lemma apply_all_revision:
  "apply_all fs m = (shown, m') \<Longrightarrow>
     mc_revision m' = mc_revision m + of_nat (changes (mc_state m, mc_path m) (map Derive fs)) \<and>
     map (\<lambda>x. (ss_State x, ss_Path x)) shown = map Derive fs \<and>
     (fs \<noteq> [] \<longrightarrow> (mc_state m', mc_path m') = Derive (List.last fs))"
proof (induction fs arbitrary: m shown m')
  case (Cons f fs)
  obtain a n where 1: "run_state (Machine_Apply f) m = (a, n)" by fastforce
  obtain later n' where 2: "apply_all fs n = (later, n')" by fastforce
  from 1 have n: "(mc_state n, mc_path n) = Derive f"
    "mc_revision n = mc_revision m + of_nat (if (mc_state m, mc_path m) = Derive f then 0 else 1)"
    by (auto simp: run_Machine_Apply Let_def split: if_splits)
  have "(ss_State a, ss_Path a) = Derive f" using Machine_Apply_shows(1) [OF 1] .
  moreover have "shown = a # later" "m' = n'" using Cons.prems 1 2 by simp_all
  ultimately show ?case
    using Cons.IH [OF 2] n 2 by (cases fs) (auto simp: add.assoc)
qed simp

text \<open>
  The revision of the session counts the changes of what is shown: after any sequence of
  \<open>Apply\<close> calls on a new machine it is the number of calls that changed state or path, modulo
  \<open>2 ^ 64\<close>; every call shows what \<open>Derive\<close> says of its facts.
\<close>
theorem revision_counts_changes:
  assumes "apply_all fs NewMachine = (shown, m)"
  shows "uint (mc_revision m) = int (changes (StateNoRoom, PathNone) (map Derive fs)) mod 2 ^ 64 \<and>
    map (\<lambda>x. (ss_State x, ss_Path x)) shown = map Derive fs"
  using apply_all_revision [OF assms]
  by (simp add: NewMachine_def unsigned_of_nat take_bit_eq_mod zmod_int)

definition sample_facts :: "Facts list" where
  "sample_facts =
     [no_facts\<lparr>EnrollmentInProgress := True\<rparr>,
      no_facts\<lparr>RoomSaved := True, ControlPlaneReady := True, MembershipKnown := True\<rparr>,
      no_facts\<lparr>RoomSaved := True, ControlPlaneReady := True, MembershipKnown := True,
               OtherRoomPeerCount := -1\<rparr>,
      no_facts\<lparr>RecoverableError := True\<rparr>]"

lemma revision_counts_changes_witness:
  "uint (mc_revision (snd (apply_all sample_facts NewMachine))) = 3"
proof -
  have d: "map Derive sample_facts =
      [(StateEnrolling, PathNone), (StateWaitingForPeer, PathNone), (StateWaitingForPeer, PathNone),
       (StateRecoverableError, PathNone)]"
    by (simp add: sample_facts_def no_facts_def Derive_def preferredConnectedPath_def)
  have n: "changes (StateNoRoom, PathNone) (map Derive sample_facts) = 3"
    unfolding d by simp
  have "uint (mc_revision (snd (apply_all sample_facts NewMachine))) = int 3 mod 2 ^ 64"
    using revision_counts_changes [of sample_facts, OF prod.collapse [symmetric]] unfolding n by blast
  then show ?thesis by simp
qed

end
