(* ===== verification/GoRuntime.thy ===== *)
theory GoRuntime
  imports ClientHeap
begin

text \<open>
  What the client asks of the Go run time and of the machine it runs on, as a parameter: whether a
  context has ended, a timer raced against a context, whether a \<open>select\<close> sent on a channel before
  its context ended (or, with a \<open>default\<close>, at all), the clock, random bytes.
\<close>

record 'w runtime =
  ctx_Err :: "go_context \<Rightarrow> ('w, goerr option) state"
  timer_or_Done :: "go_context \<Rightarrow> duration \<Rightarrow> ('w, bool) state"
  send_or_Done :: "go_context \<Rightarrow> ('w, bool) state"
  send_or_default :: "go_context \<Rightarrow> ('w, bool) state"
  time_Now :: "('w, time) state"
  rand_ReadFull :: "nat \<Rightarrow> ('w, goerr + string) state"

text \<open>
  Documented behaviour: a context that made a wait end early reports an error, \<open>ReadFull\<close> fills
  the whole buffer or fails.
\<close>

definition runtime_ok :: "'w runtime \<Rightarrow> bool" where
  "runtime_ok R \<longleftrightarrow>
     (\<forall>c d w w'. run_state (timer_or_Done R c d) w = (False, w') \<longrightarrow>
        (\<exists>e. fst (run_state (ctx_Err R c) w') = Some e)) \<and>
     (\<forall>n w b w'. run_state (rand_ReadFull R n) w = (Inr b, w') \<longrightarrow> length b = n)"

lemma runtime_ok_Done:
  "runtime_ok R \<Longrightarrow> run_state (timer_or_Done R c d) w = (False, w') \<Longrightarrow>
     \<exists>e. fst (run_state (ctx_Err R c) w') = Some e"
  unfolding runtime_ok_def by blast

section \<open>Counting calls\<close>

text \<open>
  \<open>count\<close> reads a counter off the state, such as the calls an outside party has received: the
  computation adds at most \<open>n\<close> to it, whatever the answers are.
\<close>

definition calls_bounded :: "('s \<Rightarrow> nat) \<Rightarrow> nat \<Rightarrow> ('s, 'a) state \<Rightarrow> bool" where
  "calls_bounded count n m \<longleftrightarrow> (\<forall>s. count (snd (run_state m s)) \<le> count s + n)"

lemma calls_bounded_return: "calls_bounded count 0 (State_Monad.return x)"
  by (simp add: calls_bounded_def)

lemma calls_bounded_bind:
  assumes "calls_bounded count i m" and "\<And>x. calls_bounded count j (f x)" and "i + j \<le> n"
  shows "calls_bounded count n (State_Monad.bind m f)"
  unfolding calls_bounded_def
proof
  fix s
  obtain x t where 1: "run_state m s = (x, t)" by fastforce
  have "count t \<le> count s + i" using assms(1) 1 unfolding calls_bounded_def by (metis snd_conv)
  moreover have "count (snd (run_state (f x) t)) \<le> count t + j"
    using assms(2) unfolding calls_bounded_def by blast
  ultimately show "count (snd (run_state (State_Monad.bind m f) s)) \<le> count s + n"
    using assms(3) 1 by simp
qed

lemma calls_bounded_mono: "calls_bounded count i m \<Longrightarrow> i \<le> j \<Longrightarrow> calls_bounded count j m"
  unfolding calls_bounded_def by (meson add_left_mono order_trans)

lemma calls_bounded_go_try:
  "calls_bounded count i m \<Longrightarrow> (\<And>x. calls_bounded count j (f x)) \<Longrightarrow> i + j \<le> n \<Longrightarrow>
     calls_bounded count n (go_try m f)"
  unfolding go_try_def
  by (rule calls_bounded_bind)
     (auto split: sum.splits intro: calls_bounded_mono [OF calls_bounded_return])

end
