(* ===== verification/NbMonitor.thy ===== *)
theory NbMonitor
  imports NbTypes GoRuntime
begin

text \<open>
  Recovery of the connection to the daemon (\<open>client/internal/netbird/monitor.go\<close>).  \<open>Resume\<close> is
  a bounded loop.  \<open>Watch\<close> is a goroutine around one \<open>select\<close>: its body is \<open>watch_step\<close>, one step
  per case of the \<open>select\<close>, and \<open>watch_runs\<close> is any sequence of cases that were ready.
\<close>

section \<open>Resume\<close>

definition defaultRecoveryDelays :: "duration list" where
  "defaultRecoveryDelays = [250 * millisecond, 500 * millisecond, second, 2 * second]"

definition defaultStatusPollInterval :: duration where "defaultStatusPollInterval = 2 * second"

record MonitorOptions =
  mo_PollInterval :: duration
  mo_RetryDelays :: "duration list option"

record 's RecoveryMonitor =
  rm_adapter :: "'s Adapter"
  rm_pollInterval :: duration
  rm_retryDelays :: "duration list"

definition newRecoveryMonitor :: "'s Adapter \<Rightarrow> MonitorOptions \<Rightarrow> 's RecoveryMonitor" where
  "newRecoveryMonitor adapter options =
     \<lparr>rm_adapter = adapter,
      rm_pollInterval = (if mo_PollInterval options \<le> 0 then defaultStatusPollInterval
                         else mo_PollInterval options),
      rm_retryDelays = (case mo_RetryDelays options of None \<Rightarrow> defaultRecoveryDelays
                        | Some delays \<Rightarrow> delays)\<rparr>"

definition NewRecoveryMonitor :: "'s Adapter \<Rightarrow> 's RecoveryMonitor" where
  "NewRecoveryMonitor adapter =
     newRecoveryMonitor adapter \<lparr>mo_PollInterval = 0, mo_RetryDelays = None\<rparr>"

definition waitForRecovery :: "'w runtime \<Rightarrow> go_context \<Rightarrow> duration \<Rightarrow> ('w client, bool) state" where
  "waitForRecovery R ctx delay = in_world (timer_or_Done R ctx delay)"

text \<open>One turn of the loop: connect, then read the status.\<close>

definition resume_attempt ::
  "'s RecoveryMonitor \<Rightarrow> go_context \<Rightarrow> string \<Rightarrow> ('s, goerr + DaemonSnapshot) state" where
  "resume_attempt m ctx profileID =
     go_try (ad_Connect (rm_adapter m) ctx profileID) (\<lambda>_. do {
       (snapshot, e) \<leftarrow> ad_Status (rm_adapter m) ctx;
       case e of None \<Rightarrow> ok snapshot | Some e \<Rightarrow> err e
     })"

primrec resume_loop ::
  "'w runtime \<Rightarrow> 'w client RecoveryMonitor \<Rightarrow> go_context \<Rightarrow> string \<Rightarrow> duration list \<Rightarrow>
     ('w client, DaemonSnapshot \<times> goerr option) state" where
  "resume_loop R m ctx profileID [] = do {
     r \<leftarrow> resume_attempt m ctx profileID;
     State_Monad.return
       (case r of
          Inr snapshot \<Rightarrow> (snapshot, None)
        | Inl lastErr \<Rightarrow>
            (no_snapshot, Some (RecoveryError ''resume'' (length (rm_retryDelays m) + 1) lastErr)))
   }"
| "resume_loop R m ctx profileID (delay # delays) = do {
     r \<leftarrow> resume_attempt m ctx profileID;
     case r of
       Inr snapshot \<Rightarrow> State_Monad.return (snapshot, None)
     | Inl lastErr \<Rightarrow> do {
         fired \<leftarrow> waitForRecovery R ctx delay;
         if \<not> fired then do {
           e \<leftarrow> in_world (ctx_Err R ctx);
           State_Monad.return (no_snapshot, e)
         }
         else resume_loop R m ctx profileID delays
       }
   }"

definition Resume ::
  "'w runtime \<Rightarrow> 'w client RecoveryMonitor \<Rightarrow> go_context \<Rightarrow> string \<Rightarrow>
     ('w client, DaemonSnapshot \<times> goerr option) state" where
  "Resume R m ctx profileID = resume_loop R m ctx profileID (rm_retryDelays m)"

section \<open>Watch\<close>

record MonitorUpdate =
  mu_Snapshot :: "DaemonSnapshot option"
  mu_Event :: "NbEvent option"

text \<open>
  The local variables of \<open>watch\<close>.  A channel variable is kept as whether it is non-nil;
  \<open>updates\<close> and \<open>failures\<close> hold what has been sent so far.
\<close>

record watch_state =
  wt_subscribed :: bool
  wt_timer :: bool
  wt_streamFailures :: nat
  wt_streamExhausted :: bool
  wt_statusUnavailable :: bool
  wt_updates :: "MonitorUpdate list"
  wt_failures :: "goerr list"
  wt_returned :: bool

definition watch_init :: watch_state where
  "watch_init = \<lparr>wt_subscribed = False, wt_timer = False, wt_streamFailures = 0,
     wt_streamExhausted = False, wt_statusUnavailable = False, wt_updates = [], wt_failures = [],
     wt_returned = False\<rparr>"

definition sendMonitorUpdate ::
  "'w runtime \<Rightarrow> go_context \<Rightarrow> MonitorUpdate \<Rightarrow> watch_state \<Rightarrow> ('w client, bool \<times> watch_state) state" where
  "sendMonitorUpdate R ctx update v = do {
     sent \<leftarrow> in_world (send_or_Done R ctx);
     State_Monad.return (sent, if sent then v\<lparr>wt_updates := wt_updates v @ [update]\<rparr> else v)
   }"

definition sendMonitorError ::
  "'w runtime \<Rightarrow> go_context \<Rightarrow> goerr \<Rightarrow> watch_state \<Rightarrow> ('w client, watch_state) state" where
  "sendMonitorError R ctx e v = do {
     sent \<leftarrow> in_world (send_or_default R ctx);
     State_Monad.return (if sent then v\<lparr>wt_failures := wt_failures v @ [e]\<rparr> else v)
   }"

definition startSubscription ::
  "'w client RecoveryMonitor \<Rightarrow> go_context \<Rightarrow> watch_state \<Rightarrow> ('w client, watch_state) state" where
  "startSubscription m ctx v = do {
     _ \<leftarrow> ad_Subscribe (rm_adapter m) (WithCancel ctx);
     State_Monad.return (v\<lparr>wt_subscribed := True\<rparr>)
   }"

definition emitStatus ::
  "'w runtime \<Rightarrow> 'w client RecoveryMonitor \<Rightarrow> go_context \<Rightarrow> watch_state \<Rightarrow>
     ('w client, bool \<times> watch_state) state" where
  "emitStatus R m ctx v = do {
     let wasUnavailable = wt_statusUnavailable v;
     (snapshot, e) \<leftarrow> ad_Status (rm_adapter m) ctx;
     case e of
       Some e \<Rightarrow> do {
         v \<leftarrow> (if \<not> wt_statusUnavailable v then sendMonitorError R ctx e v
              else State_Monad.return v);
         State_Monad.return (False, v\<lparr>wt_statusUnavailable := True\<rparr>)
       }
     | None \<Rightarrow> do {
         (sent, v) \<leftarrow> sendMonitorUpdate R ctx \<lparr>mu_Snapshot = Some snapshot, mu_Event = None\<rparr>
                       (v\<lparr>wt_statusUnavailable := False\<rparr>);
         if \<not> sent then State_Monad.return (False, v)
         else if wt_streamExhausted v \<and> wasUnavailable then do {
           v \<leftarrow> startSubscription m ctx (v\<lparr>wt_streamFailures := 0, wt_streamExhausted := False\<rparr>);
           State_Monad.return (True, v)
         }
         else State_Monad.return (True, v)
       }
   }"

definition scheduleStreamRecovery ::
  "'w runtime \<Rightarrow> 'w client RecoveryMonitor \<Rightarrow> go_context \<Rightarrow> goerr \<Rightarrow> watch_state \<Rightarrow>
     ('w client, watch_state) state" where
  "scheduleStreamRecovery R m ctx cause v = do {
     let v = v\<lparr>wt_subscribed := False, wt_streamFailures := wt_streamFailures v + 1\<rparr>;
     if wt_streamFailures v > length (rm_retryDelays m) then
       sendMonitorError R ctx (RecoveryError ''event stream'' (wt_streamFailures v) cause)
         (v\<lparr>wt_streamExhausted := True\<rparr>)
     else State_Monad.return (v\<lparr>wt_timer := True\<rparr>)
   }"

text \<open>\<open>if !emitStatus() && ctx.Err() != nil { return }\<close>\<close>

definition emit_or_return ::
  "'w runtime \<Rightarrow> 'w client RecoveryMonitor \<Rightarrow> go_context \<Rightarrow> watch_state \<Rightarrow>
     ('w client, watch_state) state" where
  "emit_or_return R m ctx v = do {
     (emitted, v) \<leftarrow> emitStatus R m ctx v;
     if emitted then State_Monad.return v
     else do {
       e \<leftarrow> in_world (ctx_Err R ctx);
       State_Monad.return (if e \<noteq> None then v\<lparr>wt_returned := True\<rparr> else v)
     }
   }"

definition watch_start ::
  "'w runtime \<Rightarrow> 'w client RecoveryMonitor \<Rightarrow> go_context \<Rightarrow> ('w client, watch_state) state" where
  "watch_start R m ctx = do {
     v \<leftarrow> startSubscription m ctx watch_init;
     emit_or_return R m ctx v
   }"

text \<open>
  The cases of the \<open>select\<close> with what was received; \<open>None\<close> is a closed channel.  A receive from a
  \<open>nil\<close> channel is never ready.
\<close>

datatype watch_case =
    ContextDone
  | PollTick
  | RetryTimer
  | ReceiveEvent "NbEvent option"
  | ReceiveFailure "goerr option option"

fun channel_ready :: "watch_state \<Rightarrow> watch_case \<Rightarrow> bool" where
  "channel_ready v RetryTimer = wt_timer v"
| "channel_ready v (ReceiveEvent x) = wt_subscribed v"
| "channel_ready v (ReceiveFailure x) = wt_subscribed v"
| "channel_ready v _ = True"

fun watch_step ::
  "'w runtime \<Rightarrow> 'w client RecoveryMonitor \<Rightarrow> go_context \<Rightarrow> watch_case \<Rightarrow> watch_state \<Rightarrow>
     ('w client, watch_state) state" where
  "watch_step R m ctx ContextDone v = State_Monad.return (v\<lparr>wt_returned := True\<rparr>)"
| "watch_step R m ctx PollTick v = emit_or_return R m ctx v"
| "watch_step R m ctx RetryTimer v = startSubscription m ctx (v\<lparr>wt_timer := False\<rparr>)"
| "watch_step R m ctx (ReceiveEvent None) v =
     scheduleStreamRecovery R m ctx (Message ''event stream closed'') v"
| "watch_step R m ctx (ReceiveEvent (Some event)) v = do {
     (sent, v) \<leftarrow> sendMonitorUpdate R ctx \<lparr>mu_Snapshot = None, mu_Event = Some event\<rparr>
                   (v\<lparr>wt_streamFailures := 0\<rparr>);
     if \<not> sent then State_Monad.return (v\<lparr>wt_returned := True\<rparr>)
     else emit_or_return R m ctx v
   }"
| "watch_step R m ctx (ReceiveFailure None) v =
     scheduleStreamRecovery R m ctx (Message ''event error channel closed'') v"
| "watch_step R m ctx (ReceiveFailure (Some None)) v = State_Monad.return v"
| "watch_step R m ctx (ReceiveFailure (Some (Some e))) v = scheduleStreamRecovery R m ctx e v"

text \<open>Runs of the goroutine, with the world changing between its steps.\<close>

inductive watch_reaches ::
  "'w runtime \<Rightarrow> 'w client RecoveryMonitor \<Rightarrow> go_context \<Rightarrow> watch_state \<Rightarrow> bool" for R m ctx where
  start: "run_state (watch_start R m ctx) s = (v, t) \<Longrightarrow> watch_reaches R m ctx v"
| step: "watch_reaches R m ctx v \<Longrightarrow> \<not> wt_returned v \<Longrightarrow> channel_ready v c \<Longrightarrow>
     run_state (watch_step R m ctx c v) s = (v', t) \<Longrightarrow> watch_reaches R m ctx v'"

section \<open>Resume is bounded\<close>

text \<open>\<open>count\<close> counts the connects: \<open>Connect\<close> adds one, the other calls of the loop none.\<close>

definition counts_connects :: "('w client \<Rightarrow> nat) \<Rightarrow> 'w runtime \<Rightarrow> 'w client RecoveryMonitor \<Rightarrow> bool" where
  "counts_connects count R m \<longleftrightarrow>
     (\<forall>c p. calls_bounded count 1 (ad_Connect (rm_adapter m) c p)) \<and>
     (\<forall>c. calls_bounded count 0 (ad_Status (rm_adapter m) c)) \<and>
     (\<forall>c d. calls_bounded count 0 (in_world (timer_or_Done R c d))) \<and>
     (\<forall>c. calls_bounded count 0 (in_world (ctx_Err R c)))"

lemma resume_attempt_calls:
  "counts_connects count R m \<Longrightarrow> calls_bounded count 1 (resume_attempt m ctx p)"
  unfolding resume_attempt_def counts_connects_def
  by (rule calls_bounded_go_try [where i = 1 and j = 0])
     (auto intro!: calls_bounded_bind [where i = 0 and j = 0] calls_bounded_return
           split: prod.splits option.splits)

lemma resume_loop_calls:
  assumes "counts_connects count R m"
  shows "calls_bounded count (length delays + 1) (resume_loop R m ctx p delays)"
proof (induction delays)
  case Nil
  show ?case unfolding resume_loop.simps
    by (rule calls_bounded_bind [OF resume_attempt_calls [OF assms] calls_bounded_return]) simp
next
  case (Cons d delays)
  have w: "calls_bounded count 0 (waitForRecovery R ctx d)"
    "calls_bounded count 0 (in_world (ctx_Err R ctx))"
    using assms by (auto simp: counts_connects_def waitForRecovery_def)
  have e: "calls_bounded count 0 (State_Monad.bind (in_world (ctx_Err R ctx)) (\<lambda>e.
      State_Monad.return (no_snapshot, e)))"
    by (rule calls_bounded_bind [OF w(2) calls_bounded_return]) simp
  show ?case unfolding resume_loop.simps
    by (rule calls_bounded_bind [OF resume_attempt_calls [OF assms], where j = "length delays + 1"])
       (use Cons.IH in \<open>auto split: sum.splits
          intro!: calls_bounded_bind [OF w(1), where j = "length delays + 1"]
            calls_bounded_mono [OF e] calls_bounded_mono [OF calls_bounded_return]\<close>)
qed

text \<open>What \<open>Resume\<close> returns: a status that the daemon gave, or an error.\<close>

lemma resume_loop_result:
  assumes R: "runtime_ok R"
    and run: "run_state (resume_loop R m ctx p delays) s = ((snapshot, e), t)"
  shows "e \<noteq> None \<or> (\<exists>s' s''. run_state (ad_Status (rm_adapter m) ctx) s' = ((snapshot, None), s''))"
  using run
proof (induction delays arbitrary: s)
  have attempt: "\<exists>s' s''. run_state (ad_Status (rm_adapter m) ctx) s' = ((x, None), s'')"
    if "run_state (resume_attempt m ctx p) s = (Inr x, t')" for s x t'
    using that
    by (auto simp: resume_attempt_def run_go_try split: prod.splits sum.splits option.splits)
  {
    case Nil
    then show ?case using attempt by (auto split: prod.splits sum.splits)
  next
    case (Cons d delays)
    obtain r s1 where 1: "run_state (resume_attempt m ctx p) s = (r, s1)" by fastforce
    show ?case
    proof (cases r)
      case (Inr x)
      with Cons.prems 1 attempt show ?thesis by auto
    next
      case (Inl le)
      obtain fired w where 2: "run_state (timer_or_Done R ctx d) (outside s1) = (fired, w)"
        by fastforce
      show ?thesis
      proof (cases fired)
        case True
        with Cons.prems 1 2 Inl Cons.IH show ?thesis
          by (auto simp: waitForRecovery_def run_in_world)
      next
        case False
        then have "\<exists>e. fst (run_state (ctx_Err R ctx) w) = Some e"
          using runtime_ok_Done [OF R, of ctx d "outside s1" w] 2 by simp
        with False Cons.prems 1 2 Inl show ?thesis
          by (auto simp: waitForRecovery_def run_in_world split: prod.splits)
      qed
    qed
  }
qed

section \<open>Watch recovers its stream a bounded number of times\<close>

text \<open>
  Exactly one of three holds while the goroutine runs: the stream is subscribed, the retry timer is
  armed, or the recovery is exhausted; and the count of consecutive failures fits.
\<close>

definition watch_inv :: "'w client RecoveryMonitor \<Rightarrow> watch_state \<Rightarrow> bool" where
  "watch_inv m v \<longleftrightarrow>
     (wt_subscribed v \<longrightarrow> \<not> wt_timer v \<and> \<not> wt_streamExhausted v \<and>
        wt_streamFailures v \<le> length (rm_retryDelays m)) \<and>
     (wt_timer v \<longrightarrow> \<not> wt_streamExhausted v \<and> 0 < wt_streamFailures v \<and>
        wt_streamFailures v \<le> length (rm_retryDelays m)) \<and>
     (wt_streamExhausted v \<longrightarrow> wt_streamFailures v = length (rm_retryDelays m) + 1) \<and>
     (wt_subscribed v \<or> wt_timer v \<or> wt_streamExhausted v)"

lemma watch_inv_sent [simp]:
  "watch_inv m (v\<lparr>wt_failures := es\<rparr>) = watch_inv m v"
  "watch_inv m (v\<lparr>wt_updates := us\<rparr>) = watch_inv m v"
  "watch_inv m (v\<lparr>wt_statusUnavailable := b\<rparr>) = watch_inv m v"
  "watch_inv m (v\<lparr>wt_returned := b\<rparr>) = watch_inv m v"
  by (simp_all add: watch_inv_def)

lemma wp_sendMonitorError:
  "(\<And>es t. Q (v\<lparr>wt_failures := es\<rparr>) t) \<Longrightarrow> wp (sendMonitorError R ctx e v) Q s"
proof -
  assume Q: "\<And>es t. Q (v\<lparr>wt_failures := es\<rparr>) t"
  then have "Q v t" for t by (metis watch_state.surjective watch_state.update_convs(7))
  with Q show ?thesis by (auto simp: sendMonitorError_def wp_simps intro!: wp_any)
qed

lemma wp_sendMonitorUpdate:
  "(\<And>b us t. Q (b, v\<lparr>wt_updates := us\<rparr>) t) \<Longrightarrow> wp (sendMonitorUpdate R ctx u v) Q s"
proof -
  assume Q: "\<And>b us t. Q (b, v\<lparr>wt_updates := us\<rparr>) t"
  then have "Q (b, v) t" for b t by (metis watch_state.surjective watch_state.update_convs(6))
  with Q show ?thesis by (auto simp: sendMonitorUpdate_def wp_simps intro!: wp_any)
qed

lemma wp_startSubscription:
  "(\<And>t. Q (v\<lparr>wt_subscribed := True\<rparr>) t) \<Longrightarrow> wp (startSubscription m ctx v) Q s"
  by (auto simp: startSubscription_def wp_simps intro!: wp_any)

lemmas wp_watch = wp_sendMonitorError wp_sendMonitorUpdate wp_startSubscription
  wp_any [where m = "ad_Status a c" for a c] wp_any [where m = "ctx_Err R c" for R c]

lemma emitStatus_inv:
  "watch_inv m v \<Longrightarrow> wp (emitStatus R m ctx v) (\<lambda>(b, v') t. watch_inv m v') s"
  unfolding emitStatus_def
  by (auto simp: wp_simps Let_def intro!: wp_watch split: prod.splits option.splits)
     (auto simp: watch_inv_def)

lemma emit_or_return_inv:
  assumes "watch_inv m v"
  shows "wp (emit_or_return R m ctx v) (\<lambda>v' t. watch_inv m v') s"
  unfolding emit_or_return_def wp_bind
  by (rule wp_mono [OF emitStatus_inv [OF assms]]) (auto simp: wp_simps intro!: wp_watch)

lemma scheduleStreamRecovery_inv:
  "watch_inv m v \<Longrightarrow> wt_subscribed v \<Longrightarrow>
     wp (scheduleStreamRecovery R m ctx e v) (\<lambda>v' t. watch_inv m v') s"
  by (auto simp: scheduleStreamRecovery_def wp_simps Let_def intro!: wp_watch)
     (auto simp: watch_inv_def)

lemma watch_step_inv:
  assumes "watch_inv m v" and "channel_ready v c"
  shows "wp (watch_step R m ctx c v) (\<lambda>v' t. watch_inv m v') s"
proof -
  have timer: "watch_inv m (v\<lparr>wt_timer := False, wt_subscribed := True\<rparr>)" if "wt_timer v"
    using assms(1) that by (auto simp: watch_inv_def)
  have event: "watch_inv m (v\<lparr>wt_streamFailures := 0, wt_updates := us\<rparr>)" if "wt_subscribed v" for us
    using assms(1) that by (auto simp: watch_inv_def)
  show ?thesis
    using assms
    by (cases "(R, m, ctx, c, v)" rule: watch_step.cases)
       (auto simp: wp_simps intro!: wp_watch scheduleStreamRecovery_inv emit_or_return_inv timer event)
qed

lemma watch_start_inv: "wp (watch_start R m ctx) (\<lambda>v t. watch_inv m v) s"
  unfolding watch_start_def
  by (auto simp: wp_simps intro!: wp_watch emit_or_return_inv)
     (simp add: watch_inv_def watch_init_def)

lemma watch_reaches_inv: "watch_reaches R m ctx v \<Longrightarrow> watch_inv m v"
proof (induction rule: watch_reaches.induct)
  case (start s v t)
  then show ?case using wpD [OF watch_start_inv] by fast
next
  case (step v c s v' t)
  then show ?case using wpD [OF watch_step_inv] by fast
qed

section \<open>Properties\<close>

text \<open>
  C24: \<open>Resume\<close> is bounded and honest: it calls \<open>Connect\<close> at most once more than there are delays
  (five times with the default ones), and it reports success only with a status the daemon gave
  without an error.
\<close>
theorem Resume_bounded:
  assumes "counts_connects count R m" and "runtime_ok R"
  shows "calls_bounded count (length (rm_retryDelays m) + 1) (Resume R m ctx p) \<and>
    wp (Resume R m ctx p)
      (\<lambda>(snapshot, e) t. e = None \<longrightarrow>
         (\<exists>s' s''. run_state (ad_Status (rm_adapter m) ctx) s' = ((snapshot, None), s''))) s"
proof
  show "calls_bounded count (length (rm_retryDelays m) + 1) (Resume R m ctx p)"
    unfolding Resume_def by (rule resume_loop_calls [OF assms(1)])
  show "wp (Resume R m ctx p)
      (\<lambda>(snapshot, e) t. e = None \<longrightarrow>
         (\<exists>s' s''. run_state (ad_Status (rm_adapter m) ctx) s' = ((snapshot, None), s''))) s"
    unfolding Resume_def by (rule wpI) (use resume_loop_result [OF assms(2)] in blast)
qed

text \<open>
  C25: In every state \<open>Watch\<close> can reach exactly one of three holds - the event stream is subscribed,
  its retry timer runs, or recovery is exhausted - and the consecutive failures of the stream never
  exceed the number of delays by more than one.
\<close>
theorem stream_recovery_bounded:
  assumes "watch_reaches R m ctx v"
  shows "wt_streamFailures v \<le> length (rm_retryDelays m) + 1 \<and>
    (wt_subscribed v \<or> wt_timer v \<or> wt_streamExhausted v) \<and>
    \<not> (wt_subscribed v \<and> wt_timer v) \<and> \<not> (wt_subscribed v \<and> wt_streamExhausted v) \<and>
    \<not> (wt_timer v \<and> wt_streamExhausted v)"
  using watch_reaches_inv [OF assms] by (auto simp: watch_inv_def)

end
