(* ===== verification/NbVersion.thy ===== *)
theory NbVersion
  imports NbTypes
begin

text \<open>
  The version gate of the client (\<open>client/internal/netbird/version.go\<close>): \<open>EnforceExactVersion\<close>
  puts itself before an adapter, asks the daemon for its version before every operation, and lets
  the operation through for the one expected version only.
\<close>

section \<open>Definitions\<close>

definition netbird_ExpectedVersion :: string where "netbird_ExpectedVersion = ''0.74.7''"

datatype RepairReason = RepairNone | RepairVersionMismatch | RepairServiceUnavailable

record RepairResult =
  rr_Required :: bool
  rr_Reason :: RepairReason
  rr_ExpectedVersion :: string
  rr_DetectedVersion :: string

definition RepairResultFor :: "goerr option \<Rightarrow> RepairResult" where
  "RepairResultFor e =
     (case Option.bind e errors_As_VersionMismatch of
        Some mismatch \<Rightarrow>
          \<lparr>rr_Required = True, rr_Reason = RepairVersionMismatch,
           rr_ExpectedVersion = Expected mismatch, rr_DetectedVersion = Detected mismatch\<rparr>
      | None \<Rightarrow>
          if e \<noteq> None then
            \<lparr>rr_Required = True, rr_Reason = RepairServiceUnavailable,
             rr_ExpectedVersion = netbird_ExpectedVersion, rr_DetectedVersion = []\<rparr>
          else
            \<lparr>rr_Required = False, rr_Reason = RepairNone, rr_ExpectedVersion = [],
             rr_DetectedVersion = []\<rparr>)"

record 's VersionedAdapter =
  va_inner :: "'s Adapter"
  va_expected :: string

definition requireCompatible :: "'s VersionedAdapter \<Rightarrow> go_context \<Rightarrow> ('s, goerr + unit) state" where
  "requireCompatible a ctx =
     go_try (ad_DaemonVersion (va_inner a) ctx) (\<lambda>version.
     if version \<noteq> va_expected a then err (VersionMismatchError (va_expected a) version)
     else ok ())"

definition VersionedAdapter_DaemonVersion where
  "VersionedAdapter_DaemonVersion a ctx = ad_DaemonVersion (va_inner a) ctx"

definition VersionedAdapter_Status ::
  "'s VersionedAdapter \<Rightarrow> go_context \<Rightarrow> ('s, DaemonSnapshot \<times> goerr option) state" where
  "VersionedAdapter_Status a ctx = do {
     (snapshot, e) \<leftarrow> ad_Status (va_inner a) ctx;
     State_Monad.return
       (if e \<noteq> None then (snapshot, e)
        else if ds_DaemonVersion snapshot \<noteq> va_expected a
          then (snapshot, Some (VersionMismatchError (va_expected a) (ds_DaemonVersion snapshot)))
        else (snapshot, None))
   }"

definition VersionedAdapter_ListProfiles where
  "VersionedAdapter_ListProfiles a ctx =
     go_try (requireCompatible a ctx) (\<lambda>_. ad_ListProfiles (va_inner a) ctx)"

definition VersionedAdapter_ActiveProfile where
  "VersionedAdapter_ActiveProfile a ctx =
     go_try (requireCompatible a ctx) (\<lambda>_. ad_ActiveProfile (va_inner a) ctx)"

definition VersionedAdapter_CreateProfile where
  "VersionedAdapter_CreateProfile a ctx displayName =
     go_try (requireCompatible a ctx) (\<lambda>_. ad_CreateProfile (va_inner a) ctx displayName)"

definition VersionedAdapter_SelectProfile where
  "VersionedAdapter_SelectProfile a ctx profileID =
     go_try (requireCompatible a ctx) (\<lambda>_. ad_SelectProfile (va_inner a) ctx profileID)"

definition VersionedAdapter_RemoveProfile where
  "VersionedAdapter_RemoveProfile a ctx profileID =
     go_try (requireCompatible a ctx) (\<lambda>_. ad_RemoveProfile (va_inner a) ctx profileID)"

definition VersionedAdapter_Enroll where
  "VersionedAdapter_Enroll a ctx request =
     go_try (requireCompatible a ctx) (\<lambda>_. ad_Enroll (va_inner a) ctx request)"

definition VersionedAdapter_Connect where
  "VersionedAdapter_Connect a ctx profileID =
     go_try (requireCompatible a ctx) (\<lambda>_. ad_Connect (va_inner a) ctx profileID)"

definition VersionedAdapter_Disconnect where
  "VersionedAdapter_Disconnect a ctx profileID =
     go_try (requireCompatible a ctx) (\<lambda>_. ad_Disconnect (va_inner a) ctx profileID)"

definition VersionedAdapter_Deregister where
  "VersionedAdapter_Deregister a ctx profileID =
     go_try (requireCompatible a ctx) (\<lambda>_. ad_Deregister (va_inner a) ctx profileID)"

definition VersionedAdapter_Subscribe ::
  "'s VersionedAdapter \<Rightarrow> go_context \<Rightarrow> ('s, goerr option) state" where
  "VersionedAdapter_Subscribe a ctx = do {
     r \<leftarrow> requireCompatible a ctx;
     case r of
       Inl e \<Rightarrow> State_Monad.return (Some e)
     | Inr _ \<Rightarrow> ad_Subscribe (va_inner a) ctx
   }"

definition EnforceExactVersion :: "'s Adapter \<Rightarrow> string \<Rightarrow> 's VersionedAdapter" where
  "EnforceExactVersion inner expected = \<lparr>va_inner = inner, va_expected = expected\<rparr>"

text \<open>The gate as an adapter, as the assignment to \<open>Adapter\<close> at the end of the file checks it.\<close>

definition VersionedAdapter_Adapter :: "'s VersionedAdapter \<Rightarrow> 's Adapter" where
  "VersionedAdapter_Adapter a =
     \<lparr>ad_DaemonVersion = VersionedAdapter_DaemonVersion a,
      ad_Status = VersionedAdapter_Status a,
      ad_ListProfiles = VersionedAdapter_ListProfiles a,
      ad_ActiveProfile = VersionedAdapter_ActiveProfile a,
      ad_CreateProfile = VersionedAdapter_CreateProfile a,
      ad_SelectProfile = VersionedAdapter_SelectProfile a,
      ad_RemoveProfile = VersionedAdapter_RemoveProfile a,
      ad_Enroll = VersionedAdapter_Enroll a,
      ad_Connect = VersionedAdapter_Connect a,
      ad_Disconnect = VersionedAdapter_Disconnect a,
      ad_Deregister = VersionedAdapter_Deregister a,
      ad_Subscribe = VersionedAdapter_Subscribe a,
      ad_Recv = ad_Recv (va_inner a)\<rparr>"

lemmas VersionedAdapter_defs =
  VersionedAdapter_DaemonVersion_def VersionedAdapter_Status_def VersionedAdapter_ListProfiles_def
  VersionedAdapter_ActiveProfile_def VersionedAdapter_CreateProfile_def
  VersionedAdapter_SelectProfile_def VersionedAdapter_RemoveProfile_def VersionedAdapter_Enroll_def
  VersionedAdapter_Connect_def VersionedAdapter_Disconnect_def VersionedAdapter_Deregister_def
  VersionedAdapter_Subscribe_def

section \<open>The gate\<close>

text \<open>
  \<open>adapter_keeps R\<close>: none of the operations of an adapter leaves the relation \<open>R\<close>.  What the
  adapter keeps, the gate before it keeps; and with a wrong version every gated operation keeps
  whatever the version query alone keeps.
\<close>

definition adapter_keeps :: "('s \<Rightarrow> 's \<Rightarrow> bool) \<Rightarrow> 's Adapter \<Rightarrow> bool" where
  "adapter_keeps R a \<longleftrightarrow>
     (\<forall>c. frame_relation.keeps R (ad_DaemonVersion a c)) \<and>
     (\<forall>c. frame_relation.keeps R (ad_Status a c)) \<and>
     (\<forall>c. frame_relation.keeps R (ad_ListProfiles a c)) \<and>
     (\<forall>c. frame_relation.keeps R (ad_ActiveProfile a c)) \<and>
     (\<forall>c n. frame_relation.keeps R (ad_CreateProfile a c n)) \<and>
     (\<forall>c p. frame_relation.keeps R (ad_SelectProfile a c p)) \<and>
     (\<forall>c p. frame_relation.keeps R (ad_RemoveProfile a c p)) \<and>
     (\<forall>c r. frame_relation.keeps R (ad_Enroll a c r)) \<and>
     (\<forall>c p. frame_relation.keeps R (ad_Connect a c p)) \<and>
     (\<forall>c p. frame_relation.keeps R (ad_Disconnect a c p)) \<and>
     (\<forall>c p. frame_relation.keeps R (ad_Deregister a c p)) \<and>
     (\<forall>c. frame_relation.keeps R (ad_Subscribe a c)) \<and>
     (\<forall>c. frame_relation.keeps R (ad_Recv a c))"

context frame_relation
begin

lemma requireCompatible_keeps:
  "(\<And>c. keeps (ad_DaemonVersion (va_inner a) c)) \<Longrightarrow> keeps (requireCompatible a ctx)"
  unfolding requireCompatible_def by (intro keeps_intros) auto

lemma VersionedAdapter_keeps:
  "adapter_keeps R (va_inner a) \<Longrightarrow> adapter_keeps R (VersionedAdapter_Adapter a)"
  unfolding adapter_keeps_def VersionedAdapter_Adapter_def VersionedAdapter_defs
  by (auto intro!: keeps_intros requireCompatible_keeps)

end

lemma run_requireCompatible:
  "run_state (requireCompatible a ctx) s =
     (case run_state (ad_DaemonVersion (va_inner a) ctx) s of
        (Inl e, t) \<Rightarrow> (Inl e, t)
      | (Inr v, t) \<Rightarrow>
          if v = va_expected a then (Inr (), t)
          else (Inl (VersionMismatchError (va_expected a) v), t))"
  by (simp add: requireCompatible_def run_go_try split: prod.splits sum.splits)

text \<open>A daemon of another version: what each gated operation does is the version query.\<close>

definition other_version :: "'s VersionedAdapter \<Rightarrow> go_context \<Rightarrow> 's \<Rightarrow> string \<Rightarrow> 's \<Rightarrow> bool" where
  "other_version a ctx s v t \<longleftrightarrow>
     run_state (ad_DaemonVersion (va_inner a) ctx) s = (Inr v, t) \<and> v \<noteq> va_expected a"

lemma gate_refuses:
  assumes "other_version a ctx s v t"
  shows "run_state (go_try (requireCompatible a ctx) f) s =
    (Inl (VersionMismatchError (va_expected a) v), t)"
  using assms by (simp add: other_version_def run_go_try run_requireCompatible)

lemma gate_passes:
  assumes "run_state (ad_DaemonVersion (va_inner a) ctx) s = (Inr (va_expected a), t)"
  shows "run_state (go_try (requireCompatible a ctx) f) s = run_state (f ()) t"
  using assms by (simp add: run_go_try run_requireCompatible)

text \<open>
  C23: Behind the version gate no daemon of another version is operated: creating, selecting and
  removing profiles, enrolling, connecting, disconnecting and deregistering all end in the
  mismatch error, and the state is the one the version query left.
\<close>
theorem version_gate:
  assumes "other_version (EnforceExactVersion inner expected) ctx s v t"
  shows "let a = VersionedAdapter_Adapter (EnforceExactVersion inner expected);
             refused = (Inl (VersionMismatchError expected v), t)
         in run_state (ad_CreateProfile a ctx n) s = (Inl (VersionMismatchError expected v), t) \<and>
            run_state (ad_SelectProfile a ctx p) s = refused \<and>
            run_state (ad_RemoveProfile a ctx p) s = refused \<and>
            run_state (ad_Enroll a ctx request) s = refused \<and>
            run_state (ad_Connect a ctx p) s = refused \<and>
            run_state (ad_Disconnect a ctx p) s = refused \<and>
            run_state (ad_Deregister a ctx p) s = refused \<and>
            run_state (ad_Subscribe a ctx) s = (Some (VersionMismatchError expected v), t)"
proof -
  let ?a = "EnforceExactVersion inner expected"
  have "run_state (requireCompatible ?a ctx) s = (Inl (VersionMismatchError expected v), t)"
    using assms by (simp add: other_version_def run_requireCompatible EnforceExactVersion_def)
  moreover have e: "va_expected ?a = expected" by (simp add: EnforceExactVersion_def)
  ultimately show ?thesis
    by (simp add: VersionedAdapter_Adapter_def VersionedAdapter_defs Let_def e
          gate_refuses [OF assms])
qed

lemma VersionedAdapter_Status_ok:
  assumes "run_state (VersionedAdapter_Status a ctx) s = ((snapshot, None), t)"
  shows "ds_DaemonVersion snapshot = va_expected a"
  using assms by (auto simp: VersionedAdapter_Status_def split: prod.splits if_splits)

lemma RepairResultFor_mismatch:
  "RepairResultFor (Some (VersionMismatchError e d)) =
     \<lparr>rr_Required = True, rr_Reason = RepairVersionMismatch, rr_ExpectedVersion = e,
      rr_DetectedVersion = d\<rparr>"
  by (simp add: RepairResultFor_def errors_As_VersionMismatch_def)

lemma RepairResultFor_required: "rr_Required (RepairResultFor e) \<longleftrightarrow> e \<noteq> None"
  by (auto simp: RepairResultFor_def split: option.splits)

end
