(* ===== verification/NbProfile.thy ===== *)
theory NbProfile
  imports NbTypes
begin

text \<open>
  The daemon's profiles (\<open>client/internal/netbird/profile.go\<close>).  The daemon is reached over
  gRPC and is not part of the repository: it is the record \<open>daemon\<close> of its procedures, an argument
  of all definitions.  The client keeps one profile of its own, \<open>sogame-room\<close>, and must leave the
  user's other profiles alone.
\<close>

section \<open>The daemon\<close>

record LoginRequest =
  lr_SetupKey :: string
  lr_ManagementUrl :: string
  lr_Hostname :: string
  lr_ProfileName :: string
  lr_Username :: string

record ActiveProfileResponse =
  apr_Id :: string
  apr_ProfileName :: string
  apr_Username :: string

record 'w daemon =
  rpc_ListProfiles :: "go_context \<Rightarrow> string \<Rightarrow> ('w, goerr + pb_Profile option list) state"
  rpc_GetActiveProfile :: "go_context \<Rightarrow> ('w, goerr + ActiveProfileResponse) state"
  rpc_AddProfile :: "go_context \<Rightarrow> string \<Rightarrow> string \<Rightarrow> ('w, goerr + string) state"
  rpc_SwitchProfile :: "go_context \<Rightarrow> string \<Rightarrow> string \<Rightarrow> ('w, goerr + string) state"
  rpc_RemoveProfile :: "go_context \<Rightarrow> string \<Rightarrow> string \<Rightarrow> ('w, goerr + string) state"
  rpc_Login :: "go_context \<Rightarrow> LoginRequest \<Rightarrow> ('w, goerr + unit) state"
  rpc_Up :: "go_context \<Rightarrow> string \<Rightarrow> string \<Rightarrow> ('w, goerr + unit) state"
  rpc_Status :: "go_context \<Rightarrow> bool \<Rightarrow> ('w, goerr + pb_StatusResponse) state"
  rpc_Down :: "go_context \<Rightarrow> ('w, goerr + unit) state"
  rpc_Logout :: "go_context \<Rightarrow> string \<Rightarrow> string \<Rightarrow> ('w, goerr + unit) state"
  rpc_SubscribeEvents :: "go_context \<Rightarrow> ('w, goerr + unit) state"
  rpc_Recv :: "go_context \<Rightarrow> ('w, goerr + pb_SystemEvent) state"

text \<open>The error branch of the code: \<open>fmt.Errorf("...: %w", err)\<close>.\<close>

definition wrap_err :: "string \<Rightarrow> ('w, goerr + 'a) state \<Rightarrow> ('w, goerr + 'a) state" where
  "wrap_err p m = do {
     r \<leftarrow> m;
     case r of Inl e \<Rightarrow> err (Wrapped p e []) | Inr x \<Rightarrow> ok x
   }"

lemma run_wrap_err:
  "run_state (wrap_err p m) s =
     (case run_state m s of (Inl e, t) \<Rightarrow> (Inl (Wrapped p e []), t) | (Inr x, t) \<Rightarrow> (Inr x, t))"
  by (simp add: wrap_err_def split: prod.splits sum.splits)

lemma wp_wrap_err [wp_simps]:
  "wp (wrap_err p m) Q s =
     wp m (\<lambda>r t. case r of Inl e \<Rightarrow> Q (Inl (Wrapped p e [])) t | Inr x \<Rightarrow> Q (Inr x) t) s"
  by (auto simp: wrap_err_def wp_simps wp_def split: prod.splits sum.splits)

lemma wps_wrap_err [wps_simps]: "wps (wrap_err p m) Q s = wps m Q s"
  by (auto simp: wps_def wrap_err_def wp_simps wp_def split: prod.splits sum.splits)

section \<open>The store of the managed profile\<close>

definition ManagedProfileName :: string where "ManagedProfileName = ''sogame-room''"

record 'w ManagedProfileStore =
  mps_client :: "'w daemon"
  mps_username :: string

definition profiles_list ::
  "'w ManagedProfileStore \<Rightarrow> go_context \<Rightarrow> ('w, goerr + Profile list) state" where
  "profiles_list s ctx =
     go_try (wrap_err ''list NetBird profiles: '' (rpc_ListProfiles (mps_client s) ctx (mps_username s)))
       (\<lambda>response.
     ok (map (\<lambda>p. p\<lparr>prof_Username := mps_username s\<rparr>) (NormalizeProfiles (Some response))))"

definition profiles_Ensure ::
  "'w ManagedProfileStore \<Rightarrow> go_context \<Rightarrow> string \<Rightarrow> ('w, goerr + Profile) state" where
  "profiles_Ensure s ctx expectedID =
     go_try (profiles_list s ctx) (\<lambda>profiles.
     if expectedID \<noteq> [] then
       (case find (\<lambda>profile. prof_ID profile = expectedID) profiles of
          Some profile \<Rightarrow> ok profile
        | None \<Rightarrow> err (Wrapped [] (Sentinel ErrManagedProfileInconsistent)
                        ('': expected profile '' @ expectedID)))
     else if list_ex (\<lambda>profile. prof_Name profile = ManagedProfileName) profiles then
       err (Sentinel ErrManagedProfileConflict)
     else
       go_try (wrap_err ''add managed NetBird profile: ''
           (rpc_AddProfile (mps_client s) ctx (mps_username s) ManagedProfileName)) (\<lambda>id.
       if id = [] then
         err (Wrapped [] (Sentinel ErrManagedProfileInconsistent)
               '': daemon returned an empty profile ID'')
       else ok \<lparr>prof_ID = id, prof_Name = ManagedProfileName, prof_IsActive = False,
                prof_Username = mps_username s\<rparr>))"

definition profiles_Validate ::
  "'w ManagedProfileStore \<Rightarrow> go_context \<Rightarrow> string \<Rightarrow> ('w, goerr + Profile) state" where
  "profiles_Validate s ctx profileID =
     (if profileID = [] then err (Sentinel ErrManagedProfileInconsistent)
      else profiles_Ensure s ctx profileID)"

definition profiles_Select ::
  "'w ManagedProfileStore \<Rightarrow> go_context \<Rightarrow> string \<Rightarrow> ('w, goerr + unit) state" where
  "profiles_Select s ctx profileID =
     go_try (profiles_Validate s ctx profileID) (\<lambda>_.
     go_try (wrap_err ''select managed NetBird profile: ''
         (rpc_SwitchProfile (mps_client s) ctx profileID (mps_username s))) (\<lambda>id.
     if id \<noteq> profileID then
       err (Wrapped [] (Sentinel ErrManagedProfileInconsistent) ('': daemon selected profile '' @ id))
     else ok ()))"

definition default_profile :: string where "default_profile = ''default''"

definition profiles_Remove ::
  "'w ManagedProfileStore \<Rightarrow> go_context \<Rightarrow> string \<Rightarrow> ('w, goerr + unit) state" where
  "profiles_Remove s ctx profileID =
     go_try (profiles_Validate s ctx profileID) (\<lambda>_.
     go_try (wrap_err ''read active NetBird profile: '' (rpc_GetActiveProfile (mps_client s) ctx))
       (\<lambda>active.
     go_try
       (if apr_Id active = profileID then
          go_try (wrap_err ''select default profile before managed removal: ''
              (rpc_SwitchProfile (mps_client s) ctx default_profile (mps_username s))) (\<lambda>id.
          if id \<noteq> default_profile then
            err (Wrapped [] (Sentinel ErrManagedProfileInconsistent)
                  '': daemon did not select default before removal'')
          else ok ())
        else ok ()) (\<lambda>_.
     go_try (wrap_err ''remove managed NetBird profile: ''
         (rpc_RemoveProfile (mps_client s) ctx (mps_username s) profileID)) (\<lambda>id.
     if id \<noteq> profileID then
       err (Wrapped [] (Sentinel ErrManagedProfileInconsistent) ('': daemon removed profile '' @ id))
     else ok ()))))"

lemmas profiles_defs =
  profiles_list_def profiles_Ensure_def profiles_Validate_def profiles_Select_def profiles_Remove_def

section \<open>A daemon that keeps its profiles\<close>

text \<open>
  The documented contract of the daemon's profile calls, over a view \<open>ids\<close> of its state (the
  profiles of the user) and \<open>active\<close> (the selected one): the queries change neither, a call that
  fails changes neither (a removal may have happened before its answer got lost), and a call that
  succeeds does what its name says.
\<close>

definition profile_daemon ::
  "'w daemon \<Rightarrow> string \<Rightarrow> ('w \<Rightarrow> (string \<times> string) list) \<Rightarrow> ('w \<Rightarrow> string) \<Rightarrow> bool" where
  "profile_daemon d user ids active \<longleftrightarrow>
     (\<forall>c w r w'. run_state (rpc_ListProfiles d c user) w = (r, w') \<longrightarrow>
        ids w' = ids w \<and> active w' = active w \<and>
        (\<forall>ps. r = Inr ps \<longrightarrow> map (\<lambda>p. (ppr_Id p, ppr_Name p)) (List.map_filter id ps) = ids w)) \<and>
     (\<forall>c w r w'. run_state (rpc_GetActiveProfile d c) w = (r, w') \<longrightarrow>
        ids w' = ids w \<and> active w' = active w \<and> (\<forall>a. r = Inr a \<longrightarrow> apr_Id a = active w)) \<and>
     (\<forall>c n w r w'. run_state (rpc_AddProfile d c user n) w = (r, w') \<longrightarrow>
        active w' = active w \<and>
        (case r of Inl e \<Rightarrow> ids w' = ids w
         | Inr i \<Rightarrow> i \<notin> fst ` set (ids w) \<and> ids w' = ids w @ [(i, n)])) \<and>
     (\<forall>c p w r w'. run_state (rpc_SwitchProfile d c p user) w = (r, w') \<longrightarrow>
        ids w' = ids w \<and> active w' = (case r of Inl e \<Rightarrow> active w | Inr i \<Rightarrow> i)) \<and>
     (\<forall>c p w r w'. run_state (rpc_RemoveProfile d c user p) w = (r, w') \<longrightarrow>
        active w' = active w \<and>
        (ids w' = ids w \<or> ids w' = filter (\<lambda>(j, n). j \<noteq> p) (ids w)) \<and>
        (\<forall>i. r = Inr i \<longrightarrow> ids w' = filter (\<lambda>(j, n). j \<noteq> i) (ids w)))"

lemma profile_daemon_List:
  "profile_daemon d user ids active \<Longrightarrow> run_state (rpc_ListProfiles d c user) w = (r, w') \<Longrightarrow>
     ids w' = ids w \<and> active w' = active w \<and>
     (\<forall>ps. r = Inr ps \<longrightarrow> map (\<lambda>p. (ppr_Id p, ppr_Name p)) (List.map_filter id ps) = ids w)"
  by (rule profile_daemon_def [THEN iffD1, THEN conjunct1, rule_format])

lemma profile_daemon_Active:
  "profile_daemon d user ids active \<Longrightarrow> run_state (rpc_GetActiveProfile d c) w = (r, w') \<Longrightarrow>
     ids w' = ids w \<and> active w' = active w \<and> (\<forall>a. r = Inr a \<longrightarrow> apr_Id a = active w)"
  by (rule profile_daemon_def [THEN iffD1, THEN conjunct2, THEN conjunct1, rule_format])

lemma profile_daemon_Add:
  "profile_daemon d user ids active \<Longrightarrow> run_state (rpc_AddProfile d c user n) w = (r, w') \<Longrightarrow>
     active w' = active w \<and>
     (case r of Inl e \<Rightarrow> ids w' = ids w
      | Inr i \<Rightarrow> i \<notin> fst ` set (ids w) \<and> ids w' = ids w @ [(i, n)])"
  by (rule profile_daemon_def [THEN iffD1, THEN conjunct2, THEN conjunct2, THEN conjunct1,
        rule_format])

lemma profile_daemon_Switch:
  "profile_daemon d user ids active \<Longrightarrow> run_state (rpc_SwitchProfile d c p user) w = (r, w') \<Longrightarrow>
     ids w' = ids w \<and> active w' = (case r of Inl e \<Rightarrow> active w | Inr i \<Rightarrow> i)"
  by (rule profile_daemon_def [THEN iffD1, THEN conjunct2, THEN conjunct2, THEN conjunct2, THEN conjunct1,
        rule_format])

lemma profile_daemon_Remove:
  "profile_daemon d user ids active \<Longrightarrow> run_state (rpc_RemoveProfile d c user p) w = (r, w') \<Longrightarrow>
     active w' = active w \<and>
     (ids w' = ids w \<or> ids w' = filter (\<lambda>(j, n). j \<noteq> p) (ids w)) \<and>
     (\<forall>i. r = Inr i \<longrightarrow> ids w' = filter (\<lambda>(j, n). j \<noteq> i) (ids w))"
  by (rule profile_daemon_def [THEN iffD1, THEN conjunct2, THEN conjunct2, THEN conjunct2, THEN conjunct2,
        rule_format])

abbreviation profile_store :: "'w daemon \<Rightarrow> string \<Rightarrow> 'w ManagedProfileStore" where
  "profile_store d user \<equiv> \<lparr>mps_client = d, mps_username = user\<rparr>"

lemma profiles_list_run:
  assumes d: "profile_daemon d user ids active"
    and run: "run_state (profiles_list (profile_store d user) c) w = (r, w')"
  shows "ids w' = ids w \<and> active w' = active w"
    and "r = Inr profiles \<Longrightarrow> map (\<lambda>p. (prof_ID p, prof_Name p)) profiles = ids w"
proof -
  show "ids w' = ids w \<and> active w' = active w"
    using run profile_daemon_List [OF d]
    by (fastforce simp: profiles_list_def run_go_try run_wrap_err split: prod.splits sum.splits)
  assume "r = Inr profiles"
  with run obtain ps where
    1: "run_state (rpc_ListProfiles d c user) w = (Inr ps, w')"
    and 2: "profiles = map (\<lambda>p. p\<lparr>prof_Username := user\<rparr>) (NormalizeProfiles (Some ps))"
    by (auto simp: profiles_list_def run_go_try run_wrap_err split: prod.splits sum.splits)
  show "map (\<lambda>p. (prof_ID p, prof_Name p)) profiles = ids w"
    using profile_daemon_List [OF d 1] by (simp add: 2 NormalizeProfiles_def comp_def)
qed

lemma profiles_Validate_run:
  assumes d: "profile_daemon d user ids active"
    and run: "run_state (profiles_Validate (profile_store d user) c p) w = (r, w')"
  shows "ids w' = ids w \<and> active w' = active w"
    and "r = Inr x \<Longrightarrow> p \<noteq> [] \<and> p \<in> fst ` set (ids w) \<and> prof_ID x = p"
proof -
  show "ids w' = ids w \<and> active w' = active w"
    using run profiles_list_run(1) [OF d]
    by (fastforce simp: profiles_Validate_def profiles_Ensure_def run_go_try
        split: prod.splits sum.splits if_splits option.splits)
  assume "r = Inr x"
  with run obtain profiles where p: "p \<noteq> []"
    and 1: "run_state (profiles_list (profile_store d user) c) w = (Inr profiles, w')"
    and 2: "find (\<lambda>profile. prof_ID profile = p) profiles = Some x"
    by (auto simp: profiles_Validate_def profiles_Ensure_def run_go_try
        split: prod.splits sum.splits if_splits option.splits)
  from 2 have "x \<in> set profiles" "prof_ID x = p" by (auto dest: find_Some_in)
  then have "p \<in> fst ` set (map (\<lambda>p. (prof_ID p, prof_Name p)) profiles)" by force
  then show "p \<noteq> [] \<and> p \<in> fst ` set (ids w) \<and> prof_ID x = p"
    using profiles_list_run(2) [OF d 1 refl] p \<open>prof_ID x = p\<close> by simp
qed

text \<open>Creating the managed profile adds one profile with a fresh id, or nothing.\<close>

lemma profiles_Ensure_run:
  assumes d: "profile_daemon d user ids active"
    and run: "run_state (profiles_Ensure (profile_store d user) c []) w = (r, w')"
  shows "active w' = active w"
    and "r = Inr x \<Longrightarrow> ManagedProfileName \<notin> snd ` set (ids w) \<and> prof_ID x \<noteq> [] \<and>
       prof_ID x \<notin> fst ` set (ids w) \<and> prof_Name x = ManagedProfileName \<and>
       ids w' = ids w @ [(prof_ID x, ManagedProfileName)]"
    and "r = Inl e \<Longrightarrow> ids w' = ids w \<or> ids w' = ids w @ [([], ManagedProfileName)]"
proof -
  obtain r1 w1 where 1: "run_state (profiles_list (profile_store d user) c) w = (r1, w1)" by fastforce
  note l = profiles_list_run [OF d 1]
  obtain r2 w2 where 2: "run_state (rpc_AddProfile d c user ManagedProfileName) w1 = (r2, w2)"
    by fastforce
  note a = profile_daemon_Add [OF d 2]
  note runs = run [unfolded profiles_Ensure_def run_go_try run_wrap_err]
  show "active w' = active w"
    using runs 1 2 l(1) a
    by (auto simp: run_go_try run_wrap_err split: sum.splits if_splits)
  show "ids w' = ids w \<or> ids w' = ids w @ [([], ManagedProfileName)]" if "r = Inl e"
    using that runs 1 2 l(1) a
    by (auto simp: run_go_try run_wrap_err split: sum.splits if_splits)
  show "ManagedProfileName \<notin> snd ` set (ids w) \<and> prof_ID x \<noteq> [] \<and>
       prof_ID x \<notin> fst ` set (ids w) \<and> prof_Name x = ManagedProfileName \<and>
       ids w' = ids w @ [(prof_ID x, ManagedProfileName)]" if r: "r = Inr x"
  proof -
    from r runs 1 obtain profiles where p: "r1 = Inr profiles" by (cases r1) auto
    have "ManagedProfileName \<in> snd ` set (ids w) \<longleftrightarrow>
        list_ex (\<lambda>profile. prof_Name profile = ManagedProfileName) profiles"
      unfolding l(2) [OF p, symmetric] by (force simp: list_ex_iff)
    then show ?thesis
      using r p runs 1 2 l(1) a
      by (auto simp: run_go_try run_wrap_err split: sum.splits if_splits) (metis fst_conv image_eqI)
  qed
qed

lemma profiles_Select_run:
  assumes d: "profile_daemon d user ids active"
    and run: "run_state (profiles_Select (profile_store d user) c p) w = (r, w')"
  shows "ids w' = ids w" and "r = Inr () \<Longrightarrow> active w' = p \<and> p \<in> fst ` set (ids w)"
proof -
  obtain r1 w1 where 1: "run_state (profiles_Validate (profile_store d user) c p) w = (r1, w1)" by fastforce
  note v = profiles_Validate_run [OF d 1]
  obtain r2 w2 where 2: "run_state (rpc_SwitchProfile d c p user) w1 = (r2, w2)" by fastforce
  note sw = profile_daemon_Switch [OF d 2]
  note runs = run [unfolded profiles_Select_def run_go_try run_wrap_err]
  show "ids w' = ids w"
    using runs 1 2 v(1) sw by (auto simp: run_go_try run_wrap_err split: sum.splits if_splits)
  show "active w' = p \<and> p \<in> fst ` set (ids w)" if "r = Inr ()"
    using that runs 1 2 v sw by (auto simp: run_go_try run_wrap_err split: sum.splits if_splits)
qed

text \<open>Removing the managed profile removes that one, after the default was selected if need be.\<close>

lemma profiles_Remove_run:
  assumes d: "profile_daemon d user ids active"
    and run: "run_state (profiles_Remove (profile_store d user) c p) w = (r, w')"
  shows "ids w' = ids w \<or> ids w' = filter (\<lambda>(j, n). j \<noteq> p) (ids w)"
    and "r = Inr () \<Longrightarrow> ids w' = filter (\<lambda>(j, n). j \<noteq> p) (ids w) \<and>
       active w' = (if active w = p then default_profile else active w)"
proof -
  obtain r1 w1 where 1: "run_state (profiles_Validate (profile_store d user) c p) w = (r1, w1)" by fastforce
  note v = profiles_Validate_run [OF d 1]
  obtain r2 w2 where 2: "run_state (rpc_GetActiveProfile d c) w1 = (r2, w2)" by fastforce
  note g = profile_daemon_Active [OF d 2]
  obtain r3 w3 where 3: "run_state (rpc_SwitchProfile d c default_profile user) w2 = (r3, w3)"
    by fastforce
  note sw = profile_daemon_Switch [OF d 3]
  obtain r4 w4 where 4: "run_state (rpc_RemoveProfile d c user p) w2 = (r4, w4)" by fastforce
  obtain r5 w5 where 5: "run_state (rpc_RemoveProfile d c user p) w3 = (r5, w5)" by fastforce
  note rm = profile_daemon_Remove [OF d 4] profile_daemon_Remove [OF d 5]
  note runs = run [unfolded profiles_Remove_def run_go_try run_wrap_err]
  show "ids w' = ids w \<or> ids w' = filter (\<lambda>(j, n). j \<noteq> p) (ids w)"
    using runs 1 2 3 4 5 v(1) g sw rm
    by (auto simp: run_go_try run_wrap_err split: sum.splits if_splits)
  show "ids w' = filter (\<lambda>(j, n). j \<noteq> p) (ids w) \<and>
       active w' = (if active w = p then default_profile else active w)" if "r = Inr ()"
    using that runs 1 2 3 4 5 v(1) g sw rm
    by (auto simp: run_go_try run_wrap_err split: sum.splits if_splits)
qed

end
