(* ===== verification/GoUrl.thy ===== *)
theory GoUrl
  imports Json
begin

text \<open>
  The parts of Go's \<open>net/url\<close> and of \<open>net.ParseIP\<close> that the room client uses: \<open>Parse\<close>, the
  fields of the result it looks at, \<open>Hostname\<close>, and \<open>String\<close> for a URL without user
  information (the client refuses the others before it prints one).
\<close>

section \<open>Splitting strings\<close>

text \<open>\<open>strings.Cut\<close> at a byte; \<open>LastIndex\<close> as the part before and the part from the last one on.\<close>

fun Cut :: "char \<Rightarrow> string \<Rightarrow> string \<times> string \<times> bool" where
  "Cut sep [] = ([], [], False)"
| "Cut sep (c # s) =
     (if c = sep then ([], s, True)
      else (case Cut sep s of (a, b, found) \<Rightarrow> (c # a, b, found)))"

definition split_last :: "char \<Rightarrow> string \<Rightarrow> (string \<times> string) option" where
  "split_last sep s =
     (if sep \<in> set s
      then (let tail = takeWhile (\<lambda>c. c \<noteq> sep) (rev s) in
            Some (take (length s - length tail - 1) s, sep # rev tail))
      else None)"

definition HasSuffix :: "string \<Rightarrow> string \<Rightarrow> bool" where
  "HasSuffix s p = HasPrefix (rev s) (rev p)"

lemma Cut_no_sep: "sep \<notin> set s \<Longrightarrow> Cut sep s = (s, [], False)"
  by (induction s) auto

lemma Cut_append: "sep \<notin> set p \<Longrightarrow> Cut sep (p @ sep # s) = (p, s, True)"
  by (induction p) auto

section \<open>Percent-encoding\<close>

datatype encoding = encodePath | encodeHost | encodeZone | encodeUserPassword | encodeFragment

definition is_alnum :: "char \<Rightarrow> bool" where
  "is_alnum c \<longleftrightarrow> is_lower c \<or> is_upper c \<or> is_digit c"

definition shouldEscape :: "char \<Rightarrow> encoding \<Rightarrow> bool" where
  "shouldEscape c mode =
     (if is_alnum c then False
      else if (mode = encodeHost \<or> mode = encodeZone) \<and> c \<in> set ''!$&()*+,;=:[]<>'' \<union> {CHR 0x27, CHR 0x22}
        then False
      else if c \<in> set ''-_.~'' then False
      else if c \<in> set ''$&+,/:;=?@'' then
        (case mode of
           encodePath \<Rightarrow> c = CHR ''?''
         | encodeUserPassword \<Rightarrow> c \<in> set ''@/?:''
         | encodeFragment \<Rightarrow> False
         | _ \<Rightarrow> True)
      else if mode = encodeFragment \<and> c \<in> set ''!()*'' then False
      else True)"

text \<open>\<open>unescape\<close>: \<open>None\<close> is its error.\<close>

fun url_unescape :: "encoding \<Rightarrow> string \<Rightarrow> string option" where
  "url_unescape mode [] = Some []"
| "url_unescape mode (c # s) =
     (if c = CHR ''%'' then
        (case s of
           a # b # rest \<Rightarrow>
             (case (hex_value a, hex_value b) of
                (Some x, Some y) \<Rightarrow>
                  let v = char_of (16 * x + y) in
                  if mode = encodeHost \<and> x < 8 \<and> \<not> (a = CHR ''2'' \<and> b = CHR ''5'') then None
                  else if mode = encodeZone \<and> \<not> (a = CHR ''2'' \<and> b = CHR ''5'') \<and> v \<noteq> CHR '' ''
                          \<and> shouldEscape v encodeHost then None
                  else map_option (Cons v) (url_unescape mode rest)
              | _ \<Rightarrow> None)
         | _ \<Rightarrow> None)
      else if (mode = encodeHost \<or> mode = encodeZone) \<and> is_ascii c \<and> shouldEscape c mode then None
      else map_option (Cons c) (url_unescape mode s))"

definition upper_hex_digit :: "nat \<Rightarrow> char" where
  "upper_hex_digit n = (if n < 10 then char_of (48 + n) else char_of (55 + n))"

definition url_escape_char :: "encoding \<Rightarrow> char \<Rightarrow> string" where
  "url_escape_char mode c =
     (if shouldEscape c mode
      then [CHR ''%'', upper_hex_digit (byte c div 16), upper_hex_digit (byte c mod 16)] else [c])"

definition url_escape :: "encoding \<Rightarrow> string \<Rightarrow> string" where
  "url_escape mode s = concat (map (url_escape_char mode) s)"

definition validEncoded :: "encoding \<Rightarrow> string \<Rightarrow> bool" where
  "validEncoded mode s =
     list_all (\<lambda>c. c \<in> set ''!$&()*+,;=:@[]%'' \<union> {CHR 0x27} \<or> \<not> shouldEscape c mode) s"

section \<open>Parsing\<close>

record URL =
  u_Scheme :: string
  u_Opaque :: string
  u_User :: "string option"
  u_Host :: string
  u_Path :: string
  u_RawPath :: string
  u_OmitHost :: bool
  u_ForceQuery :: bool
  u_RawQuery :: string
  u_Fragment :: string
  u_RawFragment :: string

definition empty_URL :: URL where
  "empty_URL = \<lparr>u_Scheme = [], u_Opaque = [], u_User = None, u_Host = [], u_Path = [],
     u_RawPath = [], u_OmitHost = False, u_ForceQuery = False, u_RawQuery = [], u_Fragment = [],
     u_RawFragment = []\<rparr>"

text \<open>\<open>getScheme\<close>: the scheme and the rest, or \<open>None\<close> for a missing scheme.\<close>

fun scheme_scan :: "string \<Rightarrow> string \<Rightarrow> string option" where
  "scheme_scan pre [] = Some []"
| "scheme_scan pre (c # s) =
     (if is_lower c \<or> is_upper c then scheme_scan (pre @ [c]) s
      else if is_digit c \<or> c = CHR ''+'' \<or> c = CHR ''-'' \<or> c = CHR ''.''
        then (if pre = [] then Some [] else scheme_scan (pre @ [c]) s)
      else if c = CHR '':'' then (if pre = [] then None else Some pre)
      else Some [])"

definition getScheme :: "string \<Rightarrow> (string \<times> string) option" where
  "getScheme raw =
     (case scheme_scan [] raw of
        None \<Rightarrow> None
      | Some [] \<Rightarrow> Some ([], raw)
      | Some scheme \<Rightarrow> Some (scheme, drop (length scheme + 1) raw))"

definition validOptionalPort :: "string \<Rightarrow> bool" where
  "validOptionalPort port =
     (case port of [] \<Rightarrow> True | c # digits \<Rightarrow> c = CHR '':'' \<and> list_all is_digit digits)"

fun cut_25 :: "string \<Rightarrow> (string \<times> string) option" where
  "cut_25 [] = None"
| "cut_25 (c # s) =
     (if HasPrefix (c # s) ''%25'' then Some ([], c # s)
      else map_option (\<lambda>(a, b). (c # a, b)) (cut_25 s))"

definition parseHost :: "string \<Rightarrow> string option" where
  "parseHost host =
     (if HasPrefix host ''['' then
        (case split_last (CHR '']'') host of
           None \<Rightarrow> None
         | Some (inside, closing) \<Rightarrow>
             if \<not> validOptionalPort (tl closing) then None
             else (case cut_25 inside of
                     Some (addr, zone) \<Rightarrow>
                       (case (url_unescape encodeHost addr, url_unescape encodeZone zone,
                              url_unescape encodeHost closing) of
                          (Some h1, Some h2, Some h3) \<Rightarrow> Some (h1 @ h2 @ h3)
                        | _ \<Rightarrow> None)
                   | None \<Rightarrow> url_unescape encodeHost host))
      else (case split_last (CHR '':'') host of
              Some (_, colonPort) \<Rightarrow>
                if \<not> validOptionalPort colonPort then None else url_unescape encodeHost host
            | None \<Rightarrow> url_unescape encodeHost host))"

definition validUserinfo :: "string \<Rightarrow> bool" where
  "validUserinfo s =
     list_all (\<lambda>c. is_alnum c \<or> c \<in> set ''-._:~!$&()*+,;=%@'' \<or> c = CHR 0x27) s"

definition parseUserinfo :: "string \<Rightarrow> string option" where
  "parseUserinfo userinfo =
     (if \<not> validUserinfo userinfo then None
      else (case Cut (CHR '':'') userinfo of
              (name, password, found) \<Rightarrow>
                (case (url_unescape encodeUserPassword name, url_unescape encodeUserPassword password) of
                   (Some n, Some p) \<Rightarrow> Some (if found then n @ '':'' @ p else n)
                 | _ \<Rightarrow> None)))"

definition parseAuthority :: "string \<Rightarrow> (string option \<times> string) option" where
  "parseAuthority authority =
     (case split_last (CHR ''@'') authority of
        None \<Rightarrow> map_option (Pair None) (parseHost authority)
      | Some (userinfo, rest) \<Rightarrow>
          (case parseHost (tl rest) of
             None \<Rightarrow> None
           | Some host \<Rightarrow> map_option (\<lambda>u. (Some u, host)) (parseUserinfo userinfo)))"

definition setPath :: "string \<Rightarrow> URL \<Rightarrow> URL option" where
  "setPath p u =
     map_option (\<lambda>path. u\<lparr>u_Path := path,
                          u_RawPath := (if p = url_escape encodePath path then [] else p)\<rparr>)
       (url_unescape encodePath p)"

definition setFragment :: "string \<Rightarrow> URL \<Rightarrow> URL option" where
  "setFragment f u =
     map_option (\<lambda>frag. u\<lparr>u_Fragment := frag,
                          u_RawFragment := (if f = url_escape encodeFragment frag then [] else f)\<rparr>)
       (url_unescape encodeFragment f)"

definition is_ctl :: "char \<Rightarrow> bool" where "is_ctl c \<longleftrightarrow> byte c < 32 \<or> c = CHR 0x7F"

definition cut_query :: "string \<Rightarrow> string \<times> string \<times> bool" where
  "cut_query rest =
     (if HasSuffix rest ''?'' \<and> count_list rest (CHR ''?'') = 1
      then (butlast rest, [], True)
      else (case Cut (CHR ''?'') rest of (pre, after, found) \<Rightarrow> (pre, after, False)))"

definition url_parse_nofrag :: "string \<Rightarrow> URL option" where
  "url_parse_nofrag raw =
     (if list_ex is_ctl raw then None
      else if raw = ''*'' then Some (empty_URL\<lparr>u_Path := ''*''\<rparr>)
      else (case getScheme raw of
        None \<Rightarrow> None
      | Some (scheme, rest) \<Rightarrow>
        (case cut_query rest of
          (rest, rawQuery, forceQuery) \<Rightarrow>
            let u = empty_URL\<lparr>u_Scheme := ToLower scheme, u_ForceQuery := forceQuery,
                              u_RawQuery := rawQuery\<rparr> in
            if \<not> HasPrefix rest ''/'' \<and> scheme \<noteq> [] then Some (u\<lparr>u_Opaque := rest\<rparr>)
            else if \<not> HasPrefix rest ''/'' \<and> CHR '':'' \<in> set (fst (Cut (CHR ''/'') rest)) then None
            else if (scheme \<noteq> [] \<or> \<not> HasPrefix rest ''///'') \<and> HasPrefix rest ''//'' then
              let authority = takeWhile (\<lambda>c. c \<noteq> CHR ''/'') (drop 2 rest);
                  path = dropWhile (\<lambda>c. c \<noteq> CHR ''/'') (drop 2 rest) in
              (case parseAuthority authority of
                 None \<Rightarrow> None
               | Some (user, host) \<Rightarrow> setPath path (u\<lparr>u_User := user, u_Host := host\<rparr>))
            else if scheme \<noteq> [] \<and> HasPrefix rest ''/'' then setPath rest (u\<lparr>u_OmitHost := True\<rparr>)
            else setPath rest u)))"

definition url_Parse :: "string \<Rightarrow> URL option" where
  "url_Parse rawURL =
     (case Cut (CHR ''#'') rawURL of
        (u, frag, found) \<Rightarrow>
          (case url_parse_nofrag u of
             None \<Rightarrow> None
           | Some url \<Rightarrow> if frag = [] then Some url else setFragment frag url))"

section \<open>Reading and printing\<close>

definition Hostname :: "URL \<Rightarrow> string" where
  "Hostname u =
     (let host = (case split_last (CHR '':'') (u_Host u) of
                    Some (h, colonPort) \<Rightarrow> if validOptionalPort colonPort then h else u_Host u
                  | None \<Rightarrow> u_Host u) in
      if HasPrefix host ''['' \<and> HasSuffix host '']'' then butlast (tl host) else host)"

definition EscapedPath :: "URL \<Rightarrow> string" where
  "EscapedPath u =
     (if u_RawPath u \<noteq> [] \<and> validEncoded encodePath (u_RawPath u) \<and>
         url_unescape encodePath (u_RawPath u) = Some (u_Path u) then u_RawPath u
      else if u_Path u = ''*'' then ''*''
      else url_escape encodePath (u_Path u))"

definition EscapedFragment :: "URL \<Rightarrow> string" where
  "EscapedFragment u =
     (if u_RawFragment u \<noteq> [] \<and> validEncoded encodeFragment (u_RawFragment u) \<and>
         url_unescape encodeFragment (u_RawFragment u) = Some (u_Fragment u) then u_RawFragment u
      else url_escape encodeFragment (u_Fragment u))"

definition url_prefix :: "URL \<Rightarrow> string" where
  "url_prefix u =
     (if u_Scheme u = [] then [] else u_Scheme u @ '':'') @
     (if (u_Scheme u \<noteq> [] \<or> u_Host u \<noteq> []) \<and> \<not> (u_OmitHost u \<and> u_Host u = []) then
        (if u_Host u \<noteq> [] \<or> u_Path u \<noteq> [] then ''//'' else []) @ url_escape encodeHost (u_Host u)
      else [])"

definition URL_String :: "URL \<Rightarrow> string" where
  "URL_String u =
     (if u_Opaque u \<noteq> [] then (if u_Scheme u = [] then [] else u_Scheme u @ '':'') @ u_Opaque u
      else
        let path = EscapedPath u;
            buf = url_prefix u;
            buf = (if path \<noteq> [] \<and> hd path \<noteq> CHR ''/'' \<and> u_Host u \<noteq> [] then buf @ ''/'' else buf);
            buf = (if buf = [] \<and> CHR '':'' \<in> set (fst (Cut (CHR ''/'') path)) then ''./'' else buf)
        in buf @ path) @
     (if u_ForceQuery u \<or> u_RawQuery u \<noteq> [] then ''?'' @ u_RawQuery u else []) @
     (if u_Fragment u \<noteq> [] then ''#'' @ EscapedFragment u else [])"

section \<open>IP addresses\<close>

definition ipv4_field :: "string \<Rightarrow> nat option" where
  "ipv4_field s =
     (if s = [] \<or> \<not> list_all is_digit s \<or> (hd s = CHR ''0'' \<and> length s > 1) then None
      else (case digits_value s 0 of Some v \<Rightarrow> if v \<le> 255 then Some v else None | None \<Rightarrow> None))"

definition parseIPv4 :: "string \<Rightarrow> nat list option" where
  "parseIPv4 s =
     (case map ipv4_field (Split (CHR ''.'') s) of
        [Some a, Some b, Some c, Some d] \<Rightarrow> Some [a, b, c, d]
      | _ \<Rightarrow> None)"

definition ipv6_finish :: "string \<Rightarrow> nat list \<Rightarrow> nat option \<Rightarrow> nat list option" where
  "ipv6_finish s ip ellipsis =
     (if s \<noteq> [] then None
      else if length ip < 16 then
        (case ellipsis of
           None \<Rightarrow> None
         | Some e \<Rightarrow> Some (take e ip @ replicate (16 - length ip) 0 @ drop e ip))
      else if ellipsis \<noteq> None then None else Some ip)"

definition hex_prefix :: "string \<Rightarrow> string" where
  "hex_prefix s = takeWhile (\<lambda>c. hex_value c \<noteq> None) s"

definition hex_number :: "string \<Rightarrow> nat" where
  "hex_number s = foldl (\<lambda>acc c. 16 * acc + the (hex_value c)) 0 s"

lemma hex_prefix_le: "length (hex_prefix s) \<le> length s"
  by (simp add: hex_prefix_def length_takeWhile_le)

function ipv6_groups :: "string \<Rightarrow> nat list \<Rightarrow> nat option \<Rightarrow> nat list option" where
  "ipv6_groups s ip ellipsis =
     (if length ip \<ge> 16 then ipv6_finish s ip ellipsis
      else
        let digits = hex_prefix s; rest = drop (length digits) s; acc = hex_number digits in
        if digits = [] \<or> length digits > 4 then None
        else if HasPrefix rest ''.'' then
          (if ellipsis = None \<and> length ip \<noteq> 12 then None
           else if length ip + 4 > 16 then None
           else (case parseIPv4 s of
                   None \<Rightarrow> None
                 | Some v4 \<Rightarrow> ipv6_finish [] (ip @ v4) ellipsis))
        else
          let ip = ip @ [acc div 256, acc mod 256] in
          (case rest of
             [] \<Rightarrow> ipv6_finish [] ip ellipsis
           | c # after \<Rightarrow>
               if c \<noteq> CHR '':'' \<or> after = [] then None
               else if hd after = CHR '':'' then
                 (if ellipsis \<noteq> None then None
                  else if tl after = [] then ipv6_finish [] ip (Some (length ip))
                  else ipv6_groups (tl after) ip (Some (length ip)))
               else ipv6_groups after ip ellipsis))"
  by pat_completeness auto
termination
proof (relation "measure (\<lambda>(s, ip, e). length s)", goal_cases)
  case 1
  show ?case by simp
next
  case (2 s ip e digits rest acc ip' c after)
  then have "length (c # after) = length (drop (length digits) s)" by metis
  then show ?case by simp
next
  case (3 s ip e digits rest acc ip' c after)
  then have "length (c # after) = length (drop (length digits) s)" by metis
  then show ?case by simp
qed

declare ipv6_groups.simps [simp del]

definition parseIPv6 :: "string \<Rightarrow> nat list option" where
  "parseIPv6 s =
     (if HasPrefix s ''::'' then
        (if drop 2 s = [] then Some (replicate 16 0) else ipv6_groups (drop 2 s) [] (Some 0))
      else ipv6_groups s [] None)"

text \<open>
  \<open>net.ParseIP\<close> as 16 bytes: an address with a zone is refused, and an IPv4 address is mapped.
\<close>

definition ParseIP :: "string \<Rightarrow> nat list option" where
  "ParseIP s =
     (case find (\<lambda>c. c \<in> set ''.:%'') s of
        None \<Rightarrow> None
      | Some c \<Rightarrow>
          if c = CHR ''.'' then map_option (\<lambda>v4. replicate 10 0 @ [255, 255] @ v4) (parseIPv4 s)
          else if c = CHR ''%'' \<or> CHR ''%'' \<in> set s then None
          else parseIPv6 s)"

definition IsLoopback :: "nat list \<Rightarrow> bool" where
  "IsLoopback ip =
     (if take 12 ip = replicate 10 0 @ [255, 255] then ip ! 12 = 127
      else ip = replicate 15 0 @ [1])"

end
