(* ===== verification/RoomApiClient.thy ===== *)
theory RoomApiClient
  imports ClientHeap GoRuntime GoUrl GoHttp
begin

text \<open>
  The client of the room API (\<open>client/internal/roomapi/client.go\<close>).  Its state is the heap of the
  client process; the HTTP transport and the parser of HTTP dates are parameters.
\<close>

section \<open>Errors\<close>

text \<open>\<open>HTTPError\<close>, \<open>ProtocolError\<close> and \<open>TransportError\<close> are constructors of \<open>goerr\<close>.\<close>

fun Transient :: "goerr \<Rightarrow> bool" where
  "Transient (HTTPError status code retry) = (status \<in> {408, 429, 500, 502, 503, 504})"
| "Transient e = False"

definition isRetryable :: "goerr \<Rightarrow> bool" where
  "isRetryable e =
     (case errors_As_HTTPError e of
        Some h \<Rightarrow> Transient h
      | None \<Rightarrow> errors_As_TransportError e)"

definition parseRetryAfter :: "(string \<Rightarrow> time option) \<Rightarrow> string \<Rightarrow> time \<Rightarrow> duration" where
  "parseRetryAfter ParseTime value now =
     (let value = TrimSpace value;
          by_date = (case ParseTime value of
                       Some w \<Rightarrow> if w > now then time_Sub w now else 0
                     | None \<Rightarrow> 0)
      in case Atoi value of
           Some seconds \<Rightarrow> if seconds \<ge> 0 then wrap64 (seconds * second) else by_date
         | None \<Rightarrow> by_date)"

definition newHTTPError :: "(string \<Rightarrow> time option) \<Rightarrow> int \<Rightarrow> string \<Rightarrow> time \<Rightarrow> goerr" where
  "newHTTPError ParseTime statusCode retryAfter now =
     HTTPError statusCode
       (if statusCode = 400 then ErrorInvalidRequest
        else if statusCode = 404 then ErrorRoomUnavailable
        else if statusCode = 409 then ErrorOperationConflict
        else if statusCode = 429 then ErrorRateLimited
        else if statusCode \<ge> 500 then ErrorServiceUnavailable
        else ErrorRequestFailed)
       (parseRetryAfter ParseTime retryAfter now)"

section \<open>Enrollments\<close>

record Enrollment =
  en_RoomID :: string
  en_RoomCode :: string
  en_ManagementURL :: string
  en_secret :: "nat option"

definition no_enrollment :: Enrollment where
  "no_enrollment = \<lparr>en_RoomID = [], en_RoomCode = [], en_ManagementURL = [], en_secret = None\<rparr>"

text \<open>The body is under the mutex of the secret: taking the key is one step.\<close>

definition takeSetupKey :: "Enrollment \<Rightarrow> ('w client, goerr + nat) state" where
  "takeSetupKey e =
     (case en_secret e of
        None \<Rightarrow> err (Sentinel ErrSetupKeyConsumed)
      | Some p \<Rightarrow> do {
          s \<leftarrow> State_Monad.get;
          if p \<ge> length (secrets s) then err (Sentinel ErrSetupKeyConsumed)
          else case (es_consumed (secrets s ! p), es_key (secrets s ! p)) of
            (False, Some key) \<Rightarrow> do {
              State_Monad.set (s\<lparr>secrets := (secrets s)[p := \<lparr>es_key = None, es_consumed = True\<rparr>]\<rparr>);
              ok key
            }
          | _ \<Rightarrow> err (Sentinel ErrSetupKeyConsumed)
        })"

definition ConsumeSetupKey ::
  "Enrollment \<Rightarrow> (nat \<Rightarrow> ('w client, goerr + unit) state) option \<Rightarrow> ('w client, goerr + unit) state" where
  "ConsumeSetupKey e consumer =
     (case consumer of
        None \<Rightarrow> err (Sentinel ErrSetupKeyConsumed)
      | Some f \<Rightarrow>
          go_try (takeSetupKey e) (\<lambda>key. do {
            r \<leftarrow> f key;
            SetupKey_Clear (Some key);
            State_Monad.return r
          }))"

definition DiscardSetupKey :: "Enrollment \<Rightarrow> ('w client, unit) state" where
  "DiscardSetupKey e = do {
     r \<leftarrow> takeSetupKey e;
     case r of
       Inl _ \<Rightarrow> State_Monad.return ()
     | Inr key \<Rightarrow> SetupKey_Clear (Some key)
   }"

definition Enrollment_MarshalJSON :: "Enrollment \<Rightarrow> goerr + string" where
  "Enrollment_MarshalJSON e = Inl (Message ''room enrollment serialization is forbidden'')"

section \<open>Create intents\<close>

text \<open>\<open>NewCreateIntent\<close> reads 16 random bytes; its buffer is cleared on both ways out.\<close>

definition newCreateIntent :: "'w runtime \<Rightarrow> ('w client, goerr + nat) state" where
  "newCreateIntent R = do {
     r \<leftarrow> in_world (rand_ReadFull R 16);
     case r of
       Inl _ \<Rightarrow> err (Message ''generate room create intent'')
     | Inr entropy \<Rightarrow> do {
         s \<leftarrow> State_Monad.get;
         State_Monad.set (s\<lparr>intents := intents s @
           [\<lparr>ci_key = ''sogame-room-'' @ hex_encode entropy, ci_inFlight = False,
             ci_complete = False\<rparr>]\<rparr>);
         ok (length (intents s))
       }
   }"

definition intent_begin :: "nat option \<Rightarrow> ('w client, goerr + string) state" where
  "intent_begin i =
     (case i of
        None \<Rightarrow> err (Message ''room create intent is required'')
      | Some p \<Rightarrow> do {
          s \<leftarrow> State_Monad.get;
          if p \<ge> length (intents s) then err (Message ''room create intent is required'')
          else if ci_complete (intents s ! p) then err (Sentinel ErrCreateIntentComplete)
          else if ci_inFlight (intents s ! p) then err (Sentinel ErrCreateIntentInFlight)
          else do {
            State_Monad.set (s\<lparr>intents := (intents s)[p := (intents s ! p)\<lparr>ci_inFlight := True\<rparr>]\<rparr>);
            ok (ci_key (intents s ! p))
          }
        })"

definition intent_finish :: "nat option \<Rightarrow> bool \<Rightarrow> ('w client, unit) state" where
  "intent_finish i complete =
     (case i of
        None \<Rightarrow> State_Monad.return ()
      | Some p \<Rightarrow> State_Monad.update (\<lambda>s. s\<lparr>intents := (intents s)[p :=
          (if complete then (intents s ! p)\<lparr>ci_inFlight := False, ci_complete := True, ci_key := []\<rparr>
           else (intents s ! p)\<lparr>ci_inFlight := False\<rparr>)]\<rparr>))"

section \<open>The client\<close>

text \<open>What \<open>http.Client.Do\<close> returns: a response and what became of reading its body.\<close>

type_synonym 'w http_do =
  "go_context \<Rightarrow> http_request \<Rightarrow> ('w, goerr + http_response \<times> goerr option) state"

record 'w RoomClient =
  rc_baseURL :: URL
  rc_httpClient :: "'w http_do"
  rc_timeout :: duration
  rc_responseLimit :: int
  rc_retryDelays :: "duration list"

definition isLoopbackHost :: "string \<Rightarrow> bool" where
  "isLoopbackHost host =
     (if EqualFold host ''localhost'' then True
      else (case ParseIP host of Some ip \<Rightarrow> IsLoopback ip | None \<Rightarrow> False))"

definition defaultRequestTimeout :: duration where "defaultRequestTimeout = 10 * second"
definition defaultResponseLimit :: int where "defaultResponseLimit = 65536"
definition maximumRetryDelay :: duration where "maximumRetryDelay = 5 * second"

definition defaultRetryDelays :: "duration list" where
  "defaultRetryDelays = [250 * millisecond, 500 * millisecond, second]"

definition newClient ::
  "string \<Rightarrow> 'w http_do \<Rightarrow> duration \<Rightarrow> int \<Rightarrow> goerr + 'w RoomClient" where
  "newClient baseURL httpClient timeout responseLimit =
     (case url_Parse (TrimSpace baseURL) of
        None \<Rightarrow> Inl (Message ''invalid Room API base URL'')
      | Some parsed \<Rightarrow>
          if u_Host parsed = [] \<or> u_User parsed \<noteq> None \<or> u_RawQuery parsed \<noteq> [] \<or> u_Fragment parsed \<noteq> []
          then Inl (Message ''invalid Room API base URL'')
          else if u_Scheme parsed \<noteq> ''https'' \<and>
                  \<not> (u_Scheme parsed = ''http'' \<and> isLoopbackHost (Hostname parsed))
          then Inl (Message ''Room API base URL must use HTTPS'')
          else if timeout \<le> 0 \<or> responseLimit \<le> 0
          then Inl (Message ''Room API limits must be positive'')
          else Inr \<lparr>rc_baseURL = parsed\<lparr>u_Path := TrimRight CHR ''/'' (u_Path parsed)\<rparr>,
                    rc_httpClient = httpClient, rc_timeout = timeout,
                    rc_responseLimit = responseLimit, rc_retryDelays = defaultRetryDelays\<rparr>)"

definition NewClient :: "string \<Rightarrow> 'w http_do \<Rightarrow> goerr + 'w RoomClient" where
  "NewClient baseURL httpClient =
     newClient baseURL httpClient defaultRequestTimeout defaultResponseLimit"

text \<open>What the client needs besides the heap.\<close>

record 'w room_library =
  rl_runtime :: "'w runtime"
  rl_ParseTime :: "string \<Rightarrow> time option"

definition endpoint :: "'w RoomClient \<Rightarrow> string \<Rightarrow> URL" where
  "endpoint c path =
     (rc_baseURL c)\<lparr>u_Path := TrimRight CHR ''/'' (u_Path (rc_baseURL c)) @ path\<rparr>"

definition doAttempt ::
  "'w room_library \<Rightarrow> 'w RoomClient \<Rightarrow> go_context \<Rightarrow> string \<Rightarrow> string \<Rightarrow> string option \<Rightarrow>
     (string \<times> string) list \<Rightarrow> (json \<Rightarrow> 'a option) \<Rightarrow> ('w client, goerr + 'a) state" where
  "doAttempt L c ctx method path body headers target =
     (if url_Parse (URL_String (endpoint c path)) = None
      then err (Message ''build Room API request'')
      else do {
        r \<leftarrow> in_world (rc_httpClient c ctx
               \<lparr>rq_method = method, rq_url = URL_String (endpoint c path),
                rq_headers = (''Accept'', ''application/json'') # headers, rq_body = body\<rparr>);
        case r of
          Inl _ \<Rightarrow> do {
            e \<leftarrow> in_world (ctx_Err (rl_runtime L) ctx);
            case e of Some e \<Rightarrow> err e | None \<Rightarrow> err TransportError
          }
        | Inr (response, read_error) \<Rightarrow>
            let payload = take (nat (rc_responseLimit c + 1)) (rs_body response) in
            if read_error \<noteq> None \<and> int (length (rs_body response)) \<le> rc_responseLimit c
              then err (Message ''read Room API response'')
            else if int (length payload) > rc_responseLimit c
              then err (ProtocolError ''response exceeds size limit'')
            else if rs_status response < 200 \<or> rs_status response \<ge> 300 then do {
              now \<leftarrow> in_world (time_Now (rl_runtime L));
              err (newHTTPError (rl_ParseTime L) (rs_status response)
                    (header_get (rs_headers response) ''Retry-After'') now)
            }
            else if TrimSpace payload = []
              then err (ProtocolError ''response is not valid JSON'')
            else case Option.bind (parse_json payload) target of
              None \<Rightarrow> err (ProtocolError ''response is not valid JSON'')
            | Some x \<Rightarrow> ok x
      })"

text \<open>\<open>waitForRetry\<close>\<close>

definition waitForRetry ::
  "'w room_library \<Rightarrow> go_context \<Rightarrow> duration \<Rightarrow> ('w client, goerr option) state" where
  "waitForRetry L ctx delay = do {
     fired \<leftarrow> in_world (timer_or_Done (rl_runtime L) ctx delay);
     if fired then State_Monad.return None else in_world (ctx_Err (rl_runtime L) ctx)
   }"

definition retry_delay :: "duration \<Rightarrow> goerr \<Rightarrow> duration" where
  "retry_delay delay e =
     (let delay = (case errors_As_HTTPError e of
                     Some h \<Rightarrow> if RetryAfter h > delay then RetryAfter h else delay
                   | None \<Rightarrow> delay)
      in if delay > maximumRetryDelay then maximumRetryDelay else delay)"

text \<open>The loop of \<open>do\<close>, by recursion on the delays that are left.\<close>

primrec do_loop ::
  "'w room_library \<Rightarrow> 'w RoomClient \<Rightarrow> go_context \<Rightarrow> string \<Rightarrow> string \<Rightarrow> string option \<Rightarrow>
     (string \<times> string) list \<Rightarrow> (json \<Rightarrow> 'a option) \<Rightarrow> duration list \<Rightarrow>
     ('w client, goerr + 'a) state" where
  "do_loop L c ctx method path body headers target [] =
     doAttempt L c ctx method path body headers target"
| "do_loop L c ctx method path body headers target (delay # delays) = do {
     r \<leftarrow> doAttempt L c ctx method path body headers target;
     case r of
       Inr x \<Rightarrow> ok x
     | Inl e \<Rightarrow>
         if \<not> isRetryable e then err e
         else do {
           interrupted \<leftarrow> waitForRetry L ctx (retry_delay delay e);
           case interrupted of
             Some e \<Rightarrow> err e
           | None \<Rightarrow> do_loop L c ctx method path body headers target delays
         }
   }"

definition roomapi_do where
  "roomapi_do L c ctx method path body headers target =
     do_loop L c (WithTimeout ctx (rc_timeout c)) method path body headers target (rc_retryDelays c)"

section \<open>Responses\<close>

record enrollmentResponse =
  er_RoomID :: string
  er_RoomCode :: string
  er_ManagementURL' :: string
  er_SetupKey' :: string

definition decode_enrollmentResponse :: "json \<Rightarrow> enrollmentResponse option" where
  "decode_enrollmentResponse j = decode_struct (\<lambda>k v r.
     if EqualFold k ''room_id''
       then map_option (\<lambda>x. r\<lparr>er_RoomID := x\<rparr>) (decode_string v (er_RoomID r))
     else if EqualFold k ''room_code''
       then map_option (\<lambda>x. r\<lparr>er_RoomCode := x\<rparr>) (decode_string v (er_RoomCode r))
     else if EqualFold k ''management_url''
       then map_option (\<lambda>x. r\<lparr>er_ManagementURL' := x\<rparr>) (decode_string v (er_ManagementURL' r))
     else if EqualFold k ''setup_key''
       then map_option (\<lambda>x. r\<lparr>er_SetupKey' := x\<rparr>) (decode_string v (er_SetupKey' r))
     else Some r) j
     \<lparr>er_RoomID = [], er_RoomCode = [], er_ManagementURL' = [], er_SetupKey' = []\<rparr>"

definition response_enrollment ::
  "enrollmentResponse \<Rightarrow> bool \<Rightarrow> string \<Rightarrow> ('w client, goerr + Enrollment) state" where
  "response_enrollment r requireRoomCode joinedCode =
     (let roomCode = (if requireRoomCode then TrimSpace (er_RoomCode r) else joinedCode) in
      if er_RoomID r = [] \<or> roomCode = [] \<or> er_ManagementURL' r = [] \<or> er_SetupKey' r = []
      then err (ProtocolError ''enrollment response is incomplete'')
      else case url_Parse (er_ManagementURL' r) of
        None \<Rightarrow> err (ProtocolError ''management URL is invalid'')
      | Some managementURL \<Rightarrow>
          if u_Scheme managementURL \<noteq> ''https'' \<or> u_Host managementURL = [] \<or>
             u_User managementURL \<noteq> None
          then err (ProtocolError ''management URL is invalid'')
          else do {
            key \<leftarrow> NewSetupKey (er_SetupKey' r);
            s \<leftarrow> State_Monad.get;
            State_Monad.set (s\<lparr>secrets := secrets s @ [\<lparr>es_key = Some key, es_consumed = False\<rparr>]\<rparr>);
            ok \<lparr>en_RoomID = er_RoomID r, en_RoomCode = roomCode,
                en_ManagementURL = URL_String managementURL,
                en_secret = Some (length (secrets s))\<rparr>
          })"

record RoomPeer =
  rp_ID :: string
  rp_Name :: string
  rp_NetBirdIP :: string
  rp_Connected :: bool
  rp_Hostname :: string

record PeerList =
  pl_RoomID :: string
  pl_Peers :: "RoomPeer list"

definition decode_RoomPeer :: "json \<Rightarrow> RoomPeer option" where
  "decode_RoomPeer j = decode_struct (\<lambda>k v r.
     if EqualFold k ''id'' then map_option (\<lambda>x. r\<lparr>rp_ID := x\<rparr>) (decode_string v (rp_ID r))
     else if EqualFold k ''name'' then map_option (\<lambda>x. r\<lparr>rp_Name := x\<rparr>) (decode_string v (rp_Name r))
     else if EqualFold k ''netbird_ip''
       then map_option (\<lambda>x. r\<lparr>rp_NetBirdIP := x\<rparr>) (decode_string v (rp_NetBirdIP r))
     else if EqualFold k ''connected''
       then map_option (\<lambda>x. r\<lparr>rp_Connected := x\<rparr>) (decode_bool v (rp_Connected r))
     else if EqualFold k ''hostname''
       then map_option (\<lambda>x. r\<lparr>rp_Hostname := x\<rparr>) (decode_string v (rp_Hostname r))
     else Some r) j
     \<lparr>rp_ID = [], rp_Name = [], rp_NetBirdIP = [], rp_Connected = False, rp_Hostname = []\<rparr>"

record peerListResponse =
  plr_RoomID :: string
  plr_Peers :: "RoomPeer list option"

text \<open>A slice that was \<open>null\<close> or absent is \<open>None\<close>, which the code tells from the empty one.\<close>

fun decode_slice :: "(json \<Rightarrow> 'a option) \<Rightarrow> json \<Rightarrow> 'a list option option" where
  "decode_slice f (JArr js) = map_option Some (decode_all f js)"
| "decode_slice f JNull = Some None"
| "decode_slice f j = None"

definition decode_peerListResponse :: "json \<Rightarrow> peerListResponse option" where
  "decode_peerListResponse j = decode_struct (\<lambda>k v r.
     if EqualFold k ''room_id''
       then map_option (\<lambda>x. r\<lparr>plr_RoomID := x\<rparr>) (decode_string v (plr_RoomID r))
     else if EqualFold k ''peers''
       then map_option (\<lambda>x. r\<lparr>plr_Peers := x\<rparr>) (decode_slice decode_RoomPeer v)
     else Some r) j \<lparr>plr_RoomID = [], plr_Peers = None\<rparr>"

definition code_character :: "char \<Rightarrow> bool" where
  "code_character c \<longleftrightarrow> is_upper c \<or> is_digit c"

definition normalizeRoomCode :: "string \<Rightarrow> goerr + string" where
  "normalizeRoomCode value =
     (let value = ToUpper (TrimSpace value); parts = Split CHR ''-'' value in
      if length parts \<noteq> 3 then Inl (Message ''invalid room code'')
      else if list_all (\<lambda>part. length part = 4 \<and> list_all code_character part) parts
      then Inr value else Inl (Message ''invalid room code''))"

section \<open>Operations\<close>

definition create_request ::
  "'w room_library \<Rightarrow> 'w RoomClient \<Rightarrow> go_context \<Rightarrow> string \<Rightarrow> ('w client, goerr + Enrollment) state" where
  "create_request L c ctx idempotencyKey =
     go_try (roomapi_do L c ctx ''POST'' ''/rooms'' (Some ''{}'')
         [(''Content-Type'', ''application/json''), (''Idempotency-Key'', idempotencyKey)]
         decode_enrollmentResponse) (\<lambda>response.
     response_enrollment response True [])"

definition RoomClient_Create ::
  "'w room_library \<Rightarrow> 'w RoomClient \<Rightarrow> go_context \<Rightarrow> nat option \<Rightarrow> ('w client, goerr + Enrollment) state" where
  "RoomClient_Create L c ctx intent =
     go_try (intent_begin intent) (\<lambda>idempotencyKey. do {
       r \<leftarrow> create_request L c ctx idempotencyKey;
       intent_finish intent (case r of Inr _ \<Rightarrow> True | Inl _ \<Rightarrow> False);
       State_Monad.return r
     })"

definition RoomClient_Join ::
  "'w room_library \<Rightarrow> 'w RoomClient \<Rightarrow> go_context \<Rightarrow> string \<Rightarrow> ('w client, goerr + Enrollment) state" where
  "RoomClient_Join L c ctx roomCode =
     (case normalizeRoomCode roomCode of
        Inl e \<Rightarrow> err e
      | Inr roomCode \<Rightarrow>
          go_try (roomapi_do L c ctx ''POST'' ''/rooms/join''
              (Some (render (JObj [(''room_code'', JStr roomCode)])))
              [(''Content-Type'', ''application/json'')] decode_enrollmentResponse) (\<lambda>response.
          response_enrollment response False roomCode))"

definition RoomClient_Peers ::
  "'w room_library \<Rightarrow> 'w RoomClient \<Rightarrow> go_context \<Rightarrow> string \<Rightarrow> ('w client, goerr + PeerList) state" where
  "RoomClient_Peers L c ctx roomCode =
     (case normalizeRoomCode roomCode of
        Inl e \<Rightarrow> err e
      | Inr roomCode \<Rightarrow>
          go_try (roomapi_do L c ctx ''GET'' (''/rooms/'' @ roomCode @ ''/peers'') None []
              decode_peerListResponse) (\<lambda>response.
          case plr_Peers response of
            None \<Rightarrow> err (ProtocolError ''peer list is incomplete'')
          | Some peers \<Rightarrow>
              if plr_RoomID response = [] then err (ProtocolError ''peer list is incomplete'')
              else if list_ex (\<lambda>peer. rp_ID peer = []) peers
              then err (ProtocolError ''peer identity is missing'')
              else ok \<lparr>pl_RoomID = plr_RoomID response, pl_Peers = peers\<rparr>))"

end
