(* ===== verification/Disk.thy ===== *)
theory Disk
  imports GoError
begin

text \<open>
  The file system as the client's stores use it: files by directory and name, and a schedule of
  faults.  Every system call takes the next entry of the schedule; \<open>Some (m, n)\<close> makes the call fail
  with the message \<open>m\<close>, after \<open>n\<close> bytes were written if it is a write.  A crash of the machine is
  a schedule in which every call fails from some point on.

  \<open>os.Remove\<close> and \<open>os.Open\<close> report a missing file with an error that wraps \<open>ErrNotExist\<close>; renaming
  replaces the target in one step (\<open>MoveFileEx\<close> with \<open>MOVEFILE_REPLACE_EXISTING\<close>).  The random part
  of a temporary name is the first free number.
\<close>

datatype path = Path (path_dir: string) (path_name: string)

record disk =
  files :: "path \<Rightarrow> string option"
  disk_faults :: "(string \<times> nat) option list"

definition os_fault :: "(disk, (string \<times> nat) option) state" where
  "os_fault = State (\<lambda>d. case disk_faults d of
     [] \<Rightarrow> (None, d) | f # fs \<Rightarrow> (f, d\<lparr>disk_faults := fs\<rparr>))"

definition os_call ::
  "(nat \<Rightarrow> disk \<Rightarrow> disk) \<Rightarrow> (disk, goerr + 'a) state \<Rightarrow> (disk, goerr + 'a) state" where
  "os_call partial m = do {
     f \<leftarrow> os_fault;
     case f of
       Some (msg, n) \<Rightarrow> do { State_Monad.update (partial n); err (Message msg) }
     | None \<Rightarrow> m
   }"

abbreviation clean :: "nat \<Rightarrow> disk \<Rightarrow> disk" where "clean n d \<equiv> d"

definition not_exist :: "string \<Rightarrow> goerr" where
  "not_exist operation = Wrapped operation (Sentinel os_ErrNotExist) []"

definition write_file :: "path \<Rightarrow> string option \<Rightarrow> disk \<Rightarrow> disk" where
  "write_file p content d = d\<lparr>files := (files d)(p := content)\<rparr>"

definition os_MkdirAll :: "string \<Rightarrow> (disk, goerr + unit) state" where
  "os_MkdirAll directory = os_call clean (ok ())"

definition temp_name :: "string \<Rightarrow> nat \<Rightarrow> string" where
  "temp_name pre n = pre @ show_nat n @ ''.tmp''"

definition os_CreateTemp :: "string \<Rightarrow> string \<Rightarrow> (disk, goerr + path) state" where
  "os_CreateTemp directory pre = os_call clean (do {
     d \<leftarrow> State_Monad.get;
     case find (\<lambda>n. files d (Path directory (temp_name pre n)) = None) [0..<10000] of
       None \<Rightarrow> err (Message ''file exists'')
     | Some n \<Rightarrow> do {
         State_Monad.set (write_file (Path directory (temp_name pre n)) (Some []) d);
         ok (Path directory (temp_name pre n))
       }
   })"

definition file_Chmod :: "path \<Rightarrow> (disk, goerr + unit) state" where
  "file_Chmod p = os_call clean (ok ())"

definition file_Write :: "path \<Rightarrow> string \<Rightarrow> (disk, goerr + unit) state" where
  "file_Write p payload =
     os_call (\<lambda>n. write_file p (Some (take n payload)))
       (do { State_Monad.update (write_file p (Some payload)); ok () })"

definition file_Sync :: "path \<Rightarrow> (disk, goerr + unit) state" where
  "file_Sync p = os_call clean (ok ())"

definition file_Close :: "path \<Rightarrow> (disk, goerr + unit) state" where
  "file_Close p = os_call clean (ok ())"

definition replaceFile :: "path \<Rightarrow> path \<Rightarrow> (disk, goerr + unit) state" where
  "replaceFile source destination = os_call clean (do {
     d \<leftarrow> State_Monad.get;
     State_Monad.set (write_file source None (write_file destination (files d source) d));
     ok ()
   })"

definition os_Remove :: "path \<Rightarrow> (disk, goerr + unit) state" where
  "os_Remove p = os_call clean (do {
     d \<leftarrow> State_Monad.get;
     if files d p = None then err (not_exist ''remove: '')
     else do { State_Monad.set (write_file p None d); ok () }
   })"

text \<open>The content of a file at the time it is opened.\<close>

definition os_Open :: "path \<Rightarrow> (disk, goerr + string) state" where
  "os_Open p = os_call clean (do {
     d \<leftarrow> State_Monad.get;
     case files d p of None \<Rightarrow> err (not_exist ''open: '') | Some content \<Rightarrow> ok content
   })"

definition io_ReadAll :: "int \<Rightarrow> string \<Rightarrow> (disk, goerr + string) state" where
  "io_ReadAll limit content = os_call clean (ok (take (nat limit) content))"

lemmas os_defs = os_MkdirAll_def os_CreateTemp_def file_Chmod_def file_Write_def file_Sync_def
  file_Close_def replaceFile_def os_Remove_def os_Open_def io_ReadAll_def

section \<open>Laws\<close>

lemma files_write_file [simp]: "files (write_file p c d) = (files d)(p := c)"
  by (simp add: write_file_def)

lemma wp_os_fault [wp_simps]:
  "wp os_fault Q d =
     (case disk_faults d of [] \<Rightarrow> Q None d | f # fs \<Rightarrow> Q f (d\<lparr>disk_faults := fs\<rparr>))"
  by (simp add: wp_def os_fault_def split: list.splits)

text \<open>
  What is known of a call without looking at the schedule: it failed with a message and its partial
  effect, or it did its work, in a state that differs in the schedule only.
\<close>

lemma wp_os_call:
  assumes "\<And>msg n fs. Q (Inl (Message msg)) (partial n (d\<lparr>disk_faults := fs\<rparr>))"
    and "\<And>fs. wp m Q (d\<lparr>disk_faults := fs\<rparr>)"
  shows "wp (os_call partial m) Q d"
proof (cases "disk_faults d")
  case Nil
  have "wp m Q d" using assms(2) [of "disk_faults d"] by simp
  with Nil show ?thesis by (simp add: os_call_def wp_simps)
next
  case (Cons f fs)
  then show ?thesis
    using assms(1) [of _ _ fs] assms(2) [of fs]
    by (cases f) (auto simp: os_call_def wp_simps)
qed

end
