(* ===== verification/SecureStore.thy ===== *)
theory SecureStore
  imports Disk GoHttp GoUrl
begin

text \<open>
  What the client keeps on disk (\<open>client/internal/securestore\<close>): the metadata of the room in
  \<open>metadata.go\<close>, the protected room code in \<open>roomcode.go\<close> and \<open>dpapi_windows.go\<close>.  The text form of
  a time in JSON and the Windows calls that encrypt for the current user are parameters; both are
  deterministic here, since nothing depends on the ciphertext but that it opens to what was sealed.
\<close>

section \<open>Atomic replacement of a file\<close>

text \<open>
  The part the two stores share: write a temporary file beside the target, then rename.  The
  deferred function closes the file and removes it unless it became the target; both its errors
  are dropped.
\<close>

definition deferred_cleanup :: "path \<Rightarrow> bool \<Rightarrow> (disk, unit) state" where
  "deferred_cleanup temporary keepTemporary = do {
     _ \<leftarrow> file_Close temporary;
     if keepTemporary then do { _ \<leftarrow> os_Remove temporary; State_Monad.return () }
     else State_Monad.return ()
   }"

definition wrap_os :: "string \<Rightarrow> (disk, goerr + 'a) state \<Rightarrow> (disk, goerr + 'a) state" where
  "wrap_os p m = do {
     r \<leftarrow> m;
     case r of Inl e \<Rightarrow> err (Wrapped p e []) | Inr x \<Rightarrow> ok x
   }"

lemma wp_wrap_os [wp_simps]:
  "wp (wrap_os p m) Q d =
     wp m (\<lambda>r t. case r of Inl e \<Rightarrow> Q (Inl (Wrapped p e [])) t | Inr x \<Rightarrow> Q (Inr x) t) d"
  by (auto simp: wrap_os_def wp_simps wp_def split: prod.splits sum.splits)

definition fill_temporary :: "string \<Rightarrow> path \<Rightarrow> path \<Rightarrow> string \<Rightarrow> (disk, goerr + unit) state" where
  "fill_temporary what temporary target payload =
     go_try (wrap_os (''restrict '' @ what @ '' permissions: '') (file_Chmod temporary)) (\<lambda>_.
     go_try (wrap_os (''write '' @ what @ '': '') (file_Write temporary payload)) (\<lambda>_.
     go_try (wrap_os (''flush '' @ what @ '': '') (file_Sync temporary)) (\<lambda>_.
     go_try (wrap_os (''close '' @ what @ '': '') (file_Close temporary)) (\<lambda>_.
     wrap_os (''replace '' @ what @ '': '') (replaceFile temporary target)))))"

definition write_atomic :: "string \<Rightarrow> string \<Rightarrow> path \<Rightarrow> string \<Rightarrow> (disk, goerr + unit) state" where
  "write_atomic what pre target payload =
     go_try (wrap_os (''create '' @ what @ '' directory: '') (os_MkdirAll (path_dir target))) (\<lambda>_.
     go_try (wrap_os (''create temporary '' @ what @ '': '') (os_CreateTemp (path_dir target) pre)) (\<lambda>temporary. do {
       r \<leftarrow> fill_temporary what temporary target payload;
       deferred_cleanup temporary (case r of Inl _ \<Rightarrow> True | Inr _ \<Rightarrow> False);
       State_Monad.return r
     }))"

definition clear_file :: "string \<Rightarrow> path \<Rightarrow> (disk, goerr + unit) state" where
  "clear_file what target = do {
     r \<leftarrow> os_Remove target;
     case r of
       Inl e \<Rightarrow> if errors_Is e os_ErrNotExist then ok () else err (Wrapped (''clear '' @ what @ '': '') e [])
     | Inr _ \<Rightarrow> ok ()
   }"

section \<open>Metadata\<close>

record RoomMetadata =
  md_Version :: int
  md_RoomID :: string
  md_ManagementURL :: string
  md_ProfileID :: string
  md_CreatedAt :: time

definition no_metadata :: RoomMetadata where
  "no_metadata = \<lparr>md_Version = 0, md_RoomID = [], md_ManagementURL = [], md_ProfileID = [],
     md_CreatedAt = zero_time\<rparr>"

definition CurrentMetadataVersion :: int where "CurrentMetadataVersion = 1"
definition metadataFileLimit :: int where "metadataFileLimit = 16384"

text \<open>\<open>time.Time\<close> in JSON; a year that has no text form makes \<open>Marshal\<close> fail.\<close>

record time_codec =
  time_MarshalJSON :: "time \<Rightarrow> string option"
  time_UnmarshalJSON :: "string \<Rightarrow> time option"

definition validateMetadata :: "RoomMetadata \<Rightarrow> goerr option" where
  "validateMetadata metadata =
     (if md_Version metadata \<noteq> CurrentMetadataVersion
      then Some (MetadataVersionError CurrentMetadataVersion (md_Version metadata))
      else if md_RoomID metadata = [] \<or> md_ProfileID metadata = [] \<or> time_IsZero (md_CreatedAt metadata)
      then Some (Message ''room metadata is incomplete'')
      else case url_Parse (md_ManagementURL metadata) of
        None \<Rightarrow> Some (Message ''room metadata management URL is invalid'')
      | Some u \<Rightarrow>
          if u_Scheme u \<noteq> ''https'' \<or> u_Host u = [] \<or> u_User u \<noteq> None
          then Some (Message ''room metadata management URL is invalid'') else None)"

definition encode_metadata :: "time_codec \<Rightarrow> RoomMetadata \<Rightarrow> json option" where
  "encode_metadata T m =
     map_option (\<lambda>t. JObj
       [(''version'', JNum (show_int (md_Version m))), (''roomId'', JStr (md_RoomID m)),
        (''managementUrl'', JStr (md_ManagementURL m)), (''profileId'', JStr (md_ProfileID m)),
        (''createdAt'', JStr t)]) (time_MarshalJSON T (md_CreatedAt m))"

fun decode_time :: "time_codec \<Rightarrow> json \<Rightarrow> time \<Rightarrow> time option" where
  "decode_time T (JStr s) old = time_UnmarshalJSON T s"
| "decode_time T JNull old = Some old"
| "decode_time T j old = None"

text \<open>\<open>DisallowUnknownFields\<close>: a member without a field is an error.\<close>

definition decode_metadata :: "time_codec \<Rightarrow> json \<Rightarrow> RoomMetadata option" where
  "decode_metadata T j = decode_struct (\<lambda>k v r.
     if EqualFold k ''version'' then map_option (\<lambda>x. r\<lparr>md_Version := x\<rparr>) (decode_int v (md_Version r))
     else if EqualFold k ''roomId'' then map_option (\<lambda>x. r\<lparr>md_RoomID := x\<rparr>) (decode_string v (md_RoomID r))
     else if EqualFold k ''managementUrl''
       then map_option (\<lambda>x. r\<lparr>md_ManagementURL := x\<rparr>) (decode_string v (md_ManagementURL r))
     else if EqualFold k ''profileId''
       then map_option (\<lambda>x. r\<lparr>md_ProfileID := x\<rparr>) (decode_string v (md_ProfileID r))
     else if EqualFold k ''createdAt''
       then map_option (\<lambda>x. r\<lparr>md_CreatedAt := x\<rparr>) (decode_time T v (md_CreatedAt r))
     else None) j no_metadata"

definition metadata_of_payload :: "time_codec \<Rightarrow> string \<Rightarrow> goerr + RoomMetadata" where
  "metadata_of_payload T payload =
     (if int (length payload) > metadataFileLimit
      then Inl (Message ''room metadata exceeds size limit'')
      else case decode_next (decode_metadata T) payload of
        Inl _ \<Rightarrow> Inl (Message ''decode room metadata'')
      | Inr (metadata, rest) \<Rightarrow>
          if skip_ws rest \<noteq> [] then Inl (Message ''room metadata contains trailing data'')
          else (case validateMetadata metadata of Some e \<Rightarrow> Inl e | None \<Rightarrow> Inr metadata))"

definition loadMetadata :: "time_codec \<Rightarrow> path \<Rightarrow> (disk, goerr + RoomMetadata) state" where
  "loadMetadata T p = do {
     opened \<leftarrow> os_Open p;
     case opened of
       Inl e \<Rightarrow>
         if errors_Is e os_ErrNotExist then err (Sentinel ErrNoRoomMetadata)
         else err (Wrapped ''open room metadata: '' e [])
     | Inr content \<Rightarrow>
         go_try (wrap_os ''read room metadata: '' (io_ReadAll (metadataFileLimit + 1) content)) (\<lambda>payload.
         State_Monad.return (metadata_of_payload T payload))
   }"

record MetadataStore =
  ms_path :: path
  ms_codec :: time_codec

definition MetadataStore_Load :: "MetadataStore \<Rightarrow> (disk, goerr + RoomMetadata) state" where
  "MetadataStore_Load s = loadMetadata (ms_codec s) (ms_path s)"

definition metadata_payload :: "time_codec \<Rightarrow> RoomMetadata \<Rightarrow> goerr + string" where
  "metadata_payload T metadata =
     (let metadata = (if md_Version metadata = 0
                      then metadata\<lparr>md_Version := CurrentMetadataVersion\<rparr> else metadata) in
      case validateMetadata metadata of
        Some e \<Rightarrow> Inl e
      | None \<Rightarrow>
          (case encode_metadata T metadata of
             None \<Rightarrow> Inl (Message ''encode room metadata'')
           | Some j \<Rightarrow>
               if int (length (render j)) > metadataFileLimit
               then Inl (Message ''room metadata exceeds size limit'')
               else Inr (render j)))"

definition MetadataStore_Save :: "MetadataStore \<Rightarrow> RoomMetadata \<Rightarrow> (disk, goerr + unit) state" where
  "MetadataStore_Save s metadata =
     (case metadata_payload (ms_codec s) metadata of
        Inl e \<Rightarrow> err e
      | Inr payload \<Rightarrow> write_atomic ''room metadata'' ''.room-'' (ms_path s) payload)"

definition MetadataStore_Clear :: "MetadataStore \<Rightarrow> (disk, goerr + unit) state" where
  "MetadataStore_Clear s = clear_file ''room metadata'' (ms_path s)"

section \<open>The protected room code\<close>

record dpapi =
  CryptProtectData :: "string \<Rightarrow> string \<Rightarrow> string \<Rightarrow> string option"
  CryptUnprotectData :: "string \<Rightarrow> string \<Rightarrow> string option"

definition dpapiEntropy :: string where "dpapiEntropy = ''sogame-netbird-room-code-v1''"

definition copyAndFreeDataBlob :: "string option \<Rightarrow> goerr + string" where
  "copyAndFreeDataBlob blob =
     (case blob of
        None \<Rightarrow> Inl (Message ''the system call failed'')
      | Some value \<Rightarrow>
          if value = [] then Inl (Message ''DPAPI returned an empty result'') else Inr value)"

definition protectForCurrentUser :: "dpapi \<Rightarrow> string \<Rightarrow> goerr + string" where
  "protectForCurrentUser D cleartext =
     copyAndFreeDataBlob (CryptProtectData D ''Sogame NetBird Room Code'' dpapiEntropy cleartext)"

definition unprotectForCurrentUser :: "dpapi \<Rightarrow> string \<Rightarrow> goerr + string" where
  "unprotectForCurrentUser D ciphertext =
     copyAndFreeDataBlob (CryptUnprotectData D dpapiEntropy ciphertext)"

definition roomCodeMaximumSize :: nat where "roomCodeMaximumSize = 64"
definition roomCodeCiphertextLimit :: nat where "roomCodeCiphertextLimit = 4096"
definition roomCodeEnvelopeMagic :: string where "roomCodeEnvelopeMagic = ''SGNBRC''"
definition roomCodeEnvelopeVersion :: char where "roomCodeEnvelopeVersion = CHR 0x01"

definition validateRoomCode :: "string \<Rightarrow> goerr option" where
  "validateRoomCode roomCode =
     (if roomCode = [] \<or> length roomCode > roomCodeMaximumSize
      then Some (Message ''room code has an invalid size'')
      else if list_ex (\<lambda>c. byte c < 0x21 \<or> byte c > 0x7E) roomCode
      then Some (Message ''room code contains invalid characters'') else None)"

definition envelope_header :: string where
  "envelope_header = roomCodeEnvelopeMagic @ [roomCodeEnvelopeVersion]"

definition code_envelope :: "dpapi \<Rightarrow> string \<Rightarrow> goerr + string" where
  "code_envelope D roomCode =
     (case validateRoomCode roomCode of
        Some e \<Rightarrow> Inl e
      | None \<Rightarrow>
          (case protectForCurrentUser D roomCode of
             Inl e \<Rightarrow> Inl (Wrapped ''protect room code for current Windows user: '' e [])
           | Inr ciphertext \<Rightarrow>
               if ciphertext = [] \<or> length ciphertext > roomCodeCiphertextLimit
               then Inl (Message ''protected room code has an invalid size'')
               else Inr (envelope_header @ ciphertext)))"

definition code_of_envelope :: "dpapi \<Rightarrow> string \<Rightarrow> goerr + string" where
  "code_of_envelope D envelope =
     (let headerSize = length envelope_header in
      if length envelope \<le> headerSize \<or> length envelope > roomCodeCiphertextLimit + headerSize
      then Inl (Message ''protected room code envelope has an invalid size'')
      else if take (length roomCodeEnvelopeMagic) envelope \<noteq> roomCodeEnvelopeMagic \<or>
              envelope ! length roomCodeEnvelopeMagic \<noteq> roomCodeEnvelopeVersion
      then Inl (Message ''protected room code envelope is unsupported'')
      else case unprotectForCurrentUser D (drop headerSize envelope) of
        Inl e \<Rightarrow> Inl (Wrapped ''unprotect room code for current Windows user: '' e [])
      | Inr cleartext \<Rightarrow>
          if validateRoomCode cleartext \<noteq> None
          then Inl (Message ''protected room code content is invalid'') else Inr cleartext)"

record RoomCodeStore =
  cs_path :: path
  cs_dpapi :: dpapi

definition RoomCodeStore_Save :: "RoomCodeStore \<Rightarrow> string \<Rightarrow> (disk, goerr + unit) state" where
  "RoomCodeStore_Save s roomCode =
     (case code_envelope (cs_dpapi s) roomCode of
        Inl e \<Rightarrow> err e
      | Inr envelope \<Rightarrow> write_atomic ''protected room code'' ''.room-code-'' (cs_path s) envelope)"

definition envelope_read_limit :: nat where
  "envelope_read_limit = roomCodeCiphertextLimit + length envelope_header + 1"

definition RoomCodeStore_Load :: "RoomCodeStore \<Rightarrow> (disk, goerr + string) state" where
  "RoomCodeStore_Load s = do {
     opened \<leftarrow> os_Open (cs_path s);
     case opened of
       Inl e \<Rightarrow>
         if errors_Is e os_ErrNotExist then err (Sentinel ErrNoProtectedRoomCode)
         else err (Wrapped ''read protected room code: '' e [])
     | Inr content \<Rightarrow>
         go_try (wrap_os ''read protected room code: ''
             (io_ReadAll (int envelope_read_limit) content)) (\<lambda>envelope.
         State_Monad.return (code_of_envelope (cs_dpapi s) envelope))
   }"

definition RoomCodeStore_Clear :: "RoomCodeStore \<Rightarrow> (disk, goerr + unit) state" where
  "RoomCodeStore_Clear s = clear_file ''protected room code'' (cs_path s)"

section \<open>Where the files are\<close>

text \<open>
  \<open>NewMetadataStore\<close> and \<open>NewRoomCodeStore\<close>: \<open>filepath.Base\<close> and \<open>filepath.Abs\<close> (with the split of the
  result into directory and name) belong to the platform.
\<close>

record filepath =
  filepath_Base :: "string \<Rightarrow> string"
  filepath_Abs :: "string \<Rightarrow> path option"
  filepath_Join :: "string list \<Rightarrow> string"
  filepath_Dir :: "string \<Rightarrow> string"
  os_Getenv :: "string \<Rightarrow> string"
  os_UserConfigDir :: "goerr + string"

definition NewMetadataStore :: "filepath \<Rightarrow> time_codec \<Rightarrow> string \<Rightarrow> goerr + MetadataStore" where
  "NewMetadataStore F T p =
     (if p = [] \<or> filepath_Base F p = ''.'' then Inl (Message ''room metadata path is required'')
      else case filepath_Abs F p of
        None \<Rightarrow> Inl (Message ''resolve room metadata path'')
      | Some absolute \<Rightarrow> Inr \<lparr>ms_path = absolute, ms_codec = T\<rparr>)"

definition DefaultMetadataPath :: "filepath \<Rightarrow> goerr + string" where
  "DefaultMetadataPath F =
     (let root = os_Getenv F ''LOCALAPPDATA'' in
      if root \<noteq> [] then Inr (filepath_Join F [root, ''Sogame'', ''NetBird'', ''room.json''])
      else case os_UserConfigDir F of
        Inl e \<Rightarrow> Inl (Wrapped ''resolve user application data directory: '' e [])
      | Inr root \<Rightarrow> Inr (filepath_Join F [root, ''Sogame'', ''NetBird'', ''room.json'']))"

definition NewRoomCodeStore :: "filepath \<Rightarrow> dpapi \<Rightarrow> string \<Rightarrow> goerr + RoomCodeStore" where
  "NewRoomCodeStore F D p =
     (if p = [] \<or> filepath_Base F p = ''.'' then Inl (Message ''protected room code path is required'')
      else case filepath_Abs F p of
        None \<Rightarrow> Inl (Message ''resolve protected room code path'')
      | Some absolute \<Rightarrow> Inr \<lparr>cs_path = absolute, cs_dpapi = D\<rparr>)"

definition DefaultRoomCodePath :: "filepath \<Rightarrow> goerr + string" where
  "DefaultRoomCodePath F =
     (case DefaultMetadataPath F of
        Inl e \<Rightarrow> Inl e
      | Inr metadataPath \<Rightarrow> Inr (filepath_Join F [filepath_Dir F metadataPath, ''room.code'']))"

end
