(* ===== verification/SessionService.thy ===== *)
theory SessionService
  imports SessionState NbMonitor NbVersion NbProfile RoomApiClient SecureStore
begin

text \<open>
  The room session of the client (\<open>client/internal/session/service.go\<close> and \<open>peers.go\<close>): enrolling
  into a room as a transaction over the room API, the daemon and the two stores, leaving it,
  switching, disconnecting and reconnecting.  The service reaches the others through Go interfaces,
  which are records of operations here: any implementation may be plugged in.

  A command runs between \<open>beginCommand\<close> and \<open>endCommand\<close>, which claim and release the flag \<open>busy\<close>
  under the mutex; a deferred call is written at the end of every way out that comes after it.
\<close>

section \<open>State and interfaces\<close>

record ('s, 'v) Storage =
  stg_Load :: "('s, goerr + 'v) state"
  stg_Save :: "'v \<Rightarrow> ('s, goerr + unit) state"
  stg_Clear :: "('s, goerr + unit) state"

record 'w RoomAPI =
  room_Create :: "go_context \<Rightarrow> nat option \<Rightarrow> ('w client, goerr + Enrollment) state"
  room_Join :: "go_context \<Rightarrow> string \<Rightarrow> ('w client, goerr + Enrollment) state"

record PeerRefreshSnapshot =
  prs_Peers :: "RoomPeer list"
  prs_Stale :: bool
  prs_LastRefreshAt :: time
  prs_LastError :: "goerr option"

record 'w PeerRefresher =
  pr_api :: "go_context \<Rightarrow> string \<Rightarrow> ('w client, goerr + PeerList) state"
  pr_codes :: "('w client, string) Storage"

record 'w session =
  sv_client :: "'w client"
  sv_machine :: Machine
  sv_busy :: bool
  sv_peer_state :: PeerRefreshSnapshot

record 'w SessionService =
  svc_rooms :: "'w RoomAPI"
  svc_netbird :: "'w client Adapter"
  svc_metadata :: "('w client, RoomMetadata) Storage"
  svc_codes :: "('w client, string) Storage"
  svc_monitor :: "'w client RecoveryMonitor"
  svc_peers :: "'w PeerRefresher option"
  svc_runtime :: "'w runtime"

definition in_client :: "('w client, 'a) state \<Rightarrow> ('w session, 'a) state" where
  "in_client = on_field sv_client (\<lambda>c s. s\<lparr>sv_client := c\<rparr>)"

definition machine_Apply :: "Facts \<Rightarrow> ('w session, SessionSnapshot) state" where
  "machine_Apply facts = on_field sv_machine (\<lambda>m s. s\<lparr>sv_machine := m\<rparr>) (Machine_Apply facts)"

definition service_State :: "('w session, SessionSnapshot) state" where
  "service_State = State (\<lambda>s. (Machine_Snapshot (sv_machine s), s))"

definition no_peer_state :: PeerRefreshSnapshot where
  "no_peer_state = \<lparr>prs_Peers = [], prs_Stale = False, prs_LastRefreshAt = zero_time,
     prs_LastError = None\<rparr>"

definition NewPeerRefresher ::
  "(go_context \<Rightarrow> string \<Rightarrow> ('w client, goerr + PeerList) state) \<Rightarrow> ('w client, string) Storage \<Rightarrow>
     'w PeerRefresher" where
  "NewPeerRefresher api codes = \<lparr>pr_api = api, pr_codes = codes\<rparr>"

text \<open>\<open>api\<close> is the room API as a \<open>PeerAPI\<close>, if it is one.\<close>

definition NewService ::
  "'w RoomAPI \<Rightarrow> (go_context \<Rightarrow> string \<Rightarrow> ('w client, goerr + PeerList) state) option \<Rightarrow>
     'w client Adapter \<Rightarrow> ('w client, RoomMetadata) Storage \<Rightarrow> ('w client, string) Storage \<Rightarrow>
     'w runtime \<Rightarrow> 'w SessionService" where
  "NewService rooms api netbird metadata codes runtime =
     \<lparr>svc_rooms = rooms, svc_netbird = netbird, svc_metadata = metadata, svc_codes = codes,
      svc_monitor = NewRecoveryMonitor netbird,
      svc_peers = map_option (\<lambda>api. NewPeerRefresher api codes) api, svc_runtime = runtime\<rparr>"

definition session_start :: "'w client \<Rightarrow> 'w session" where
  "session_start c = \<lparr>sv_client = c, sv_machine = NewMachine, sv_busy = False,
     sv_peer_state = no_peer_state\<rparr>"

section \<open>The peers of the room\<close>

definition markStale :: "goerr \<Rightarrow> ('w session, PeerRefreshSnapshot) state" where
  "markStale e = State (\<lambda>s.
     let p = (sv_peer_state s)\<lparr>prs_Stale := True, prs_LastError := Some e\<rparr>
     in (p, s\<lparr>sv_peer_state := p\<rparr>))"

definition peers_Snapshot :: "('w session, PeerRefreshSnapshot) state" where
  "peers_Snapshot = State (\<lambda>s. (sv_peer_state s, s))"

definition peers_Refresh ::
  "'w runtime \<Rightarrow> 'w PeerRefresher \<Rightarrow> go_context \<Rightarrow> ('w session, PeerRefreshSnapshot \<times> goerr option) state"
  where
  "peers_Refresh R r ctx = do {
     loaded \<leftarrow> in_client (stg_Load (pr_codes r));
     case loaded of
       Inl e \<Rightarrow> do { p \<leftarrow> markStale e; State_Monad.return (p, Some e) }
     | Inr roomCode \<Rightarrow> do {
         listed \<leftarrow> in_client (pr_api r ctx roomCode);
         case listed of
           Inl e \<Rightarrow> do { p \<leftarrow> markStale e; State_Monad.return (p, Some e) }
         | Inr peerList \<Rightarrow> do {
             now \<leftarrow> in_client (in_world (time_Now R));
             let p = \<lparr>prs_Peers = pl_Peers peerList, prs_Stale = False, prs_LastRefreshAt = now,
                      prs_LastError = None\<rparr>;
             State_Monad.update (\<lambda>s. s\<lparr>sv_peer_state := p\<rparr>);
             State_Monad.return (p, None)
           }
       }
   }"

datatype PeerRefreshMode = PeerRefreshForeground | PeerRefreshTray | PeerRefreshOther string

definition ForegroundPeerRefreshInterval :: duration where
  "ForegroundPeerRefreshInterval = 5 * second"
definition TrayPeerRefreshInterval :: duration where
  "TrayPeerRefreshInterval = 30 * second"

definition peerRefreshInterval :: "PeerRefreshMode \<Rightarrow> duration" where
  "peerRefreshInterval mode =
     (if mode = PeerRefreshTray then TrayPeerRefreshInterval else ForegroundPeerRefreshInterval)"

text \<open>
  The goroutine of \<open>Watch\<close>: a refresh at the start and at every tick that comes before the context
  ends, each sent on the channel; it stops when a send is overtaken by the end of the context.
\<close>

primrec peers_Watch ::
  "'w runtime \<Rightarrow> 'w PeerRefresher \<Rightarrow> go_context \<Rightarrow> PeerRefreshMode \<Rightarrow> nat \<Rightarrow>
     ('w session, PeerRefreshSnapshot list) state" where
  "peers_Watch R r ctx mode 0 = State_Monad.return []"
| "peers_Watch R r ctx mode (Suc n) = do {
     (snapshot, e) \<leftarrow> peers_Refresh R r ctx;
     sent \<leftarrow> in_client (in_world (send_or_Done R ctx));
     if \<not> sent then State_Monad.return []
     else do {
       ticked \<leftarrow> in_client (in_world (timer_or_Done R ctx (peerRefreshInterval mode)));
       if \<not> ticked then State_Monad.return [snapshot]
       else do {
         later \<leftarrow> peers_Watch R r ctx mode n;
         State_Monad.return (snapshot # later)
       }
     }
   }"

section \<open>Commands\<close>

definition beginCommand :: "('w session, goerr option) state" where
  "beginCommand = State (\<lambda>s.
     if sv_busy s then (Some (Sentinel ErrCommandInProgress), s)
     else (None, s\<lparr>sv_busy := True\<rparr>))"

definition endCommand :: "('w session, unit) state" where
  "endCommand = State_Monad.update (\<lambda>s. s\<lparr>sv_busy := False\<rparr>)"

type_synonym 'w command = "('w session, SessionSnapshot \<times> goerr option) state"

text \<open>
  \<open>if err := s.beginCommand(); err != nil { return s.State(), err }; defer s.endCommand()\<close>
\<close>

definition run_command :: "'w command \<Rightarrow> 'w command" where
  "run_command body = do {
     begun \<leftarrow> beginCommand;
     case begun of
       Some e \<Rightarrow> do { snapshot \<leftarrow> service_State; State_Monad.return (snapshot, Some e) }
     | None \<Rightarrow> do {
         r \<leftarrow> body;
         endCommand;
         State_Monad.return r
       }
   }"

definition service_fail :: "goerr \<Rightarrow> 'w command" where
  "service_fail e = do {
     snapshot \<leftarrow> machine_Apply (no_facts\<lparr>RecoverableError := True\<rparr>);
     State_Monad.return (snapshot, Some e)
   }"

definition service_done :: "Facts \<Rightarrow> 'w command" where
  "service_done facts = do {
     snapshot \<leftarrow> machine_Apply facts;
     State_Monad.return (snapshot, None)
   }"

definition loadSavedRoom :: "'w SessionService \<Rightarrow> ('w client, goerr + RoomMetadata) state" where
  "loadSavedRoom S = do {
     m \<leftarrow> stg_Load (svc_metadata S);
     c \<leftarrow> stg_Load (svc_codes S);
     case (m, c) of
       (Inr metadata, Inr _) \<Rightarrow> ok metadata
     | (Inl e, Inl f) \<Rightarrow>
         if errors_Is e ErrNoRoomMetadata \<and> errors_Is f ErrNoProtectedRoomCode
         then err (Sentinel ErrNoRoomMetadata) else err (Sentinel ErrStoredStateConflict)
     | _ \<Rightarrow> err (Sentinel ErrStoredStateConflict)
   }"

definition requireEmptyStorage :: "'w SessionService \<Rightarrow> ('w client, goerr option) state" where
  "requireEmptyStorage S = do {
     m \<leftarrow> stg_Load (svc_metadata S);
     c \<leftarrow> stg_Load (svc_codes S);
     State_Monad.return
       (case (m, c) of
          (Inr _, Inr _) \<Rightarrow> Some (Sentinel ErrRoomAlreadySaved)
        | (Inl e, Inl f) \<Rightarrow>
            if errors_Is e ErrNoRoomMetadata \<and> errors_Is f ErrNoProtectedRoomCode
            then None else Some (Sentinel ErrStoredStateConflict)
        | _ \<Rightarrow> Some (Sentinel ErrStoredStateConflict))
   }"

section \<open>Enrolling\<close>

record enrollmentTransaction =
  tx_profileID :: string
  tx_enrollmentAttempted :: bool
  tx_codeWriteAttempted :: bool
  tx_metadataWriteAttempted :: bool
  tx_compensated :: bool
  tx_cleanupFailures :: nat

definition cleanupTimeout :: duration where "cleanupTimeout = 5 * second"

text \<open>The context of the compensation outlives the caller's cancellation.\<close>

definition cleanup_context :: "go_context \<Rightarrow> go_context" where
  "cleanup_context parent = WithTimeout (WithoutCancel parent) cleanupTimeout"

text \<open>One step: run it if it is due, count its failure.\<close>

definition cleanup_step ::
  "bool \<Rightarrow> ('s, goerr + unit) state \<Rightarrow> enrollmentTransaction \<Rightarrow> ('s, enrollmentTransaction) state" where
  "cleanup_step due m t =
     (if due then do {
        r \<leftarrow> m;
        State_Monad.return (case r of
            Inl _ \<Rightarrow> t\<lparr>tx_cleanupFailures := tx_cleanupFailures t + 1\<rparr> | Inr _ \<Rightarrow> t)
      } else State_Monad.return t)"

definition compensate ::
  "'w SessionService \<Rightarrow> enrollmentTransaction \<Rightarrow> go_context \<Rightarrow> ('w client, enrollmentTransaction) state" where
  "compensate S t parent =
     (if tx_compensated t then State_Monad.return t
      else do {
        let ctx = cleanup_context parent;
        let t = t\<lparr>tx_compensated := True\<rparr>;
        t \<leftarrow> cleanup_step (tx_enrollmentAttempted t)
               (ad_Deregister (svc_netbird S) ctx (tx_profileID t)) t;
        t \<leftarrow> cleanup_step True (ad_RemoveProfile (svc_netbird S) ctx (tx_profileID t)) t;
        t \<leftarrow> cleanup_step (tx_metadataWriteAttempted t) (stg_Clear (svc_metadata S)) t;
        cleanup_step (tx_codeWriteAttempted t) (stg_Clear (svc_codes S)) t
      })"

definition tx_wrap ::
  "'w SessionService \<Rightarrow> enrollmentTransaction \<Rightarrow> goerr \<Rightarrow> go_context \<Rightarrow> ('w client, goerr) state" where
  "tx_wrap S t cause parent = do {
     t \<leftarrow> compensate S t parent;
     State_Monad.return (TransactionError (Some cause) (tx_cleanupFailures t))
   }"

definition new_transaction :: "string \<Rightarrow> enrollmentTransaction" where
  "new_transaction profileID =
     \<lparr>tx_profileID = profileID, tx_enrollmentAttempted = False, tx_codeWriteAttempted = False,
      tx_metadataWriteAttempted = False, tx_compensated = False, tx_cleanupFailures = 0\<rparr>"

text \<open>
  The steps between the profile and the commit, on the heap of the client: \<open>Inl\<close> is the wrapped
  error, after the compensation.
\<close>

definition failed_step ::
  "'w SessionService \<Rightarrow> enrollmentTransaction \<Rightarrow> go_context \<Rightarrow> ('w client, goerr + 'a) state \<Rightarrow>
     ('w client, goerr + 'b) state \<Rightarrow> ('w client, goerr + 'b) state" where
  "failed_step S t ctx m k = do {
     r \<leftarrow> m;
     case r of
       Inl cause \<Rightarrow> do { e \<leftarrow> tx_wrap S t cause ctx; err e }
     | Inr _ \<Rightarrow> k
   }"

definition enroll_request :: "Enrollment \<Rightarrow> Profile \<Rightarrow> string \<Rightarrow> nat \<Rightarrow> EnrollmentRequest" where
  "enroll_request enrollment profile hostname key =
     \<lparr>er_ManagementURL = en_ManagementURL enrollment, er_ProfileID = prof_ID profile,
      er_Hostname = hostname, er_SetupKey = Some key\<rparr>"

definition enroll_commit ::
  "'w SessionService \<Rightarrow> go_context \<Rightarrow> string \<Rightarrow> Enrollment \<Rightarrow> Profile \<Rightarrow> ('w client, goerr + unit) state" where
  "enroll_commit S ctx hostname enrollment profile = (
     let t1 = (new_transaction (prof_ID profile))\<lparr>tx_enrollmentAttempted := True\<rparr>;
         t2 = t1\<lparr>tx_codeWriteAttempted := True\<rparr>;
         t3 = t2\<lparr>tx_metadataWriteAttempted := True\<rparr> in
     failed_step S t1 ctx (ConsumeSetupKey enrollment (Some (\<lambda>key.
         ad_Enroll (svc_netbird S) ctx (enroll_request enrollment profile hostname key))))
     (failed_step S t1 ctx (ad_Connect (svc_netbird S) ctx (prof_ID profile))
     (failed_step S t2 ctx (stg_Save (svc_codes S) (en_RoomCode enrollment))
     (failed_step S t3 ctx (do {
         now \<leftarrow> in_world (time_Now (svc_runtime S));
         stg_Save (svc_metadata S)
           \<lparr>md_Version = CurrentMetadataVersion, md_RoomID = en_RoomID enrollment,
            md_ManagementURL = en_ManagementURL enrollment, md_ProfileID = prof_ID profile,
            md_CreatedAt = now\<rparr>
       })
     (ok ())))))"

definition enroll_profile ::
  "'w SessionService \<Rightarrow> go_context \<Rightarrow> string \<Rightarrow> Enrollment \<Rightarrow> ('w client, goerr + unit) state" where
  "enroll_profile S ctx hostname enrollment = do {
     r \<leftarrow> ad_CreateProfile (svc_netbird S) ctx ManagedProfileName;
     case r of
       Inl e \<Rightarrow> err (TransactionError (Some e) 0)
     | Inr profile \<Rightarrow>
         if prof_ID profile = []
         then err (TransactionError (Some (Sentinel ErrManagedProfileInconsistent)) 0)
         else if prof_Name profile \<noteq> ManagedProfileName then do {
           e \<leftarrow> tx_wrap S (new_transaction (prof_ID profile)) (Sentinel ErrManagedProfileInconsistent) ctx;
           err e
         }
         else enroll_commit S ctx hostname enrollment profile
   }"

text \<open>What the daemon says after the commit is shown, an error of \<open>Status\<close> is not.\<close>

definition enrolled_facts :: "'w SessionService \<Rightarrow> go_context \<Rightarrow> ('w client, Facts) state" where
  "enrolled_facts S ctx = do {
     (status, e) \<leftarrow> ad_Status (svc_netbird S) ctx;
     State_Monad.return
       (if e = None
        then no_facts\<lparr>RoomSaved := True, ControlPlaneReady := control_plane_ready status,
                      DaemonPeers := ds_Peers status\<rparr>
        else no_facts\<lparr>RoomSaved := True\<rparr>)
   }"

definition enrollUnlocked ::
  "'w SessionService \<Rightarrow> go_context \<Rightarrow> string \<Rightarrow> (go_context \<Rightarrow> ('w client, goerr + Enrollment) state) \<Rightarrow>
     'w command" where
  "enrollUnlocked S ctx hostname obtain_enrollment = do {
     required \<leftarrow> in_client (requireEmptyStorage S);
     case required of
       Some e \<Rightarrow> service_fail e
     | None \<Rightarrow> do {
         _ \<leftarrow> machine_Apply (no_facts\<lparr>EnrollmentInProgress := True\<rparr>);
         obtained \<leftarrow> in_client (obtain_enrollment ctx);
         case obtained of
           Inl e \<Rightarrow> service_fail e
         | Inr enrollment \<Rightarrow> do {
             r \<leftarrow> in_client (enroll_profile S ctx hostname enrollment);
             answer \<leftarrow> (case r of
                 Inl e \<Rightarrow> service_fail e
               | Inr _ \<Rightarrow> do {
                   facts \<leftarrow> in_client (enrolled_facts S ctx);
                   service_done facts
                 });
             in_client (DiscardSetupKey enrollment);
             State_Monad.return answer
           }
       }
   }"

definition device_name_error :: goerr where
  "device_name_error = Message ''device name must contain 1 to 63 characters''"

definition service_enroll ::
  "'w SessionService \<Rightarrow> go_context \<Rightarrow> string \<Rightarrow> (go_context \<Rightarrow> ('w client, goerr + Enrollment) state) \<Rightarrow>
     'w command" where
  "service_enroll S ctx hostname obtain_enrollment =
     (let hostname = TrimSpace hostname in
      if hostname = [] \<or> length hostname > 63 then service_fail device_name_error
      else run_command (enrollUnlocked S ctx hostname obtain_enrollment))"

definition service_Create :: "'w SessionService \<Rightarrow> go_context \<Rightarrow> string \<Rightarrow> 'w command" where
  "service_Create S ctx hostname = do {
     r \<leftarrow> in_client (newCreateIntent (svc_runtime S));
     case r of
       Inl e \<Rightarrow> service_fail e
     | Inr intent \<Rightarrow>
         service_enroll S ctx hostname (\<lambda>ctx. room_Create (svc_rooms S) ctx (Some intent))
   }"

definition service_Join :: "'w SessionService \<Rightarrow> go_context \<Rightarrow> string \<Rightarrow> string \<Rightarrow> 'w command" where
  "service_Join S ctx roomCode hostname =
     service_enroll S ctx hostname (\<lambda>ctx. room_Join (svc_rooms S) ctx roomCode)"

section \<open>Leaving and switching\<close>

definition leaveUnlocked :: "'w SessionService \<Rightarrow> go_context \<Rightarrow> 'w command" where
  "leaveUnlocked S ctx = do {
     r \<leftarrow> in_client (go_try (loadSavedRoom S) (\<lambda>metadata.
            go_try (ad_Deregister (svc_netbird S) ctx (md_ProfileID metadata)) (\<lambda>_.
            ad_RemoveProfile (svc_netbird S) ctx (md_ProfileID metadata))));
     case r of
       Inl e \<Rightarrow> service_fail e
     | Inr _ \<Rightarrow> do {
         m \<leftarrow> in_client (stg_Clear (svc_metadata S));
         c \<leftarrow> in_client (stg_Clear (svc_codes S));
         let clearFailures = (case m of Inl _ \<Rightarrow> 1 | Inr _ \<Rightarrow> 0) + (case c of Inl _ \<Rightarrow> 1 | Inr _ \<Rightarrow> 0);
         if clearFailures > 0 then service_fail (TransactionError None clearFailures)
         else service_done no_facts
       }
   }"

definition service_Leave :: "'w SessionService \<Rightarrow> go_context \<Rightarrow> 'w command" where
  "service_Leave S ctx = run_command (leaveUnlocked S ctx)"

record SwitchRequest =
  sw_Mode :: string
  sw_RoomCode :: string
  sw_Hostname :: string
  sw_Confirmed :: bool

definition switch_enroll :: "'w SessionService \<Rightarrow> go_context \<Rightarrow> SwitchRequest \<Rightarrow> string \<Rightarrow> 'w command" where
  "switch_enroll S ctx request hostname =
     (if sw_Mode request = ''create'' then do {
        r \<leftarrow> in_client (newCreateIntent (svc_runtime S));
        case r of
          Inl e \<Rightarrow> service_fail e
        | Inr intent \<Rightarrow>
            enrollUnlocked S ctx hostname (\<lambda>ctx. room_Create (svc_rooms S) ctx (Some intent))
      }
      else enrollUnlocked S ctx hostname (\<lambda>ctx. room_Join (svc_rooms S) ctx (sw_RoomCode request)))"

definition service_Switch :: "'w SessionService \<Rightarrow> go_context \<Rightarrow> SwitchRequest \<Rightarrow> 'w command" where
  "service_Switch S ctx request =
     (if \<not> sw_Confirmed request then do {
        snapshot \<leftarrow> service_State;
        State_Monad.return (snapshot, Some (Sentinel ErrSwitchConfirmationRequired))
      }
      else if sw_Mode request \<noteq> ''create'' \<and> sw_Mode request \<noteq> ''join''
        then service_fail (Sentinel ErrInvalidSwitchMode)
      else
        let hostname = TrimSpace (sw_Hostname request) in
        if hostname = [] \<or> length hostname > 63 then service_fail device_name_error
        else run_command (do {
          saved \<leftarrow> in_client (loadSavedRoom S);
          case saved of
            Inr _ \<Rightarrow> do {
              (snapshot, e) \<leftarrow> leaveUnlocked S ctx;
              if e \<noteq> None then do {
                snapshot \<leftarrow> service_State;
                State_Monad.return (snapshot, e)
              }
              else switch_enroll S ctx request hostname
            }
          | Inl e \<Rightarrow>
              if \<not> errors_Is e ErrNoRoomMetadata then service_fail e
              else switch_enroll S ctx request hostname
        }))"

section \<open>Connecting\<close>

definition service_Disconnect :: "'w SessionService \<Rightarrow> go_context \<Rightarrow> 'w command" where
  "service_Disconnect S ctx = run_command (do {
     r \<leftarrow> in_client (go_try (loadSavedRoom S) (\<lambda>metadata.
            ad_Disconnect (svc_netbird S) ctx (md_ProfileID metadata)));
     case r of
       Inl e \<Rightarrow> service_fail e
     | Inr _ \<Rightarrow> service_done (no_facts\<lparr>RoomSaved := True, UserDisconnected := True\<rparr>)
   })"

definition service_Reconnect :: "'w SessionService \<Rightarrow> go_context \<Rightarrow> 'w command" where
  "service_Reconnect S ctx = run_command (do {
     saved \<leftarrow> in_client (loadSavedRoom S);
     case saved of
       Inl e \<Rightarrow> service_fail e
     | Inr metadata \<Rightarrow> do {
         _ \<leftarrow> machine_Apply (no_facts\<lparr>RoomSaved := True, ReconnectInProgress := True\<rparr>);
         (status, e) \<leftarrow> in_client (Resume (svc_runtime S) (svc_monitor S) ctx (md_ProfileID metadata));
         case e of
           Some e \<Rightarrow> service_fail e
         | None \<Rightarrow> service_done (no_facts\<lparr>RoomSaved := True,
             ControlPlaneReady := control_plane_ready status, DaemonPeers := ds_Peers status\<rparr>)
       }
   })"

definition service_Connect :: "'w SessionService \<Rightarrow> go_context \<Rightarrow> 'w command" where
  "service_Connect S ctx = service_Reconnect S ctx"

section \<open>Looking\<close>

definition maskRoomCode :: "string \<Rightarrow> string" where
  "maskRoomCode value =
     (if length value < 4 then []
      else map (\<lambda>c. if c \<noteq> CHR ''-'' then CHR ''*'' else c) (take (length value - 4) value) @
           drop (length value - 4) value)"

record RoomViewSnapshot =
  rv_Session :: SessionSnapshot
  rv_Metadata :: RoomMetadata
  rv_RoomCodeMasked :: string
  rv_LocalNetBirdIP :: string
  rv_Peers :: "RoomPeer list"
  rv_PeersStale :: bool
  rv_LastPeerRefresh :: time

definition view_facts :: "DaemonSnapshot \<Rightarrow> Facts" where
  "view_facts status = no_facts\<lparr>RoomSaved := True,
     ControlPlaneReady := control_plane_ready status, MembershipKnown := True,
     DaemonPeers := ds_Peers status, OtherRoomPeerCount := int (length (ds_Peers status))\<rparr>"

definition service_View ::
  "'w SessionService \<Rightarrow> go_context \<Rightarrow> ('w session, goerr + RoomViewSnapshot) state" where
  "service_View S ctx =
     go_try (in_client (loadSavedRoom S)) (\<lambda>metadata. do {
     loaded \<leftarrow> in_client (stg_Load (svc_codes S));
     case loaded of
       Inl _ \<Rightarrow> err (Sentinel ErrStoredStateConflict)
     | Inr code \<Rightarrow> do {
         (status, e) \<leftarrow> in_client (ad_Status (svc_netbird S) ctx);
         case e of
           Some e \<Rightarrow> err e
         | None \<Rightarrow> do {
             shown \<leftarrow> machine_Apply (view_facts status);
             let view = \<lparr>rv_Session = shown, rv_Metadata = metadata,
                         rv_RoomCodeMasked = maskRoomCode code,
                         rv_LocalNetBirdIP = ds_LocalNetBirdIP status, rv_Peers = [],
                         rv_PeersStale = False, rv_LastPeerRefresh = zero_time\<rparr>;
             case svc_peers S of
               None \<Rightarrow> ok view
             | Some r \<Rightarrow> do {
                 (p, _) \<leftarrow> peers_Refresh (svc_runtime S) r ctx;
                 ok (view\<lparr>rv_Peers := prs_Peers p, rv_PeersStale := prs_Stale p,
                          rv_LastPeerRefresh := prs_LastRefreshAt p\<rparr>)
               }
           }
       }
     })"

definition RevealRoomCode :: "'w SessionService \<Rightarrow> ('w session, goerr + string) state" where
  "RevealRoomCode S =
     go_try (in_client (loadSavedRoom S)) (\<lambda>_. do {
     loaded \<leftarrow> in_client (stg_Load (svc_codes S));
     case loaded of
       Inl _ \<Rightarrow> err (Sentinel ErrStoredStateConflict)
     | Inr code \<Rightarrow> ok code
     })"

end
