(* ===== verification/SecureStoreSpec.thy ===== *)
theory SecureStoreSpec
  imports SecureStore
begin

text \<open>
  What the two stores promise, for every schedule of faults: a save replaces the old content or
  leaves it, a load returns what was saved, a clear leaves nothing.  The contract is the locale
  \<open>slot_storage\<close>; both stores interpret it.
\<close>

section \<open>System calls, whatever the schedule\<close>

lemma wp_file_Chmod:
  "(\<And>r d'. files d' = files d \<Longrightarrow> Q r d') \<Longrightarrow> wp (file_Chmod p) Q d"
  unfolding file_Chmod_def by (rule wp_os_call) (auto simp: wp_simps)

lemma wp_file_Sync:
  "(\<And>r d'. files d' = files d \<Longrightarrow> Q r d') \<Longrightarrow> wp (file_Sync p) Q d"
  unfolding file_Sync_def by (rule wp_os_call) (auto simp: wp_simps)

lemma wp_file_Close:
  "(\<And>r d'. files d' = files d \<Longrightarrow> Q r d') \<Longrightarrow> wp (file_Close p) Q d"
  unfolding file_Close_def by (rule wp_os_call) (auto simp: wp_simps)

lemma wp_os_MkdirAll:
  "(\<And>r d'. files d' = files d \<Longrightarrow> Q r d') \<Longrightarrow> wp (os_MkdirAll p) Q d"
  unfolding os_MkdirAll_def by (rule wp_os_call) (auto simp: wp_simps)

lemma wp_file_Write:
  "(\<And>e n d'. files d' = (files d)(p := Some (take n payload)) \<Longrightarrow> Q (Inl e) d') \<Longrightarrow>
   (\<And>d'. files d' = (files d)(p := Some payload) \<Longrightarrow> Q (Inr ()) d') \<Longrightarrow>
   wp (file_Write p payload) Q d"
  unfolding file_Write_def by (rule wp_os_call) (auto simp: wp_simps)

lemma wp_replaceFile:
  "(\<And>e d'. files d' = files d \<Longrightarrow> Q (Inl e) d') \<Longrightarrow>
   (\<And>d'. files d' = (files d)(q := files d p, p := None) \<Longrightarrow> Q (Inr ()) d') \<Longrightarrow>
   wp (replaceFile p q) Q d"
  unfolding replaceFile_def by (rule wp_os_call) (auto simp: wp_simps)

lemma wp_os_Remove:
  "(\<And>msg d'. files d' = files d \<Longrightarrow> Q (Inl (Message msg)) d') \<Longrightarrow>
   (\<And>d'. files d p = None \<Longrightarrow> files d' = files d \<Longrightarrow> Q (Inl (not_exist ''remove: '')) d') \<Longrightarrow>
   (\<And>d'. files d' = (files d)(p := None) \<Longrightarrow> Q (Inr ()) d') \<Longrightarrow>
   wp (os_Remove p) Q d"
  unfolding os_Remove_def by (rule wp_os_call) (auto simp: wp_simps)

lemma wp_os_CreateTemp:
  "(\<And>e d'. files d' = files d \<Longrightarrow> Q (Inl e) d') \<Longrightarrow>
   (\<And>n d'. files d (Path directory (temp_name pre n)) = None \<Longrightarrow>
      files d' = (files d)((Path directory (temp_name pre n)) := Some []) \<Longrightarrow>
      Q (Inr (Path directory (temp_name pre n))) d') \<Longrightarrow>
   wp (os_CreateTemp directory pre) Q d"
  unfolding os_CreateTemp_def
  by (rule wp_os_call) (auto simp: wp_simps split: option.splits dest: find_Some_in)

lemma wp_os_Open:
  "(\<And>msg d'. files d' = files d \<Longrightarrow> Q (Inl (Message msg)) d') \<Longrightarrow>
   (\<And>d'. files d p = None \<Longrightarrow> files d' = files d \<Longrightarrow> Q (Inl (not_exist ''open: '')) d') \<Longrightarrow>
   (\<And>c d'. files d p = Some c \<Longrightarrow> files d' = files d \<Longrightarrow> Q (Inr c) d') \<Longrightarrow>
   wp (os_Open p) Q d"
  unfolding os_Open_def by (rule wp_os_call) (auto simp: wp_simps split: option.splits)

lemma wp_io_ReadAll:
  "(\<And>msg d'. files d' = files d \<Longrightarrow> Q (Inl (Message msg)) d') \<Longrightarrow>
   (\<And>d'. files d' = files d \<Longrightarrow> Q (Inr (take (nat limit) c)) d') \<Longrightarrow>
   wp (io_ReadAll limit c) Q d"
  unfolding io_ReadAll_def by (rule wp_os_call) (auto simp: wp_simps)

lemmas wp_os = wp_file_Chmod wp_file_Sync wp_file_Close wp_os_MkdirAll wp_file_Write wp_replaceFile
  wp_os_Remove wp_os_CreateTemp wp_os_Open wp_io_ReadAll

section \<open>Atomic replacement\<close>

text \<open>A path a temporary file may get.\<close>

definition temp_path :: "string \<Rightarrow> path \<Rightarrow> path \<Rightarrow> bool" where
  "temp_path pre target p \<longleftrightarrow> path_dir p = path_dir target \<and> (\<exists>n. path_name p = temp_name pre n)"

lemma fill_temporary_effect:
  assumes "temporary \<noteq> target"
  shows "wp (fill_temporary what temporary target payload)
     (\<lambda>r d'. files d' target =
          (case r of Inl _ \<Rightarrow> files d target | Inr _ \<Rightarrow> Some payload) \<and>
        (\<forall>p. p \<noteq> target \<longrightarrow> p \<noteq> temporary \<longrightarrow> files d' p = files d p) \<and>
        (r = Inr () \<longrightarrow> files d' temporary = None)) d"
  unfolding fill_temporary_def
  using assms by (auto simp: wp_simps intro!: wp_os split: sum.splits)

lemma deferred_cleanup_effect:
  "wp (deferred_cleanup temporary keep)
     (\<lambda>_ d'. \<forall>p. p \<noteq> temporary \<or> \<not> keep \<longrightarrow> files d' p = files d p) d"
  unfolding deferred_cleanup_def
  by (auto simp: wp_simps intro!: wp_os)

lemma write_atomic_effect:
  assumes "\<not> temp_path pre target target"
  shows "wp (write_atomic what pre target payload)
     (\<lambda>r d'. files d' target = (case r of Inl _ \<Rightarrow> files d target | Inr _ \<Rightarrow> Some payload) \<and>
        (\<forall>p. p \<noteq> target \<longrightarrow> \<not> temp_path pre target p \<longrightarrow> files d' p = files d p) \<and>
        (r = Inr () \<longrightarrow> (\<forall>p. p \<noteq> target \<longrightarrow> files d' p = files d p))) d"
proof -
  let ?good = "\<lambda>r d'. files d' target = (case r of Inl _ \<Rightarrow> files d target | Inr _ \<Rightarrow> Some payload) \<and>
        (\<forall>p. p \<noteq> target \<longrightarrow> \<not> temp_path pre target p \<longrightarrow> files d' p = files d p) \<and>
        (r = Inr () \<longrightarrow> (\<forall>p. p \<noteq> target \<longrightarrow> files d' p = files d p))"
  have rest: "wp (State_Monad.bind (fill_temporary what temporary target payload) (\<lambda>r.
      State_Monad.bind (deferred_cleanup temporary (case r of Inl _ \<Rightarrow> True | Inr _ \<Rightarrow> False)) (\<lambda>_.
      State_Monad.return r))) ?good d'"
    if t: "temp_path pre target temporary" and d': "files d' = (files d)(temporary := Some [])"
      and free: "files d temporary = None" for temporary d'
  proof -
    have ne: "temporary \<noteq> target" using assms t by auto
    have "wp (fill_temporary what temporary target payload) (\<lambda>r. wp (deferred_cleanup temporary
        (case r of Inl _ \<Rightarrow> True | Inr _ \<Rightarrow> False)) (\<lambda>_. ?good r)) d'"
    proof (rule wp_mono [OF fill_temporary_effect [OF ne]])
      fix r :: "goerr + unit" and d2 :: disk
      assume fill: "files d2 target = (case r of Inl _ \<Rightarrow> files d' target | Inr _ \<Rightarrow> Some payload) \<and>
        (\<forall>p. p \<noteq> target \<longrightarrow> p \<noteq> temporary \<longrightarrow> files d2 p = files d' p) \<and>
        (r = Inr () \<longrightarrow> files d2 temporary = None)"
      show "wp (deferred_cleanup temporary (case r of Inl _ \<Rightarrow> True | Inr _ \<Rightarrow> False)) (\<lambda>_. ?good r) d2"
      proof (rule wp_mono [OF deferred_cleanup_effect])
        fix u :: unit and d3 :: disk
        assume rest: "\<forall>p. p \<noteq> temporary \<or> \<not> (case r of Inl _ \<Rightarrow> True | Inr _ \<Rightarrow> False) \<longrightarrow>
          files d3 p = files d2 p"
        have f: "files d2 target = (case r of Inl _ \<Rightarrow> files d target | Inr _ \<Rightarrow> Some payload)"
          "r = Inr () \<Longrightarrow> files d2 temporary = None"
          using fill ne by (auto simp: d' split: sum.splits)
        have other: "files d2 q = files d q" if "q \<noteq> target" "q \<noteq> temporary" for q
          using fill that d' by (metis fun_upd_apply)
        have rest': "files d3 q = files d2 q" if "q \<noteq> temporary \<or> r = Inr ()" for q
          using rest that by (metis old.sum.simps(6))
        show "?good r d3"
        proof (cases r)
          case (Inl e)
          have same: "files d3 q = files d q" if "q \<noteq> temporary" for q
            using that other rest' f(1) Inl by (cases "q = target") simp_all
          have "q \<noteq> temporary" if "\<not> temp_path pre target q" for q using that t by blast
          then show ?thesis using Inl ne same by simp
        next
          case (Inr x)
          have "files d3 q = files d q" if "q \<noteq> target" for q
            using that other rest' f(2) free Inr by (cases "q = temporary") simp_all
          then show ?thesis using f(1) rest' Inr by simp
        qed
      qed
    qed
    then show ?thesis by (simp add: wp_simps)
  qed
  show ?thesis
    unfolding write_atomic_def
    by (auto simp: wp_go_try wp_wrap_os intro!: wp_os rest split: sum.splits)
       (auto simp: temp_path_def)
qed

lemma clear_file_effect:
  "wp (clear_file what target)
     (\<lambda>r d'. files d' = (case r of Inl _ \<Rightarrow> files d | Inr _ \<Rightarrow> (files d)(target := None))) d"
  unfolding clear_file_def
  by (auto simp: wp_simps not_exist_def fun_upd_idem intro!: wp_os)

section \<open>The contract of a storage\<close>

text \<open>
  A storage holds nothing, a value, or something that cannot be read.  \<open>storable\<close> are the values that
  survive the encoding; \<open>ready\<close> says that no fault is pending.
\<close>

datatype 'v slot = Missing | Stored 'v | Broken

locale slot_storage =
  fixes load :: "('s, goerr + 'v) state"
    and save :: "'v \<Rightarrow> ('s, goerr + unit) state"
    and clear :: "('s, goerr + unit) state"
    and slot :: "'s \<Rightarrow> 'v slot"
    and missing :: sentinel
    and storable :: "'v \<Rightarrow> bool"
    and ready :: "'s \<Rightarrow> bool"
  assumes load_slot: "wp load (\<lambda>r t. slot t = slot s \<and>
      (case r of Inr v \<Rightarrow> slot s = Stored v | Inl e \<Rightarrow> errors_Is e missing \<longrightarrow> slot s = Missing)) s"
    and save_slot: "wp (save v) (\<lambda>r t.
      case r of
        Inr _ \<Rightarrow> slot t \<noteq> Missing \<and> (storable v \<longrightarrow> slot t = Stored v)
      | Inl _ \<Rightarrow> slot t = slot s) s"
    and clear_slot: "wp clear (\<lambda>r t. slot t = (case r of Inr _ \<Rightarrow> Missing | Inl _ \<Rightarrow> slot s)) s"
    and load_ready: "ready s \<Longrightarrow> wp load (\<lambda>r t. ready t \<and>
      (slot s = Missing \<longrightarrow> (\<exists>e. r = Inl e \<and> errors_Is e missing)) \<and>
      (\<forall>v. slot s = Stored v \<longrightarrow> r = Inr v)) s"
    and clear_ready: "ready s \<Longrightarrow> wp clear (\<lambda>r t. ready t \<and> r = Inr ()) s"
    and save_ready: "ready s \<Longrightarrow> wp (save v) (\<lambda>r t. ready t) s"
begin

lemma save_then_load:
  assumes "storable v"
  shows "wps (go_try (save v) (\<lambda>_. load)) (\<lambda>x t. x = v) s"
  unfolding wps_go_try wps_def [of "save v"]
proof (rule wp_mono [OF save_slot])
  fix r t
  assume r: "case r of Inr _ \<Rightarrow> slot t \<noteq> Missing \<and> (storable v \<longrightarrow> slot t = Stored v)
    | Inl _ \<Rightarrow> slot t = slot s"
  show "case r of Inl e \<Rightarrow> True | Inr x \<Rightarrow> wps load (\<lambda>x t. x = v) t"
  proof (cases r)
    case (Inr u)
    with r assms have "slot t = Stored v" by simp
    have "wps load (\<lambda>x t. x = v) t"
      unfolding wps_def
      by (rule wp_mono [OF load_slot]) (use \<open>slot t = Stored v\<close> in \<open>auto split: sum.splits\<close>)
    with Inr show ?thesis by simp
  qed simp
qed

lemma load_after_clear:
  "wps (go_try clear (\<lambda>_. load)) (\<lambda>x t. False) s"
  unfolding wps_go_try wps_def [of clear]
proof (rule wp_mono [OF clear_slot])
  fix r t
  assume r: "slot t = (case r of Inr _ \<Rightarrow> Missing | Inl _ \<Rightarrow> slot s)"
  show "case r of Inl e \<Rightarrow> True | Inr x \<Rightarrow> wps load (\<lambda>x t. False) t"
  proof (cases r)
    case (Inr u)
    with r have "slot t = Missing" by simp
    have "wps load (\<lambda>x t. False) t"
      unfolding wps_def
      by (rule wp_mono [OF load_slot]) (use \<open>slot t = Missing\<close> in \<open>auto split: sum.splits\<close>)
    with Inr show ?thesis by simp
  qed simp
qed

lemma load_after_failed_save:
  "wp (save v) (\<lambda>r t. \<forall>e. r = Inl e \<longrightarrow> slot t = slot s) s"
  by (rule wp_mono [OF save_slot]) (auto split: sum.splits)

end

section \<open>The encodings\<close>

definition metadata_slot :: "MetadataStore \<Rightarrow> disk \<Rightarrow> RoomMetadata slot" where
  "metadata_slot st d =
     (case files d (ms_path st) of
        None \<Rightarrow> Missing
      | Some c \<Rightarrow>
          (case metadata_of_payload (ms_codec st) (take (nat (metadataFileLimit + 1)) c) of
             Inl _ \<Rightarrow> Broken | Inr m \<Rightarrow> Stored m))"

definition storable_metadata :: "time_codec \<Rightarrow> RoomMetadata \<Rightarrow> bool" where
  "storable_metadata T m \<longleftrightarrow>
     md_Version m = 1 \<and> list_all is_ascii (md_RoomID m) \<and> list_all is_ascii (md_ManagementURL m) \<and>
     list_all is_ascii (md_ProfileID m) \<and>
     (case time_MarshalJSON T (md_CreatedAt m) of
        None \<Rightarrow> False
      | Some t \<Rightarrow> list_all is_ascii t \<and> time_UnmarshalJSON T t = Some (md_CreatedAt m))"

lemma show_int_1: "show_int 1 = ''1''"
  using char_of_byte [of "CHR ''1''"]
  by (simp add: show_int_def show_nat.simps [of "Suc 0"] byte_def)

lemma decode_encode_metadata:
  assumes "storable_metadata T m" and "encode_metadata T m = Some j"
  shows "decode_metadata T j = Some m" and "ascii_json j" and "nesting j \<le> max_nesting"
    and "\<And>n. j \<noteq> JNum n"
proof -
  from assms obtain t where t: "time_MarshalJSON T (md_CreatedAt m) = Some t"
    "list_all is_ascii t" "time_UnmarshalJSON T t = Some (md_CreatedAt m)"
    by (auto simp: storable_metadata_def split: option.splits)
  have j: "j = JObj [(''version'', JNum ''1''), (''roomId'', JStr (md_RoomID m)),
        (''managementUrl'', JStr (md_ManagementURL m)), (''profileId'', JStr (md_ProfileID m)),
        (''createdAt'', JStr t)]"
    using assms t by (simp add: encode_metadata_def storable_metadata_def show_int_1)
  have "Atoi ''1'' = Some 1"
    using Atoi_show_int [of 1] by (simp add: show_int_1 min_int64_def max_int64_def)
  then show "decode_metadata T j = Some m"
    using assms(1) t(3)
    by (simp add: j decode_metadata_def EqualFold_lit no_metadata_def storable_metadata_def)
  show "ascii_json j"
    using assms(1) t(2)
    by (simp add: j storable_metadata_def plain_number_def is_ascii_def byte_def char_class_defs)
  show "nesting j \<le> max_nesting" by (simp add: j max_nesting_def)
  show "\<And>n. j \<noteq> JNum n" by (simp add: j)
qed

lemma metadata_roundtrip:
  assumes "storable_metadata T m" and "metadata_payload T m = Inr payload"
  shows "metadata_of_payload T payload = Inr m" and "int (length payload) \<le> metadataFileLimit"
proof -
  from assms obtain j where j: "encode_metadata T m = Some j" "payload = render j"
    and v: "validateMetadata m = None" and l: "int (length payload) \<le> metadataFileLimit"
    by (auto simp: metadata_payload_def storable_metadata_def Let_def split: option.splits if_splits)
  note d = decode_encode_metadata [OF assms(1) j(1)]
  have "decode_next (decode_metadata T) (render j @ []) = Inr (m, [])"
    by (rule decode_next_render) (use d in simp_all)
  then show "metadata_of_payload T payload = Inr m"
    using l v by (simp add: metadata_of_payload_def j)
  show "int (length payload) \<le> metadataFileLimit" by (rule l)
qed

definition code_slot :: "RoomCodeStore \<Rightarrow> disk \<Rightarrow> string slot" where
  "code_slot st d =
     (case files d (cs_path st) of
        None \<Rightarrow> Missing
      | Some c \<Rightarrow>
          (case code_of_envelope (cs_dpapi st)
                  (take envelope_read_limit c) of
             Inl _ \<Rightarrow> Broken | Inr code \<Rightarrow> Stored code))"

definition storable_code :: "dpapi \<Rightarrow> string \<Rightarrow> bool" where
  "storable_code D code \<longleftrightarrow>
     (\<forall>c. CryptProtectData D ''Sogame NetBird Room Code'' dpapiEntropy code = Some c \<longrightarrow>
        CryptUnprotectData D dpapiEntropy c = Some code)"

lemma code_roundtrip:
  assumes "storable_code D code" and "code_envelope D code = Inr envelope"
  shows "code_of_envelope D envelope = Inr code"
    and "length envelope \<le> roomCodeCiphertextLimit + length envelope_header"
proof -
  from assms(2) obtain c where c: "protectForCurrentUser D code = Inr c" "envelope = envelope_header @ c"
    "c \<noteq> []" "length c \<le> roomCodeCiphertextLimit" and v: "validateRoomCode code = None"
    by (auto simp: code_envelope_def split: option.splits sum.splits if_splits)
  from c(1) have p: "CryptProtectData D ''Sogame NetBird Room Code'' dpapiEntropy code = Some c"
    by (auto simp: protectForCurrentUser_def copyAndFreeDataBlob_def split: option.splits if_splits)
  have "code \<noteq> []" using v by (auto simp: validateRoomCode_def)
  then have "unprotectForCurrentUser D c = Inr code"
    using assms(1) p
    by (simp add: unprotectForCurrentUser_def copyAndFreeDataBlob_def storable_code_def)
  then show "code_of_envelope D envelope = Inr code"
    using c v by (auto simp: code_of_envelope_def envelope_header_def Let_def nth_append)
  show "length envelope \<le> roomCodeCiphertextLimit + length envelope_header" using c by simp
qed

lemma code_not_plain:
  "code_envelope D code = Inr envelope \<Longrightarrow>
     \<exists>c. CryptProtectData D ''Sogame NetBird Room Code'' dpapiEntropy code = Some c \<and>
         envelope = envelope_header @ c"
  by (auto simp: code_envelope_def protectForCurrentUser_def copyAndFreeDataBlob_def
      split: option.splits sum.splits if_splits)

section \<open>The stores keep the contract\<close>

text \<open>The stores at the default names, in any directory.\<close>

definition room_json :: "time_codec \<Rightarrow> string \<Rightarrow> MetadataStore" where
  "room_json T directory = \<lparr>ms_path = Path directory ''room.json'', ms_codec = T\<rparr>"

definition room_code_file :: "dpapi \<Rightarrow> string \<Rightarrow> RoomCodeStore" where
  "room_code_file D directory = \<lparr>cs_path = Path directory ''room.code'', cs_dpapi = D\<rparr>"

lemma not_temp:
  "\<not> temp_path ''.room-'' t (Path directory ''room.json'')"
  "\<not> temp_path ''.room-code-'' t (Path directory ''room.code'')"
  "\<not> temp_path ''.room-'' t (Path directory ''room.code'')"
  "\<not> temp_path ''.room-code-'' t (Path directory ''room.json'')"
  by (auto simp: temp_path_def temp_name_def)

lemma MetadataStore_Save_effect:
  "wp (MetadataStore_Save (room_json T directory) m)
     (\<lambda>r d'. (case r of
          Inl _ \<Rightarrow> files d' (Path directory ''room.json'') = files d (Path directory ''room.json'')
        | Inr _ \<Rightarrow> \<exists>payload. metadata_payload T m = Inr payload \<and>
            files d' (Path directory ''room.json'') = Some payload) \<and>
        (\<forall>p. p \<noteq> Path directory ''room.json'' \<longrightarrow> \<not> temp_path ''.room-'' (Path directory ''room.json'') p \<longrightarrow>
           files d' p = files d p)) d"
proof (cases "metadata_payload T m")
  case (Inl e)
  then show ?thesis by (simp add: MetadataStore_Save_def room_json_def wp_simps)
next
  case (Inr payload)
  then show ?thesis
    unfolding MetadataStore_Save_def room_json_def
    by (auto intro!: wp_mono [OF write_atomic_effect] simp: not_temp split: sum.splits)
qed

lemma RoomCodeStore_Save_effect:
  "wp (RoomCodeStore_Save (room_code_file D directory) code)
     (\<lambda>r d'. (case r of
          Inl _ \<Rightarrow> files d' (Path directory ''room.code'') = files d (Path directory ''room.code'')
        | Inr _ \<Rightarrow> \<exists>envelope. code_envelope D code = Inr envelope \<and>
            files d' (Path directory ''room.code'') = Some envelope) \<and>
        (\<forall>p. p \<noteq> Path directory ''room.code'' \<longrightarrow>
           \<not> temp_path ''.room-code-'' (Path directory ''room.code'') p \<longrightarrow> files d' p = files d p)) d"
proof (cases "code_envelope D code")
  case (Inl e)
  then show ?thesis by (simp add: RoomCodeStore_Save_def room_code_file_def wp_simps)
next
  case (Inr envelope)
  then show ?thesis
    unfolding RoomCodeStore_Save_def room_code_file_def
    by (auto intro!: wp_mono [OF write_atomic_effect] simp: not_temp split: sum.splits)
qed

text \<open>No fault is scheduled any more.\<close>

definition no_faults :: "disk \<Rightarrow> bool" where "no_faults d \<longleftrightarrow> disk_faults d = []"

definition faults_kept :: "disk \<Rightarrow> disk \<Rightarrow> bool" where
  "faults_kept d d' \<longleftrightarrow> (no_faults d \<longrightarrow> no_faults d')"

interpretation faults: frame_relation faults_kept
  by unfold_locales (auto simp: faults_kept_def)

lemma faults_os_call:
  assumes "faults.keeps m" and "\<And>n d. disk_faults (partial n d) = disk_faults d"
  shows "faults.keeps (os_call partial m)"
  unfolding os_call_def
proof (intro faults.keeps_bind faults.keeps_case_option assms(1))
  show "faults.keeps os_fault"
    by (rule faults.keepsI) (auto simp: os_fault_def faults_kept_def no_faults_def)
  show "faults.keeps (case f of (msg, n) \<Rightarrow> do { State_Monad.update (partial n); err (Message msg) })"
    for f :: "string \<times> nat"
    by (rule faults.keepsI)
       (auto simp: faults_kept_def no_faults_def assms(2) State_Monad.update_def split: prod.splits)
qed

lemma faults_write_file: "disk_faults (write_file p c d) = disk_faults d"
  by (simp add: write_file_def)

lemma faults_state:
  "(\<And>d. no_faults d \<Longrightarrow> no_faults (snd (run_state m d))) \<Longrightarrow> faults.keeps m"
  unfolding faults.keeps_def faults_kept_def by blast

lemma faults_calls:
  "faults.keeps (os_MkdirAll p)" "faults.keeps (os_CreateTemp p q)" "faults.keeps (file_Chmod t)"
  "faults.keeps (file_Write t c)" "faults.keeps (file_Sync t)" "faults.keeps (file_Close t)"
  "faults.keeps (replaceFile t u)" "faults.keeps (os_Remove t)"
  unfolding os_defs
  by - (rule faults_os_call; (rule faults_state)?;
        simp add: faults_write_file no_faults_def State_Monad.update_def split: option.splits)+

lemma faults_write_atomic: "faults.keeps (write_atomic what pre target payload)"
  unfolding write_atomic_def fill_temporary_def deferred_cleanup_def wrap_os_def Let_def
  by (auto intro!: faults.keeps_intros faults_calls split: sum.splits)

lemma faults_saves:
  "faults.keeps (MetadataStore_Save st m)" "faults.keeps (RoomCodeStore_Save cst code)"
  unfolding MetadataStore_Save_def RoomCodeStore_Save_def
  by (auto intro!: faults.keeps_intros faults_write_atomic split: sum.splits)

lemma save_keeps_faults:
  assumes "faults.keeps m" and "no_faults d"
  shows "wp m (\<lambda>r t. no_faults t) d"
  by (rule faults.wp_keeps [OF assms(1)]) (use assms(2) in \<open>simp add: faults_kept_def\<close>)

lemma wp_os_call_healthy: "no_faults d \<Longrightarrow> wp (os_call partial m) Q d = wp m Q d"
  by (simp add: os_call_def wp_simps no_faults_def)

lemma metadata_of_payload_error:
  "metadata_of_payload T c = Inl e \<Longrightarrow> \<not> errors_Is e ErrNoRoomMetadata"
  by (auto simp: metadata_of_payload_def validateMetadata_def errors_Is_def
      split: if_splits sum.splits option.splits)

lemma code_of_envelope_error:
  "code_of_envelope D c = Inl e \<Longrightarrow> \<not> errors_Is e ErrNoProtectedRoomCode"
  by (auto simp: code_of_envelope_def unprotectForCurrentUser_def copyAndFreeDataBlob_def Let_def
      split: if_splits sum.splits option.splits)

lemma metadata_storage:
  fixes T directory
  defines "st \<equiv> room_json T directory"
  shows "slot_storage (MetadataStore_Load st) (MetadataStore_Save st) (MetadataStore_Clear st)
    (metadata_slot st) ErrNoRoomMetadata (storable_metadata T) no_faults"
proof
  have path: "ms_path st = Path directory ''room.json''" "ms_codec st = T"
    by (simp_all add: st_def room_json_def)
  show "wp (MetadataStore_Load st) (\<lambda>r t. metadata_slot st t = metadata_slot st s \<and>
      (case r of Inr v \<Rightarrow> metadata_slot st s = Stored v
       | Inl e \<Rightarrow> errors_Is e ErrNoRoomMetadata \<longrightarrow> metadata_slot st s = Missing)) s" for s
    unfolding MetadataStore_Load_def loadMetadata_def
    by (auto simp: wp_simps metadata_slot_def not_exist_def intro!: wp_os split: sum.splits option.splits
        dest: metadata_of_payload_error)
  show "wp (MetadataStore_Save st m) (\<lambda>r t.
      case r of
        Inr _ \<Rightarrow> metadata_slot st t \<noteq> Missing \<and> (storable_metadata T m \<longrightarrow> metadata_slot st t = Stored m)
      | Inl _ \<Rightarrow> metadata_slot st t = metadata_slot st s) s" for m s
    unfolding st_def
  proof (rule wp_mono [OF MetadataStore_Save_effect], goal_cases)
    case (1 r t)
    show ?case
    proof (cases r)
      case (Inl e)
      then show ?thesis using 1 by (simp add: metadata_slot_def room_json_def)
    next
      case (Inr u)
      with 1 obtain payload where p: "metadata_payload T m = Inr payload"
        "files t (Path directory ''room.json'') = Some payload" by auto
      then show ?thesis
        using Inr metadata_roundtrip [OF _ p(1)]
        by (auto simp: metadata_slot_def room_json_def metadataFileLimit_def split: sum.splits)
    qed
  qed
  show "wp (MetadataStore_Clear st) (\<lambda>r t. metadata_slot st t =
      (case r of Inr _ \<Rightarrow> Missing | Inl _ \<Rightarrow> metadata_slot st s)) s" for s
    unfolding MetadataStore_Clear_def
    by (rule wp_mono [OF clear_file_effect]) (auto simp: metadata_slot_def split: sum.splits)
  show "wp (MetadataStore_Load st) (\<lambda>r t. no_faults t \<and>
      (metadata_slot st s = Missing \<longrightarrow> (\<exists>e. r = Inl e \<and> errors_Is e ErrNoRoomMetadata)) \<and>
      (\<forall>v. metadata_slot st s = Stored v \<longrightarrow> r = Inr v)) s" if "no_faults s" for s
    using that
    by (auto simp: MetadataStore_Load_def loadMetadata_def os_Open_def io_ReadAll_def wp_simps
        wp_os_call_healthy metadata_slot_def not_exist_def split: option.splits sum.splits)
  show "wp (MetadataStore_Clear st) (\<lambda>r t. no_faults t \<and> r = Inr ()) s" if "no_faults s" for s
    using that
    by (auto simp: MetadataStore_Clear_def clear_file_def os_Remove_def wp_simps wp_os_call_healthy
        not_exist_def) (simp add: no_faults_def write_file_def)
  show "wp (MetadataStore_Save st v) (\<lambda>r t. no_faults t) s" if "no_faults s" for s v
    by (rule save_keeps_faults [OF faults_saves(1) that])
qed

lemma code_storage:
  fixes D directory
  defines "st \<equiv> room_code_file D directory"
  shows "slot_storage (RoomCodeStore_Load st) (RoomCodeStore_Save st) (RoomCodeStore_Clear st)
    (code_slot st) ErrNoProtectedRoomCode (storable_code D) no_faults"
proof
  have path: "cs_path st = Path directory ''room.code''" "cs_dpapi st = D"
    by (simp_all add: st_def room_code_file_def)
  show "wp (RoomCodeStore_Load st) (\<lambda>r t. code_slot st t = code_slot st s \<and>
      (case r of Inr v \<Rightarrow> code_slot st s = Stored v
       | Inl e \<Rightarrow> errors_Is e ErrNoProtectedRoomCode \<longrightarrow> code_slot st s = Missing)) s" for s
    unfolding RoomCodeStore_Load_def
    by (auto simp: wp_simps code_slot_def not_exist_def intro!: wp_os
        split: sum.splits option.splits dest: code_of_envelope_error)
  show "wp (RoomCodeStore_Save st m) (\<lambda>r t.
      case r of
        Inr _ \<Rightarrow> code_slot st t \<noteq> Missing \<and> (storable_code D m \<longrightarrow> code_slot st t = Stored m)
      | Inl _ \<Rightarrow> code_slot st t = code_slot st s) s" for m s
    unfolding st_def
  proof (rule wp_mono [OF RoomCodeStore_Save_effect], goal_cases)
    case (1 r t)
    show ?case
    proof (cases r)
      case (Inl e)
      then show ?thesis using 1 by (simp add: code_slot_def room_code_file_def)
    next
      case (Inr u)
      with 1 obtain envelope where p: "code_envelope D m = Inr envelope"
        "files t (Path directory ''room.code'') = Some envelope" by auto
      then show ?thesis
        using Inr code_roundtrip [OF _ p(1)]
        by (auto simp: code_slot_def room_code_file_def envelope_read_limit_def split: sum.splits)
    qed
  qed
  show "wp (RoomCodeStore_Clear st) (\<lambda>r t. code_slot st t =
      (case r of Inr _ \<Rightarrow> Missing | Inl _ \<Rightarrow> code_slot st s)) s" for s
    unfolding RoomCodeStore_Clear_def
    by (rule wp_mono [OF clear_file_effect]) (auto simp: code_slot_def split: sum.splits)
  show "wp (RoomCodeStore_Load st) (\<lambda>r t. no_faults t \<and>
      (code_slot st s = Missing \<longrightarrow> (\<exists>e. r = Inl e \<and> errors_Is e ErrNoProtectedRoomCode)) \<and>
      (\<forall>v. code_slot st s = Stored v \<longrightarrow> r = Inr v)) s" if "no_faults s" for s
    using that
    by (auto simp: RoomCodeStore_Load_def os_Open_def io_ReadAll_def wp_simps
        wp_os_call_healthy code_slot_def not_exist_def split: option.splits sum.splits
       )
  show "wp (RoomCodeStore_Clear st) (\<lambda>r t. no_faults t \<and> r = Inr ()) s" if "no_faults s" for s
    using that
    by (auto simp: RoomCodeStore_Clear_def clear_file_def os_Remove_def wp_simps wp_os_call_healthy
        not_exist_def) (simp add: no_faults_def write_file_def)
  show "wp (RoomCodeStore_Save st v) (\<lambda>r t. no_faults t) s" if "no_faults s" for s v
    by (rule save_keeps_faults [OF faults_saves(2) that])
qed

interpretation metadata: slot_storage
  "MetadataStore_Load (room_json T directory)" "MetadataStore_Save (room_json T directory)"
  "MetadataStore_Clear (room_json T directory)" "metadata_slot (room_json T directory)"
  ErrNoRoomMetadata "storable_metadata T" no_faults
  for T directory
  by (rule metadata_storage)

interpretation codes: slot_storage
  "RoomCodeStore_Load (room_code_file D directory)" "RoomCodeStore_Save (room_code_file D directory)"
  "RoomCodeStore_Clear (room_code_file D directory)" "code_slot (room_code_file D directory)"
  ErrNoProtectedRoomCode "storable_code D" no_faults
  for D directory
  by (rule code_storage)

section \<open>What reaches the disk\<close>

text \<open>Nothing new on the disk but prefixes of the payload.\<close>

definition only_writes ::
  "string \<Rightarrow> (path \<Rightarrow> string option) \<Rightarrow> (path \<Rightarrow> string option) \<Rightarrow> bool" where
  "only_writes payload f g \<longleftrightarrow> (\<forall>p. g p = f p \<or> g p = None \<or> (\<exists>n. g p = Some (take n payload)))"

lemma only_writes_refl [simp]: "only_writes payload f f"
  by (simp add: only_writes_def)

lemma only_writes_upd:
  assumes "only_writes payload f g"
  shows "only_writes payload f (g(p := Some (take n payload)))"
    and "only_writes payload f (g(p := Some payload))"
    and "only_writes payload f (g(p := Some []))"
    and "only_writes payload f (g(p := None))"
    and "only_writes payload f (g(q := Some payload, p := None))"
proof -
  have *: "only_writes payload f (g(p := Some (take n payload)))" for n p
    using assms by (auto simp: only_writes_def)
  show "only_writes payload f (g(p := Some (take n payload)))" by (rule *)
  show "only_writes payload f (g(p := Some payload))" using * [of p "length payload"] by simp
  show "only_writes payload f (g(p := Some []))" using * [of p 0] by simp
  show "only_writes payload f (g(p := None))" using assms by (auto simp: only_writes_def)
  show "only_writes payload f (g(q := Some payload, p := None))"
    using * [of q "length payload"] by (auto simp: only_writes_def)
qed

lemma fill_temporary_only_writes:
  assumes "only_writes payload f (files d)"
  shows "wp (fill_temporary what temporary target payload) (\<lambda>r d'. only_writes payload f (files d')) d"
  unfolding fill_temporary_def
  by (auto simp: wp_simps only_writes_upd [OF assms] assms intro!: wp_os split: sum.splits)

lemma deferred_cleanup_only_writes:
  assumes "only_writes payload f (files d)"
  shows "wp (deferred_cleanup temporary keep) (\<lambda>_ d'. only_writes payload f (files d')) d"
  unfolding deferred_cleanup_def
  by (auto simp: wp_simps only_writes_upd [OF assms] assms intro!: wp_os)

lemma write_atomic_only_writes:
  "wp (write_atomic what pre target payload) (\<lambda>r d'. only_writes payload (files d) (files d')) d"
proof -
  have rest: "wp (State_Monad.bind (fill_temporary what t target payload) (\<lambda>r.
      State_Monad.bind (deferred_cleanup t (case r of Inl _ \<Rightarrow> True | Inr _ \<Rightarrow> False)) (\<lambda>_.
      State_Monad.return r))) (\<lambda>r d'. only_writes payload (files d) (files d')) d'"
    if "only_writes payload (files d) (files d')" for t d'
  proof -
    have "wp (fill_temporary what t target payload) (\<lambda>r. wp (deferred_cleanup t
        (case r of Inl _ \<Rightarrow> True | Inr _ \<Rightarrow> False)) (\<lambda>_ d'. only_writes payload (files d) (files d'))) d'"
      by (rule wp_mono [OF fill_temporary_only_writes [OF that]]) (rule deferred_cleanup_only_writes)
    then show ?thesis by (simp add: wp_simps)
  qed
  show ?thesis
    unfolding write_atomic_def
    by (auto simp: wp_go_try wp_wrap_os only_writes_upd intro!: wp_os rest split: sum.splits)
qed

section \<open>Properties\<close>

text \<open>
  C10: Saving is atomic, whatever fails and wherever the machine stops: the file of the metadata
  and the file of the room code hold afterwards what they held before, if the save reports an
  error, and the complete new content, if it reports success; no file but the target and
  temporary files beside it is touched.
\<close>
theorem save_atomic:
  "wp (MetadataStore_Save (room_json T directory) m)
     (\<lambda>r d'. files d' (Path directory ''room.json'') =
         (case r of Inl _ \<Rightarrow> files d (Path directory ''room.json'')
          | Inr _ \<Rightarrow> Some (projr (metadata_payload T m))) \<and>
        {p. files d' p \<noteq> files d p} \<subseteq>
          insert (Path directory ''room.json'') {p. temp_path ''.room-'' (Path directory ''room.json'') p}) d \<and>
   wp (RoomCodeStore_Save (room_code_file D directory) code)
     (\<lambda>r d'. files d' (Path directory ''room.code'') =
         (case r of Inl _ \<Rightarrow> files d (Path directory ''room.code'')
          | Inr _ \<Rightarrow> Some (projr (code_envelope D code))) \<and>
        {p. files d' p \<noteq> files d p} \<subseteq>
          insert (Path directory ''room.code'') {p. temp_path ''.room-code-'' (Path directory ''room.code'') p}) d"
proof
  show "wp (MetadataStore_Save (room_json T directory) m)
     (\<lambda>r d'. files d' (Path directory ''room.json'') =
         (case r of Inl _ \<Rightarrow> files d (Path directory ''room.json'')
          | Inr _ \<Rightarrow> Some (projr (metadata_payload T m))) \<and>
        {p. files d' p \<noteq> files d p} \<subseteq>
          insert (Path directory ''room.json'') {p. temp_path ''.room-'' (Path directory ''room.json'') p}) d"
    by (rule wp_mono [OF MetadataStore_Save_effect]) (auto split: sum.splits)
  show "wp (RoomCodeStore_Save (room_code_file D directory) code)
     (\<lambda>r d'. files d' (Path directory ''room.code'') =
         (case r of Inl _ \<Rightarrow> files d (Path directory ''room.code'')
          | Inr _ \<Rightarrow> Some (projr (code_envelope D code))) \<and>
        {p. files d' p \<noteq> files d p} \<subseteq>
          insert (Path directory ''room.code'') {p. temp_path ''.room-code-'' (Path directory ''room.code'') p}) d"
    by (rule wp_mono [OF RoomCodeStore_Save_effect]) (auto split: sum.splits)
qed


text \<open>
  The room code reaches the disk sealed: whatever fails, every file that a save changes holds
  nothing, or the beginning of the envelope around what \<open>CryptProtectData\<close> made of the code; and
  if that call fails, no file changes.
\<close>
theorem code_sealed_on_disk:
  "wp (RoomCodeStore_Save (room_code_file D directory) code)
     (\<lambda>r d'. case CryptProtectData D ''Sogame NetBird Room Code'' dpapiEntropy code of
        None \<Rightarrow> files d' = files d
      | Some c \<Rightarrow> only_writes (''SGNBRC'' @ [CHR 0x01] @ c) (files d) (files d')) d"
proof (cases "code_envelope D code")
  case (Inl e)
  then show ?thesis
    by (auto simp: RoomCodeStore_Save_def room_code_file_def wp_simps split: option.splits)
next
  case (Inr envelope)
  then obtain c where "CryptProtectData D ''Sogame NetBird Room Code'' dpapiEntropy code = Some c"
    and "envelope = envelope_header @ c" using code_not_plain by blast
  then show ?thesis
    using Inr write_atomic_only_writes
    by (simp add: RoomCodeStore_Save_def room_code_file_def envelope_header_def
        roomCodeEnvelopeMagic_def roomCodeEnvelopeVersion_def)
qed

section \<open>A concrete machine\<close>

definition sample_codec :: time_codec where
  "sample_codec = \<lparr>time_MarshalJSON = (\<lambda>t. Some (replicate (nat t) CHR ''Z'')),
                  time_UnmarshalJSON = (\<lambda>s. Some (int (length s)))\<rparr>"

definition sample_dpapi :: dpapi where
  "sample_dpapi = \<lparr>CryptProtectData = (\<lambda>description entropy x. Some (rev x)),
                  CryptUnprotectData = (\<lambda>entropy c. Some (rev c))\<rparr>"

definition sample_metadata :: RoomMetadata where
  "sample_metadata = \<lparr>md_Version = 1, md_RoomID = ''r1'', md_ManagementURL = ''https://n.example'',
     md_ProfileID = ''p1'', md_CreatedAt = 5\<rparr>"

definition empty_disk :: disk where "empty_disk = \<lparr>files = (\<lambda>_. None), disk_faults = []\<rparr>"

lemma sample_storable: "storable_metadata sample_codec sample_metadata"
  by (simp add: storable_metadata_def sample_codec_def sample_metadata_def is_ascii_def byte_def
      numeral_eq_Suc)

lemma sample_storable_code: "storable_code sample_dpapi code"
  by (simp add: storable_code_def sample_dpapi_def)


end
