(* ===== verification/RoomApiClientSpec.thy ===== *)
theory RoomApiClientSpec
  imports RoomApiClient
begin

text \<open>
  What the client of the room API guarantees: which URLs it talks to, how often and how long it
  tries, that one intent makes one room, and that a setup key is handed out once and wiped.
\<close>

section \<open>Retries\<close>

text \<open>\<open>count\<close> counts the requests that leave the process.\<close>

definition counts_requests ::
  "('w client \<Rightarrow> nat) \<Rightarrow> 'w room_library \<Rightarrow> 'w RoomClient \<Rightarrow> bool" where
  "counts_requests count L c \<longleftrightarrow>
     (\<forall>ctx r. calls_bounded count 1 (in_world (rc_httpClient c ctx r))) \<and>
     (\<forall>ctx d. calls_bounded count 0 (in_world (timer_or_Done (rl_runtime L) ctx d))) \<and>
     (\<forall>ctx. calls_bounded count 0 (in_world (ctx_Err (rl_runtime L) ctx))) \<and>
     calls_bounded count 0 (in_world (time_Now (rl_runtime L)))"

lemma calls_bounded_0: "calls_bounded count 0 m \<Longrightarrow> calls_bounded count n m"
  using calls_bounded_mono [of count 0 m n] by simp

lemma calls_bounded_ret: "calls_bounded count n (State_Monad.return x)"
  by (rule calls_bounded_0 [OF calls_bounded_return])

lemma calls_bounded_if:
  "calls_bounded count n m \<Longrightarrow> calls_bounded count n k \<Longrightarrow> calls_bounded count n (if b then m else k)"
  by simp

lemma doAttempt_calls:
  fixes c :: "'w RoomClient" and target :: "json \<Rightarrow> 'a option"
  assumes "counts_requests count L c"
  shows "calls_bounded count 1 (doAttempt L c ctx method path body headers target)"
proof -
  have q: "calls_bounded count 1 (in_world (rc_httpClient c x r))" for x r
    using assms by (simp add: counts_requests_def)
  have e: "calls_bounded count 0
      (State_Monad.bind (in_world (ctx_Err (rl_runtime L) x)) (\<lambda>e. State_Monad.return (f e)))" for x f
    using assms
    by (auto simp: counts_requests_def intro!: calls_bounded_bind [where i = 0 and j = 0] calls_bounded_return)
  have t: "calls_bounded count 0
      (State_Monad.bind (in_world (time_Now (rl_runtime L))) (\<lambda>e. State_Monad.return (f e)))" for f
    using assms
    by (auto simp: counts_requests_def intro!: calls_bounded_bind [where i = 0 and j = 0] calls_bounded_return)
  have case_err: "(case e of Some e \<Rightarrow> err e | None \<Rightarrow> err TransportError) =
      State_Monad.return (case e of Some e \<Rightarrow> Inl e | None \<Rightarrow> Inl TransportError)"
    for e :: "goerr option"
    by (cases e) simp_all
  have case_ok: "(case x of Some y \<Rightarrow> ok y | None \<Rightarrow> err f) =
      State_Monad.return (case x of Some y \<Rightarrow> Inr y | None \<Rightarrow> Inl f)"
    for x :: "'a option" and f :: goerr
    by (cases x) simp_all
  show ?thesis
    unfolding doAttempt_def Let_def case_err case_ok
    by (intro calls_bounded_if calls_bounded_ret calls_bounded_bind [OF q, where j = 0])
       (auto split: sum.splits prod.splits intro!: calls_bounded_if e t calls_bounded_ret)
qed

lemma waitForRetry_calls: "counts_requests count L c \<Longrightarrow> calls_bounded count 0 (waitForRetry L ctx d)"
  unfolding waitForRetry_def
  by (rule calls_bounded_bind [where i = 0 and j = 0])
     (auto simp: counts_requests_def intro!: calls_bounded_return)

lemma do_loop_calls:
  assumes "counts_requests count L c"
  shows "calls_bounded count (length delays + 1) (do_loop L c ctx method path body headers target delays)"
proof (induction delays)
  case Nil
  show ?case using doAttempt_calls [OF assms] by simp
next
  case (Cons d delays)
  show ?case
    unfolding do_loop.simps
    by (rule calls_bounded_bind [OF doAttempt_calls [OF assms], where j = "length delays + 1"])
       (use Cons.IH in \<open>auto split: sum.splits option.splits
          intro!: calls_bounded_ret
            calls_bounded_bind [OF waitForRetry_calls [OF assms], where j = "length delays + 1"]\<close>)
qed

lemma retry_delay_bounds:
  "0 < d \<Longrightarrow> d \<le> maximumRetryDelay \<Longrightarrow> d \<le> retry_delay d e \<and> retry_delay d e \<le> maximumRetryDelay"
  by (auto simp: retry_delay_def Let_def split: option.splits)

lemma Transient_codes: "Transient (newHTTPError P status retry now) \<longleftrightarrow>
    status \<in> {408, 429, 500, 502, 503, 504}"
  by (simp add: newHTTPError_def)

section \<open>Intents\<close>

definition intent_at :: "nat \<Rightarrow> 'w client \<Rightarrow> CreateIntent option" where
  "intent_at p s = (if p < length (intents s) then Some (intents s ! p) else None)"

lemma wp_intent_begin [wp_simps]:
  "wp (intent_begin (Some p)) Q s =
     (case intent_at p s of
        None \<Rightarrow> Q (Inl (Message ''room create intent is required'')) s
      | Some i \<Rightarrow>
          if ci_complete i then Q (Inl (Sentinel ErrCreateIntentComplete)) s
          else if ci_inFlight i then Q (Inl (Sentinel ErrCreateIntentInFlight)) s
          else Q (Inr (ci_key i)) (s\<lparr>intents := (intents s)[p := i\<lparr>ci_inFlight := True\<rparr>]\<rparr>))"
  by (simp add: intent_begin_def intent_at_def wp_simps)

text \<open>The requests themselves leave the heap alone.\<close>

definition same_heap :: "'w client \<Rightarrow> 'w client \<Rightarrow> bool" where
  "same_heap s t \<longleftrightarrow>
     intents t = intents s \<and> secrets t = secrets s \<and> setup_keys t = setup_keys s"

interpretation heap: frame_relation same_heap
  by unfold_locales (auto simp: same_heap_def)

lemma heap_in_world: "heap.keeps (in_world m)"
  by (rule heap.keepsI) (auto simp: run_in_world same_heap_def split: prod.splits)

lemma doAttempt_heap: "heap.keeps (doAttempt L c ctx method path body headers target)"
  unfolding doAttempt_def Let_def
  by (auto intro!: heap.keeps_intros heap_in_world split: option.splits)

lemma do_loop_heap: "heap.keeps (do_loop L c ctx method path body headers target delays)"
  by (induction delays)
     (auto intro!: heap.keeps_intros heap_in_world doAttempt_heap
           simp: waitForRetry_def split: option.splits)

lemma roomapi_do_heap: "heap.keeps (roomapi_do L c ctx method path body headers target)"
  unfolding roomapi_do_def by (rule do_loop_heap)

lemma response_enrollment_intents:
  "wp (response_enrollment r b code) (\<lambda>x t. intents t = intents s) s"
  by (auto simp: response_enrollment_def wp_simps Let_def split: option.splits)

lemma create_request_intents:
  "wp (create_request L c ctx key) (\<lambda>x t. intents t = intents s) s"
  unfolding create_request_def wp_go_try
proof (rule heap.wp_keeps [OF roomapi_do_heap])
  fix r t
  assume "same_heap s t"
  then have t: "intents t = intents s" by (simp add: same_heap_def)
  show "case r of Inl e \<Rightarrow> intents t = intents s
      | Inr x \<Rightarrow> wp (response_enrollment x True []) (\<lambda>x t. intents t = intents s) t"
    using response_enrollment_intents [of _ True "[]" t] by (cases r) (simp_all add: t)
qed

lemma intent_at_update [simp]:
  "p < length (intents s) \<Longrightarrow>
     intent_at q (s\<lparr>intents := (intents s)[p := i]\<rparr>) = (if q = p then Some i else intent_at q s)"
  by (simp add: intent_at_def)

lemma wp_intent_finish [wp_simps]:
  "wp (intent_finish (Some p) complete) Q s =
     Q () (s\<lparr>intents := (intents s)[p :=
        (if complete then (intents s ! p)\<lparr>ci_inFlight := False, ci_complete := True, ci_key := []\<rparr>
         else (intents s ! p)\<lparr>ci_inFlight := False\<rparr>)]\<rparr>)"
  by (simp add: intent_finish_def wp_simps)

text \<open>
  What \<open>Create\<close> does to its intent, on every way out.
\<close>

lemma Create_intent:
  fixes s :: "'a client"
  assumes "intent_at p s = Some i"
  shows "wp (RoomClient_Create L c ctx (Some p))
     (\<lambda>r t. intent_at p t = Some
        (if ci_complete i \<or> ci_inFlight i then i
         else case r of
           Inr _ \<Rightarrow> i\<lparr>ci_complete := True, ci_key := []\<rparr> | Inl _ \<Rightarrow> i) \<and>
        (ci_complete i \<or> ci_inFlight i \<longrightarrow> (\<exists>e. r = Inl (Sentinel e)) \<and> t = s) \<and>
        (\<forall>q. q \<noteq> p \<longrightarrow> intent_at q t = intent_at q s)) s"
proof (cases "ci_complete i \<or> ci_inFlight i")
  case True
  then show ?thesis
    using assms unfolding RoomClient_Create_def by (auto simp: wp_simps)
next
  case False
  then have i: "i\<lparr>ci_inFlight := False\<rparr> = i" by simp
  let ?s1 = "s\<lparr>intents := (intents s)[p := i\<lparr>ci_inFlight := True\<rparr>]\<rparr>"
  have p: "p < length (intents s)" using assms by (auto simp: intent_at_def split: if_splits)
  have "wp (create_request L c ctx (ci_key i)) (\<lambda>r t. wp (intent_finish (Some p)
      (case r of Inr _ \<Rightarrow> True | Inl _ \<Rightarrow> False)) (\<lambda>_ t.
      intent_at p t = Some (case r of Inr _ \<Rightarrow> i\<lparr>ci_complete := True, ci_key := []\<rparr> | Inl _ \<Rightarrow> i) \<and>
      (\<forall>q. q \<noteq> p \<longrightarrow> intent_at q t = intent_at q s)) t) ?s1"
  proof (rule wp_mono [OF create_request_intents])
    fix r :: "goerr + Enrollment" and t :: "'a client"
    assume t: "intents t = intents ?s1"
    with p have "p < length (intents t)" "intents t ! p = i\<lparr>ci_inFlight := True\<rparr>" by simp_all
    moreover have "intent_at q t = intent_at q s" if "q \<noteq> p" for q
      using that t by (simp add: intent_at_def)
    ultimately show "wp (intent_finish (Some p) (case r of Inr _ \<Rightarrow> True | Inl _ \<Rightarrow> False)) (\<lambda>_ t.
      intent_at p t = Some (case r of Inr _ \<Rightarrow> i\<lparr>ci_complete := True, ci_key := []\<rparr> | Inl _ \<Rightarrow> i) \<and>
      (\<forall>q. q \<noteq> p \<longrightarrow> intent_at q t = intent_at q s)) t"
      by (auto simp: wp_simps i split: sum.splits)
  qed
  then show ?thesis
    using assms False unfolding RoomClient_Create_def by (simp add: wp_simps)
qed

section \<open>Setup keys are handed out once\<close>

definition key_taken :: "Enrollment \<Rightarrow> 'w client \<Rightarrow> bool" where
  "key_taken e s \<longleftrightarrow>
     (case en_secret e of None \<Rightarrow> True
      | Some p \<Rightarrow> p < length (secrets s) \<and> es_consumed (secrets s ! p))"

lemma wp_takeSetupKey [wp_simps]:
  "wp (takeSetupKey e) Q s =
     (case en_secret e of
        None \<Rightarrow> Q (Inl (Sentinel ErrSetupKeyConsumed)) s
      | Some p \<Rightarrow>
          if p \<ge> length (secrets s) \<or> es_consumed (secrets s ! p) then
            Q (Inl (Sentinel ErrSetupKeyConsumed)) s
          else (case es_key (secrets s ! p) of
                  None \<Rightarrow> Q (Inl (Sentinel ErrSetupKeyConsumed)) s
                | Some key \<Rightarrow>
                    Q (Inr key) (s\<lparr>secrets := (secrets s)[p := \<lparr>es_key = None, es_consumed = True\<rparr>]\<rparr>)))"
  by (auto simp: takeSetupKey_def wp_simps split: option.splits bool.splits)

text \<open>Secrets are never refilled by what the client does.\<close>

definition secrets_monotone :: "'w client \<Rightarrow> 'w client \<Rightarrow> bool" where
  "secrets_monotone s t \<longleftrightarrow>
     length (secrets s) \<le> length (secrets t) \<and>
     (\<forall>p < length (secrets s). es_consumed (secrets s ! p) \<longrightarrow> secrets t ! p = secrets s ! p)"

interpretation secrets: frame_relation secrets_monotone
proof unfold_locales
  fix s t u :: "'w client"
  assume "secrets_monotone s t" and "secrets_monotone t u"
  then show "secrets_monotone s u"
    unfolding secrets_monotone_def by (metis order_less_le_trans order_trans)
qed (simp add: secrets_monotone_def)

lemma key_taken_monotone: "secrets_monotone s t \<Longrightarrow> key_taken e s \<Longrightarrow> key_taken e t"
  by (auto simp: key_taken_def secrets_monotone_def split: option.splits)

lemma taken_fails: "key_taken e s \<Longrightarrow> run_state (takeSetupKey e) s = (Inl (Sentinel ErrSetupKeyConsumed), s)"
  by (auto simp: takeSetupKey_def key_taken_def split: option.splits)

lemma DiscardSetupKey_taken:
  assumes "en_secret e = Some p" and "p < length (secrets s)"
    and "es_consumed (secrets s ! p) \<or> es_key (secrets s ! p) \<noteq> None"
  shows "wp (DiscardSetupKey e) (\<lambda>r t. key_taken e t) s"
  using assms unfolding DiscardSetupKey_def
  by (auto simp: wp_simps key_taken_def split: option.splits)

lemma ConsumeSetupKey_none:
  "key_taken e s \<Longrightarrow> run_state (ConsumeSetupKey e (Some f)) s = (Inl (Sentinel ErrSetupKeyConsumed), s)"
  by (simp add: ConsumeSetupKey_def run_go_try taken_fails)

lemma secrets_in_world: "secrets.keeps (in_world m)"
  by (rule secrets.keepsI) (auto simp: run_in_world secrets_monotone_def split: prod.splits)

lemma secrets_takeSetupKey: "secrets.keeps (takeSetupKey e)"
  by (rule secrets.keepsI)
     (auto simp: takeSetupKey_def secrets_monotone_def nth_list_update
           split: option.splits bool.splits if_splits)

lemma secrets_SetupKey_Clear: "secrets.keeps (SetupKey_Clear k)"
  by (rule secrets.keepsI)
     (auto simp: SetupKey_Clear_def secrets_monotone_def State_Monad.update_def split: option.splits)

lemma secrets_response_enrollment: "secrets.keeps (response_enrollment r b code)"
  by (rule secrets.keepsI)
     (auto simp: response_enrollment_def secrets_monotone_def NewSetupKey_def Let_def nth_append
           split: option.splits if_splits)

lemma heap_secrets: "heap.keeps m \<Longrightarrow> secrets.keeps m"
  unfolding heap.keeps_def secrets.keeps_def same_heap_def secrets_monotone_def by simp

section \<open>Room codes\<close>

lemma code_character_printable: "code_character c \<Longrightarrow> printable c"
  by (auto simp: code_character_def char_class_defs printable_def byte_def)

lemma code_character_upper: "code_character c \<Longrightarrow> ascii_upper c = c"
  by (auto simp: code_character_def ascii_upper_def char_class_defs byte_def)

definition valid_room_code :: "string \<Rightarrow> bool" where
  "valid_room_code w \<longleftrightarrow>
     length (Split CHR ''-'' w) = 3 \<and>
     list_all (\<lambda>part. length part = 4 \<and> list_all code_character part) (Split CHR ''-'' w)"

lemma set_Split: "c \<in> set s \<Longrightarrow> c = sep \<or> (\<exists>part \<in> set (Split sep s). c \<in> set part)"
  by (induction sep s rule: Split.induct) (auto split: list.splits)

lemma valid_room_code_chars:
  "valid_room_code w \<Longrightarrow> c \<in> set w \<Longrightarrow> c = CHR ''-'' \<or> code_character c"
  using set_Split [of c w "CHR ''-''"] by (auto simp: valid_room_code_def list_all_iff)

lemma valid_room_code_normal:
  assumes "valid_room_code w"
  shows "normalizeRoomCode w = Inr w"
proof -
  have p: "printable c" "is_ascii c" "ascii_upper c = c" if "c \<in> set w" for c
    using valid_room_code_chars [OF assms that]
    by (auto simp: code_character_def char_class_defs printable_def byte_def ascii_upper_def)
  then have "TrimSpace w = w" by (intro TrimSpace_id) auto
  moreover have "ToUpper w = w" using p by (simp add: ToUpper_ascii map_idI)
  ultimately show ?thesis
    using assms by (simp add: normalizeRoomCode_def valid_room_code_def Let_def)
qed

lemma normalizeRoomCode_valid: "normalizeRoomCode v = Inr w \<Longrightarrow> valid_room_code w"
  by (auto simp: normalizeRoomCode_def valid_room_code_def Let_def split: if_splits)

section \<open>Where requests go\<close>

lemma setPath_host: "setPath p u = Some v \<Longrightarrow> u_Opaque v = u_Opaque u"
  by (auto simp: setPath_def)

lemma url_parse_nofrag_host:
  "url_parse_nofrag raw = Some u \<Longrightarrow> u_Host u \<noteq> [] \<Longrightarrow> u_Opaque u = []"
  by (auto simp: url_parse_nofrag_def Let_def empty_URL_def dest!: setPath_host
      split: if_splits option.splits prod.splits)

lemma url_Parse_host: "url_Parse raw = Some u \<Longrightarrow> u_Host u \<noteq> [] \<Longrightarrow> u_Opaque u = []"
  by (auto simp: url_Parse_def setFragment_def dest: url_parse_nofrag_host
      split: prod.splits option.splits if_splits)

lemma Hostname_path [simp]: "Hostname (u\<lparr>u_Path := p\<rparr>) = Hostname u"
  by (simp add: Hostname_def split: option.splits)

lemma newClient_InrD:
  assumes "newClient base http timeout limit = Inr c"
  obtains u where "url_Parse (TrimSpace base) = Some u" and "u_Host u \<noteq> []" and "u_User u = None"
    and "u_Scheme u = ''https'' \<or> u_Scheme u = ''http'' \<and> isLoopbackHost (Hostname u)"
    and "c = \<lparr>rc_baseURL = u\<lparr>u_Path := TrimRight CHR ''/'' (u_Path u)\<rparr>, rc_httpClient = http,
              rc_timeout = timeout, rc_responseLimit = limit, rc_retryDelays = defaultRetryDelays\<rparr>"
  using assms by (auto simp: newClient_def split: option.splits if_splits)

lemma HasPrefix_append [simp]: "HasPrefix (p @ s) p"
  by (simp add: HasPrefix_def)

lemma URL_String_prefix:
  assumes "u_Opaque u = []" and "u_Scheme u \<noteq> []" and "u_Host u \<noteq> []"
  shows "HasPrefix (URL_String u) (u_Scheme u @ ''://'' @ url_escape encodeHost (u_Host u))"
proof -
  let ?p = "u_Scheme u @ ''://'' @ url_escape encodeHost (u_Host u)"
  have "url_prefix u = ?p" using assms by (simp add: url_prefix_def)
  then have "\<exists>rest. URL_String u = ?p @ rest"
    using assms by (simp add: URL_String_def Let_def)
  then show ?thesis by (metis HasPrefix_append)
qed

section \<open>Properties\<close>


text \<open>
  C18: A call of the client sends at most four requests, and waits between two of them at most five
  seconds and at least the configured delay, whatever the server asks for with \<open>Retry-After\<close>.
\<close>
theorem requests_bounded:
  assumes "newClient base http timeout limit = Inr c" and "counts_requests count L c"
  shows "calls_bounded count 4 (roomapi_do L c ctx method path body headers target) \<and>
    (\<forall>d \<in> set (rc_retryDelays c). d \<le> retry_delay d e \<and> retry_delay d e \<le> 5 * second)"
proof
  have d: "rc_retryDelays c = defaultRetryDelays"
    by (rule newClient_InrD [OF assms(1)]) simp
  have n: "length defaultRetryDelays = 3" by (simp add: defaultRetryDelays_def)
  show "calls_bounded count 4 (roomapi_do L c ctx method path body headers target)"
    using do_loop_calls [OF assms(2), where delays = defaultRetryDelays]
    unfolding roomapi_do_def d by (simp del: do_loop.simps add: n)
  show "\<forall>d \<in> set (rc_retryDelays c). d \<le> retry_delay d e \<and> retry_delay d e \<le> 5 * second"
    unfolding d defaultRetryDelays_def maximumRetryDelay_def [symmetric]
    by (intro ballI retry_delay_bounds) (auto simp: maximumRetryDelay_def duration_defs)
qed


text \<open>
  The setup key of an enrollment is handed to one consumer. Whatever the consumer does and
  returns, the key is wiped afterwards, and every later attempt to consume it fails without
  calling anybody.
\<close>
theorem setup_key_once:
  assumes "en_secret e = Some p" and "p < length (secrets s)"
    and "secrets s ! p = \<lparr>es_key = Some k, es_consumed = False\<rparr>" and "k < length (setup_keys s)"
    and "\<And>k. secrets.keeps (f k)" and "\<And>k. keys.keeps (f k)"
    and "run_state (ConsumeSetupKey e (Some f)) s = (r, t)"
  shows "SetupKey_value k t = [] \<and>
    run_state (ConsumeSetupKey e (Some g)) t = (Inl (Sentinel ErrSetupKeyConsumed), t)"
proof -
  let ?s1 = "s\<lparr>secrets := (secrets s)[p := \<lparr>es_key = None, es_consumed = True\<rparr>]\<rparr>"
  obtain r' s2 where f: "run_state (f k) ?s1 = (r', s2)" by fastforce
  have t: "t = s2\<lparr>setup_keys := (setup_keys s2)[k := []]\<rparr>"
    using assms(7) f assms(1-3)
    by (simp add: ConsumeSetupKey_def run_go_try takeSetupKey_def SetupKey_Clear_def
        State_Monad.update_def)
  have "key_taken e ?s1" using assms(1,2) by (simp add: key_taken_def)
  then have "key_taken e s2"
    using key_taken_monotone secrets.keepsD [OF assms(5) f] by blast
  then have "key_taken e t" by (auto simp: t key_taken_def split: option.splits)
  then show ?thesis
    using ConsumeSetupKey_none [of e t g] keys.keepsD [OF assms(6) f] assms(4)
    by (auto simp: t SetupKey_value_def keys_monotone_def)
qed

end
