(* ===== verification/SessionEnv.thy ===== *)
theory SessionEnv
  imports SessionService SecureStoreSpec RoomApiClientSpec
begin

text \<open>
  What the room session relies on, as one interface: two storages that do not disturb each other, an
  adapter and a room API that touch neither, and setup keys that are handed over as one enrollment
  each.  The lemmas inside the locale follow the commands of
  \<open>client/internal/session/service.go\<close> for any such surroundings; the root of the client provides them.
\<close>

section \<open>Running on the client's heap\<close>

lemma wp_in_client [wp_simps]:
  "wp (in_client m) Q s = wp m (\<lambda>a c. Q a (s\<lparr>sv_client := c\<rparr>)) (sv_client s)"
  by (simp add: in_client_def wp_simps)

lemma wp_service_State [wp_simps]: "wp service_State Q s = Q (Machine_Snapshot (sv_machine s)) s"
  by (simp add: service_State_def wp_def)

lemma wp_machine_Apply: "(\<And>shown m. Q shown (s\<lparr>sv_machine := m\<rparr>)) \<Longrightarrow> wp (machine_Apply facts) Q s"
  by (simp add: machine_Apply_def wp_simps wp_any)

lemma wp_service_fail: "(\<And>shown m. Q (shown, Some e) (s\<lparr>sv_machine := m\<rparr>)) \<Longrightarrow> wp (service_fail e) Q s"
  by (simp add: service_fail_def wp_simps wp_machine_Apply)

lemma wp_service_done: "(\<And>shown m. Q (shown, None) (s\<lparr>sv_machine := m\<rparr>)) \<Longrightarrow> wp (service_done facts) Q s"
  by (simp add: service_done_def wp_simps wp_machine_Apply)

lemmas wp_answers = wp_service_fail wp_service_done

lemma wp_run_command [wp_simps]:
  "wp (run_command body) Q s =
     (if sv_busy s then Q (Machine_Snapshot (sv_machine s), Some (Sentinel ErrCommandInProgress)) s
      else wp body (\<lambda>r t. Q r (t\<lparr>sv_busy := False\<rparr>)) (s\<lparr>sv_busy := True\<rparr>))"
  by (simp add: run_command_def beginCommand_def endCommand_def wp_simps wp_def [of "State _"])

lemma wp_failed_step [wp_simps]:
  "wp (failed_step S t ctx m k) Q s =
     wp m (\<lambda>r u. case r of
        Inl cause \<Rightarrow> wp (tx_wrap S t cause ctx) (\<lambda>e v. Q (Inl e) v) u | Inr _ \<Rightarrow> wp k Q u) s"
  by (simp add: failed_step_def wp_simps cong: sum.case_cong)

lemma wp_conjI: "wp m P s \<Longrightarrow> wp m Q s \<Longrightarrow> wp m (\<lambda>a t. P a t \<and> Q a t) s"
  by (simp add: wp_conj)

section \<open>Sequences of calls\<close>

text \<open>
  The methods of the service as data, for statements about any sequence of them.  A call answers with
  its error.
\<close>

datatype session_call =
    Call_Create go_context string
  | Call_Join go_context string string
  | Call_Leave go_context
  | Call_Switch go_context SwitchRequest
  | Call_Disconnect go_context
  | Call_Reconnect go_context
  | Call_Connect go_context
  | Call_View go_context
  | Call_Reveal

definition error_of :: "('s, 'a \<times> goerr option) state \<Rightarrow> ('s, goerr option) state" where
  "error_of m = State_Monad.bind m (\<lambda>r. State_Monad.return (snd r))"

definition failure_of :: "('s, goerr + 'a) state \<Rightarrow> ('s, goerr option) state" where
  "failure_of m = State_Monad.bind m (\<lambda>r. State_Monad.return (case r of Inl e \<Rightarrow> Some e | Inr _ \<Rightarrow> None))"

fun run_call :: "'w SessionService \<Rightarrow> session_call \<Rightarrow> ('w session, goerr option) state" where
  "run_call S (Call_Create ctx hostname) = error_of (service_Create S ctx hostname)"
| "run_call S (Call_Join ctx code hostname) = error_of (service_Join S ctx code hostname)"
| "run_call S (Call_Leave ctx) = error_of (service_Leave S ctx)"
| "run_call S (Call_Switch ctx request) = error_of (service_Switch S ctx request)"
| "run_call S (Call_Disconnect ctx) = error_of (service_Disconnect S ctx)"
| "run_call S (Call_Reconnect ctx) = error_of (service_Reconnect S ctx)"
| "run_call S (Call_Connect ctx) = error_of (service_Connect S ctx)"
| "run_call S (Call_View ctx) = failure_of (service_View S ctx)"
| "run_call S Call_Reveal = failure_of (RevealRoomCode S)"

primrec run_calls :: "'w SessionService \<Rightarrow> session_call list \<Rightarrow> 'w session \<Rightarrow> goerr option list \<times> 'w session" where
  "run_calls S [] s = ([], s)"
| "run_calls S (c # cs) s =
     (case run_state (run_call S c) s of (e, t) \<Rightarrow>
      case run_calls S cs t of (es, u) \<Rightarrow> (e # es, u))"

lemma wp_error_of [wp_simps]: "wp (error_of m) Q s = wp m (\<lambda>r t. Q (snd r) t) s"
  by (simp add: error_of_def wp_simps)

lemma wp_failure_of [wp_simps]:
  "wp (failure_of m) Q s = wp m (\<lambda>r t. Q (case r of Inl e \<Rightarrow> Some e | Inr _ \<Rightarrow> None) t) s"
  by (simp add: failure_of_def wp_simps)

section \<open>Live setup keys\<close>

text \<open>
  \<open>no_live_key\<close>: no key is in memory.  \<open>holds_key\<close>: the key of one enrollment, not yet consumed, is
  the only one.  What may happen to the heap while others work on it is \<open>keys_held\<close>.
\<close>

definition no_live_key :: "'w client \<Rightarrow> bool" where
  "no_live_key s \<longleftrightarrow> (\<forall>v \<in> set (setup_keys s). v = [])"

definition holds_key :: "Enrollment \<Rightarrow> 'w client \<Rightarrow> bool" where
  "holds_key e s \<longleftrightarrow> (\<exists>p k. en_secret e = Some p \<and> p < length (secrets s) \<and>
     secrets s ! p = \<lparr>es_key = Some k, es_consumed = False\<rparr> \<and> k < length (setup_keys s) \<and>
     (\<forall>j < length (setup_keys s). j \<noteq> k \<longrightarrow> setup_keys s ! j = []))"

definition keys_held :: "'w client \<Rightarrow> 'w client \<Rightarrow> bool" where
  "keys_held s t \<longleftrightarrow> secrets t = secrets s \<and> length (setup_keys t) = length (setup_keys s) \<and>
     keys_monotone s t"

interpretation held: frame_relation keys_held
  by unfold_locales (auto simp: keys_held_def intro: keys.trans)

lemma no_live_key_nth: "no_live_key s \<longleftrightarrow> (\<forall>i < length (setup_keys s). setup_keys s ! i = [])"
  unfolding no_live_key_def by (metis in_set_conv_nth)

lemma held_no_live: "keys_held s t \<Longrightarrow> no_live_key s \<Longrightarrow> no_live_key t"
  unfolding keys_held_def no_live_key_nth keys_monotone_def by metis

lemma held_holds: "keys_held s t \<Longrightarrow> holds_key e s \<Longrightarrow> holds_key e t"
  unfolding keys_held_def holds_key_def keys_monotone_def by metis

lemma heap_held: "heap.keeps m \<Longrightarrow> held.keeps m"
  by (auto simp: heap.keeps_def held.keeps_def same_heap_def keys_held_def keys_monotone_def)

lemma held_in_world: "held.keeps (in_world m)"
  by (rule heap_held [OF heap_in_world])

lemma held_SetupKey_Clear: "held.keeps (SetupKey_Clear key)"
proof (rule held.keepsI)
  fix s t :: "'w client" and a
  assume run: "run_state (SetupKey_Clear key) s = (a, t)"
  then have "keys_monotone s t" by (rule keys.keepsD [OF keys_SetupKey_Clear])
  with run show "keys_held s t"
    by (auto simp: SetupKey_Clear_def keys_held_def State_Monad.update_def split: option.splits)
qed

text \<open>An enrollment under way: its key is live and not consumed, or it is taken and wiped.\<close>

definition settled :: "Enrollment \<Rightarrow> 'w client \<Rightarrow> bool" where
  "settled e s \<longleftrightarrow> holds_key e s \<or> no_live_key s \<and> key_taken e s"

lemma held_settled: "keys_held s t \<Longrightarrow> settled e s \<Longrightarrow> settled e t"
  using held_no_live [of s t] held_holds [of s t e]
  by (auto simp: settled_def key_taken_def keys_held_def split: option.splits)

definition settled_frame :: "Enrollment \<Rightarrow> 'w client \<Rightarrow> 'w client \<Rightarrow> bool" where
  "settled_frame e s t \<longleftrightarrow> (settled e s \<longrightarrow> settled e t)"

interpretation settled: frame_relation "settled_frame e" for e
  by unfold_locales (auto simp: settled_frame_def)

lemma settled_held: "held.keeps m \<Longrightarrow> settled.keeps e m"
  unfolding held.keeps_def settled.keeps_def settled_frame_def by (blast intro: held_settled)

lemma no_live_wiped:
  "(\<forall>j < length (setup_keys s). j \<noteq> k \<longrightarrow> setup_keys s ! j = []) \<Longrightarrow>
     no_live_key (s\<lparr>setup_keys := (setup_keys s)[k := []]\<rparr>)"
  by (cases "k < length (setup_keys s)") (auto simp: no_live_key_nth nth_list_update list_update_beyond)

lemma wp_DiscardSetupKey:
  fixes s :: "'w client"
  assumes "settled e s"
  shows "wp (DiscardSetupKey e) (\<lambda>r t. no_live_key t \<and> key_taken e t \<and> outside t = outside s) s"
proof (cases "holds_key e s")
  case True
  then obtain p k where p: "en_secret e = Some p" "p < length (secrets s)"
      "secrets s ! p = \<lparr>es_key = Some k, es_consumed = False\<rparr>" "k < length (setup_keys s)"
      "\<forall>j < length (setup_keys s). j \<noteq> k \<longrightarrow> setup_keys s ! j = []"
    unfolding holds_key_def by blast
  let ?s1 = "s\<lparr>secrets := (secrets s)[p := \<lparr>es_key = None, es_consumed = True\<rparr>]\<rparr>"
  have "no_live_key (?s1\<lparr>setup_keys := (setup_keys ?s1)[k := []]\<rparr>)"
    by (rule no_live_wiped) (use p in simp)
  then show ?thesis
    using p by (simp add: DiscardSetupKey_def wp_simps key_taken_def)
next
  case False
  then have n: "no_live_key s" "key_taken e s" using assms by (auto simp: settled_def)
  then have "run_state (DiscardSetupKey e) s = ((), s)"
    by (simp add: DiscardSetupKey_def taken_fails)
  with n show ?thesis by (simp add: wp_def)
qed

text \<open>A consumer that is handed the key and leaves the rest alone: afterwards it is wiped.\<close>

lemma settled_ConsumeSetupKey:
  fixes f :: "nat \<Rightarrow> ('w client, goerr + unit) state"
  assumes f: "\<And>k. held.keeps (f k)"
  shows "settled.keeps e (ConsumeSetupKey e (Some f))"
proof (rule settled.keepsI, unfold settled_frame_def, rule impI)
  fix s t :: "'w client" and r
  assume run: "run_state (ConsumeSetupKey e (Some f)) s = (r, t)" and s: "settled e s"
  show "settled e t"
  proof (cases "holds_key e s")
    case False
    with s run show ?thesis
      by (auto simp: settled_def ConsumeSetupKey_none)
  next
    case True
    then obtain p k where p: "en_secret e = Some p" "p < length (secrets s)"
        "secrets s ! p = \<lparr>es_key = Some k, es_consumed = False\<rparr>" "k < length (setup_keys s)"
        "\<forall>j < length (setup_keys s). j \<noteq> k \<longrightarrow> setup_keys s ! j = []"
      unfolding holds_key_def by blast
    let ?s1 = "s\<lparr>secrets := (secrets s)[p := \<lparr>es_key = None, es_consumed = True\<rparr>]\<rparr>"
    obtain r' s2 where f2: "run_state (f k) ?s1 = (r', s2)" by fastforce
    have t: "t = s2\<lparr>setup_keys := (setup_keys s2)[k := []]\<rparr>"
      using run f2 p by (simp add: ConsumeSetupKey_def run_go_try takeSetupKey_def
          SetupKey_Clear_def State_Monad.update_def)
    have h: "keys_held ?s1 s2" by (rule held.keepsD [OF f f2])
    then have "\<forall>j < length (setup_keys s2). j \<noteq> k \<longrightarrow> setup_keys s2 ! j = []"
      using p(5) by (auto simp: keys_held_def keys_monotone_def)
    then have "no_live_key t" unfolding t by (rule no_live_wiped)
    moreover have "key_taken e t"
      using h p(1,2) by (simp add: t key_taken_def keys_held_def)
    ultimately show ?thesis by (simp add: settled_def)
  qed
qed

section \<open>The surroundings of the session\<close>

text \<open>
  \<open>ms\<close> and \<open>cs\<close> read the two slots off the world, \<open>ready\<close> says that no fault of the disk is pending.
\<close>

definition same_store ::
  "('w \<Rightarrow> 'm slot) \<Rightarrow> ('w \<Rightarrow> 'c slot) \<Rightarrow> ('w \<Rightarrow> bool) \<Rightarrow> 'w client \<Rightarrow> 'w client \<Rightarrow> bool" where
  "same_store ms cs ready s t \<longleftrightarrow> ms (outside t) = ms (outside s) \<and>
     cs (outside t) = cs (outside s) \<and> (ready (outside s) \<longrightarrow> ready (outside t))"

interpretation store: frame_relation "same_store ms cs ready"
  for ms :: "'w \<Rightarrow> 'm slot" and cs :: "'w \<Rightarrow> 'c slot" and ready
  by unfold_locales (auto simp: same_store_def)

definition same_slot :: "('w \<Rightarrow> 'v slot) \<Rightarrow> 'w client \<Rightarrow> 'w client \<Rightarrow> bool" where
  "same_slot sl s t \<longleftrightarrow> sl (outside t) = sl (outside s)"

interpretation slot: frame_relation "same_slot sl" for sl :: "'w \<Rightarrow> 'v slot"
  by unfold_locales (auto simp: same_slot_def)

text \<open>No call of a storage touches the heap of the client or the slot \<open>other\<close>.\<close>

definition storage_apart :: "('w \<Rightarrow> 'o slot) \<Rightarrow> ('w client, 'v) Storage \<Rightarrow> bool" where
  "storage_apart other st \<longleftrightarrow>
     (frame_relation.keeps (same_slot other) (stg_Load st) \<and> heap.keeps (stg_Load st)) \<and>
     (\<forall>v. frame_relation.keeps (same_slot other) (stg_Save st v) \<and> heap.keeps (stg_Save st v)) \<and>
     (frame_relation.keeps (same_slot other) (stg_Clear st) \<and> heap.keeps (stg_Clear st))"

definition runtime_keeps :: "('w client \<Rightarrow> 'w client \<Rightarrow> bool) \<Rightarrow> 'w runtime \<Rightarrow> bool" where
  "runtime_keeps R rt \<longleftrightarrow>
     (\<forall>c. frame_relation.keeps R (in_world (ctx_Err rt c))) \<and>
     (\<forall>c d. frame_relation.keeps R (in_world (timer_or_Done rt c d))) \<and>
     (\<forall>c. frame_relation.keeps R (in_world (send_or_Done rt c))) \<and>
     (\<forall>c. frame_relation.keeps R (in_world (send_or_default rt c))) \<and>
     frame_relation.keeps R (in_world (time_Now rt)) \<and>
     (\<forall>n. frame_relation.keeps R (in_world (rand_ReadFull rt n)))"

lemma Resume_keeps:
  assumes R: "frame_relation R" and a: "adapter_keeps R a" and rt: "runtime_keeps R rt"
  shows "frame_relation.keeps R (Resume rt (NewRecoveryMonitor a) ctx p)"
proof -
  let ?m = "NewRecoveryMonitor a"
  have m: "rm_adapter ?m = a" by (simp add: NewRecoveryMonitor_def newRecoveryMonitor_def)
  have t: "frame_relation.keeps R (resume_attempt ?m ctx p)"
    using a unfolding resume_attempt_def m
    by (auto simp: adapter_keeps_def intro!: frame_relation.keeps_intros [OF R])
  have "frame_relation.keeps R (resume_loop rt ?m ctx p delays)" for delays
    using rt
    by (induction delays)
       (auto simp: waitForRecovery_def runtime_keeps_def intro!: frame_relation.keeps_intros [OF R] t)
  then show ?thesis by (simp add: Resume_def)
qed

text \<open>The room API hands out one live key with an enrollment, and none with an error.\<close>

definition hands_out_key :: "('w client, goerr + Enrollment) state \<Rightarrow> bool" where
  "hands_out_key m \<longleftrightarrow> (\<forall>s. no_live_key s \<longrightarrow>
     wp m (\<lambda>r t. case r of Inl e \<Rightarrow> no_live_key t | Inr e \<Rightarrow> holds_key e t) s)"

locale session_env =
  md: slot_storage "stg_Load (svc_metadata S)" "stg_Save (svc_metadata S)" "stg_Clear (svc_metadata S)"
    "\<lambda>s. ms (outside s)" ErrNoRoomMetadata storable_m "\<lambda>s. ready (outside s)" +
  cd: slot_storage "stg_Load (svc_codes S)" "stg_Save (svc_codes S)" "stg_Clear (svc_codes S)"
    "\<lambda>s. cs (outside s)" ErrNoProtectedRoomCode storable_c "\<lambda>s. ready (outside s)"
  for S :: "'w SessionService" and ms :: "'w \<Rightarrow> RoomMetadata slot" and cs :: "'w \<Rightarrow> string slot"
    and storable_m :: "RoomMetadata \<Rightarrow> bool" and storable_c :: "string \<Rightarrow> bool" and ready :: "'w \<Rightarrow> bool" +
  assumes metadata_apart: "storage_apart cs (svc_metadata S)"
    and codes_apart: "storage_apart ms (svc_codes S)"
    and adapter_store: "adapter_keeps (same_store ms cs ready) (svc_netbird S)"
    and adapter_held: "adapter_keeps keys_held (svc_netbird S)"
    and runtime_store: "runtime_keeps (same_store ms cs ready) (svc_runtime S)"
    and Create_store: "frame_relation.keeps (same_store ms cs ready) (room_Create (svc_rooms S) ctx i)"
    and Join_store: "frame_relation.keeps (same_store ms cs ready) (room_Join (svc_rooms S) ctx code)"
    and Create_key: "hands_out_key (room_Create (svc_rooms S) ctx i)"
    and Join_key: "hands_out_key (room_Join (svc_rooms S) ctx code)"
    and monitor: "svc_monitor S = NewRecoveryMonitor (svc_netbird S)"
    and peers: "svc_peers S = Some r \<Longrightarrow> pr_codes r = svc_codes S \<and>
      frame_relation.keeps (same_store ms cs ready) (pr_api r ctx code) \<and> held.keeps (pr_api r ctx code)"
begin

section \<open>The storages\<close>

abbreviation missing_both :: "'w \<Rightarrow> bool" where
  "missing_both w \<equiv> ms w = Missing \<and> cs w = Missing"

abbreviation keeps_store :: "('w client, 'a) state \<Rightarrow> bool" where
  "keeps_store \<equiv> frame_relation.keeps (same_store ms cs ready)"

lemma ready_pre:
  assumes "ready w \<Longrightarrow> wp m P s" and "wp m Q s"
  shows "wp m (\<lambda>r t. Q r t \<and> (ready w \<longrightarrow> P r t)) s"
  using assms by (cases "ready w") (simp_all add: wp_conj)

lemma metadata_Load:
  "wp (stg_Load (svc_metadata S)) (\<lambda>r t. same_store ms cs ready s t \<and> same_heap s t \<and>
     (case r of Inr v \<Rightarrow> ms (outside s) = Stored v
      | Inl e \<Rightarrow> errors_Is e ErrNoRoomMetadata \<longrightarrow> ms (outside s) = Missing) \<and>
     (ready (outside s) \<and> ms (outside s) = Missing \<longrightarrow> (\<exists>e. r = Inl e \<and> errors_Is e ErrNoRoomMetadata)) \<and>
     (\<forall>v. ready (outside s) \<and> ms (outside s) = Stored v \<longrightarrow> r = Inr v)) s"
proof -
  have "frame_relation.keeps (same_slot cs) (stg_Load (svc_metadata S))" "heap.keeps (stg_Load (svc_metadata S))"
    using metadata_apart by (simp_all add: storage_apart_def)
  note k = slot.keeps_wp [OF this(1)] heap.keeps_wp [OF this(2)]
  show ?thesis
    by (rule wp_mono [OF wp_conjI [OF ready_pre [OF md.load_ready md.load_slot] wp_conjI [OF k]]])
       (auto simp: same_store_def same_slot_def)
qed

lemma code_Load:
  "wp (stg_Load (svc_codes S)) (\<lambda>r t. same_store ms cs ready s t \<and> same_heap s t \<and>
     (case r of Inr v \<Rightarrow> cs (outside s) = Stored v
      | Inl e \<Rightarrow> errors_Is e ErrNoProtectedRoomCode \<longrightarrow> cs (outside s) = Missing) \<and>
     (ready (outside s) \<and> cs (outside s) = Missing \<longrightarrow> (\<exists>e. r = Inl e \<and> errors_Is e ErrNoProtectedRoomCode)) \<and>
     (\<forall>v. ready (outside s) \<and> cs (outside s) = Stored v \<longrightarrow> r = Inr v)) s"
proof -
  have "frame_relation.keeps (same_slot ms) (stg_Load (svc_codes S))" "heap.keeps (stg_Load (svc_codes S))"
    using codes_apart by (simp_all add: storage_apart_def)
  note k = slot.keeps_wp [OF this(1)] heap.keeps_wp [OF this(2)]
  show ?thesis
    by (rule wp_mono [OF wp_conjI [OF ready_pre [OF cd.load_ready cd.load_slot] wp_conjI [OF k]]])
       (auto simp: same_store_def same_slot_def)
qed

lemma metadata_Save:
  "wp (stg_Save (svc_metadata S) v) (\<lambda>r t. cs (outside t) = cs (outside s) \<and> same_heap s t \<and>
     (ready (outside s) \<longrightarrow> ready (outside t)) \<and>
     (case r of Inr _ \<Rightarrow> ms (outside t) \<noteq> Missing \<and> (storable_m v \<longrightarrow> ms (outside t) = Stored v)
      | Inl _ \<Rightarrow> ms (outside t) = ms (outside s))) s"
proof -
  have "frame_relation.keeps (same_slot cs) (stg_Save (svc_metadata S) v)" "heap.keeps (stg_Save (svc_metadata S) v)"
    using metadata_apart by (simp_all add: storage_apart_def)
  note k = slot.keeps_wp [OF this(1)] heap.keeps_wp [OF this(2)]
  show ?thesis
    by (rule wp_mono [OF wp_conjI [OF ready_pre [OF md.save_ready md.save_slot] wp_conjI [OF k]]])
       (auto simp: same_slot_def)
qed

lemma code_Save:
  "wp (stg_Save (svc_codes S) v) (\<lambda>r t. ms (outside t) = ms (outside s) \<and> same_heap s t \<and>
     (ready (outside s) \<longrightarrow> ready (outside t)) \<and>
     (case r of Inr _ \<Rightarrow> cs (outside t) \<noteq> Missing \<and> (storable_c v \<longrightarrow> cs (outside t) = Stored v)
      | Inl _ \<Rightarrow> cs (outside t) = cs (outside s))) s"
proof -
  have "frame_relation.keeps (same_slot ms) (stg_Save (svc_codes S) v)" "heap.keeps (stg_Save (svc_codes S) v)"
    using codes_apart by (simp_all add: storage_apart_def)
  note k = slot.keeps_wp [OF this(1)] heap.keeps_wp [OF this(2)]
  show ?thesis
    by (rule wp_mono [OF wp_conjI [OF ready_pre [OF cd.save_ready cd.save_slot] wp_conjI [OF k]]])
       (auto simp: same_slot_def)
qed

lemma metadata_Clear:
  "wp (stg_Clear (svc_metadata S)) (\<lambda>r t. cs (outside t) = cs (outside s) \<and> same_heap s t \<and>
     ms (outside t) = (case r of Inr _ \<Rightarrow> Missing | Inl _ \<Rightarrow> ms (outside s)) \<and>
     (ready (outside s) \<longrightarrow> ready (outside t) \<and> r = Inr ())) s"
proof -
  have "frame_relation.keeps (same_slot cs) (stg_Clear (svc_metadata S))" "heap.keeps (stg_Clear (svc_metadata S))"
    using metadata_apart by (simp_all add: storage_apart_def)
  note k = slot.keeps_wp [OF this(1)] heap.keeps_wp [OF this(2)]
  show ?thesis
    by (rule wp_mono [OF wp_conjI [OF ready_pre [OF md.clear_ready md.clear_slot] wp_conjI [OF k]]])
       (auto simp: same_slot_def)
qed

lemma code_Clear:
  "wp (stg_Clear (svc_codes S)) (\<lambda>r t. ms (outside t) = ms (outside s) \<and> same_heap s t \<and>
     cs (outside t) = (case r of Inr _ \<Rightarrow> Missing | Inl _ \<Rightarrow> cs (outside s)) \<and>
     (ready (outside s) \<longrightarrow> ready (outside t) \<and> r = Inr ())) s"
proof -
  have "frame_relation.keeps (same_slot ms) (stg_Clear (svc_codes S))" "heap.keeps (stg_Clear (svc_codes S))"
    using codes_apart by (simp_all add: storage_apart_def)
  note k = slot.keeps_wp [OF this(1)] heap.keeps_wp [OF this(2)]
  show ?thesis
    by (rule wp_mono [OF wp_conjI [OF ready_pre [OF cd.clear_ready cd.clear_slot] wp_conjI [OF k]]])
       (auto simp: same_slot_def)
qed

end

end
