(* ===== verification/SessionSecrets.thy ===== *)
theory SessionSecrets
  imports SessionEnv
begin

text \<open>
  No setup key outlives the command that obtained it, and no command leaves the service busy.
\<close>

section \<open>Frames on the session\<close>

definition session_held :: "'w session \<Rightarrow> 'w session \<Rightarrow> bool" where
  "session_held s t \<longleftrightarrow> keys_held (sv_client s) (sv_client t)"

interpretation sheld: frame_relation session_held
  by unfold_locales (auto simp: session_held_def intro: held.trans)

lemma sheld_in_client: "held.keeps m \<Longrightarrow> sheld.keeps (in_client m)"
  unfolding in_client_def
  by (rule sheld.keepsI)
     (auto simp: run_on_field session_held_def split: prod.splits dest: held.keepsD)

lemma sheld_state:
  "(\<And>s. sv_client (snd (run_state m s)) = sv_client s) \<Longrightarrow> sheld.keeps m"
  by (auto simp: sheld.keeps_def session_held_def)

lemma sheld_parts:
  "sheld.keeps (machine_Apply facts)" "sheld.keeps service_State" "sheld.keeps (markStale e)"
  "sheld.keeps (State_Monad.update (\<lambda>s. s\<lparr>sv_peer_state := p\<rparr>))"
  by (auto intro!: sheld_state simp: machine_Apply_def run_on_field service_State_def markStale_def
      Let_def State_Monad.update_def split: prod.splits)

lemma sheld_answers: "sheld.keeps (service_fail e)" "sheld.keeps (service_done facts)"
  unfolding service_fail_def service_done_def by (auto intro!: sheld.keeps_intros sheld_parts)

lemma sheld_begin: "sheld.keeps beginCommand" "sheld.keeps endCommand"
  by (auto intro!: sheld_state simp: beginCommand_def endCommand_def State_Monad.update_def)

lemma sheld_run_command: "sheld.keeps body \<Longrightarrow> sheld.keeps (run_command body)"
  unfolding run_command_def
  by (auto intro!: sheld.keeps_intros sheld_begin sheld_parts)

definition same_busy :: "'w session \<Rightarrow> 'w session \<Rightarrow> bool" where
  "same_busy s t \<longleftrightarrow> sv_busy t = sv_busy s"

interpretation busy: frame_relation same_busy
  by unfold_locales (auto simp: same_busy_def)

lemma busy_state: "(\<And>s. sv_busy (snd (run_state m s)) = sv_busy s) \<Longrightarrow> busy.keeps m"
  by (auto simp: busy.keeps_def same_busy_def)

lemma busy_parts:
  "busy.keeps (in_client m)" "busy.keeps (machine_Apply facts)" "busy.keeps service_State"
  "busy.keeps (markStale e)" "busy.keeps (State_Monad.update (\<lambda>s. s\<lparr>sv_peer_state := p\<rparr>))"
  by (auto intro!: busy_state simp: in_client_def machine_Apply_def run_on_field service_State_def
      markStale_def Let_def State_Monad.update_def split: prod.splits)

lemma busy_answers: "busy.keeps (service_fail e)" "busy.keeps (service_done facts)"
  unfolding service_fail_def service_done_def by (auto intro!: busy.keeps_intros busy_parts)

text \<open>A command gives the flag back that it took; one that was refused leaves it to its owner.\<close>

lemma busy_run_command: "busy.keeps (run_command body)"
proof (rule busy.keepsI)
  fix s t :: "'a session" and r
  assume run: "run_state (run_command body) s = (r, t)"
  have "wp (run_command body) (\<lambda>r t. same_busy s t) s"
    by (cases "sv_busy s") (auto simp: wp_run_command same_busy_def intro: wp_any)
  then show "same_busy s t" using run by (rule wpD)
qed

lemmas busy_intros = busy.keeps_intros busy_parts busy_answers busy_run_command

lemma busy_enrollUnlocked: "busy.keeps (enrollUnlocked S ctx hostname obtain_enrollment)"
  unfolding enrollUnlocked_def by (auto intro!: busy_intros)

lemma busy_leaveUnlocked: "busy.keeps (leaveUnlocked S ctx)"
  unfolding leaveUnlocked_def Let_def by (auto intro!: busy_intros)

lemma busy_service_enroll: "busy.keeps (service_enroll S ctx hostname obtain_enrollment)"
  unfolding service_enroll_def Let_def by (auto intro!: busy_intros busy_enrollUnlocked)

lemma busy_switch_enroll: "busy.keeps (switch_enroll S ctx request hostname)"
  unfolding switch_enroll_def by (auto intro!: busy_intros busy_enrollUnlocked)

lemma busy_peers_Refresh: "busy.keeps (peers_Refresh R r ctx)"
  unfolding peers_Refresh_def Let_def by (auto intro!: busy_intros)

text \<open>The bodies that run between the two halves of a command.\<close>

lemma busy_calls: "busy.keeps (run_call S c)"
proof (cases c)
  case (Call_Switch ctx request)
  then show ?thesis
    by (auto simp: error_of_def service_Switch_def Let_def
        intro!: busy_intros busy_leaveUnlocked busy_switch_enroll)
next
  case (Call_View ctx)
  then show ?thesis
    by (auto simp: failure_of_def service_View_def Let_def
        intro!: busy_intros busy_peers_Refresh split: option.splits)
qed (auto simp: error_of_def failure_of_def service_Create_def service_Join_def service_Leave_def
       service_Disconnect_def service_Reconnect_def service_Connect_def RevealRoomCode_def
       intro!: busy_intros busy_service_enroll busy_leaveUnlocked)

section \<open>Setup keys\<close>

context session_env
begin

lemma held_storage:
  "held.keeps (stg_Load (svc_metadata S))" "held.keeps (stg_Load (svc_codes S))"
  "held.keeps (stg_Save (svc_metadata S) m)" "held.keeps (stg_Save (svc_codes S) c)"
  "held.keeps (stg_Clear (svc_metadata S))" "held.keeps (stg_Clear (svc_codes S))"
  using metadata_apart codes_apart by (auto simp: storage_apart_def intro!: heap_held)

lemma held_adapter:
  "held.keeps (ad_Deregister (svc_netbird S) ctx p)" "held.keeps (ad_RemoveProfile (svc_netbird S) ctx p)"
  "held.keeps (ad_CreateProfile (svc_netbird S) ctx n)" "held.keeps (ad_Connect (svc_netbird S) ctx p)"
  "held.keeps (ad_Disconnect (svc_netbird S) ctx p)" "held.keeps (ad_Status (svc_netbird S) ctx)"
  "held.keeps (ad_Enroll (svc_netbird S) ctx request)"
  using adapter_held by (auto simp: adapter_keeps_def)

lemma runtime_held: "runtime_keeps keys_held rt"
  by (simp add: runtime_keeps_def held_in_world)

lemma held_Resume: "held.keeps (Resume (svc_runtime S) (svc_monitor S) ctx p)"
  unfolding monitor
  by (rule Resume_keeps [OF _ adapter_held runtime_held]) unfold_locales

lemmas held_intros = held.keeps_intros held_storage held_adapter held_in_world

lemma held_loads: "held.keeps (loadSavedRoom S)" "held.keeps (requireEmptyStorage S)"
  unfolding loadSavedRoom_def requireEmptyStorage_def
  by (auto intro!: held_intros split: sum.splits)

lemma held_compensate: "held.keeps (tx_wrap S t cause ctx)"
  unfolding tx_wrap_def compensate_def cleanup_step_def Let_def by (auto intro!: held_intros)

lemmas settled_parts =
  held_adapter [THEN settled_held] held_storage [THEN settled_held] held_in_world [THEN settled_held]
  held_compensate [THEN settled_held]

lemma settled_failed_step:
  "settled.keeps e m \<Longrightarrow> settled.keeps e k \<Longrightarrow> settled.keeps e (failed_step S t ctx m k)"
  unfolding failed_step_def
  by (auto intro!: settled.keeps_intros settled_parts)

lemma settled_enroll_profile: "settled.keeps e (enroll_profile S ctx hostname e)"
  unfolding enroll_profile_def enroll_commit_def Let_def
  by (auto intro!: settled.keeps_intros settled_failed_step settled_ConsumeSetupKey held_adapter
      settled_parts)

lemma settled_wp: "settled.keeps e m \<Longrightarrow> settled e s \<Longrightarrow> wp m (\<lambda>r t. settled e t) s"
  by (rule settled.wp_keeps) (auto simp: settled_frame_def)

lemma no_live_wp: "held.keeps m \<Longrightarrow> no_live_key s \<Longrightarrow> wp m (\<lambda>r t. no_live_key t) s"
  by (rule held.wp_keeps) (auto intro: held_no_live)

abbreviation clean_heap :: "'w session \<Rightarrow> bool" where "clean_heap s \<equiv> no_live_key (sv_client s)"

text \<open>Whatever comes of an enrollment, its key is gone at the end of the command.\<close>

lemma enrollUnlocked_keys:
  assumes "hands_out_key (obtain_enrollment ctx)" and "clean_heap s"
  shows "wp (enrollUnlocked S ctx hostname obtain_enrollment) (\<lambda>r t. clean_heap t) s"
  unfolding enrollUnlocked_def wp_bind wp_in_client
proof (rule wp_mono [OF no_live_wp [OF held_loads(2) assms(2)]], goal_cases)
  case (1 required c)
  show ?case
  proof (cases required)
    case (Some x)
    with 1 show ?thesis by (auto intro!: wp_answers)
  next
    case None
    have o: "wp (obtain_enrollment ctx)
        (\<lambda>r t. case r of Inl e \<Rightarrow> no_live_key t | Inr e \<Rightarrow> holds_key e t) c"
      using assms(1) 1 by (simp add: hands_out_key_def)
    have f: "settled.keeps en (enrolled_facts S ctx)" for en
      unfolding enrolled_facts_def
      by (auto intro!: settled.keeps_intros settled_parts)
    show ?thesis unfolding None option.case wp_bind
    proof (rule wp_machine_Apply, unfold wp_in_client, simp, rule wp_mono [OF o], goal_cases)
      case (1 m r d)
      show ?case
      proof (cases r)
        case (Inl x)
        with 1 show ?thesis by (auto intro!: wp_answers)
      next
        case (Inr en)
        then have s: "settled en d" using 1 by (simp add: settled_def)
        have D: "wp (DiscardSetupKey en) (\<lambda>r t. no_live_key t) u" if "settled en u" for u
          by (rule wp_mono [OF wp_DiscardSetupKey [OF that]]) simp
        show ?thesis unfolding Inr sum.case wp_bind wp_in_client
        proof (rule wp_mono [OF settled_wp [OF settled_enroll_profile]], simp add: s, goal_cases)
          case (1 r u)
          show ?case
          proof (cases r)
            case (Inl x)
            with 1 show ?thesis
              by (auto simp: wp_simps intro!: wp_answers D)
          next
            case (Inr x)
            with 1 show ?thesis
              by (auto simp: wp_simps intro!: wp_answers D wp_mono [OF settled_wp [OF f]])
          qed
        qed
      qed
    qed
  qed
qed

lemma service_enroll_keys:
  assumes "hands_out_key (obtain_enrollment ctx)" and "clean_heap s"
  shows "wp (service_enroll S ctx hostname obtain_enrollment) (\<lambda>r t. clean_heap t) s"
  using assms(2) unfolding service_enroll_def Let_def
  by (auto simp: wp_simps intro!: wp_answers
      wp_mono [OF enrollUnlocked_keys [where ctx = ctx and obtain_enrollment = obtain_enrollment, OF assms(1)]])

lemma newCreateIntent_keys:
  "no_live_key s \<Longrightarrow> wp (newCreateIntent rt) (\<lambda>r t. no_live_key t) s"
  unfolding newCreateIntent_def wp_bind
  by (rule wp_mono [OF no_live_wp [OF held_in_world]])
     (auto simp: wp_simps no_live_key_def split: sum.splits)

lemma Create_keys: "clean_heap s \<Longrightarrow> wp (service_Create S ctx hostname) (\<lambda>r t. clean_heap t) s"
  unfolding service_Create_def wp_bind wp_in_client
proof (rule wp_mono [OF newCreateIntent_keys], simp, goal_cases)
  case (1 r c)
  then show ?case
    by (cases r) (auto intro!: wp_answers service_enroll_keys Create_key)
qed

lemma Join_keys: "clean_heap s \<Longrightarrow> wp (service_Join S ctx code hostname) (\<lambda>r t. clean_heap t) s"
  unfolding service_Join_def by (rule service_enroll_keys [OF Join_key])

text \<open>The other calls leave the keys alone.\<close>

lemma sheld_storage:
  "sheld.keeps (in_client (loadSavedRoom S))" "sheld.keeps (in_client (stg_Load (svc_codes S)))"
  "sheld.keeps (in_client (stg_Clear (svc_metadata S)))" "sheld.keeps (in_client (stg_Clear (svc_codes S)))"
  "sheld.keeps (in_client (ad_Status (svc_netbird S) ctx))"
  "sheld.keeps (in_client (Resume (svc_runtime S) (svc_monitor S) ctx p))"
  by (auto intro!: sheld_in_client held_storage held_loads held_adapter held_Resume)

lemmas sheld_intros = sheld.keeps_intros sheld_storage sheld_answers sheld_parts

lemma sheld_leaveUnlocked: "sheld.keeps (leaveUnlocked S ctx)"
  unfolding leaveUnlocked_def Let_def
  by (auto intro!: sheld_intros sheld_in_client held_intros held_loads)

lemma sheld_Disconnect: "sheld.keeps (service_Disconnect S ctx)"
  unfolding service_Disconnect_def
  by (auto intro!: sheld_intros sheld_run_command sheld_in_client held_intros held_loads)

lemma sheld_Reconnect: "sheld.keeps (service_Reconnect S ctx)"
  unfolding service_Reconnect_def
  by (auto intro!: sheld_intros sheld_run_command)

lemma sheld_peers_Refresh:
  assumes "svc_peers S = Some r"
  shows "sheld.keeps (peers_Refresh (svc_runtime S) r ctx)"
  using peers [OF assms] unfolding peers_Refresh_def Let_def
  by (auto intro!: sheld_intros sheld_in_client held_intros)

lemma sheld_View: "sheld.keeps (service_View S ctx)"
  unfolding service_View_def Let_def
  by (auto intro!: sheld_intros sheld_peers_Refresh split: option.splits)

lemma sheld_Reveal: "sheld.keeps (RevealRoomCode S)"
  unfolding RevealRoomCode_def by (auto intro!: sheld_intros)

lemma sheld_wp: "sheld.keeps m \<Longrightarrow> clean_heap s \<Longrightarrow> wp m (\<lambda>r t. clean_heap t) s"
  by (rule sheld.wp_keeps) (auto simp: session_held_def intro: held_no_live)

lemma switch_enroll_keys:
  "clean_heap s \<Longrightarrow> wp (switch_enroll S ctx request hostname) (\<lambda>r t. clean_heap t) s"
  unfolding switch_enroll_def wp_if wp_bind wp_in_client
proof (intro if_bool_eq_conj [THEN iffD2] conjI impI, goal_cases)
  case 1
  show ?case
  proof (rule wp_mono [OF newCreateIntent_keys [OF 1(1)]], goal_cases)
    case (1 r c)
    then show ?case
      by (cases r) (auto intro!: wp_answers Create_key
          enrollUnlocked_keys [where obtain_enrollment = "\<lambda>ctx. room_Create (svc_rooms S) ctx i" for i])
  qed
next
  case 2
  then show ?case
    by (intro enrollUnlocked_keys [where
          obtain_enrollment = "\<lambda>ctx. room_Join (svc_rooms S) ctx (sw_RoomCode request)"] Join_key)
qed

lemma Switch_keys: "clean_heap s \<Longrightarrow> wp (service_Switch S ctx request) (\<lambda>r t. clean_heap t) s"
  unfolding service_Switch_def Let_def
  by (auto simp: wp_simps wp_case_prod
      intro!: wp_answers no_live_wp [OF held_loads(1), THEN wp_mono]
        sheld_wp [OF sheld_leaveUnlocked, THEN wp_mono] switch_enroll_keys
      split: sum.splits)

lemma call_keys: "clean_heap s \<Longrightarrow> wp (run_call S c) (\<lambda>r t. clean_heap t) s"
  by (cases c)
     (auto simp: wp_error_of wp_failure_of service_Leave_def service_Connect_def
       intro!: Create_keys Join_keys Switch_keys sheld_wp sheld_run_command sheld_leaveUnlocked
         sheld_Disconnect sheld_Reconnect sheld_View sheld_Reveal)

lemma calls_keys: "clean_heap s \<Longrightarrow> clean_heap (snd (run_calls S calls s))"
proof (induction calls arbitrary: s)
  case (Cons c calls)
  obtain e t where 1: "run_state (run_call S c) s = (e, t)" by fastforce
  then have "clean_heap t" using call_keys [OF Cons.prems, of c] by (simp add: wp_def)
  then show ?case using Cons.IH [of t] 1 by (auto split: prod.splits)
qed simp

end

end
