(* ===== verification/SessionStorage.thy ===== *)
theory SessionStorage
  imports SessionEnv
begin

text \<open>
  What the commands of the session do to the two storages: an enrollment stores both halves of a room
  or none, leaving clears both, and a room of which only one half is left is never repaired.
\<close>

definition half_saved :: "('w \<Rightarrow> 'm slot) \<Rightarrow> ('w \<Rightarrow> 'c slot) \<Rightarrow> 'w \<Rightarrow> bool" where
  "half_saved ms cs w \<longleftrightarrow> (ms w = Missing) \<noteq> (cs w = Missing)"

lemma same_store_half:
  "same_store ms cs ready s t \<Longrightarrow> half_saved ms cs (outside t) = half_saved ms cs (outside s)"
  by (simp add: same_store_def half_saved_def)

text \<open>
  The abstract machine: there is a saved room or there is none.  \<open>room_step\<close> lists the states a call with
  that error may lead to.
\<close>

datatype saved_room = NoRoom | SavedRoom

fun room_step :: "session_call \<Rightarrow> goerr option \<Rightarrow> saved_room \<Rightarrow> saved_room list" where
  "room_step (Call_Create ctx hostname) None r = (if r = NoRoom then [SavedRoom] else [])"
| "room_step (Call_Join ctx code hostname) None r = (if r = NoRoom then [SavedRoom] else [])"
| "room_step (Call_Leave ctx) None r = (if r = SavedRoom then [NoRoom] else [])"
| "room_step (Call_Switch ctx request) None r = [SavedRoom]"
| "room_step (Call_Switch ctx request) (Some e) r = [r, NoRoom]"
| "room_step c None r = (if r = SavedRoom then [SavedRoom] else [])"
| "room_step c (Some e) r = [r]"

fun follows :: "session_call list \<Rightarrow> goerr option list \<Rightarrow> saved_room \<Rightarrow> saved_room \<Rightarrow> bool" where
  "follows [] [] r r' = (r = r')"
| "follows (c # calls) (x # xs) r r' = list_ex (\<lambda>q. follows calls xs q r') (room_step c x r)"
| "follows _ _ r r' = False"

context session_env
begin

abbreviation half :: "'w \<Rightarrow> bool" where "half \<equiv> half_saved ms cs"
abbreviation same :: "'w client \<Rightarrow> 'w client \<Rightarrow> bool" where "same \<equiv> same_store ms cs ready"

abbreviation conflict :: goerr where "conflict \<equiv> Sentinel ErrStoredStateConflict"

section \<open>Reading\<close>

lemma loadSavedRoom_wp:
  "wp (loadSavedRoom S) (\<lambda>r t. same s t \<and> same_heap s t \<and>
     (case r of
        Inr m \<Rightarrow> ms (outside s) = Stored m \<and> cs (outside s) \<noteq> Missing
      | Inl e \<Rightarrow> e = conflict \<or> e = Sentinel ErrNoRoomMetadata \<and> missing_both (outside s)) \<and>
     (half (outside s) \<longrightarrow> r = Inl conflict)) s"
  unfolding loadSavedRoom_def wp_bind
proof (rule wp_mono [OF metadata_Load], rule wp_mono [OF code_Load], goal_cases)
  case (1 m t c u)
  then have "same s u" "same_heap s u" by (auto intro: store.trans heap.trans)
  moreover have "cs (outside t) = cs (outside s)" using 1(1) by (simp add: same_store_def)
  moreover have "case m of Inr v \<Rightarrow> ms (outside s) = Stored v
      | Inl e \<Rightarrow> errors_Is e ErrNoRoomMetadata \<longrightarrow> ms (outside s) = Missing"
    and "case c of Inr v \<Rightarrow> cs (outside t) = Stored v
      | Inl e \<Rightarrow> errors_Is e ErrNoProtectedRoomCode \<longrightarrow> cs (outside t) = Missing"
    using 1 by blast+
  ultimately show ?case
    by (cases m; cases c) (auto simp: wp_simps half_saved_def)
qed

lemma requireEmptyStorage_wp:
  "wp (requireEmptyStorage S) (\<lambda>r t. same s t \<and> same_heap s t \<and>
     (case r of
        None \<Rightarrow> missing_both (outside s)
      | Some e \<Rightarrow> e = conflict \<or> e = Sentinel ErrRoomAlreadySaved \<and> \<not> half (outside s)) \<and>
     (half (outside s) \<longrightarrow> r = Some conflict)) s"
  unfolding requireEmptyStorage_def wp_bind
proof (rule wp_mono [OF metadata_Load], rule wp_mono [OF code_Load], goal_cases)
  case (1 m t c u)
  then have "same s u" "same_heap s u" by (auto intro: store.trans heap.trans)
  moreover have "cs (outside t) = cs (outside s)" using 1(1) by (simp add: same_store_def)
  moreover have "case m of Inr v \<Rightarrow> ms (outside s) = Stored v
      | Inl e \<Rightarrow> errors_Is e ErrNoRoomMetadata \<longrightarrow> ms (outside s) = Missing"
    and "case c of Inr v \<Rightarrow> cs (outside t) = Stored v
      | Inl e \<Rightarrow> errors_Is e ErrNoProtectedRoomCode \<longrightarrow> cs (outside t) = Missing"
    using 1 by blast+
  ultimately show ?case
    by (cases m; cases c) (auto simp: wp_simps half_saved_def)
qed

section \<open>Compensation\<close>

lemma adapter_wp:
  "wp (ad_Deregister (svc_netbird S) c p) (\<lambda>r t. same s t) s"
  "wp (ad_RemoveProfile (svc_netbird S) c p) (\<lambda>r t. same s t) s"
  "wp (ad_CreateProfile (svc_netbird S) c n) (\<lambda>r t. same s t) s"
  "wp (ad_Connect (svc_netbird S) c p) (\<lambda>r t. same s t) s"
  "wp (ad_Disconnect (svc_netbird S) c p) (\<lambda>r t. same s t) s"
  "wp (ad_Status (svc_netbird S) c) (\<lambda>r t. same s t) s"
  using adapter_store by (auto intro!: store.keeps_wp simp: adapter_keeps_def)

text \<open>A step of the compensation that fails is counted.\<close>

lemma wp_cleanup_step [wp_simps]:
  "wp (cleanup_step due m t) Q s =
     (if due then wp m (\<lambda>r u. Q (case r of Inl _ \<Rightarrow> t\<lparr>tx_cleanupFailures := tx_cleanupFailures t + 1\<rparr>
                                    | Inr _ \<Rightarrow> t) u) s
      else Q t s)"
  by (simp add: cleanup_step_def wp_simps)

lemma compensate_wp:
  assumes "\<not> tx_compensated t"
  shows "wp (compensate S t ctx) (\<lambda>t' u.
     (ready (outside s) \<longrightarrow> ready (outside u)) \<and>
     (ms (outside u) = (if tx_metadataWriteAttempted t then Missing else ms (outside s)) \<or>
        ms (outside u) = ms (outside s) \<and> 0 < tx_cleanupFailures t' \<and> \<not> ready (outside s)) \<and>
     (cs (outside u) = (if tx_codeWriteAttempted t then Missing else cs (outside s)) \<or>
        cs (outside u) = cs (outside s) \<and> 0 < tx_cleanupFailures t' \<and> \<not> ready (outside s))) s"
proof -
  let ?A = "\<lambda>t' u. same s u \<and> tx_metadataWriteAttempted t' = tx_metadataWriteAttempted t \<and>
     tx_codeWriteAttempted t' = tx_codeWriteAttempted t"
  have 1: "wp (cleanup_step due (ad_Deregister (svc_netbird S) c p) t') ?A s"
    if "?A t' s" for due t' c p
    using that by (auto simp: wp_simps split: sum.splits intro!: wp_mono [OF adapter_wp(1)])
  have 2: "wp (cleanup_step True (ad_RemoveProfile (svc_netbird S) c p) t') ?A u" if "?A t' u" for t' u c p
    using that by (auto simp: wp_simps split: sum.splits intro!: wp_mono [OF adapter_wp(2)]
        intro: store.trans)
  let ?B = "\<lambda>t' u. cs (outside u) = cs (outside s) \<and> (ready (outside s) \<longrightarrow> ready (outside u)) \<and>
     tx_codeWriteAttempted t' = tx_codeWriteAttempted t \<and>
     (ms (outside u) = (if tx_metadataWriteAttempted t then Missing else ms (outside s)) \<or>
        ms (outside u) = ms (outside s) \<and> 0 < tx_cleanupFailures t' \<and> \<not> ready (outside s))"
  have 3: "wp (cleanup_step (tx_metadataWriteAttempted t') (stg_Clear (svc_metadata S)) t') ?B u"
    if "?A t' u" for t' u
    using that
    by (auto simp: wp_simps same_store_def split: sum.splits intro!: wp_mono [OF metadata_Clear])
  have 4: "wp (cleanup_step (tx_codeWriteAttempted t') (stg_Clear (svc_codes S)) t') (\<lambda>t' u.
     (ready (outside s) \<longrightarrow> ready (outside u)) \<and>
     (ms (outside u) = (if tx_metadataWriteAttempted t then Missing else ms (outside s)) \<or>
        ms (outside u) = ms (outside s) \<and> 0 < tx_cleanupFailures t' \<and> \<not> ready (outside s)) \<and>
     (cs (outside u) = (if tx_codeWriteAttempted t then Missing else cs (outside s)) \<or>
        cs (outside u) = cs (outside s) \<and> 0 < tx_cleanupFailures t' \<and> \<not> ready (outside s))) u"
    if "?B t' u" for t' u
    using that
    by (auto simp: wp_simps split: sum.splits intro!: wp_mono [OF code_Clear])
  have t: "?A (t\<lparr>tx_compensated := True\<rparr>) s" by (simp add: store.refl)
  show ?thesis
    unfolding compensate_def Let_def if_not_P [OF assms] wp_bind
    by (rule wp_mono [OF 1 [OF t]], rule wp_mono [OF 2], assumption, rule wp_mono [OF 3], assumption,
        rule 4, assumption)
qed

section \<open>Enrolling\<close>

text \<open>
  \<open>undone e w w'\<close>: what an error says about the storages. Nothing is stored, or the error counts
  failed cleanups, which takes a fault of the disk.
\<close>

definition undone :: "goerr \<Rightarrow> 'w \<Rightarrow> 'w \<Rightarrow> bool" where
  "undone e w w' \<longleftrightarrow> missing_both w' \<or> \<not> ready w \<and> (\<exists>c n. e = TransactionError c n \<and> 0 < n)"

lemma tx_wrap_wp:
  assumes "\<not> tx_compensated t" and "ready w \<longrightarrow> ready (outside s)"
    and "tx_metadataWriteAttempted t \<or> ms (outside s) = Missing"
    and "tx_codeWriteAttempted t \<or> cs (outside s) = Missing"
  shows "wp (tx_wrap S t cause ctx) (\<lambda>e u. (ready w \<longrightarrow> ready (outside u)) \<and> undone e w (outside u)) s"
  unfolding tx_wrap_def wp_bind wp_return
  by (rule wp_mono [OF compensate_wp [OF assms(1)]])
     (use assms(2-4) in \<open>auto simp: undone_def split: if_splits\<close>)

lemma store_ConsumeSetupKey:
  assumes "\<And>k. keeps_store (f k)"
  shows "keeps_store (ConsumeSetupKey e (Some f))"
proof -
  have "keeps_store (takeSetupKey e)"
    by (rule store.keepsI)
       (auto simp: takeSetupKey_def same_store_def split: option.splits bool.splits if_splits)
  moreover have "keeps_store (SetupKey_Clear k)" for k
    by (rule store.keepsI)
       (auto simp: SetupKey_Clear_def same_store_def State_Monad.update_def split: option.splits)
  ultimately show ?thesis
    using assms unfolding ConsumeSetupKey_def
    by (auto intro!: store.keeps_intros)
qed

lemma enroll_step_wp:
  "wp (ConsumeSetupKey e (Some (\<lambda>k. ad_Enroll (svc_netbird S) ctx (f k)))) (\<lambda>r u. same s u) s"
  by (rule store.keeps_wp [OF store_ConsumeSetupKey])
     (use adapter_store in \<open>simp add: adapter_keeps_def\<close>)

lemma time_store_wp: "wp (in_world (time_Now (svc_runtime S))) (\<lambda>r u. same s u) s"
  by (rule store.keeps_wp) (use runtime_store in \<open>simp add: runtime_keeps_def\<close>)

abbreviation enrolled :: "Enrollment \<Rightarrow> goerr + unit \<Rightarrow> 'w \<Rightarrow> 'w \<Rightarrow> bool" where
  "enrolled e r w w' \<equiv> (ready w \<longrightarrow> ready w') \<and>
     (case r of
        Inr _ \<Rightarrow> ms w' \<noteq> Missing \<and> cs w' \<noteq> Missing \<and>
          (storable_c (en_RoomCode e) \<longrightarrow> cs w' = Stored (en_RoomCode e))
      | Inl x \<Rightarrow> undone x w w')"

lemma enroll_commit_wp:
  assumes missing: "missing_both (outside s)"
  shows "wp (enroll_commit S ctx hostname e profile) (\<lambda>r u. enrolled e r (outside s) (outside u)) s"
proof -
  let ?t1 = "(new_transaction (prof_ID profile))\<lparr>tx_enrollmentAttempted := True\<rparr>"
  let ?t2 = "?t1\<lparr>tx_codeWriteAttempted := True\<rparr>"
  let ?t3 = "?t2\<lparr>tx_metadataWriteAttempted := True\<rparr>"
  let ?w = "outside s"
  let ?failed = "\<lambda>t u. \<forall>cause. wp (tx_wrap S t cause ctx)
     (\<lambda>x v. (ready ?w \<longrightarrow> ready (outside v)) \<and> undone x ?w (outside v)) u"
  have f: "?failed ?t1 u" if "same s u" for u
    using missing that
    by (intro allI tx_wrap_wp) (auto simp: same_store_def new_transaction_def)
  have g: "?failed ?t2 u" if "ready ?w \<longrightarrow> ready (outside u)" "ms (outside u) = Missing" for u
    using that by (intro allI tx_wrap_wp) (auto simp: new_transaction_def)
  have h: "?failed ?t3 u" if "ready ?w \<longrightarrow> ready (outside u)" for u
    using that by (intro allI tx_wrap_wp) (auto simp: new_transaction_def)
  let ?code = "\<lambda>u. (ready ?w \<longrightarrow> ready (outside u)) \<and> ms (outside u) = Missing \<and>
     cs (outside u) \<noteq> Missing \<and> (storable_c (en_RoomCode e) \<longrightarrow> cs (outside u) = Stored (en_RoomCode e))"
  have code: "wp (stg_Save (svc_codes S) (en_RoomCode e)) (\<lambda>r v. (ready ?w \<longrightarrow> ready (outside v)) \<and>
      ms (outside v) = Missing \<and> (r = Inr () \<longrightarrow> ?code v)) u" if "same s u" for u
    by (rule wp_mono [OF code_Save]) (use that missing in \<open>auto simp: same_store_def\<close>)
  have save: "wp (do { now \<leftarrow> in_world (time_Now (svc_runtime S)); stg_Save (svc_metadata S) (f now) })
      (\<lambda>r v. (ready ?w \<longrightarrow> ready (outside v)) \<and>
        (r = Inr () \<longrightarrow> enrolled e r ?w (outside v))) u" if "?code u" for u f
    unfolding wp_bind
    by (rule wp_mono [OF time_store_wp], rule wp_mono [OF metadata_Save])
       (use that in \<open>auto simp: same_store_def split: sum.splits\<close>)
  show ?thesis
    unfolding enroll_commit_def Let_def wp_failed_step
  proof (rule wp_mono [OF enroll_step_wp], goal_cases)
    case (1 r u)
    show ?case
    proof (cases r)
      case (Inl x)
      then show ?thesis using f [OF 1] by (simp add: wp_simps)
    next
      case (Inr x)
      have "wp (ad_Connect (svc_netbird S) ctx (prof_ID profile)) (\<lambda>r v. same s v) u"
        by (rule wp_mono [OF adapter_wp(4)]) (rule store.trans [OF 1])
      then show ?thesis unfolding Inr sum.case
      proof (rule wp_mono, goal_cases)
        case (1 r v)
        show ?case
        proof (cases r)
          case (Inl x)
          then show ?thesis using f [OF 1] by (simp add: wp_simps)
        next
          case (Inr x)
          show ?thesis unfolding Inr sum.case
          proof (rule wp_mono [OF code [OF 1]], goal_cases)
            case (1 r v)
            show ?case
            proof (cases r)
              case (Inl x)
              then show ?thesis using g [of v] 1 by (simp add: wp_simps)
            next
              case (Inr x)
              with 1 have "?code v" by simp
              then show ?thesis unfolding Inr sum.case
                by (rule wp_mono [OF save]) (use h in \<open>auto simp: wp_simps split: sum.splits\<close>)
            qed
          qed
        qed
      qed
    qed
  qed
qed

lemma enroll_profile_wp:
  assumes missing: "missing_both (outside s)"
  shows "wp (enroll_profile S ctx hostname e) (\<lambda>r u. enrolled e r (outside s) (outside u)) s"
  unfolding enroll_profile_def wp_bind
proof (rule wp_mono [OF adapter_wp(3)], goal_cases)
  case (1 r u)
  have m: "missing_both (outside u)" and rd: "ready (outside s) \<longrightarrow> ready (outside u)"
    using 1 missing by (auto simp: same_store_def)
  have w: "wp (tx_wrap S (new_transaction p) x ctx) (\<lambda>x v. (ready (outside s) \<longrightarrow> ready (outside v)) \<and>
      undone x (outside s) (outside v)) u" for p x
    using rd m by (intro tx_wrap_wp) (auto simp: new_transaction_def)
  have c: "wp (enroll_commit S ctx hostname e profile) (\<lambda>r v. enrolled e r (outside s) (outside v)) u"
    for profile
    by (rule wp_mono [OF enroll_commit_wp [OF m]])
       (use rd in \<open>auto simp: undone_def split: sum.splits\<close>)
  show ?case
    using m rd w c by (cases r) (auto simp: wp_simps undone_def)
qed

abbreviation world :: "'w session \<Rightarrow> 'w" where "world s \<equiv> outside (sv_client s)"

lemma obtain_store:
  "wp (room_Create (svc_rooms S) ctx i) (\<lambda>r t. same s t) s"
  "wp (room_Join (svc_rooms S) ctx code) (\<lambda>r t. same s t) s"
  by (rule store.keeps_wp [OF Create_store], rule store.keeps_wp [OF Join_store])

lemma Discard_store: "wp (DiscardSetupKey e) (\<lambda>r t. outside t = outside s) s"
  unfolding DiscardSetupKey_def
  by (auto simp: wp_simps split: option.splits)

text \<open>
  \<open>obtained P m\<close>: the enrollments that the call \<open>m\<close> of the room API returns satisfy \<open>P\<close>.
\<close>

definition obtained :: "(Enrollment \<Rightarrow> bool) \<Rightarrow> ('w client, goerr + Enrollment) state \<Rightarrow> bool" where
  "obtained P m \<longleftrightarrow> keeps_store m \<and> (\<forall>s. wps m (\<lambda>e t. P e) s)"

lemma obtained_wp:
  "obtained P m \<Longrightarrow> wp m (\<lambda>r t. same s t \<and> (case r of Inl _ \<Rightarrow> True | Inr e \<Rightarrow> P e)) s"
  unfolding obtained_def wps_def by (intro wp_conjI store.keeps_wp) auto

text \<open>What a command that enrolls did, from the world \<open>w\<close> to \<open>w'\<close> with the error \<open>x\<close>.\<close>

definition enroll_result :: "(Enrollment \<Rightarrow> bool) \<Rightarrow> goerr option \<Rightarrow> 'w \<Rightarrow> 'w \<Rightarrow> bool" where
  "enroll_result P x w w' \<longleftrightarrow> (ready w \<longrightarrow> ready w') \<and>
     (case x of
        None \<Rightarrow> missing_both w \<and> ms w' \<noteq> Missing \<and> cs w' \<noteq> Missing \<and>
          (\<exists>e. P e \<and> (storable_c (en_RoomCode e) \<longrightarrow> cs w' = Stored (en_RoomCode e)))
      | Some e \<Rightarrow> if missing_both w then undone e w w' else ms w' = ms w \<and> cs w' = cs w) \<and>
     (half w \<longrightarrow> x = Some conflict)"

lemma enroll_result_same:
  "same s t \<Longrightarrow> (half (outside s) \<Longrightarrow> e = conflict) \<Longrightarrow> enroll_result P (Some e) (outside s) (outside t)"
  by (auto simp: enroll_result_def same_store_def undone_def)

lemma enrollUnlocked_wp:
  assumes "obtained P (obtain_enrollment ctx)"
  shows "wp (enrollUnlocked S ctx hostname obtain_enrollment)
     (\<lambda>r t. enroll_result P (snd r) (world s) (world t)) s"
  unfolding enrollUnlocked_def wp_bind wp_in_client
proof (rule wp_mono [OF requireEmptyStorage_wp], goal_cases)
  case (1 required c)
  show ?case
  proof (cases required)
    case (Some e)
    with 1 show ?thesis
      by (auto intro!: wp_answers enroll_result_same)
  next
    case None
    have missing: "missing_both (world s)" "\<not> half (world s)" using 1 None by (auto simp: half_saved_def)
    have c: "missing_both (outside c)" "ready (world s) \<longrightarrow> ready (outside c)"
      using 1 missing by (auto simp: same_store_def)
    have e: "wp (enroll_profile S ctx hostname en)
        (\<lambda>r u. enrolled en r (world s) (outside u)) d" if "same c d" for en d
      by (rule wp_mono [OF enroll_profile_wp])
         (use that c in \<open>auto simp: same_store_def undone_def split: sum.splits\<close>)
    have f: "wp (enrolled_facts S ctx) (\<lambda>r u. same d u) d" for d
      unfolding enrolled_facts_def
      by (auto simp: wp_simps intro!: wp_mono [OF adapter_wp(6)])
    show ?thesis unfolding None option.case wp_bind
    proof (rule wp_machine_Apply, unfold wp_in_client, rule wp_mono [OF obtained_wp [OF assms]],
        goal_cases)
      case (1 shown m obt d)
      then have d: "same c d" by simp
      show ?case
      proof (cases obt)
        case (Inl x)
        then show ?thesis
          using c d missing by (auto simp: enroll_result_def same_store_def undone_def intro!: wp_answers)
      next
        case (Inr en)
        with 1 have "P en" by simp
        show ?thesis unfolding Inr sum.case wp_bind wp_in_client
        proof (rule wp_mono [OF e], simp add: d, goal_cases)
          case (1 r u)
          show ?case
          proof (cases r)
            case (Inl x)
            then show ?thesis
              using 1 missing
              by (auto simp: wp_simps enroll_result_def intro!: wp_answers wp_mono [OF Discard_store])
          next
            case (Inr x)
            then show ?thesis
              using 1 missing \<open>P en\<close>
              by (auto simp: wp_simps enroll_result_def same_store_def
                  intro!: wp_answers wp_mono [OF Discard_store] wp_mono [OF f])
          qed
        qed
      qed
    qed
  qed
qed

section \<open>The commands\<close>

text \<open>
  \<open>store_step x w w'\<close>: on a disk without faults both slots are filled or both are empty, and a room of
  which half is left stays as it is and makes the call fail.
\<close>

definition store_step :: "goerr option \<Rightarrow> 'w \<Rightarrow> 'w \<Rightarrow> bool" where
  "store_step x w w' \<longleftrightarrow> (ready w \<longrightarrow> ready w') \<and> (ready w \<and> \<not> half w \<longrightarrow> \<not> half w') \<and>
     (half w \<longrightarrow> ms w' = ms w \<and> cs w' = cs w \<and> x \<noteq> None)"

lemma enroll_result_step: "enroll_result P x w w' \<Longrightarrow> store_step x w w'"
  by (auto simp: enroll_result_def store_step_def half_saved_def undone_def split: option.splits if_splits)

lemma same_step: "same s t \<Longrightarrow> store_step (Some e) (outside s) (outside t)"
  by (auto simp: same_store_def store_step_def half_saved_def)

lemma same_step_None: "same s t \<Longrightarrow> \<not> half (outside s) \<Longrightarrow> store_step None (outside s) (outside t)"
  by (auto simp: same_store_def store_step_def half_saved_def)

lemma store_step_trans:
  "store_step x w w' \<Longrightarrow> store_step y w' w'' \<Longrightarrow> store_step y w w''"
  by (auto simp: store_step_def half_saved_def)

lemma obtained_any: "keeps_store m \<Longrightarrow> obtained (\<lambda>_. True) m"
  by (simp add: obtained_def wps_any)

lemma Join_wp:
  assumes "obtained P (room_Join (svc_rooms S) ctx code)" and "\<not> sv_busy s"
    and "TrimSpace hostname \<noteq> []" and "length (TrimSpace hostname) \<le> 63"
  shows "wp (service_Join S ctx code hostname) (\<lambda>r t. enroll_result P (snd r) (world s) (world t)) s"
  using assms(2-4) unfolding service_Join_def service_enroll_def Let_def
  by (simp add: wp_simps)
     (rule wp_mono [OF enrollUnlocked_wp [where ctx = ctx and P = P and
        obtain_enrollment = "\<lambda>ctx. room_Join (svc_rooms S) ctx code", OF assms(1)]], simp)

text \<open>The outcome that does not depend on whether the command could begin.\<close>

definition enroll_outcome :: "goerr option \<Rightarrow> 'w \<Rightarrow> 'w \<Rightarrow> bool" where
  "enroll_outcome x w w' \<longleftrightarrow> (ready w \<longrightarrow> ready w') \<and>
     (case x of
        None \<Rightarrow> missing_both w \<and> ms w' \<noteq> Missing \<and> cs w' \<noteq> Missing
      | Some e \<Rightarrow> if missing_both w then undone e w w' else ms w' = ms w \<and> cs w' = cs w)"

lemma enroll_result_outcome: "enroll_result P x w w' \<Longrightarrow> enroll_outcome x w w'"
  by (auto simp: enroll_result_def enroll_outcome_def split: option.splits)

lemma enroll_outcome_step: "enroll_outcome x w w' \<Longrightarrow> store_step x w w'"
  by (auto simp: enroll_outcome_def store_step_def half_saved_def undone_def split: option.splits if_splits)

lemma same_outcome: "same s t \<Longrightarrow> enroll_outcome (Some e) (outside s) (outside t)"
  by (auto simp: same_store_def enroll_outcome_def undone_def)

lemma outcome_after: "same s c \<Longrightarrow> enroll_outcome x (outside c) w \<Longrightarrow> enroll_outcome x (outside s) w"
  by (auto simp: same_store_def enroll_outcome_def undone_def split: option.splits if_splits)

lemma service_enroll_wp:
  assumes "obtained P (obtain_enrollment ctx)"
  shows "wp (service_enroll S ctx hostname obtain_enrollment)
    (\<lambda>r t. enroll_outcome (snd r) (world s) (world t)) s"
  unfolding service_enroll_def Let_def
  by (auto simp: wp_simps store.refl intro!: wp_answers same_outcome
        wp_mono [OF enrollUnlocked_wp [where ctx = ctx and obtain_enrollment = obtain_enrollment, OF assms]]
      dest: enroll_result_outcome)

lemma newCreateIntent_wp: "wp (newCreateIntent (svc_runtime S)) (\<lambda>r t. same s t) s"
proof -
  have "wp (in_world (rand_ReadFull (svc_runtime S) 16)) (\<lambda>r u. same s u) s"
    by (rule store.keeps_wp) (use runtime_store in \<open>simp add: runtime_keeps_def\<close>)
  then show ?thesis
    unfolding newCreateIntent_def wp_bind
    by (rule wp_mono) (auto simp: wp_simps same_store_def split: sum.splits)
qed

lemma Create_wp: "wp (service_Create S ctx hostname) (\<lambda>r t. enroll_outcome (snd r) (world s) (world t)) s"
  unfolding service_Create_def wp_bind wp_in_client
proof (rule wp_mono [OF newCreateIntent_wp], goal_cases)
  case (1 r c)
  show ?case
  proof (cases r)
    case (Inl e)
    with 1 show ?thesis by (auto intro!: wp_answers same_outcome)
  next
    case (Inr i)
    show ?thesis unfolding Inr sum.case
      by (rule wp_mono [OF service_enroll_wp [OF obtained_any [OF Create_store]]])
         (use 1 in \<open>auto intro: outcome_after\<close>)
  qed
qed

lemma Join_outcome: "wp (service_Join S ctx code hostname) (\<lambda>r t. enroll_outcome (snd r) (world s) (world t)) s"
  unfolding service_Join_def by (rule service_enroll_wp [OF obtained_any [OF Join_store]])

lemma Join_saves:
  assumes "obtained P (room_Join (svc_rooms S) ctx code)"
  shows "wp (service_Join S ctx code hostname)
    (\<lambda>r t. snd r = None \<longrightarrow> enroll_result P None (world s) (world t)) s"
  unfolding service_Join_def service_enroll_def Let_def
  by (auto simp: wp_simps intro!: wp_answers
        wp_mono [OF enrollUnlocked_wp [where ctx = ctx and
          obtain_enrollment = "\<lambda>ctx. room_Join (svc_rooms S) ctx code", OF assms]])

text \<open>Leaving.\<close>

definition leave_result :: "goerr option \<Rightarrow> 'w \<Rightarrow> 'w \<Rightarrow> bool" where
  "leave_result x w w' \<longleftrightarrow> (ready w \<longrightarrow> ready w') \<and>
     (case x of
        None \<Rightarrow> ms w \<noteq> Missing \<and> cs w \<noteq> Missing \<and> missing_both w'
      | Some e \<Rightarrow> ms w' = ms w \<and> cs w' = cs w \<or>
          \<not> ready w \<and> \<not> half w \<and> (\<exists>n. e = TransactionError None n \<and> 0 < n)) \<and>
     (half w \<longrightarrow> x = Some conflict)"

lemma leave_result_step: "leave_result x w w' \<Longrightarrow> store_step x w w'"
  by (auto simp: leave_result_def store_step_def half_saved_def split: option.splits)

lemma leave_daemon_wp:
  "wp (go_try (loadSavedRoom S) (\<lambda>metadata.
        go_try (ad_Deregister (svc_netbird S) ctx (md_ProfileID metadata)) (\<lambda>_.
        ad_RemoveProfile (svc_netbird S) ctx (md_ProfileID metadata))))
     (\<lambda>r t. same s t \<and> (r = Inr () \<longrightarrow> ms (outside s) \<noteq> Missing \<and> cs (outside s) \<noteq> Missing) \<and>
        (half (outside s) \<longrightarrow> r = Inl conflict)) s"
  unfolding wp_go_try
proof (rule wp_mono [OF loadSavedRoom_wp], goal_cases)
  case (1 r t)
  show ?case
  proof (cases r)
    case (Inl e)
    with 1 show ?thesis by auto
  next
    case (Inr m)
    then have "\<not> half (outside s)" using 1 by auto
    with 1 Inr show ?thesis
      by (auto intro!: wp_mono [OF adapter_wp(1)] wp_mono [OF adapter_wp(2)] intro: store.trans
          split: sum.splits)
  qed
qed

lemma leaveUnlocked_wp:
  "wp (leaveUnlocked S ctx) (\<lambda>r t. leave_result (snd r) (world s) (world t)) s"
  unfolding leaveUnlocked_def wp_bind wp_in_client
proof (rule wp_mono [OF leave_daemon_wp], goal_cases)
  case (1 r c)
  show ?case
  proof (cases r)
    case (Inl e)
    with 1 show ?thesis
      by (auto simp: leave_result_def same_store_def intro!: wp_answers)
  next
    case (Inr u)
    with 1 have p: "same (sv_client s) c" "ms (world s) \<noteq> Missing" "cs (world s) \<noteq> Missing"
      "\<not> half (world s)" by auto
    show ?thesis unfolding Inr sum.case wp_bind wp_in_client Let_def
      by (rule wp_mono [OF metadata_Clear], simp, rule wp_mono [OF code_Clear])
         (use p in \<open>auto simp: leave_result_def same_store_def wp_if intro!: wp_answers split: sum.splits\<close>)
  qed
qed

text \<open>Also if the command could not begin.\<close>

definition leave_outcome :: "goerr option \<Rightarrow> 'w \<Rightarrow> 'w \<Rightarrow> bool" where
  "leave_outcome x w w' \<longleftrightarrow> (ready w \<longrightarrow> ready w') \<and>
     (case x of
        None \<Rightarrow> ms w \<noteq> Missing \<and> cs w \<noteq> Missing \<and> missing_both w'
      | Some e \<Rightarrow> ms w' = ms w \<and> cs w' = cs w \<or>
          \<not> ready w \<and> \<not> half w \<and> (\<exists>n. e = TransactionError None n \<and> 0 < n))"

lemma leave_outcome_step: "leave_outcome x w w' \<Longrightarrow> store_step x w w'"
  by (auto simp: leave_outcome_def store_step_def half_saved_def split: option.splits)

lemma Leave_outcome: "wp (service_Leave S ctx) (\<lambda>r t. leave_outcome (snd r) (world s) (world t)) s"
  unfolding service_Leave_def wp_run_command
  by (auto intro!: wp_mono [OF leaveUnlocked_wp] simp: leave_outcome_def leave_result_def)

text \<open>Switching: the room that is left, then the new one.\<close>

lemma switch_enroll_wp:
  "wp (switch_enroll S ctx request hostname) (\<lambda>r t. enroll_outcome (snd r) (world s) (world t)) s"
  unfolding switch_enroll_def wp_if wp_bind wp_in_client
proof (intro if_bool_eq_conj [THEN iffD2] conjI impI, goal_cases)
  case 1
  show ?case
  proof (rule wp_mono [OF newCreateIntent_wp], goal_cases)
    case (1 r c)
    show ?case
    proof (cases r)
      case (Inl e)
      with 1 show ?thesis by (auto intro!: wp_answers same_outcome)
    next
      case (Inr i)
      show ?thesis unfolding Inr sum.case
        by (rule wp_mono [OF enrollUnlocked_wp [where ctx = ctx and
              obtain_enrollment = "\<lambda>ctx. room_Create (svc_rooms S) ctx (Some i)",
              OF obtained_any [OF Create_store]]])
           (use 1 in \<open>auto dest!: enroll_result_outcome intro: outcome_after\<close>)
    qed
  qed
next
  case 2
  show ?case
    by (rule wp_mono [OF enrollUnlocked_wp [where ctx = ctx and
          obtain_enrollment = "\<lambda>ctx. room_Join (svc_rooms S) ctx (sw_RoomCode request)",
          OF obtained_any [OF Join_store]]]) (simp add: enroll_result_outcome)
qed

text \<open>A step from the world as the client left it.\<close>

lemma step_after: "same s c \<Longrightarrow> store_step x (outside c) w \<Longrightarrow> store_step x (outside s) w"
  by (auto simp: same_store_def store_step_def half_saved_def)

text \<open>
  A switch that succeeds ends with a room; one that fails ends with the room it began with, or with
  none, as long as the disk works.
\<close>

definition switch_outcome :: "goerr option \<Rightarrow> 'w \<Rightarrow> 'w \<Rightarrow> bool" where
  "switch_outcome x w w' \<longleftrightarrow> store_step x w w' \<and>
     (case x of
        None \<Rightarrow> ms w' \<noteq> Missing \<and> cs w' \<noteq> Missing
      | Some e \<Rightarrow> ready w \<longrightarrow> missing_both w' \<or> ms w' = ms w \<and> cs w' = cs w)"

lemma same_switch: "same s t \<Longrightarrow> switch_outcome (Some e) (outside s) (outside t)"
  by (auto simp: switch_outcome_def same_step same_store_def)

lemma enroll_switch:
  "same s c \<Longrightarrow> enroll_outcome x (outside c) w \<Longrightarrow> switch_outcome x (outside s) w"
  by (auto simp: switch_outcome_def enroll_outcome_step outcome_after
      intro: enroll_outcome_step outcome_after)
     (auto simp: same_store_def enroll_outcome_def undone_def split: option.splits if_splits)

lemma leave_switch:
  "same s c \<Longrightarrow> leave_result (Some e) (outside c) w \<Longrightarrow> switch_outcome (Some e) (outside s) w"
  by (auto simp: switch_outcome_def dest: leave_result_step step_after)
     (auto simp: same_store_def leave_result_def)

lemma leave_enroll_switch:
  assumes "same s c" and "leave_result None (outside c) w" and "enroll_outcome x w w'"
  shows "switch_outcome x (outside s) w'"
proof -
  have "store_step x (outside s) w'"
    using assms by (blast intro: step_after store_step_trans leave_result_step enroll_outcome_step)
  then show ?thesis
    using assms
    by (auto simp: switch_outcome_def same_store_def leave_result_def enroll_outcome_def undone_def
        split: option.splits if_splits)
qed

definition switch_body :: "go_context \<Rightarrow> SwitchRequest \<Rightarrow> string \<Rightarrow> 'w command" where
  "switch_body ctx request hostname = do {
     saved \<leftarrow> in_client (loadSavedRoom S);
     case saved of
       Inr _ \<Rightarrow> do {
         (snapshot, e) \<leftarrow> leaveUnlocked S ctx;
         if e \<noteq> None then do {
           snapshot \<leftarrow> service_State;
           State_Monad.return (snapshot, e)
         }
         else switch_enroll S ctx request hostname
       }
     | Inl e \<Rightarrow>
         if \<not> errors_Is e ErrNoRoomMetadata then service_fail e
         else switch_enroll S ctx request hostname
   }"

lemma switch_body_wp:
  "wp (switch_body ctx request hostname) (\<lambda>r t. switch_outcome (snd r) (world s) (world t)) s"
  unfolding switch_body_def wp_bind wp_in_client
proof (rule wp_mono [OF loadSavedRoom_wp], goal_cases)
  case (1 saved c)
  then have c: "same (sv_client s) c" by simp
  show ?case
  proof (cases saved)
    case (Inl e)
    then show ?thesis
      using c by (auto intro!: wp_answers same_switch wp_mono [OF switch_enroll_wp] dest: enroll_switch)
  next
    case (Inr m)
    show ?thesis unfolding Inr sum.case wp_bind
    proof (rule wp_mono [OF leaveUnlocked_wp], goal_cases)
      case (1 r t)
      then have l: "leave_result (snd r) (outside c) (world t)" by simp
      obtain shown e where r: "r = (shown, e)" by (cases r)
      show ?case unfolding r prod.case wp_if wp_bind wp_service_State wp_return
      proof (intro if_bool_eq_conj [THEN iffD2] conjI impI, goal_cases)
        case 1
        with l r c show ?case by (auto intro: leave_switch)
      next
        case 2
        with l r have "leave_result None (outside c) (world t)" by simp
        then show ?case
          by (intro wp_mono [OF switch_enroll_wp]) (rule leave_enroll_switch [OF c])
      qed
    qed
  qed
qed

lemma service_Switch_body:
  "service_Switch S ctx request =
     (if \<not> sw_Confirmed request then do {
        snapshot \<leftarrow> service_State;
        State_Monad.return (snapshot, Some (Sentinel ErrSwitchConfirmationRequired))
      }
      else if sw_Mode request \<noteq> ''create'' \<and> sw_Mode request \<noteq> ''join''
        then service_fail (Sentinel ErrInvalidSwitchMode)
      else
        let hostname = TrimSpace (sw_Hostname request) in
        if hostname = [] \<or> length hostname > 63 then service_fail device_name_error
        else run_command (switch_body ctx request hostname))"
  unfolding service_Switch_def switch_body_def by (rule refl)

lemma Switch_wp: "wp (service_Switch S ctx request) (\<lambda>r t. switch_outcome (snd r) (world s) (world t)) s"
  unfolding service_Switch_body Let_def
  by (auto simp: wp_simps store.refl intro!: wp_answers same_switch wp_mono [OF switch_body_wp])

text \<open>Calls that leave the storages alone, and find both halves if they succeed.\<close>

definition looked :: "goerr option \<Rightarrow> 'w \<Rightarrow> 'w \<Rightarrow> bool" where
  "looked x w w' \<longleftrightarrow> ms w' = ms w \<and> cs w' = cs w \<and> (ready w \<longrightarrow> ready w') \<and>
     (x = None \<longrightarrow> ms w \<noteq> Missing \<and> cs w \<noteq> Missing)"

lemma looked_step: "looked x w w' \<Longrightarrow> store_step x w w'"
  by (auto simp: looked_def store_step_def half_saved_def)

lemma looked_same:
  "same s t \<Longrightarrow> (x = None \<Longrightarrow> ms (outside s) \<noteq> Missing \<and> cs (outside s) \<noteq> Missing) \<Longrightarrow>
     looked x (outside s) (outside t)"
  by (auto simp: looked_def same_store_def)

lemma Disconnect_wp: "wp (service_Disconnect S ctx) (\<lambda>r t. looked (snd r) (world s) (world t)) s"
proof -
  have d: "wp (go_try (loadSavedRoom S) (\<lambda>metadata. ad_Disconnect (svc_netbird S) ctx (md_ProfileID metadata)))
      (\<lambda>r t. same c t \<and> (\<forall>x. r = Inr x \<longrightarrow> ms (outside c) \<noteq> Missing \<and> cs (outside c) \<noteq> Missing)) c" for c
    unfolding wp_go_try
    by (rule wp_mono [OF loadSavedRoom_wp])
       (auto intro!: wp_mono [OF adapter_wp(5)] intro: store.trans split: sum.splits)
  show ?thesis
    unfolding service_Disconnect_def wp_run_command wp_bind wp_in_client
    by (auto simp: store.refl intro!: looked_same wp_mono [OF d] wp_answers split: sum.splits)
qed

lemma Resume_wp: "wp (Resume (svc_runtime S) (svc_monitor S) ctx p) (\<lambda>r t. same s t) s"
  unfolding monitor
  by (rule store.keeps_wp [OF Resume_keeps [OF _ adapter_store runtime_store]]) unfold_locales

lemma Reconnect_wp: "wp (service_Reconnect S ctx) (\<lambda>r t. looked (snd r) (world s) (world t)) s"
  unfolding service_Reconnect_def wp_run_command wp_bind wp_in_client
proof (intro if_bool_eq_conj [THEN iffD2] conjI impI, goal_cases)
  case 1
  show ?case by (auto intro!: looked_same simp: store.refl)
next
  case 2
  show ?case
  proof (rule wp_mono [OF loadSavedRoom_wp], goal_cases)
    case (1 r c)
    show ?case
    proof (cases r)
      case (Inl e)
      with 1 show ?thesis by (auto intro!: wp_answers looked_same)
    next
      case (Inr m)
      with 1 have c: "same (sv_client s) c" "ms (world s) \<noteq> Missing" "cs (world s) \<noteq> Missing" by auto
      have "same (sv_client s) d" if "same c d" for d using store.trans c(1) that by blast
      then show ?thesis unfolding Inr sum.case wp_bind
        using c
        by (auto intro!: wp_machine_Apply wp_mono [OF Resume_wp] wp_answers looked_same
            simp: wp_in_client split: option.splits)
    qed
  qed
qed

lemma peers_wp:
  assumes "svc_peers S = Some r"
  shows "wp (peers_Refresh (svc_runtime S) r ctx) (\<lambda>x t. same (sv_client s) (sv_client t)) s"
proof -
  note p = peers [OF assms]
  have a: "wp (pr_api r ctx code) (\<lambda>x t. same c t) c" for code c
    by (rule store.keeps_wp) (use p in blast)
  have l: "wp (stg_Load (pr_codes r)) (\<lambda>x t. same c t) c" for c
    using p by (auto intro!: wp_mono [OF code_Load])
  have m: "wp (markStale e) (\<lambda>x t. sv_client t = sv_client s) s" for e s
    by (simp add: markStale_def wp_def Let_def)
  have tr: "same (sv_client s) u" if "same (sv_client s) d" "same d u" for d u
    using store.trans that by blast
  show ?thesis
    unfolding peers_Refresh_def wp_bind wp_in_client
  proof (rule wp_mono [OF l], goal_cases)
    case (1 x c)
    show ?case
    proof (cases x)
      case (Inl e)
      show ?thesis unfolding Inl sum.case wp_bind wp_return
        by (rule wp_mono [OF m]) (use 1 in simp)
    next
      case (Inr code)
      show ?thesis unfolding Inr sum.case wp_bind wp_in_client
      proof (rule wp_mono [OF a], goal_cases)
        case (1 y d)
        then have d: "same (sv_client s) d" using \<open>same (sv_client s) c\<close> tr by simp
        show ?case
        proof (cases y)
          case (Inl e)
          show ?thesis unfolding Inl sum.case wp_bind wp_return
            by (rule wp_mono [OF m]) (use d in simp)
        next
          case (Inr list)
          show ?thesis unfolding Inr sum.case wp_bind wp_in_client
            by (rule wp_mono [OF time_store_wp]) (use d tr in \<open>simp add: wp_simps Let_def\<close>)
        qed
      qed
    qed
  qed
qed

lemma load_code_wp:
  "wp (stg_Load (svc_codes S)) (\<lambda>x t. same s t \<and>
     (case x of Inr code \<Rightarrow> cs (outside s) = Stored code | Inl _ \<Rightarrow> True)) s"
proof (rule wp_mono [OF code_Load], goal_cases)
  case (1 x t)
  then show ?case by (cases x) (simp_all only: sum.case)
qed

lemma Reveal_wp:
  "wp (RevealRoomCode S) (\<lambda>r t. looked (case r of Inl e \<Rightarrow> Some e | Inr _ \<Rightarrow> None) (world s) (world t) \<and>
     (case r of Inr code \<Rightarrow> cs (world s) = Stored code | Inl _ \<Rightarrow> True)) s"
  unfolding RevealRoomCode_def wp_go_try wp_in_client
proof (rule wp_mono [OF loadSavedRoom_wp], goal_cases)
  case (1 r c)
  show ?case
  proof (cases r)
    case (Inl e)
    with 1 show ?thesis by (auto intro: looked_same)
  next
    case (Inr m)
    then have c: "same (sv_client s) c" "ms (world s) \<noteq> Missing" "cs (world s) \<noteq> Missing"
      using 1 by auto
    have "cs (outside c) = cs (world s)" using c(1) by (simp add: same_store_def)
    with c show ?thesis unfolding Inr sum.case wp_bind wp_in_client
      by (intro wp_mono [OF load_code_wp])
         (auto intro!: looked_same intro: store.trans simp: wp_simps split: sum.splits)
  qed
qed

lemma Reveal_ready:
  assumes "ready (world s)" and "ms (world s) = Stored m" and "cs (world s) = Stored code"
  shows "wp (RevealRoomCode S) (\<lambda>r t. r = Inr code) s"
proof -
  have l: "wp (loadSavedRoom S) (\<lambda>r t. r = Inr m \<and> same (sv_client s) t) (sv_client s)"
    unfolding loadSavedRoom_def wp_bind
  proof (rule wp_mono [OF metadata_Load], rule wp_mono [OF code_Load], goal_cases)
    case (1 x t y u)
    then have "same (sv_client s) u" by (auto intro: store.trans)
    moreover have "x = Inr m" "y = Inr code" using 1 assms by (auto simp: same_store_def)
    ultimately show ?case by (simp add: wp_simps)
  qed
  show ?thesis
    unfolding RevealRoomCode_def wp_go_try wp_in_client
  proof (rule wp_mono [OF l], goal_cases)
    case (1 r c)
    then have "r = Inr m" "ready (outside c)" "cs (outside c) = Stored code"
      using assms by (auto simp: same_store_def)
    then show ?case
      by (auto simp: wp_simps intro!: wp_mono [OF code_Load])
  qed
qed

lemma View_wp:
  "wp (service_View S ctx) (\<lambda>r t. looked (case r of Inl e \<Rightarrow> Some e | Inr _ \<Rightarrow> None) (world s) (world t) \<and>
     (case r of Inr v \<Rightarrow> \<exists>code. cs (world s) = Stored code \<and> rv_RoomCodeMasked v = maskRoomCode code
      | Inl _ \<Rightarrow> True)) s"
  unfolding service_View_def wp_go_try wp_in_client
proof (rule wp_mono [OF loadSavedRoom_wp], goal_cases)
  case (1 r c)
  show ?case
  proof (cases r)
    case (Inl e)
    with 1 show ?thesis by (auto intro: looked_same)
  next
    case (Inr m)
    then have c: "same (sv_client s) c" "ms (world s) \<noteq> Missing" "cs (world s) \<noteq> Missing"
      using 1 by auto
    have cs: "cs (outside c) = cs (world s)" using c(1) by (simp add: same_store_def)
    have tr: "same (sv_client s) u" if "same (sv_client s) d" "same d u" for d u
      using store.trans that by blast
    show ?thesis unfolding Inr sum.case wp_bind wp_in_client
    proof (rule wp_mono [OF load_code_wp], goal_cases)
      case (1 x d)
      have d: "same (sv_client s) d" by (rule tr [OF c(1)]) (use 1 in simp)
      show ?case
      proof (cases x)
        case (Inl e)
        with d c show ?thesis by (auto simp: wp_simps intro: looked_same)
      next
        case (Inr code)
        with 1 cs have code: "cs (world s) = Stored code" by simp
        show ?thesis unfolding Inr sum.case wp_bind wp_in_client
        proof (rule wp_mono [OF adapter_wp(6)], goal_cases)
          case (1 y u)
          have u: "same (sv_client s) u" by (rule tr [OF d]) (use 1 in simp)
          obtain status e where y: "y = (status, e)" by (cases y)
          show ?case
          proof (cases e)
            case (Some x)
            with u c y show ?thesis by (auto simp: wp_simps intro: looked_same)
          next
            case None
            show ?thesis unfolding y None prod.case option.case wp_bind Let_def
              using u c code
              by (auto intro!: wp_machine_Apply wp_mono [OF peers_wp] looked_same tr [OF u]
                  simp: wp_simps split: option.splits)
          qed
        qed
      qed
    qed
  qed
qed

section \<open>Sequences of calls\<close>

text \<open>What the storages hold after a call, on a disk that works: the steps of a machine with two states.\<close>

abbreviation room_of :: "'w \<Rightarrow> saved_room" where
  "room_of w \<equiv> if missing_both w then NoRoom else SavedRoom"

lemma looked_room:
  assumes "looked x w w'"
    and "\<And>r. room_step c x r =
      (case x of None \<Rightarrow> if r = SavedRoom then [SavedRoom] else [] | Some e \<Rightarrow> [r])"
  shows "store_step x w w' \<and> (ready w \<and> \<not> half w \<longrightarrow> room_of w' \<in> set (room_step c x (room_of w)))"
  unfolding assms(2) using assms(1) by (auto simp: looked_step) (auto simp: looked_def split: option.splits)

lemma call_wp:
  "wp (run_call S c) (\<lambda>x t. store_step x (world s) (world t) \<and>
     (ready (world s) \<and> \<not> half (world s) \<longrightarrow>
        room_of (world t) \<in> set (room_step c x (room_of (world s))))) s"
proof (cases c)
  case (Call_Create ctx hostname)
  show ?thesis unfolding Call_Create run_call.simps wp_error_of
    by (rule wp_mono [OF Create_wp])
       (auto simp: enroll_outcome_step, auto simp: enroll_outcome_def undone_def split: option.splits)
next
  case (Call_Join ctx code hostname)
  show ?thesis unfolding Call_Join run_call.simps wp_error_of
    by (rule wp_mono [OF Join_outcome])
       (auto simp: enroll_outcome_step, auto simp: enroll_outcome_def undone_def split: option.splits)
next
  case (Call_Leave ctx)
  show ?thesis unfolding Call_Leave run_call.simps wp_error_of
    by (rule wp_mono [OF Leave_outcome])
       (auto simp: leave_outcome_step, auto simp: leave_outcome_def split: option.splits)
next
  case (Call_Switch ctx request)
  show ?thesis unfolding Call_Switch run_call.simps wp_error_of
    by (rule wp_mono [OF Switch_wp])
       (auto simp: switch_outcome_def split: option.splits)
next
  case (Call_Disconnect ctx)
  show ?thesis unfolding Call_Disconnect run_call.simps wp_error_of
    by (rule wp_mono [OF Disconnect_wp], rule looked_room) (auto split: option.splits)
next
  case (Call_Reconnect ctx)
  show ?thesis unfolding Call_Reconnect run_call.simps wp_error_of
    by (rule wp_mono [OF Reconnect_wp], rule looked_room) (auto split: option.splits)
next
  case (Call_Connect ctx)
  show ?thesis unfolding Call_Connect run_call.simps wp_error_of service_Connect_def
    by (rule wp_mono [OF Reconnect_wp], rule looked_room) (auto split: option.splits)
next
  case (Call_View ctx)
  show ?thesis unfolding Call_View run_call.simps wp_failure_of
    by (rule wp_mono [OF View_wp], rule looked_room, blast) (auto split: option.splits)
next
  case Call_Reveal
  show ?thesis unfolding Call_Reveal run_call.simps wp_failure_of
    by (rule wp_mono [OF Reveal_wp], rule looked_room, blast) (auto split: option.splits)
qed

lemma call_step: "wp (run_call S c) (\<lambda>x t. store_step x (world s) (world t)) s"
  by (rule wp_mono [OF call_wp]) simp

lemma calls_refine:
  assumes "ready (world s)" and "\<not> half (world s)" and "run_calls S calls s = (xs, t)"
  shows "follows calls xs (room_of (world s)) (room_of (world t)) \<and> \<not> half (world t)"
  using assms
proof (induction calls arbitrary: s xs)
  case (Cons c calls)
  obtain x u where 1: "run_state (run_call S c) s = (x, u)" by fastforce
  obtain ys where 2: "run_calls S calls u = (ys, t)" "xs = x # ys"
    using Cons.prems(3) 1 by (auto split: prod.splits)
  have s: "store_step x (world s) (world u)"
    and r: "room_of (world u) \<in> set (room_step c x (room_of (world s)))"
    using call_wp [of c s] 1 Cons.prems(1,2) by (simp_all add: wp_def)
  with Cons.prems(1,2) have "ready (world u)" "\<not> half (world u)" by (simp_all add: store_step_def)
  from Cons.IH [OF this 2(1)] r 2(2) show ?case by (auto simp: list_ex_iff)
qed simp

lemma calls_half:
  assumes "half (world s)" and "run_calls S calls s = (xs, t)"
  shows "ms (world t) = ms (world s) \<and> cs (world t) = cs (world s) \<and> None \<notin> set xs"
  using assms
proof (induction calls arbitrary: s xs)
  case (Cons c calls)
  obtain x u where 1: "run_state (run_call S c) s = (x, u)" by fastforce
  obtain ys where 2: "run_calls S calls u = (ys, t)" "xs = x # ys"
    using Cons.prems(2) 1 by (auto split: prod.splits)
  have "store_step x (world s) (world u)" using call_step [of c s] 1 by (simp add: wp_def)
  with Cons.prems(1) have h: "half (world u)" and
    *: "ms (world u) = ms (world s)" "cs (world u) = cs (world s)" "x \<noteq> None"
    by (auto simp: store_step_def half_saved_def)
  show ?case using Cons.IH [OF h 2(1)] 2(2) * by auto
qed simp

lemma Leave_wp:
  assumes "\<not> sv_busy s"
  shows "wp (service_Leave S ctx) (\<lambda>r t. leave_result (snd r) (world s) (world t)) s"
  unfolding service_Leave_def wp_run_command
  using assms by (auto intro!: wp_mono [OF leaveUnlocked_wp])

end

end
