(* ===== verification/SessionProfiles.thy ===== *)
theory SessionProfiles
  imports SessionStorage
begin

text \<open>
  The daemon's profiles that are not the client's own.  \<open>ids\<close> reads the profiles off the world, \<open>B\<close> are
  the ones to be left alone: no call of the session removes one of them.
\<close>

definition there :: "('w \<Rightarrow> (string \<times> string) list) \<Rightarrow> (string \<times> string) set \<Rightarrow> 'w client \<Rightarrow> bool" where
  "there ids B s \<longleftrightarrow> B \<subseteq> set (ids (outside s))"

lemma there_heap [simp]:
  "there ids B (s\<lparr>intents := x\<rparr>) = there ids B s" "there ids B (s\<lparr>setup_keys := y\<rparr>) = there ids B s"
  "there ids B (s\<lparr>secrets := z\<rparr>) = there ids B s"
  by (simp_all add: there_def)

definition profiles_frame ::
  "('w \<Rightarrow> (string \<times> string) list) \<Rightarrow> (string \<times> string) set \<Rightarrow> 'w client \<Rightarrow> 'w client \<Rightarrow> bool" where
  "profiles_frame ids B s t \<longleftrightarrow> (there ids B s \<longrightarrow> there ids B t)"

interpretation profs: frame_relation "profiles_frame ids B"
  for ids :: "'w \<Rightarrow> (string \<times> string) list" and B
  by unfold_locales (auto simp: profiles_frame_def)

text \<open>The adapter: removing a profile outside \<open>B\<close> is safe, and a created profile is a new one.\<close>

definition adapter_spares ::
  "('w \<Rightarrow> (string \<times> string) list) \<Rightarrow> (string \<times> string) set \<Rightarrow> 'w client Adapter \<Rightarrow> bool" where
  "adapter_spares ids B a \<longleftrightarrow>
     (\<forall>c. profs.keeps ids B (ad_Status a c)) \<and>
     (\<forall>c r. profs.keeps ids B (ad_Enroll a c r)) \<and>
     (\<forall>c p. profs.keeps ids B (ad_Connect a c p)) \<and>
     (\<forall>c p. profs.keeps ids B (ad_Disconnect a c p)) \<and>
     (\<forall>c p. profs.keeps ids B (ad_Deregister a c p)) \<and>
     (\<forall>c p. p \<notin> fst ` B \<longrightarrow> profs.keeps ids B (ad_RemoveProfile a c p)) \<and>
     (\<forall>c n. profs.keeps ids B (ad_CreateProfile a c n)) \<and>
     (\<forall>c n s. there ids B s \<longrightarrow>
        wps (ad_CreateProfile a c n) (\<lambda>p t. prof_ID p \<notin> fst ` B) s)"

definition storage_spares :: "('w \<Rightarrow> (string \<times> string) list) \<Rightarrow> (string \<times> string) set \<Rightarrow> ('w client, 'v) Storage \<Rightarrow> bool"
  where "storage_spares ids B st \<longleftrightarrow> profs.keeps ids B (stg_Load st) \<and>
     (\<forall>v. profs.keeps ids B (stg_Save st v)) \<and> profs.keeps ids B (stg_Clear st)"

definition session_spares ::
  "('w \<Rightarrow> (string \<times> string) list) \<Rightarrow> (string \<times> string) set \<Rightarrow> 'w SessionService \<Rightarrow> bool" where
  "session_spares ids B S \<longleftrightarrow> adapter_spares ids B (svc_netbird S) \<and>
     storage_spares ids B (svc_metadata S) \<and> storage_spares ids B (svc_codes S) \<and>
     runtime_keeps (profiles_frame ids B) (svc_runtime S) \<and>
     (\<forall>c i. profs.keeps ids B (room_Create (svc_rooms S) c i)) \<and>
     (\<forall>c k. profs.keeps ids B (room_Join (svc_rooms S) c k)) \<and>
     (\<forall>r c k. svc_peers S = Some r \<longrightarrow> profs.keeps ids B (pr_api r c k))"

lemma profs_heap: "(\<And>s. outside (snd (run_state m s)) = outside s) \<Longrightarrow> profs.keeps ids B m"
  by (auto simp: profs.keeps_def profiles_frame_def there_def)

lemma profs_heap_ops:
  "profs.keeps ids B (SetupKey_Clear key)" "profs.keeps ids B (takeSetupKey e)"
  by (auto intro!: profs_heap simp: SetupKey_Clear_def takeSetupKey_def State_Monad.update_def
      split: option.splits bool.splits)

lemma profs_Consume: "(\<And>k. profs.keeps ids B (f k)) \<Longrightarrow> profs.keeps ids B (ConsumeSetupKey e (Some f))"
  unfolding ConsumeSetupKey_def by (auto intro!: profs.keeps_intros profs_heap_ops)

lemma profs_Discard: "profs.keeps ids B (DiscardSetupKey e)"
  unfolding DiscardSetupKey_def by (auto intro!: profs.keeps_intros profs_heap_ops)

context session_env
begin

text \<open>What the session's parts leave alone, in the form the steps below need.\<close>

lemma spares:
  assumes "session_spares ids B S"
  shows "profs.keeps ids B (stg_Load (svc_metadata S))" "profs.keeps ids B (stg_Load (svc_codes S))"
    "profs.keeps ids B (stg_Save (svc_metadata S) m)" "profs.keeps ids B (stg_Save (svc_codes S) k)"
    "profs.keeps ids B (stg_Clear (svc_metadata S))" "profs.keeps ids B (stg_Clear (svc_codes S))"
    "profs.keeps ids B (ad_Status (svc_netbird S) c)" "profs.keeps ids B (ad_Enroll (svc_netbird S) c r)"
    "profs.keeps ids B (ad_Connect (svc_netbird S) c p)" "profs.keeps ids B (ad_Disconnect (svc_netbird S) c p)"
    "profs.keeps ids B (ad_Deregister (svc_netbird S) c p)"
    "p \<notin> fst ` B \<Longrightarrow> profs.keeps ids B (ad_RemoveProfile (svc_netbird S) c p)"
    "profs.keeps ids B (ad_CreateProfile (svc_netbird S) c n)"
    "profs.keeps ids B (in_world (time_Now (svc_runtime S)))"
    "profs.keeps ids B (in_world (ctx_Err (svc_runtime S) c))"
    "profs.keeps ids B (in_world (timer_or_Done (svc_runtime S) c d))"
    "profs.keeps ids B (in_world (rand_ReadFull (svc_runtime S) b))"
    "profs.keeps ids B (room_Create (svc_rooms S) c i)" "profs.keeps ids B (room_Join (svc_rooms S) c code)"
  using assms
  by (auto simp: session_spares_def adapter_spares_def storage_spares_def runtime_keeps_def)

lemma spares_loads:
  assumes "session_spares ids B S"
  shows "profs.keeps ids B (loadSavedRoom S)" "profs.keeps ids B (requireEmptyStorage S)"
  unfolding loadSavedRoom_def requireEmptyStorage_def
  by (auto intro!: profs.keeps_intros spares [OF assms] split: sum.splits)

lemma spares_wrap:
  assumes "session_spares ids B S" and "tx_profileID t \<notin> fst ` B"
  shows "profs.keeps ids B (tx_wrap S t cause ctx)"
proof -
  have step: "profs.keeps ids B (State_Monad.bind (cleanup_step due m t) f)"
    if "profs.keeps ids B m" "\<And>t'. tx_profileID t' = tx_profileID t \<Longrightarrow> profs.keeps ids B (f t')" for due m t f
  proof (rule profs.keepsI)
    fix s u r
    assume run: "run_state (State_Monad.bind (cleanup_step due m t) f) s = (r, u)"
    obtain t' v where 1: "run_state (cleanup_step due m t) s = (t', v)" by fastforce
    have "profs.keeps ids B (cleanup_step due m t)"
      unfolding cleanup_step_def by (auto intro!: profs.keeps_intros that(1))
    then have v: "profiles_frame ids B s v" by (rule profs.keepsD [OF _ 1])
    have "tx_profileID t' = tx_profileID t"
      using 1 by (auto simp: cleanup_step_def split: if_splits prod.splits sum.splits)
    then have "profs.keeps ids B (f t')" by (rule that(2))
    moreover have "run_state (f t') v = (r, u)" using run 1 by simp
    ultimately have "profiles_frame ids B v u" by (rule profs.keepsD)
    with v show "profiles_frame ids B s u" by (rule profs.trans)
  qed
  have c: "profs.keeps ids B (cleanup_step due m t)" if "profs.keeps ids B m" for due m t
    unfolding cleanup_step_def by (auto intro!: profs.keeps_intros that)
  have "profs.keeps ids B (compensate S t ctx)"
    unfolding compensate_def Let_def
    by (intro profs.keeps_if profs.keeps_return step c spares [OF assms(1)]) (use assms(2) in simp_all)
  then show ?thesis unfolding tx_wrap_def by (auto intro!: profs.keeps_intros)
qed

lemma spares_failed_step:
  assumes "session_spares ids B S" and "tx_profileID t \<notin> fst ` B"
  shows "profs.keeps ids B m \<Longrightarrow> profs.keeps ids B k \<Longrightarrow> profs.keeps ids B (failed_step S t ctx m k)"
  unfolding failed_step_def by (auto intro!: profs.keeps_intros spares_wrap [OF assms])

lemma spares_commit:
  assumes "session_spares ids B S" and "prof_ID profile \<notin> fst ` B"
  shows "profs.keeps ids B (enroll_commit S ctx hostname e profile)"
  unfolding enroll_commit_def Let_def
  by (intro spares_failed_step [OF assms(1)] profs_Consume profs.keeps_intros spares [OF assms(1)])
     (simp_all add: new_transaction_def assms(2))

lemma there_wp: "profs.keeps ids B m \<Longrightarrow> there ids B s \<Longrightarrow> wp m (\<lambda>r t. there ids B t) s"
  by (rule profs.wp_keeps) (auto simp: profiles_frame_def)

lemma spares_profile:
  assumes "session_spares ids B S" and "there ids B s"
  shows "wp (enroll_profile S ctx hostname e) (\<lambda>r t. there ids B t) s"
proof -
  have "wp (ad_CreateProfile (svc_netbird S) ctx ManagedProfileName)
      (\<lambda>r t. there ids B t \<and> (case r of Inl _ \<Rightarrow> True | Inr p \<Rightarrow> prof_ID p \<notin> fst ` B)) s"
    using assms
    by (intro wp_conjI there_wp spares)
       (auto simp: session_spares_def adapter_spares_def wps_def)
  then show ?thesis
    unfolding enroll_profile_def wp_bind
  proof (rule wp_mono, goal_cases)
    case (1 r t)
    show ?case
    proof (cases r)
      case (Inl x)
      with 1 show ?thesis by (simp add: wp_simps)
    next
      case (Inr p)
      with 1 have t: "there ids B t" "prof_ID p \<notin> fst ` B" by simp_all
      have w: "wp (tx_wrap S (new_transaction (prof_ID p)) x ctx) (\<lambda>r t. there ids B t) t" for x
        by (rule there_wp [OF spares_wrap [OF assms(1)] t(1)]) (simp add: new_transaction_def t(2))
      show ?thesis
        using t(1) w there_wp [OF spares_commit [OF assms(1) t(2)] t(1)]
        by (simp add: Inr wp_simps)
    qed
  qed
qed

abbreviation still :: "('w \<Rightarrow> (string \<times> string) list) \<Rightarrow> (string \<times> string) set \<Rightarrow> 'w session \<Rightarrow> bool" where
  "still ids B s \<equiv> there ids B (sv_client s)"

lemma spares_enroll:
  assumes S: "session_spares ids B S" and "still ids B s"
    and "profs.keeps ids B (obtain_enrollment ctx)"
  shows "wp (enrollUnlocked S ctx hostname obtain_enrollment) (\<lambda>r t. still ids B t) s"
  unfolding enrollUnlocked_def wp_bind wp_in_client
proof (rule wp_mono [OF there_wp [OF spares_loads(2) [OF S] assms(2)]], goal_cases)
  case (1 required c)
  have f: "profs.keeps ids B (enrolled_facts S ctx)"
    unfolding enrolled_facts_def by (auto intro!: profs.keeps_intros spares [OF S])
  show ?case
  proof (cases required)
    case (Some x)
    with 1 show ?thesis by (auto intro!: wp_answers)
  next
    case None
    show ?thesis unfolding None option.case wp_bind
    proof (rule wp_machine_Apply, unfold wp_in_client, simp, rule wp_mono [OF there_wp [OF assms(3) 1]],
        goal_cases)
      case (1 m r d)
      show ?case
      proof (cases r)
        case (Inl x)
        with 1 show ?thesis by (auto intro!: wp_answers)
      next
        case (Inr en)
        have d: "there ids B (sv_client (s\<lparr>sv_machine := m, sv_client := d\<rparr>))" using 1 by simp
        show ?thesis unfolding Inr sum.case wp_bind wp_in_client
        proof (rule wp_mono [OF spares_profile [OF S d]], goal_cases)
          case (1 r u)
          then show ?case
            by (cases r)
               (auto simp: wp_simps intro!: wp_answers there_wp [OF profs_Discard]
                  wp_mono [OF there_wp [OF f]])
        qed
      qed
    qed
  qed
qed

text \<open>The profile of the saved room is the client's own.\<close>

definition own_apart :: "(string \<times> string) set \<Rightarrow> 'w \<Rightarrow> bool" where
  "own_apart B w \<longleftrightarrow> (\<forall>m. ms w = Stored m \<longrightarrow> md_ProfileID m \<notin> fst ` B)"

lemma own_apart_same: "same s t \<Longrightarrow> own_apart B (outside s) \<Longrightarrow> own_apart B (outside t)"
  by (simp add: own_apart_def same_store_def)

lemma load_spares:
  assumes "session_spares ids B S" and "there ids B s" and "own_apart B (outside s)"
  shows "wp (loadSavedRoom S) (\<lambda>r t. there ids B t \<and> own_apart B (outside t) \<and>
     (case r of Inl _ \<Rightarrow> True | Inr m \<Rightarrow> md_ProfileID m \<notin> fst ` B)) s"
proof (rule wp_mono [OF wp_conjI [OF there_wp [OF spares_loads(1) [OF assms(1)] assms(2)] loadSavedRoom_wp]],
    goal_cases)
  case (1 r t)
  have "own_apart B (outside t)" using 1 own_apart_same assms(3) by blast
  then show ?case using 1 assms(3) by (cases r) (auto simp: own_apart_def)
qed

lemma leave_spares:
  assumes S: "session_spares ids B S" and "still ids B s" and "own_apart B (world s)"
  shows "wp (leaveUnlocked S ctx) (\<lambda>r t. still ids B t) s"
proof -
  have l: "wp (go_try (loadSavedRoom S) (\<lambda>metadata.
        go_try (ad_Deregister (svc_netbird S) ctx (md_ProfileID metadata)) (\<lambda>_.
        ad_RemoveProfile (svc_netbird S) ctx (md_ProfileID metadata)))) (\<lambda>r t. there ids B t) (sv_client s)"
    unfolding wp_go_try [of "loadSavedRoom S"]
  proof (rule wp_mono [OF load_spares [OF S assms(2,3)]], goal_cases)
    case (1 r t)
    show ?case
    proof (cases r)
      case (Inl e)
      with 1 show ?thesis by simp
    next
      case (Inr m)
      have "profs.keeps ids B (go_try (ad_Deregister (svc_netbird S) ctx (md_ProfileID m)) (\<lambda>_.
          ad_RemoveProfile (svc_netbird S) ctx (md_ProfileID m)))"
        using 1 Inr by (intro profs.keeps_go_try spares [OF S]) simp
      then show ?thesis using 1 by (simp add: Inr there_wp)
    qed
  qed
  show ?thesis
    unfolding leaveUnlocked_def wp_bind wp_in_client
  proof (rule wp_mono [OF l], goal_cases)
    case (1 r c)
    show ?case
    proof (cases r)
      case (Inl e)
      with 1 show ?thesis by (auto intro!: wp_answers)
    next
      case (Inr u)
      have k: "there ids B c" using 1 .
      show ?thesis unfolding Inr sum.case wp_bind wp_in_client Let_def
        by (rule wp_mono [OF there_wp [OF spares(5) [OF S]]], simp add: k,
            rule wp_mono [OF there_wp [OF spares(6) [OF S]]], simp)
           (auto simp: wp_if intro!: wp_answers)
    qed
  qed
qed

lemma spares_newCreateIntent: "session_spares ids B S \<Longrightarrow> there ids B s \<Longrightarrow>
    wp (newCreateIntent (svc_runtime S)) (\<lambda>r t. there ids B t) s"
  unfolding newCreateIntent_def wp_bind
  by (rule wp_mono [OF there_wp [OF spares(17)]]) (auto simp: wp_simps split: sum.splits)

lemma service_enroll_spares:
  assumes "session_spares ids B S" and "still ids B s" and "profs.keeps ids B (obtain_enrollment ctx)"
  shows "wp (service_enroll S ctx hostname obtain_enrollment) (\<lambda>r t. still ids B t) s"
  using assms(2) unfolding service_enroll_def Let_def
  by (auto simp: wp_simps intro!: wp_answers wp_mono [OF spares_enroll [where ctx = ctx and
      obtain_enrollment = obtain_enrollment, OF assms(1) _ assms(3)]])

lemma switch_enroll_spares:
  assumes S: "session_spares ids B S" and "still ids B s"
  shows "wp (switch_enroll S ctx request hostname) (\<lambda>r t. still ids B t) s"
  unfolding switch_enroll_def wp_if wp_bind wp_in_client
proof (intro if_bool_eq_conj [THEN iffD2] conjI impI, goal_cases)
  case 1
  show ?case
  proof (rule wp_mono [OF spares_newCreateIntent [OF S assms(2)]], goal_cases)
    case (1 r c)
    then show ?case
      by (cases r) (auto intro!: wp_answers spares [OF S]
          spares_enroll [OF S, where obtain_enrollment = "\<lambda>ctx. room_Create (svc_rooms S) ctx i" for i])
  qed
next
  case 2
  show ?case
    using assms(2)
    by (intro spares_enroll [OF S, where
          obtain_enrollment = "\<lambda>ctx. room_Join (svc_rooms S) ctx (sw_RoomCode request)"] spares [OF S])
qed

lemma switch_body_spares:
  assumes S: "session_spares ids B S" and "still ids B s" and "own_apart B (world s)"
  shows "wp (switch_body ctx request hostname) (\<lambda>r t. still ids B t) s"
  unfolding switch_body_def wp_bind wp_in_client
proof (rule wp_mono [OF load_spares [OF S assms(2,3)]], goal_cases)
  case (1 saved c)
  show ?case
  proof (cases saved)
    case (Inl e)
    with 1 show ?thesis
      by (auto intro!: wp_answers switch_enroll_spares [OF S])
  next
    case (Inr m)
    have k: "still ids B (s\<lparr>sv_client := c\<rparr>)" "own_apart B (world (s\<lparr>sv_client := c\<rparr>))" using 1 by simp_all
    show ?thesis unfolding Inr sum.case wp_bind
      by (rule wp_mono [OF leave_spares [OF S k]])
         (auto simp: wp_simps intro!: switch_enroll_spares [OF S] split: prod.splits)
  qed
qed

lemma Resume_spares:
  assumes S: "session_spares ids B S" and "there ids B s"
  shows "wp (Resume (svc_runtime S) (svc_monitor S) ctx p) (\<lambda>r t. there ids B t) s"
proof -
  have a: "profs.keeps ids B (resume_attempt (NewRecoveryMonitor (svc_netbird S)) ctx p)"
    unfolding resume_attempt_def NewRecoveryMonitor_def newRecoveryMonitor_def
    by (auto intro!: profs.keeps_intros spares [OF S])
  have "profs.keeps ids B (resume_loop (svc_runtime S) (NewRecoveryMonitor (svc_netbird S)) ctx p delays)"
    for delays
    by (induction delays)
       (auto simp: waitForRecovery_def intro!: profs.keeps_intros a spares [OF S])
  then show ?thesis unfolding Resume_def monitor by (rule there_wp) (rule assms(2))
qed

lemma peers_spares:
  assumes S: "session_spares ids B S" and "svc_peers S = Some r" and "still ids B s"
  shows "wp (peers_Refresh (svc_runtime S) r ctx) (\<lambda>x t. still ids B t) s"
proof -
  have a: "profs.keeps ids B (pr_api r ctx code)" for code
    using S assms(2) by (simp add: session_spares_def)
  have l: "profs.keeps ids B (stg_Load (pr_codes r))"
    using peers [OF assms(2)] spares(2) [OF S] by simp
  have m: "wp (markStale e) (\<lambda>x t. sv_client t = sv_client s) s" for e s
    by (simp add: markStale_def wp_def Let_def)
  show ?thesis
    unfolding peers_Refresh_def wp_bind wp_in_client
  proof (rule wp_mono [OF there_wp [OF l assms(3)]], goal_cases)
    case (1 x c)
    show ?case
    proof (cases x)
      case (Inl e)
      show ?thesis unfolding Inl sum.case wp_bind wp_return
        by (rule wp_mono [OF m]) (use 1 in simp)
    next
      case (Inr code)
      have c: "there ids B (sv_client (s\<lparr>sv_client := c\<rparr>))" using 1 by simp
      show ?thesis unfolding Inr sum.case wp_bind wp_in_client
      proof (rule wp_mono [OF there_wp [OF a c]], goal_cases)
        case (1 y d)
        show ?case
        proof (cases y)
          case (Inl e)
          show ?thesis unfolding Inl sum.case wp_bind wp_return
            by (rule wp_mono [OF m]) (use 1 in simp)
        next
          case (Inr list)
          have d: "there ids B (sv_client (s\<lparr>sv_client := c, sv_client := d\<rparr>))" using 1 by simp
          show ?thesis unfolding Inr sum.case wp_bind wp_in_client
            by (rule wp_mono [OF there_wp [OF spares(14) [OF S] d]]) (simp add: wp_simps Let_def)
        qed
      qed
    qed
  qed
qed

lemma Create_spares:
  assumes S: "session_spares ids B S" and "still ids B s"
  shows "wp (service_Create S ctx hostname) (\<lambda>r t. still ids B t) s"
  unfolding service_Create_def wp_bind wp_in_client
proof (rule wp_mono [OF spares_newCreateIntent [OF S assms(2)]], goal_cases)
  case (1 r c)
  then show ?case
    by (cases r) (auto intro!: wp_answers service_enroll_spares [OF S] spares [OF S])
qed

lemma Disconnect_spares:
  assumes S: "session_spares ids B S" and "still ids B s"
  shows "wp (service_Disconnect S ctx) (\<lambda>r t. still ids B t) s"
proof -
  have d: "profs.keeps ids B (go_try (loadSavedRoom S)
      (\<lambda>metadata. ad_Disconnect (svc_netbird S) ctx (md_ProfileID metadata)))"
    by (auto intro!: profs.keeps_intros spares [OF S] spares_loads [OF S])
  show ?thesis
    unfolding service_Disconnect_def wp_run_command wp_bind wp_in_client
    using assms(2) by (auto intro!: wp_mono [OF there_wp [OF d]] wp_answers split: sum.splits)
qed

lemma Reconnect_spares:
  assumes S: "session_spares ids B S" and "still ids B s"
  shows "wp (service_Reconnect S ctx) (\<lambda>r t. still ids B t) s"
  unfolding service_Reconnect_def wp_run_command wp_bind wp_in_client
  using assms(2)
  by (auto intro!: wp_mono [OF there_wp [OF spares_loads(1) [OF S]]] wp_answers wp_machine_Apply
        wp_mono [OF Resume_spares [OF S]] simp: wp_bind wp_in_client split: sum.splits option.splits)

lemma Reveal_spares:
  assumes S: "session_spares ids B S" and "still ids B s"
  shows "wp (RevealRoomCode S) (\<lambda>r t. still ids B t) s"
  unfolding RevealRoomCode_def wp_go_try wp_in_client
  using assms(2)
  by (auto intro!: wp_mono [OF there_wp [OF spares_loads(1) [OF S]]]
        wp_mono [OF there_wp [OF spares(2) [OF S]]] simp: wp_simps split: sum.splits)

lemma View_spares:
  assumes S: "session_spares ids B S" and "still ids B s"
  shows "wp (service_View S ctx) (\<lambda>r t. still ids B t) s"
  unfolding service_View_def wp_go_try wp_in_client
  using assms(2)
  by (auto intro!: wp_mono [OF there_wp [OF spares_loads(1) [OF S]]]
        wp_mono [OF there_wp [OF spares(2) [OF S]]] wp_mono [OF there_wp [OF spares(7) [OF S]]]
        wp_machine_Apply wp_mono [OF peers_spares [OF S]]
      simp: wp_bind wp_in_client wp_return Let_def split: sum.splits option.splits prod.splits)

text \<open>No call of the session removes a profile that is not its own.\<close>

lemma call_spares:
  assumes S: "session_spares ids B S" and "still ids B s" and "own_apart B (world s)"
  shows "wp (run_call S c) (\<lambda>x t. still ids B t) s"
proof (cases c)
  case (Call_Switch ctx request)
  show ?thesis unfolding Call_Switch run_call.simps wp_error_of service_Switch_body Let_def
    using assms(2,3)
    by (auto simp: wp_simps intro!: wp_answers wp_mono [OF switch_body_spares [OF S]])
next
  case (Call_Leave ctx)
  show ?thesis unfolding Call_Leave run_call.simps wp_error_of service_Leave_def
    using assms(2,3)
    by (auto simp: wp_simps intro!: wp_answers wp_mono [OF leave_spares [OF S]])
qed (use assms(2) in \<open>auto simp: wp_error_of wp_failure_of service_Join_def service_Connect_def
       intro!: Create_spares [OF S] service_enroll_spares [OF S] spares [OF S] Disconnect_spares [OF S]
         Reconnect_spares [OF S] View_spares [OF S] Reveal_spares [OF S]\<close>)

end

end
