(* ===== verification/NbRpcAdapter.thy ===== *)
theory NbRpcAdapter
  imports NbProfile NbVersion GoRuntime
begin

text \<open>
  The adapter that talks to the daemon over gRPC (\<open>client/internal/netbird/rpc_adapter.go\<close>).  Its
  state is the heap of the client, because \<open>Enroll\<close> empties the setup key it is given.  The numeric
  code of a gRPC error belongs to the gRPC library and is the parameter \<open>status_Code\<close>.
\<close>

section \<open>Definitions\<close>

definition sanitizeRPCError :: "(goerr \<Rightarrow> nat) \<Rightarrow> string \<Rightarrow> goerr \<Rightarrow> goerr" where
  "sanitizeRPCError status_Code operation e =
     (if errors_Is e context_Canceled \<or> errors_Is e context_DeadlineExceeded then e
      else RPCError operation (status_Code e))"

text \<open>The error branch \<open>return sanitizeRPCError(operation, err)\<close>.\<close>

definition sanitized ::
  "(goerr \<Rightarrow> nat) \<Rightarrow> string \<Rightarrow> ('s, goerr + 'a) state \<Rightarrow> ('s, goerr + 'a) state" where
  "sanitized status_Code operation m = do {
     r \<leftarrow> m;
     State_Monad.return (map_sum (sanitizeRPCError status_Code operation) id r)
   }"

record 'w RPCAdapter =
  rpa_client :: "'w daemon"
  rpa_profiles :: "'w ManagedProfileStore"
  rpa_username :: string

text \<open>The libraries the adapter relies on.\<close>

record 'w rpc_library =
  lib_protobuf :: protobuf
  lib_status_Code :: "goerr \<Rightarrow> nat"
  lib_runtime :: "'w runtime"

definition newRPCAdapter :: "'w daemon \<Rightarrow> string \<Rightarrow> 'w RPCAdapter" where
  "newRPCAdapter client username =
     \<lparr>rpa_client = client,
      rpa_profiles = \<lparr>mps_client = client, mps_username = username\<rparr>,
      rpa_username = username\<rparr>"

definition RPCAdapter_DaemonVersion ::
  "'w rpc_library \<Rightarrow> 'w RPCAdapter \<Rightarrow> go_context \<Rightarrow> ('w client, goerr + string) state" where
  "RPCAdapter_DaemonVersion L a ctx =
     go_try (sanitized (lib_status_Code L) ''read version''
         (in_world (rpc_Status (rpa_client a) ctx False))) (\<lambda>response.
     ok (psr_DaemonVersion response))"

definition RPCAdapter_Status ::
  "'w rpc_library \<Rightarrow> 'w RPCAdapter \<Rightarrow> go_context \<Rightarrow>
     ('w client, DaemonSnapshot \<times> goerr option) state" where
  "RPCAdapter_Status L a ctx = do {
     r \<leftarrow> sanitized (lib_status_Code L) ''read status''
            (in_world (rpc_Status (rpa_client a) ctx True));
     State_Monad.return
       (case r of
          Inl e \<Rightarrow> (no_snapshot, Some e)
        | Inr response \<Rightarrow> (NormalizeStatus (lib_protobuf L) (Some response), None))
   }"

definition RPCAdapter_ListProfiles ::
  "'w RPCAdapter \<Rightarrow> go_context \<Rightarrow> ('w client, goerr + Profile list) state" where
  "RPCAdapter_ListProfiles a ctx = in_world (profiles_list (rpa_profiles a) ctx)"

definition RPCAdapter_ActiveProfile ::
  "'w rpc_library \<Rightarrow> 'w RPCAdapter \<Rightarrow> go_context \<Rightarrow> ('w client, goerr + Profile) state" where
  "RPCAdapter_ActiveProfile L a ctx =
     go_try (sanitized (lib_status_Code L) ''read active profile''
         (in_world (rpc_GetActiveProfile (rpa_client a) ctx))) (\<lambda>response.
     ok \<lparr>prof_ID = apr_Id response, prof_Name = apr_ProfileName response, prof_IsActive = True,
         prof_Username = apr_Username response\<rparr>)"

definition RPCAdapter_CreateProfile ::
  "'w RPCAdapter \<Rightarrow> go_context \<Rightarrow> string \<Rightarrow> ('w client, goerr + Profile) state" where
  "RPCAdapter_CreateProfile a ctx displayName =
     (if displayName \<noteq> ManagedProfileName
      then err (Message (''only the \"'' @ ManagedProfileName @ ''\" managed profile can be created''))
      else in_world (profiles_Ensure (rpa_profiles a) ctx []))"

definition RPCAdapter_SelectProfile ::
  "'w RPCAdapter \<Rightarrow> go_context \<Rightarrow> string \<Rightarrow> ('w client, goerr + unit) state" where
  "RPCAdapter_SelectProfile a ctx profileID =
     in_world (profiles_Select (rpa_profiles a) ctx profileID)"

definition RPCAdapter_RemoveProfile ::
  "'w RPCAdapter \<Rightarrow> go_context \<Rightarrow> string \<Rightarrow> ('w client, goerr + unit) state" where
  "RPCAdapter_RemoveProfile a ctx profileID =
     in_world (profiles_Remove (rpa_profiles a) ctx profileID)"

text \<open>\<open>defer request.SetupKey.Clear()\<close> runs on every way out after the key was found.\<close>

definition RPCAdapter_Enroll ::
  "'w rpc_library \<Rightarrow> 'w RPCAdapter \<Rightarrow> go_context \<Rightarrow> EnrollmentRequest \<Rightarrow>
     ('w client, goerr + unit) state" where
  "RPCAdapter_Enroll L a ctx request =
     (case er_SetupKey request of
        None \<Rightarrow> err (Message ''Setup Key is required for NetBird enrollment'')
      | Some key \<Rightarrow> do {
          s \<leftarrow> State_Monad.get;
          r \<leftarrow> (if SetupKey_value key s = [] then err (Message ''Setup Key is empty'')
               else
                 go_try (in_world (profiles_Validate (rpa_profiles a) ctx (er_ProfileID request)))
                   (\<lambda>_.
                 sanitized (lib_status_Code L) ''enroll''
                   (in_world (rpc_Login (rpa_client a) ctx
                      \<lparr>lr_SetupKey = SetupKey_value key s,
                       lr_ManagementUrl = er_ManagementURL request,
                       lr_Hostname = er_Hostname request,
                       lr_ProfileName = er_ProfileID request,
                       lr_Username = rpa_username a\<rparr>))));
          _ \<leftarrow> SetupKey_Clear (Some key);
          State_Monad.return r
        })"

definition RPCAdapter_Connect ::
  "'w rpc_library \<Rightarrow> 'w RPCAdapter \<Rightarrow> go_context \<Rightarrow> string \<Rightarrow> ('w client, goerr + unit) state" where
  "RPCAdapter_Connect L a ctx profileID =
     go_try (in_world (profiles_Validate (rpa_profiles a) ctx profileID)) (\<lambda>_.
     sanitized (lib_status_Code L) ''connect''
       (in_world (rpc_Up (rpa_client a) ctx profileID (rpa_username a))))"

definition RPCAdapter_Disconnect ::
  "'w rpc_library \<Rightarrow> 'w RPCAdapter \<Rightarrow> go_context \<Rightarrow> string \<Rightarrow> ('w client, goerr + unit) state" where
  "RPCAdapter_Disconnect L a ctx profileID =
     go_try (in_world (profiles_Select (rpa_profiles a) ctx profileID)) (\<lambda>_.
     sanitized (lib_status_Code L) ''disconnect'' (in_world (rpc_Down (rpa_client a) ctx)))"

definition RPCAdapter_Deregister ::
  "'w rpc_library \<Rightarrow> 'w RPCAdapter \<Rightarrow> go_context \<Rightarrow> string \<Rightarrow> ('w client, goerr + unit) state" where
  "RPCAdapter_Deregister L a ctx profileID =
     go_try (in_world (profiles_Validate (rpa_profiles a) ctx profileID)) (\<lambda>_.
     sanitized (lib_status_Code L) ''deregister''
       (in_world (rpc_Logout (rpa_client a) ctx profileID (rpa_username a))))"

text \<open>
  The goroutine of \<open>Subscribe\<close>: it opens the stream, then forwards what it receives; the end of the
  stream and a cancelled context close the channels without an error.
\<close>

definition RPCAdapter_Subscribe ::
  "'w rpc_library \<Rightarrow> 'w RPCAdapter \<Rightarrow> go_context \<Rightarrow> ('w client, goerr option) state" where
  "RPCAdapter_Subscribe L a ctx = do {
     r \<leftarrow> sanitized (lib_status_Code L) ''subscribe events''
            (in_world (rpc_SubscribeEvents (rpa_client a) ctx));
     State_Monad.return (case r of Inl e \<Rightarrow> Some e | Inr _ \<Rightarrow> None)
   }"

definition RPCAdapter_Recv ::
  "'w rpc_library \<Rightarrow> 'w RPCAdapter \<Rightarrow> go_context \<Rightarrow> ('w client, sub_message) state" where
  "RPCAdapter_Recv L a ctx = do {
     r \<leftarrow> in_world (rpc_Recv (rpa_client a) ctx);
     ended \<leftarrow> in_world (ctx_Err (lib_runtime L) ctx);
     let canceled = (case ended of None \<Rightarrow> False | Some e \<Rightarrow> errors_Is e context_Canceled);
     State_Monad.return
       (case r of
          Inl e \<Rightarrow>
            if errors_Is e io_EOF \<or> errors_Is e context_Canceled \<or> canceled then SubClosed
            else SubFailure (sanitizeRPCError (lib_status_Code L) ''receive event'' e)
        | Inr source \<Rightarrow>
            if canceled then SubClosed else SubEvent (NormalizeEvent (lib_protobuf L) (Some source)))
   }"

definition RPCAdapter_Adapter :: "'w rpc_library \<Rightarrow> 'w RPCAdapter \<Rightarrow> 'w client Adapter" where
  "RPCAdapter_Adapter L a =
     \<lparr>ad_DaemonVersion = RPCAdapter_DaemonVersion L a,
      ad_Status = RPCAdapter_Status L a,
      ad_ListProfiles = RPCAdapter_ListProfiles a,
      ad_ActiveProfile = RPCAdapter_ActiveProfile L a,
      ad_CreateProfile = RPCAdapter_CreateProfile a,
      ad_SelectProfile = RPCAdapter_SelectProfile a,
      ad_RemoveProfile = RPCAdapter_RemoveProfile a,
      ad_Enroll = RPCAdapter_Enroll L a,
      ad_Connect = RPCAdapter_Connect L a,
      ad_Disconnect = RPCAdapter_Disconnect L a,
      ad_Deregister = RPCAdapter_Deregister L a,
      ad_Subscribe = RPCAdapter_Subscribe L a,
      ad_Recv = RPCAdapter_Recv L a\<rparr>"

lemmas RPCAdapter_defs =
  RPCAdapter_DaemonVersion_def RPCAdapter_Status_def RPCAdapter_ListProfiles_def
  RPCAdapter_ActiveProfile_def RPCAdapter_CreateProfile_def RPCAdapter_SelectProfile_def
  RPCAdapter_RemoveProfile_def RPCAdapter_Enroll_def RPCAdapter_Connect_def
  RPCAdapter_Disconnect_def RPCAdapter_Deregister_def RPCAdapter_Subscribe_def RPCAdapter_Recv_def

lemma wp_sanitized [wp_simps]:
  "wp (sanitized sc op m) Q s = wp m (\<lambda>r. Q (map_sum (sanitizeRPCError sc op) id r)) s"
  by (simp add: sanitized_def wp_simps)

lemma run_sanitized:
  "run_state (sanitized sc op m) s =
     (case run_state m s of (r, t) \<Rightarrow> (map_sum (sanitizeRPCError sc op) id r, t))"
  by (simp add: sanitized_def split: prod.splits)

section \<open>The setup key\<close>

text \<open>
  Whatever comes of the enrollment, the key is empty afterwards, and no other key is touched.
\<close>

lemma Enroll_keys:
  "wp (RPCAdapter_Enroll L a ctx request)
     (\<lambda>r t. setup_keys t =
        (case er_SetupKey request of None \<Rightarrow> setup_keys s | Some p \<Rightarrow> (setup_keys s)[p := []]) \<and>
        secrets t = secrets s \<and> intents t = intents s) s"
  by (auto simp: RPCAdapter_Enroll_def wp_simps intro!: wp_any split: option.splits sum.splits)

text \<open>No operation of the adapter fills a key again.\<close>

lemma RPCAdapter_keys:
  "adapter_keeps keys_monotone (RPCAdapter_Adapter L a)"
  unfolding adapter_keeps_def RPCAdapter_Adapter_def RPCAdapter_defs sanitized_def Let_def
  by (auto intro!: keys.keeps_intros keys_in_world keys_SetupKey_Clear split: option.splits)

section \<open>The profiles of the user\<close>

text \<open>
  The part of the contract of the daemon that concerns the other calls: they manage connections,
  not profiles.
\<close>

definition keeps_profiles :: "('w \<Rightarrow> (string \<times> string) list) \<Rightarrow> ('w \<Rightarrow> string) \<Rightarrow> ('w, 'a) state \<Rightarrow> bool"
  where "keeps_profiles ids active m \<longleftrightarrow>
     (\<forall>w r w'. run_state m w = (r, w') \<longrightarrow> ids w' = ids w \<and> active w' = active w)"

definition connection_calls_keep_profiles ::
  "'w daemon \<Rightarrow> ('w \<Rightarrow> (string \<times> string) list) \<Rightarrow> ('w \<Rightarrow> string) \<Rightarrow> bool" where
  "connection_calls_keep_profiles d ids active \<longleftrightarrow>
     (\<forall>c r. keeps_profiles ids active (rpc_Login d c r)) \<and>
     (\<forall>c p u. keeps_profiles ids active (rpc_Up d c p u)) \<and>
     (\<forall>c b. keeps_profiles ids active (rpc_Status d c b)) \<and>
     (\<forall>c. keeps_profiles ids active (rpc_Down d c)) \<and>
     (\<forall>c p u. keeps_profiles ids active (rpc_Logout d c p u))"

lemma keeps_profilesD:
  "keeps_profiles ids active m \<Longrightarrow> run_state m w = (r, w') \<Longrightarrow> ids w' = ids w \<and> active w' = active w"
  unfolding keeps_profiles_def by blast

text \<open>What a user sees of the daemon's profiles before and after an operation.\<close>

definition users_profiles :: "('w \<Rightarrow> (string \<times> string) list) \<Rightarrow> string \<Rightarrow> 'w client \<Rightarrow> (string \<times> string) list"
  where "users_profiles ids managed s = filter (\<lambda>(i, n). i \<noteq> managed) (ids (outside s))"

lemma Connect_profiles:
  assumes "profile_daemon d user ids active" and "connection_calls_keep_profiles d ids active"
    and "run_state (RPCAdapter_Connect L (newRPCAdapter d user) ctx p) s = (r, t)"
  shows "ids (outside t) = ids (outside s)"
  using assms(3) profiles_Validate_run(1) [OF assms(1)] assms(2)
  by (fastforce simp: RPCAdapter_Connect_def newRPCAdapter_def run_go_try run_sanitized run_in_world
      connection_calls_keep_profiles_def keeps_profiles_def split: prod.splits sum.splits)

lemma Deregister_profiles:
  assumes "profile_daemon d user ids active" and "connection_calls_keep_profiles d ids active"
    and "run_state (RPCAdapter_Deregister L (newRPCAdapter d user) ctx p) s = (r, t)"
  shows "ids (outside t) = ids (outside s)"
  using assms(3) profiles_Validate_run(1) [OF assms(1)] assms(2)
  by (fastforce simp: RPCAdapter_Deregister_def newRPCAdapter_def run_go_try run_sanitized
      run_in_world connection_calls_keep_profiles_def keeps_profiles_def
      split: prod.splits sum.splits)

lemma Disconnect_profiles:
  assumes "profile_daemon d user ids active" and "connection_calls_keep_profiles d ids active"
    and "run_state (RPCAdapter_Disconnect L (newRPCAdapter d user) ctx p) s = (r, t)"
  shows "ids (outside t) = ids (outside s)"
  using assms(3) profiles_Select_run(1) [OF assms(1)] assms(2)
  by (fastforce simp: RPCAdapter_Disconnect_def newRPCAdapter_def run_go_try run_sanitized
      run_in_world connection_calls_keep_profiles_def keeps_profiles_def
      split: prod.splits sum.splits)

lemma Enroll_profiles:
  assumes "profile_daemon d user ids active" and "connection_calls_keep_profiles d ids active"
    and "run_state (RPCAdapter_Enroll L (newRPCAdapter d user) ctx request) s = (r, t)"
  shows "ids (outside t) = ids (outside s)"
  using assms(3) profiles_Validate_run(1) [OF assms(1)] assms(2)
  by (fastforce simp: RPCAdapter_Enroll_def newRPCAdapter_def run_go_try run_sanitized run_in_world
      SetupKey_Clear_def State_Monad.update_def connection_calls_keep_profiles_def
      keeps_profiles_def split: prod.splits sum.splits option.splits if_splits)

end
