(* ===== verification/Desktop.thy ===== *)
theory Desktop
  imports SessionSecrets SessionProfiles NbRpcAdapter
begin

text \<open>
  The client put together as \<open>NewWindowsController\<close> does it
  (\<open>client/app/bootstrap_windows.go\<close>): the session over the HTTP client of the room API, the
  version gate before the gRPC adapter, and the two stores on the disk.  The world outside the
  process is the disk and the rest (daemon, network, clock), on which the parameters act.

  The interpretation \<open>desktop\<close> shows that these parts provide what \<open>session_env\<close> asks for.
\<close>

section \<open>The world\<close>

record 'r world =
  w_disk :: disk
  w_rest :: 'r

definition on_rest :: "('r, 'a) state \<Rightarrow> ('r world, 'a) state" where
  "on_rest = on_field w_rest (\<lambda>r w. w\<lparr>w_rest := r\<rparr>)"

definition on_disk :: "(disk, 'a) state \<Rightarrow> ('r world, 'a) state" where
  "on_disk = on_field w_disk (\<lambda>d w. w\<lparr>w_disk := d\<rparr>)"

definition local_daemon :: "'r daemon \<Rightarrow> 'r world daemon" where
  "local_daemon d =
     \<lparr>rpc_ListProfiles = \<lambda>c u. on_rest (rpc_ListProfiles d c u),
      rpc_GetActiveProfile = \<lambda>c. on_rest (rpc_GetActiveProfile d c),
      rpc_AddProfile = \<lambda>c u n. on_rest (rpc_AddProfile d c u n),
      rpc_SwitchProfile = \<lambda>c p u. on_rest (rpc_SwitchProfile d c p u),
      rpc_RemoveProfile = \<lambda>c u p. on_rest (rpc_RemoveProfile d c u p),
      rpc_Login = \<lambda>c r. on_rest (rpc_Login d c r),
      rpc_Up = \<lambda>c p u. on_rest (rpc_Up d c p u),
      rpc_Status = \<lambda>c b. on_rest (rpc_Status d c b),
      rpc_Down = \<lambda>c. on_rest (rpc_Down d c),
      rpc_Logout = \<lambda>c p u. on_rest (rpc_Logout d c p u),
      rpc_SubscribeEvents = \<lambda>c. on_rest (rpc_SubscribeEvents d c),
      rpc_Recv = \<lambda>c. on_rest (rpc_Recv d c)\<rparr>"

definition local_runtime :: "'r runtime \<Rightarrow> 'r world runtime" where
  "local_runtime rt =
     \<lparr>ctx_Err = \<lambda>c. on_rest (ctx_Err rt c),
      timer_or_Done = \<lambda>c d. on_rest (timer_or_Done rt c d),
      send_or_Done = \<lambda>c. on_rest (send_or_Done rt c),
      send_or_default = \<lambda>c. on_rest (send_or_default rt c),
      time_Now = on_rest (time_Now rt),
      rand_ReadFull = \<lambda>n. on_rest (rand_ReadFull rt n)\<rparr>"

definition local_http :: "'r http_do \<Rightarrow> 'r world http_do" where
  "local_http h = (\<lambda>c r. on_rest (h c r))"

text \<open>What the program finds on its machine.\<close>

record 'r platform =
  pf_http :: "'r http_do"
  pf_ParseTime :: "string \<Rightarrow> time option"
  pf_daemon :: "'r daemon"
  pf_dial :: "goerr option"
  pf_protobuf :: protobuf
  pf_status_Code :: "goerr \<Rightarrow> nat"
  pf_runtime :: "'r runtime"
  pf_filepath :: filepath
  pf_codec :: time_codec
  pf_dpapi :: dpapi
  pf_user :: "goerr + string"

section \<open>Wiring\<close>

definition roomAPIBaseURL :: string where "roomAPIBaseURL = ''https://legengen.top''"

definition desktop_runtime :: "'r platform \<Rightarrow> 'r world runtime" where
  "desktop_runtime P = local_runtime (pf_runtime P)"

definition desktop_room_library :: "'r platform \<Rightarrow> 'r world room_library" where
  "desktop_room_library P = \<lparr>rl_runtime = desktop_runtime P, rl_ParseTime = pf_ParseTime P\<rparr>"

definition desktop_adapter :: "'r platform \<Rightarrow> string \<Rightarrow> 'r world client Adapter" where
  "desktop_adapter P username =
     VersionedAdapter_Adapter (EnforceExactVersion
       (RPCAdapter_Adapter
          \<lparr>lib_protobuf = pf_protobuf P, lib_status_Code = pf_status_Code P,
           lib_runtime = desktop_runtime P\<rparr>
          (newRPCAdapter (local_daemon (pf_daemon P)) username))
       netbird_ExpectedVersion)"

definition metadata_storage_of :: "MetadataStore \<Rightarrow> ('r world client, RoomMetadata) Storage" where
  "metadata_storage_of st =
     \<lparr>stg_Load = in_world (on_disk (MetadataStore_Load st)),
      stg_Save = \<lambda>m. in_world (on_disk (MetadataStore_Save st m)),
      stg_Clear = in_world (on_disk (MetadataStore_Clear st))\<rparr>"

definition code_storage_of :: "RoomCodeStore \<Rightarrow> ('r world client, string) Storage" where
  "code_storage_of st =
     \<lparr>stg_Load = in_world (on_disk (RoomCodeStore_Load st)),
      stg_Save = \<lambda>c. in_world (on_disk (RoomCodeStore_Save st c)),
      stg_Clear = in_world (on_disk (RoomCodeStore_Clear st))\<rparr>"

definition session_service ::
  "'r platform \<Rightarrow> 'r world RoomClient \<Rightarrow> string \<Rightarrow> MetadataStore \<Rightarrow> RoomCodeStore \<Rightarrow> 'r world SessionService" where
  "session_service P rooms username metadata codes =
     (let L = desktop_room_library P in
      NewService \<lparr>room_Create = RoomClient_Create L rooms, room_Join = RoomClient_Join L rooms\<rparr>
        (Some (RoomClient_Peers L rooms)) (desktop_adapter P username)
        (metadata_storage_of metadata) (code_storage_of codes) (desktop_runtime P))"

definition NewWindowsSession :: "'r platform \<Rightarrow> goerr + 'r world SessionService" where
  "NewWindowsSession P =
     (case NewClient roomAPIBaseURL (local_http (pf_http P)) of
        Inl e \<Rightarrow> Inl e
      | Inr rooms \<Rightarrow>
     (case DefaultMetadataPath (pf_filepath P) of
        Inl e \<Rightarrow> Inl e
      | Inr metadataPath \<Rightarrow>
     (case NewMetadataStore (pf_filepath P) (pf_codec P) metadataPath of
        Inl e \<Rightarrow> Inl e
      | Inr metadata \<Rightarrow>
     (case DefaultRoomCodePath (pf_filepath P) of
        Inl e \<Rightarrow> Inl e
      | Inr roomCodePath \<Rightarrow>
     (case NewRoomCodeStore (pf_filepath P) (pf_dpapi P) roomCodePath of
        Inl e \<Rightarrow> Inl e
      | Inr codes \<Rightarrow>
     (case pf_user P of
        Inl e \<Rightarrow> Inl (Message ''resolve current Windows user'')
      | Inr username \<Rightarrow>
     (case pf_dial P of
        Some e \<Rightarrow> Inl (Wrapped ''connect to local NetBird daemon: '' e [])
      | None \<Rightarrow> Inr (session_service P rooms username metadata codes))))))))"

section \<open>Parts of the state\<close>

text \<open>A contract that holds on a part of the state holds on the whole.\<close>

lemma slot_storage_on_field:
  assumes "slot_storage load save clear sl missing storable ready"
    and get_put: "\<And>t s. g (p t s) = t"
  shows "slot_storage (on_field g p load) (\<lambda>v. on_field g p (save v)) (on_field g p clear)
    (\<lambda>s. sl (g s)) missing storable (\<lambda>s. ready (g s))"
  using assms(1) unfolding slot_storage_def wp_on_field get_put by blast

text \<open>What acts on the rest of the world only, or on the heap of the client, leaves the disk alone.\<close>

definition same_disk :: "'r world client \<Rightarrow> 'r world client \<Rightarrow> bool" where
  "same_disk s t \<longleftrightarrow> w_disk (outside t) = w_disk (outside s)"

interpretation disk: frame_relation same_disk
  by unfold_locales (auto simp: same_disk_def)

definition world_disk :: "'r world \<Rightarrow> 'r world \<Rightarrow> bool" where
  "world_disk w w' \<longleftrightarrow> w_disk w' = w_disk w"

interpretation wdisk: frame_relation world_disk
  by unfold_locales (auto simp: world_disk_def)

lemma wdisk_on_rest: "wdisk.keeps (on_rest m)"
  unfolding on_rest_def by (rule wdisk.keeps_on_field) (simp add: world_disk_def)

lemma disk_in_world: "wdisk.keeps m \<Longrightarrow> disk.keeps (in_world m)"
  unfolding in_world_def
  by (rule disk.keepsI)
     (auto simp: run_on_field same_disk_def world_disk_def split: prod.splits dest: wdisk.keepsD)

lemma disk_heap: "(\<And>s. outside (snd (run_state m s)) = outside s) \<Longrightarrow> disk.keeps m"
  by (auto simp: disk.keeps_def same_disk_def)

lemma disk_heap_ops:
  "disk.keeps (NewSetupKey v)" "disk.keeps (SetupKey_Clear key)" "disk.keeps (takeSetupKey e)"
  "disk.keeps (intent_begin i)" "disk.keeps (intent_finish i b)"
  "disk.keeps (response_enrollment r b code)"
  by (auto intro!: disk_heap simp: NewSetupKey_def SetupKey_Clear_def takeSetupKey_def intent_begin_def
      intent_finish_def response_enrollment_def Let_def State_Monad.update_def
      split: option.splits bool.splits)

lemma local_ops:
  "wdisk.keeps (rpc_ListProfiles (local_daemon d) c u)" "wdisk.keeps (rpc_GetActiveProfile (local_daemon d) c)"
  "wdisk.keeps (rpc_AddProfile (local_daemon d) c u n)" "wdisk.keeps (rpc_SwitchProfile (local_daemon d) c p u)"
  "wdisk.keeps (rpc_RemoveProfile (local_daemon d) c u p)" "wdisk.keeps (rpc_Login (local_daemon d) c r)"
  "wdisk.keeps (rpc_Up (local_daemon d) c p u)" "wdisk.keeps (rpc_Status (local_daemon d) c b)"
  "wdisk.keeps (rpc_Down (local_daemon d) c)" "wdisk.keeps (rpc_Logout (local_daemon d) c p u)"
  "wdisk.keeps (rpc_SubscribeEvents (local_daemon d) c)" "wdisk.keeps (rpc_Recv (local_daemon d) c)"
  "wdisk.keeps (ctx_Err (local_runtime rt) c)" "wdisk.keeps (timer_or_Done (local_runtime rt) c t)"
  "wdisk.keeps (send_or_Done (local_runtime rt) c)" "wdisk.keeps (send_or_default (local_runtime rt) c)"
  "wdisk.keeps (time_Now (local_runtime rt))" "wdisk.keeps (rand_ReadFull (local_runtime rt) k)"
  "wdisk.keeps (local_http h c req)"
  by (simp_all add: local_daemon_def local_runtime_def local_http_def wdisk_on_rest)

lemma wdisk_profiles:
  "wdisk.keeps (profiles_list \<lparr>mps_client = local_daemon d, mps_username = u\<rparr> c)"
  "wdisk.keeps (profiles_Ensure \<lparr>mps_client = local_daemon d, mps_username = u\<rparr> c p)"
  "wdisk.keeps (profiles_Validate \<lparr>mps_client = local_daemon d, mps_username = u\<rparr> c p)"
  "wdisk.keeps (profiles_Select \<lparr>mps_client = local_daemon d, mps_username = u\<rparr> c p)"
  "wdisk.keeps (profiles_Remove \<lparr>mps_client = local_daemon d, mps_username = u\<rparr> c p)"
  unfolding profiles_defs wrap_err_def
  by (auto intro!: wdisk.keeps_intros local_ops split: option.splits)

lemmas disk_intros = disk.keeps_intros disk_in_world disk_heap_ops wdisk_profiles local_ops

lemma desktop_adapter_disk: "adapter_keeps same_disk (desktop_adapter P username)"
  unfolding desktop_adapter_def
  by (rule disk.VersionedAdapter_keeps)
     (auto simp: adapter_keeps_def RPCAdapter_Adapter_def RPCAdapter_defs sanitized_def Let_def
        newRPCAdapter_def EnforceExactVersion_def desktop_runtime_def
        intro!: disk_intros split: option.splits)

lemma desktop_runtime_disk: "runtime_keeps same_disk (desktop_runtime P)"
  unfolding runtime_keeps_def desktop_runtime_def by (auto intro!: disk_intros)

section \<open>The room API\<close>

text \<open>A client that speaks HTTP over the rest of the world.\<close>

abbreviation over_rest :: "'r platform \<Rightarrow> 'r world RoomClient \<Rightarrow> 'r world RoomClient" where
  "over_rest P c \<equiv> c\<lparr>rc_httpClient := local_http (pf_http P)\<rparr>"

lemma doAttempt_disk:
  "disk.keeps (doAttempt (desktop_room_library P) (over_rest P c) ctx method path body headers target)"
  unfolding doAttempt_def Let_def desktop_room_library_def desktop_runtime_def
  by (auto intro!: disk_intros split: option.splits)

lemma waitForRetry_disk: "disk.keeps (waitForRetry (desktop_room_library P) ctx delay)"
  unfolding waitForRetry_def desktop_room_library_def desktop_runtime_def
  by (auto intro!: disk_intros)

lemma do_loop_disk:
  "disk.keeps (do_loop (desktop_room_library P) (over_rest P c) ctx method path body headers target delays)"
  by (induction delays) (auto intro!: disk_intros doAttempt_disk waitForRetry_disk)

lemma rooms_disk:
  "disk.keeps (RoomClient_Create (desktop_room_library P) (over_rest P c) ctx i)"
  "disk.keeps (RoomClient_Join (desktop_room_library P) (over_rest P c) ctx code)"
  "disk.keeps (RoomClient_Peers (desktop_room_library P) (over_rest P c) ctx code)"
  unfolding RoomClient_Create_def RoomClient_Join_def RoomClient_Peers_def create_request_def roomapi_do_def
  by (auto intro!: disk_intros do_loop_disk split: sum.splits option.splits)

lemma response_key:
  "no_live_key s \<Longrightarrow> wp (response_enrollment r b code)
     (\<lambda>x t. case x of Inl e \<Rightarrow> no_live_key t | Inr e \<Rightarrow> holds_key e t) s"
  by (auto simp: response_enrollment_def Let_def wp_simps holds_key_def no_live_key_nth nth_append
      split: option.splits)

lemma request_key:
  assumes "no_live_key s"
  shows "wp (go_try (roomapi_do L c ctx method path body headers target) (\<lambda>r. response_enrollment r b code))
     (\<lambda>x t. case x of Inl e \<Rightarrow> no_live_key t | Inr e \<Rightarrow> holds_key e t) s"
  unfolding wp_go_try
proof (rule heap.wp_keeps [OF roomapi_do_heap])
  fix r t
  assume "same_heap s t"
  with assms have "no_live_key t" by (simp add: same_heap_def no_live_key_def)
  then show "case r of Inl e \<Rightarrow> case Inl e of Inl e \<Rightarrow> no_live_key t | Inr e \<Rightarrow> holds_key e t
      | Inr x \<Rightarrow> wp (response_enrollment x b code)
          (\<lambda>x t. case x of Inl e \<Rightarrow> no_live_key t | Inr e \<Rightarrow> holds_key e t) t"
    by (cases r) (simp_all add: response_key)
qed

lemma holds_key_intents [simp]: "holds_key e (s\<lparr>intents := x\<rparr>) = holds_key e s"
  by (simp add: holds_key_def)

lemma no_live_key_intents [simp]: "no_live_key (s\<lparr>intents := x\<rparr>) = no_live_key s"
  by (simp add: no_live_key_def)

lemma Create_hands_out: "hands_out_key (RoomClient_Create L c ctx i)"
  unfolding hands_out_key_def
proof (intro allI impI)
  fix s :: "'a client"
  assume s: "no_live_key s"
  show "wp (RoomClient_Create L c ctx i)
     (\<lambda>x t. case x of Inl e \<Rightarrow> no_live_key t | Inr e \<Rightarrow> holds_key e t) s"
  proof (cases i)
    case None
    with s show ?thesis by (simp add: RoomClient_Create_def intent_begin_def wp_simps)
  next
    case (Some p)
    have r: "wp (create_request L c ctx key)
      (\<lambda>x t. case x of Inl e \<Rightarrow> no_live_key t | Inr e \<Rightarrow> holds_key e t) (s\<lparr>intents := x\<rparr>)" for key x
      unfolding create_request_def by (rule request_key) (simp add: s)
    show ?thesis
      using s unfolding Some RoomClient_Create_def wp_go_try wp_intent_begin
      by (auto simp: wp_simps intro!: wp_mono [OF r] split: option.splits sum.splits)
  qed
qed

lemma Join_hands_out: "hands_out_key (RoomClient_Join L c ctx code)"
  unfolding hands_out_key_def RoomClient_Join_def
  by (cases "normalizeRoomCode code") (simp_all add: wp_return request_key del: render.simps)

lemma Peers_heap: "heap.keeps (RoomClient_Peers L c ctx code)"
  unfolding RoomClient_Peers_def
  by (auto intro!: heap.keeps_intros roomapi_do_heap split: sum.splits option.splits)

section \<open>The daemon\<close>

lemma desktop_adapter_held: "adapter_keeps keys_held (desktop_adapter P username)"
  unfolding desktop_adapter_def
  by (rule held.VersionedAdapter_keeps)
     (auto simp: adapter_keeps_def RPCAdapter_Adapter_def RPCAdapter_defs sanitized_def Let_def
        EnforceExactVersion_def
        intro!: held.keeps_intros held_in_world held_SetupKey_Clear split: option.splits)

section \<open>The stores\<close>

definition saved_metadata :: "time_codec \<Rightarrow> string \<Rightarrow> 'r world \<Rightarrow> RoomMetadata slot" where
  "saved_metadata T directory w = metadata_slot (room_json T directory) (w_disk w)"

definition saved_code :: "dpapi \<Rightarrow> string \<Rightarrow> 'r world \<Rightarrow> string slot" where
  "saved_code D directory w = code_slot (room_code_file D directory) (w_disk w)"

definition disk_ready :: "'r world \<Rightarrow> bool" where "disk_ready w = no_faults (w_disk w)"

lemmas saved_defs = saved_metadata_def saved_code_def disk_ready_def

lemma disk_same_store:
  assumes "disk.keeps m"
  shows "frame_relation.keeps (same_store (saved_metadata T d) (saved_code D d) disk_ready) m"
  using assms by (auto simp: disk.keeps_def store.keeps_def same_disk_def same_store_def saved_defs)

lemma adapter_same_store:
  "adapter_keeps same_disk a \<Longrightarrow>
     adapter_keeps (same_store (saved_metadata T d) (saved_code D d) disk_ready) a"
  unfolding adapter_keeps_def by (simp add: disk_same_store)

lemma runtime_same_store:
  "runtime_keeps same_disk rt \<Longrightarrow>
     runtime_keeps (same_store (saved_metadata T d) (saved_code D d) disk_ready) rt"
  unfolding runtime_keeps_def by (simp add: disk_same_store)

definition same_file :: "path \<Rightarrow> disk \<Rightarrow> disk \<Rightarrow> bool" where
  "same_file p d d' \<longleftrightarrow> files d' p = files d p"

interpretation onefile: frame_relation "same_file p" for p
  by unfold_locales (auto simp: same_file_def)

lemma file_keeps_wp: "(\<And>d. wp m (\<lambda>r d'. files d' p = files d p) d) \<Longrightarrow> onefile.keeps p m"
  by (rule onefile.keepsI, unfold same_file_def, rule wpD)

lemma file_os_call:
  "(\<And>d. wp m (\<lambda>r d'. files d' = files d) d) \<Longrightarrow> onefile.keeps p (os_call clean m)"
proof (rule file_keeps_wp)
  fix d
  assume m: "\<And>d. wp m (\<lambda>r d'. files d' = files d) d"
  show "wp (os_call clean m) (\<lambda>r d'. files d' p = files d p) d"
    by (rule wp_os_call) (auto intro!: wp_mono [OF m])
qed

lemma loads_keep_files:
  "onefile.keeps p (MetadataStore_Load st)" "onefile.keeps p (RoomCodeStore_Load cst)"
  unfolding MetadataStore_Load_def loadMetadata_def RoomCodeStore_Load_def os_Open_def io_ReadAll_def
    wrap_os_def Let_def
  by (auto intro!: onefile.keeps_intros file_os_call simp: wp_simps split: option.splits)

lemma stores_apart_files:
  "onefile.keeps (Path d ''room.code'') (MetadataStore_Save (room_json T d) m)"
  "onefile.keeps (Path d ''room.code'') (MetadataStore_Clear (room_json T d))"
  "onefile.keeps (Path d ''room.json'') (RoomCodeStore_Save (room_code_file D d) c)"
  "onefile.keeps (Path d ''room.json'') (RoomCodeStore_Clear (room_code_file D d))"
proof -
  show "onefile.keeps (Path d ''room.code'') (MetadataStore_Save (room_json T d) m)"
    by (rule file_keeps_wp, rule wp_mono [OF MetadataStore_Save_effect]) (simp add: not_temp)
  show "onefile.keeps (Path d ''room.json'') (RoomCodeStore_Save (room_code_file D d) c)"
    by (rule file_keeps_wp, rule wp_mono [OF RoomCodeStore_Save_effect]) (simp add: not_temp)
  show "onefile.keeps (Path d ''room.code'') (MetadataStore_Clear (room_json T d))"
    unfolding MetadataStore_Clear_def
    by (rule file_keeps_wp, rule wp_mono [OF clear_file_effect]) (auto simp: room_json_def split: sum.splits)
  show "onefile.keeps (Path d ''room.json'') (RoomCodeStore_Clear (room_code_file D d))"
    unfolding RoomCodeStore_Clear_def
    by (rule file_keeps_wp, rule wp_mono [OF clear_file_effect]) (auto simp: room_code_file_def split: sum.splits)
qed

lemma slot_of_file:
  assumes "onefile.keeps p m" and "\<And>w w'. files (w_disk w') p = files (w_disk w) p \<Longrightarrow> sl w' = sl w"
  shows "frame_relation.keeps (same_slot sl) (in_world (on_disk m))"
proof (rule slot.keepsI)
  fix s t :: "'b world client" and a
  assume "run_state (in_world (on_disk m)) s = (a, t)"
  then obtain d' where d: "run_state m (w_disk (outside s)) = (a, d')" "w_disk (outside t) = d'"
    by (auto simp: run_in_world on_disk_def run_on_field split: prod.splits)
  have "same_file p (w_disk (outside s)) d'" by (rule onefile.keepsD [OF assms(1) d(1)])
  then show "same_slot sl s t"
    unfolding same_slot_def by (intro assms(2)) (simp add: d(2) same_file_def)
qed

lemma metadata_of_file:
  "files (w_disk w') (Path d ''room.json'') = files (w_disk w) (Path d ''room.json'') \<Longrightarrow>
     saved_metadata T d w' = saved_metadata T d w"
  by (simp add: saved_metadata_def metadata_slot_def room_json_def)

lemma code_of_file:
  "files (w_disk w') (Path d ''room.code'') = files (w_disk w) (Path d ''room.code'') \<Longrightarrow>
     saved_code D d w' = saved_code D d w"
  by (simp add: saved_code_def code_slot_def room_code_file_def)

lemma storages_apart:
  "storage_apart (saved_code D d) (metadata_storage_of (room_json T d))"
  "storage_apart (saved_metadata T d) (code_storage_of (room_code_file D d))"
proof -
  note code = slot_of_file [where p = "Path d ''room.code''" and sl = "saved_code D d", OF _ code_of_file]
    and metadata = slot_of_file [where p = "Path d ''room.json''" and sl = "saved_metadata T d",
      OF _ metadata_of_file]
  show "storage_apart (saved_code D d) (metadata_storage_of (room_json T d))"
    by (simp add: storage_apart_def metadata_storage_of_def heap_in_world code loads_keep_files
        stores_apart_files)
  show "storage_apart (saved_metadata T d) (code_storage_of (room_code_file D d))"
    by (simp add: storage_apart_def code_storage_of_def heap_in_world metadata loads_keep_files
        stores_apart_files)
qed

section \<open>The interpretation\<close>

text \<open>The service that \<open>NewWindowsSession\<close> makes for the files in \<open>directory\<close>.\<close>

abbreviation desktop_service ::
  "'r platform \<Rightarrow> 'r world RoomClient \<Rightarrow> string \<Rightarrow> string \<Rightarrow> 'r world SessionService" where
  "desktop_service P c username directory \<equiv>
     session_service P (over_rest P c) username (room_json (pf_codec P) directory)
       (room_code_file (pf_dpapi P) directory)"

lemma session_service_simps:
  "svc_metadata (session_service P c u m k) = metadata_storage_of m"
  "svc_codes (session_service P c u m k) = code_storage_of k"
  "svc_netbird (session_service P c u m k) = desktop_adapter P u"
  "svc_runtime (session_service P c u m k) = desktop_runtime P"
  "svc_monitor (session_service P c u m k) = NewRecoveryMonitor (desktop_adapter P u)"
  "room_Create (svc_rooms (session_service P c u m k)) = RoomClient_Create (desktop_room_library P) c"
  "room_Join (svc_rooms (session_service P c u m k)) = RoomClient_Join (desktop_room_library P) c"
  "svc_peers (session_service P c u m k) =
     Some (NewPeerRefresher (RoomClient_Peers (desktop_room_library P) c) (code_storage_of k))"
  by (simp_all add: session_service_def NewService_def Let_def)

lemma stored_slots:
  "slot_storage (stg_Load (metadata_storage_of (room_json T d))) (stg_Save (metadata_storage_of (room_json T d)))
     (stg_Clear (metadata_storage_of (room_json T d))) (\<lambda>s. saved_metadata T d (outside s)) ErrNoRoomMetadata
     (storable_metadata T) (\<lambda>s. disk_ready (outside s))"
  "slot_storage (stg_Load (code_storage_of (room_code_file D d))) (stg_Save (code_storage_of (room_code_file D d)))
     (stg_Clear (code_storage_of (room_code_file D d))) (\<lambda>s. saved_code D d (outside s)) ErrNoProtectedRoomCode
     (storable_code D) (\<lambda>s. disk_ready (outside s))"
  unfolding metadata_storage_of_def code_storage_of_def Storage.simps in_world_def on_disk_def saved_defs
  by (intro slot_storage_on_field [where g = outside and sl = "\<lambda>w. metadata_slot (room_json T d) (w_disk w)"
            and ready = "\<lambda>w. no_faults (w_disk w)"]
          slot_storage_on_field [where g = w_disk] metadata_storage; simp)
     (intro slot_storage_on_field [where g = outside and sl = "\<lambda>w. code_slot (room_code_file D d) (w_disk w)"
            and ready = "\<lambda>w. no_faults (w_disk w)"]
          slot_storage_on_field [where g = w_disk] code_storage; simp)

interpretation desktop: session_env "desktop_service P c username directory"
  "saved_metadata (pf_codec P) directory" "saved_code (pf_dpapi P) directory"
  "storable_metadata (pf_codec P)" "storable_code (pf_dpapi P)" disk_ready
  for P c username directory
proof (intro session_env.intro session_env_axioms.intro, unfold session_service_simps)
qed (simp_all add: stored_slots storages_apart adapter_same_store desktop_adapter_disk
       desktop_adapter_held runtime_same_store desktop_runtime_disk disk_same_store rooms_disk
       Create_hands_out Join_hands_out NewPeerRefresher_def, auto simp: disk_same_store rooms_disk
       heap_held Peers_heap)

end
