(* ===== verification/DesktopProfiles.thy ===== *)
theory DesktopProfiles
  imports Desktop
begin

text \<open>
  The profiles of the daemon under the desktop client: with a daemon that keeps its contract
  (\<open>profile_daemon\<close>, \<open>connection_calls_keep_profiles\<close>) and a network and a clock that do not touch its
  profiles, the client's adapter spares the profiles of the user.
\<close>

definition list_frame :: "('x \<Rightarrow> (string \<times> string) list) \<Rightarrow> (string \<times> string) set \<Rightarrow> 'x \<Rightarrow> 'x \<Rightarrow> bool" where
  "list_frame ids B w w' \<longleftrightarrow> (B \<subseteq> set (ids w) \<longrightarrow> B \<subseteq> set (ids w'))"

interpretation listed: frame_relation "list_frame ids B"
  for ids :: "'x \<Rightarrow> (string \<times> string) list" and B
  by unfold_locales (auto simp: list_frame_def)

lemma run_on_rest:
  "run_state (on_rest m) w = (r, w') \<longleftrightarrow> (\<exists>x. run_state m (w_rest w) = (r, x) \<and> w' = w\<lparr>w_rest := x\<rparr>)"
  by (auto simp: on_rest_def run_on_field split: prod.splits)

lemma listed_in_world: "listed.keeps ids B m \<Longrightarrow> profs.keeps ids B (in_world m)"
  unfolding in_world_def
  by (rule profs.keepsI)
     (auto simp: run_on_field profiles_frame_def there_def list_frame_def split: prod.splits
        dest!: listed.keepsD)

lemma listed_on_rest:
  "listed.keeps ids B m \<Longrightarrow> listed.keeps (\<lambda>w. ids (w_rest w)) B (on_rest m)"
  by (rule listed.keepsI) (auto simp: run_on_rest list_frame_def dest!: listed.keepsD)

lemma listed_on_disk: "listed.keeps (\<lambda>w. ids (w_rest w)) B (on_disk m)"
  by (rule listed.keepsI) (auto simp: on_disk_def run_on_field list_frame_def split: prod.splits)

lemma listed_same: "keeps_profiles ids active m \<Longrightarrow> listed.keeps ids B m"
  by (rule listed.keepsI) (simp add: list_frame_def keeps_profiles_def)

lemma profile_daemon_local:
  assumes d: "profile_daemon d user ids active"
  shows "profile_daemon (local_daemon d) user (\<lambda>w. ids (w_rest w)) (\<lambda>w. active (w_rest w))"
  unfolding profile_daemon_def local_daemon_def daemon.simps run_on_rest
  using profile_daemon_List [OF d] profile_daemon_Active [OF d] profile_daemon_Add [OF d]
    profile_daemon_Switch [OF d] profile_daemon_Remove [OF d]
  by (intro conjI allI impI; elim exE conjE; simp)

lemma connection_calls_local:
  assumes "connection_calls_keep_profiles d ids active"
  shows "listed.keeps (\<lambda>w. ids (w_rest w)) B (rpc_Login (local_daemon d) c r)"
    "listed.keeps (\<lambda>w. ids (w_rest w)) B (rpc_Up (local_daemon d) c p u)"
    "listed.keeps (\<lambda>w. ids (w_rest w)) B (rpc_Status (local_daemon d) c b)"
    "listed.keeps (\<lambda>w. ids (w_rest w)) B (rpc_Down (local_daemon d) c)"
    "listed.keeps (\<lambda>w. ids (w_rest w)) B (rpc_Logout (local_daemon d) c p u)"
  using assms
  by (auto simp: connection_calls_keep_profiles_def local_daemon_def 
      intro!: listed_on_rest listed_same [where active = active])

lemma profiles_listed:
  assumes d: "profile_daemon d user ids active"
  shows "listed.keeps ids B (profiles_Validate (profile_store d user) c p)"
    "listed.keeps ids B (profiles_Select (profile_store d user) c p)"
    "listed.keeps ids B (profiles_Ensure (profile_store d user) c [])"
    "p \<notin> fst ` B \<Longrightarrow> listed.keeps ids B (profiles_Remove (profile_store d user) c p)"
proof -
  show "listed.keeps ids B (profiles_Validate (profile_store d user) c p)"
    by (rule listed.keepsI) (simp add: list_frame_def profiles_Validate_run(1) [OF d])
  show "listed.keeps ids B (profiles_Select (profile_store d user) c p)"
    by (rule listed.keepsI) (simp add: list_frame_def profiles_Select_run(1) [OF d])
  show "listed.keeps ids B (profiles_Ensure (profile_store d user) c [])"
  proof (rule listed.keepsI)
    fix w w' r
    assume run: "run_state (profiles_Ensure (profile_store d user) c []) w = (r, w')"
    have "set (ids w) \<subseteq> set (ids w')"
      using profiles_Ensure_run(2,3) [OF d run] by (cases r) fastforce+
    then show "list_frame ids B w w'" by (auto simp: list_frame_def)
  qed
  show "listed.keeps ids B (profiles_Remove (profile_store d user) c p)" if "p \<notin> fst ` B"
  proof (rule listed.keepsI)
    fix w w' r
    assume run: "run_state (profiles_Remove (profile_store d user) c p) w = (r, w')"
    have "B \<subseteq> set (filter (\<lambda>(j, n). j \<noteq> p) (ids w))" if "B \<subseteq> set (ids w)"
      using that \<open>p \<notin> fst ` B\<close> by force
    then show "list_frame ids B w w'"
      using profiles_Remove_run(1) [OF d run] by (auto simp: list_frame_def)
  qed
qed

lemma profiles_fresh:
  assumes d: "profile_daemon d user ids active" and "B \<subseteq> set (ids w)"
  shows "wps (profiles_Ensure (profile_store d user) c []) (\<lambda>p t. prof_ID p \<notin> fst ` B) w"
proof (rule wpsI)
  fix p w'
  assume "run_state (profiles_Ensure (profile_store d user) c []) w = (Inr p, w')"
  from profiles_Ensure_run(2) [OF d this refl] have "prof_ID p \<notin> fst ` set (ids w)" by simp
  then show "prof_ID p \<notin> fst ` B" using assms(2) by blast
qed

section \<open>The desktop's session\<close>

text \<open>
  \<open>user_profiles_only_by\<close>: the daemon keeps its contract for this user, and the HTTP transport and the
  run time do not touch its profiles.
\<close>

definition profiles_contract ::
  "'r platform \<Rightarrow> string \<Rightarrow> ('r \<Rightarrow> (string \<times> string) list) \<Rightarrow> ('r \<Rightarrow> string) \<Rightarrow> bool" where
  "profiles_contract P user ids active \<longleftrightarrow>
     profile_daemon (pf_daemon P) user ids active \<and>
     connection_calls_keep_profiles (pf_daemon P) ids active \<and>
     (\<forall>c r. keeps_profiles ids active (pf_http P c r)) \<and>
     (\<forall>c. keeps_profiles ids active (ctx_Err (pf_runtime P) c)) \<and>
     (\<forall>c d. keeps_profiles ids active (timer_or_Done (pf_runtime P) c d)) \<and>
     (\<forall>c. keeps_profiles ids active (send_or_Done (pf_runtime P) c)) \<and>
     (\<forall>c. keeps_profiles ids active (send_or_default (pf_runtime P) c)) \<and>
     keeps_profiles ids active (time_Now (pf_runtime P)) \<and>
     (\<forall>n. keeps_profiles ids active (rand_ReadFull (pf_runtime P) n))"

abbreviation seen :: "('r \<Rightarrow> (string \<times> string) list) \<Rightarrow> 'r world \<Rightarrow> (string \<times> string) list" where
  "seen ids \<equiv> (\<lambda>w. ids (w_rest w))"

lemma contract_parts:
  assumes "profiles_contract P user ids active"
  shows "profile_daemon (local_daemon (pf_daemon P)) user (seen ids) (\<lambda>w. active (w_rest w))"
    "connection_calls_keep_profiles (pf_daemon P) ids active"
  using assms by (auto simp: profiles_contract_def intro: profile_daemon_local)

lemma contract_runtime:
  assumes "profiles_contract P user ids active"
  shows "profs.keeps (seen ids) B (in_world (local_http (pf_http P) c r))"
    "profs.keeps (seen ids) B (in_world (ctx_Err (desktop_runtime P) c))"
    "profs.keeps (seen ids) B (in_world (timer_or_Done (desktop_runtime P) c d))"
    "profs.keeps (seen ids) B (in_world (send_or_Done (desktop_runtime P) c))"
    "profs.keeps (seen ids) B (in_world (send_or_default (desktop_runtime P) c))"
    "profs.keeps (seen ids) B (in_world (time_Now (desktop_runtime P)))"
    "profs.keeps (seen ids) B (in_world (rand_ReadFull (desktop_runtime P) n))"
  using assms
  by (auto simp: profiles_contract_def desktop_runtime_def local_runtime_def local_http_def
      intro!: listed_in_world listed_on_rest listed_same [where active = active])

lemma gate_spares:
  assumes "profs.keeps ids B (requireCompatible a c)"
  shows "profs.keeps ids B m \<Longrightarrow> profs.keeps ids B (go_try (requireCompatible a c) (\<lambda>_. m))"
    and "(\<And>s. there ids B s \<Longrightarrow> wps m Q s) \<Longrightarrow> there ids B s \<Longrightarrow>
      wps (go_try (requireCompatible a c) (\<lambda>_. m)) Q s"
proof -
  show "profs.keeps ids B m \<Longrightarrow> profs.keeps ids B (go_try (requireCompatible a c) (\<lambda>_. m))"
    by (auto intro!: profs.keeps_intros assms)
  show "wps (go_try (requireCompatible a c) (\<lambda>_. m)) Q s"
    if m: "\<And>s. there ids B s \<Longrightarrow> wps m Q s" and s: "there ids B s"
    unfolding wps_go_try unfolding wps_def [of "requireCompatible a c"]
    by (rule profs.wp_keeps [OF assms])
       (use s in \<open>auto simp: profiles_frame_def intro: m split: sum.splits\<close>)
qed

abbreviation desktop_rpc :: "'r platform \<Rightarrow> string \<Rightarrow> 'r world RPCAdapter" where
  "desktop_rpc P user \<equiv> newRPCAdapter (local_daemon (pf_daemon P)) user"

abbreviation desktop_rpc_library :: "'r platform \<Rightarrow> 'r world rpc_library" where
  "desktop_rpc_library P \<equiv> \<lparr>lib_protobuf = pf_protobuf P, lib_status_Code = pf_status_Code P,
     lib_runtime = desktop_runtime P\<rparr>"

abbreviation desktop_gate :: "'r platform \<Rightarrow> string \<Rightarrow> 'r world client VersionedAdapter" where
  "desktop_gate P user \<equiv> EnforceExactVersion
     (RPCAdapter_Adapter (desktop_rpc_library P) (desktop_rpc P user)) netbird_ExpectedVersion"

lemma va_inner_Enforce: "va_inner (EnforceExactVersion a v) = a"
  by (simp add: EnforceExactVersion_def)

lemma RPCAdapter_selectors:
  "ad_DaemonVersion (RPCAdapter_Adapter L a) = RPCAdapter_DaemonVersion L a"
  "ad_Status (RPCAdapter_Adapter L a) = RPCAdapter_Status L a"
  "ad_CreateProfile (RPCAdapter_Adapter L a) = RPCAdapter_CreateProfile a"
  "ad_RemoveProfile (RPCAdapter_Adapter L a) = RPCAdapter_RemoveProfile a"
  "ad_Enroll (RPCAdapter_Adapter L a) = RPCAdapter_Enroll L a"
  "ad_Connect (RPCAdapter_Adapter L a) = RPCAdapter_Connect L a"
  "ad_Disconnect (RPCAdapter_Adapter L a) = RPCAdapter_Disconnect L a"
  "ad_Deregister (RPCAdapter_Adapter L a) = RPCAdapter_Deregister L a"
  by (simp_all add: RPCAdapter_Adapter_def)

lemma desktop_ops:
  "ad_CreateProfile (desktop_adapter P user) c n =
     go_try (requireCompatible (desktop_gate P user) c) (\<lambda>_. RPCAdapter_CreateProfile (desktop_rpc P user) c n)"
  "ad_RemoveProfile (desktop_adapter P user) c p =
     go_try (requireCompatible (desktop_gate P user) c) (\<lambda>_. RPCAdapter_RemoveProfile (desktop_rpc P user) c p)"
  "ad_Enroll (desktop_adapter P user) c r =
     go_try (requireCompatible (desktop_gate P user) c)
       (\<lambda>_. RPCAdapter_Enroll (desktop_rpc_library P) (desktop_rpc P user) c r)"
  "ad_Connect (desktop_adapter P user) c p =
     go_try (requireCompatible (desktop_gate P user) c)
       (\<lambda>_. RPCAdapter_Connect (desktop_rpc_library P) (desktop_rpc P user) c p)"
  "ad_Disconnect (desktop_adapter P user) c p =
     go_try (requireCompatible (desktop_gate P user) c)
       (\<lambda>_. RPCAdapter_Disconnect (desktop_rpc_library P) (desktop_rpc P user) c p)"
  "ad_Deregister (desktop_adapter P user) c p =
     go_try (requireCompatible (desktop_gate P user) c)
       (\<lambda>_. RPCAdapter_Deregister (desktop_rpc_library P) (desktop_rpc P user) c p)"
  "ad_Status (desktop_adapter P user) c = VersionedAdapter_Status (desktop_gate P user) c"
  unfolding desktop_adapter_def VersionedAdapter_Adapter_def Adapter.simps VersionedAdapter_defs
    va_inner_Enforce RPCAdapter_selectors
  by (rule refl)+

lemma newRPCAdapter_selectors:
  "rpa_client (newRPCAdapter d u) = d" "rpa_profiles (newRPCAdapter d u) = profile_store d u"
  "rpa_username (newRPCAdapter d u) = u"
  by (simp_all add: newRPCAdapter_def)

lemma desktop_adapter_spares:
  assumes c: "profiles_contract P user ids active"
  shows "adapter_spares (seen ids) B (desktop_adapter P user)"
proof -
  note D = contract_parts(1) [OF c]
  note calls = connection_calls_local [OF contract_parts(2) [OF c], THEN listed_in_world]
  note profiles = profiles_listed [OF D, THEN listed_in_world]
  note ops = newRPCAdapter_selectors sanitized_def
  have version: "profs.keeps (seen ids) B (requireCompatible (desktop_gate P user) ctx)" for ctx
    by (rule profs.requireCompatible_keeps)
       (auto simp: va_inner_Enforce RPCAdapter_selectors RPCAdapter_DaemonVersion_def ops
          intro!: profs.keeps_intros calls)
  note gate = gate_spares(1) [OF version]
  have fresh: "wps (in_world (profiles_Ensure (profile_store (local_daemon (pf_daemon P)) user) ctx []))
      (\<lambda>p t. prof_ID p \<notin> fst ` B) s" if "there (seen ids) B s" for ctx s
    unfolding wps_in_world
    by (rule wps_mono [OF profiles_fresh [OF D]]) (use that in \<open>simp_all add: there_def\<close>)
  show ?thesis
    unfolding adapter_spares_def
  proof (intro conjI allI impI, goal_cases)
    case (1 ctx)
    show ?case unfolding desktop_ops VersionedAdapter_Status_def va_inner_Enforce RPCAdapter_selectors
        RPCAdapter_Status_def ops
      by (auto intro!: profs.keeps_intros version calls)
  next
    case (2 ctx r)
    show ?case unfolding desktop_ops RPCAdapter_Enroll_def ops
      by (auto intro!: gate profs.keeps_intros calls profiles profs_heap_ops split: option.splits)
  next
    case (3 ctx p)
    show ?case unfolding desktop_ops RPCAdapter_Connect_def ops
      by (auto intro!: gate profs.keeps_intros calls profiles)
  next
    case (4 ctx p)
    show ?case unfolding desktop_ops RPCAdapter_Disconnect_def ops
      by (auto intro!: gate profs.keeps_intros calls profiles)
  next
    case (5 ctx p)
    show ?case unfolding desktop_ops RPCAdapter_Deregister_def ops
      by (auto intro!: gate profs.keeps_intros calls profiles)
  next
    case (6 ctx p)
    then show ?case unfolding desktop_ops RPCAdapter_RemoveProfile_def ops
      by (intro gate profiles)
  next
    case (7 ctx n)
    show ?case unfolding desktop_ops RPCAdapter_CreateProfile_def ops
      by (auto intro!: gate profs.keeps_intros profiles)
  next
    case (8 ctx n s)
    show ?case unfolding desktop_ops RPCAdapter_CreateProfile_def ops
      by (rule gate_spares(2) [OF version _ 8]) (auto simp: wps_if wps_err intro: fresh)
  qed
qed

lemma storages_spare:
  "storage_spares (seen ids) B (metadata_storage_of st)" "storage_spares (seen ids) B (code_storage_of cst)"
  by (auto simp: storage_spares_def metadata_storage_of_def code_storage_of_def
      intro!: listed_in_world listed_on_disk)

lemma rooms_spare:
  assumes c: "profiles_contract P user ids active"
  shows "profs.keeps (seen ids) B (RoomClient_Create (desktop_room_library P) (over_rest P r) ctx i)"
    "profs.keeps (seen ids) B (RoomClient_Join (desktop_room_library P) (over_rest P r) ctx code)"
    "profs.keeps (seen ids) B (RoomClient_Peers (desktop_room_library P) (over_rest P r) ctx code)"
proof -
  have a: "profs.keeps (seen ids) B
      (doAttempt (desktop_room_library P) (over_rest P r) ctx verb url body headers target)"
    for ctx verb url body headers and target :: "json \<Rightarrow> 'z option"
    unfolding doAttempt_def Let_def desktop_room_library_def
    by (auto intro!: profs.keeps_intros contract_runtime [OF c] split: option.splits)
  have w: "profs.keeps (seen ids) B (waitForRetry (desktop_room_library P) ctx delay)" for ctx delay
    unfolding waitForRetry_def desktop_room_library_def
    by (auto intro!: profs.keeps_intros contract_runtime [OF c])
  have l: "profs.keeps (seen ids) B
      (do_loop (desktop_room_library P) (over_rest P r) ctx verb url body headers target delays)"
    for ctx verb url body headers delays and target :: "json \<Rightarrow> 'z option"
    by (induction delays) (auto intro!: profs.keeps_intros a w)
  have h: "profs.keeps (seen ids) B (intent_begin j)" "profs.keeps (seen ids) B (intent_finish j b)"
    "profs.keeps (seen ids) B (response_enrollment x b code)" for j b x code
    by (auto intro!: profs_heap simp: NewSetupKey_def intent_begin_def intent_finish_def
        response_enrollment_def Let_def State_Monad.update_def split: option.splits)
  show "profs.keeps (seen ids) B (RoomClient_Create (desktop_room_library P) (over_rest P r) ctx i)"
    unfolding RoomClient_Create_def create_request_def roomapi_do_def
    by (auto intro!: profs.keeps_intros l h)
  show "profs.keeps (seen ids) B (RoomClient_Join (desktop_room_library P) (over_rest P r) ctx code)"
    unfolding RoomClient_Join_def roomapi_do_def
    by (auto intro!: profs.keeps_intros l h split: sum.splits)
  show "profs.keeps (seen ids) B (RoomClient_Peers (desktop_room_library P) (over_rest P r) ctx code)"
    unfolding RoomClient_Peers_def roomapi_do_def
    by (auto intro!: profs.keeps_intros l split: sum.splits option.splits)
qed

lemma desktop_spares:
  assumes "profiles_contract P user ids active"
  shows "session_spares (seen ids) B (desktop_service P c user directory)"
  unfolding session_spares_def session_service_simps
  using assms
  by (auto simp: NewPeerRefresher_def runtime_keeps_def intro!: desktop_adapter_spares storages_spare
      rooms_spare [OF assms] contract_runtime [OF assms])

end
