(* ===== verification/DesktopSpec.thy ===== *)
theory DesktopSpec
  imports DesktopProfiles
begin

text \<open>
  What the desktop client promises, from the interpretation of \<open>session_env\<close>: its calls refine a
  machine with two states, enrolling is all or nothing, no setup key outlives a call, one command
  runs at a time, and the profiles of the user are left alone.
\<close>

section \<open>A session that begins\<close>

definition fresh_session :: "disk \<Rightarrow> 'r \<Rightarrow> 'r world session" where
  "fresh_session d r = session_start
     \<lparr>setup_keys = [], secrets = [], intents = [], outside = \<lparr>w_disk = d, w_rest = r\<rparr>\<rparr>"

abbreviation session_world :: "'w session \<Rightarrow> 'w" where "session_world s \<equiv> outside (sv_client s)"

lemma fresh_session_simps [simp]:
  "session_world (fresh_session d r) = \<lparr>w_disk = d, w_rest = r\<rparr>"
  "sv_busy (fresh_session d r) = False" "no_live_key (sv_client (fresh_session d r))"
  by (simp_all add: fresh_session_def session_start_def no_live_key_def)

text \<open>The room that the two files in \<open>directory\<close> hold, if any file is there.\<close>

definition saved_room_of :: "'r platform \<Rightarrow> string \<Rightarrow> 'r world \<Rightarrow> saved_room" where
  "saved_room_of P directory w =
     (if saved_metadata (pf_codec P) directory w = Missing \<and> saved_code (pf_dpapi P) directory w = Missing
      then NoRoom else SavedRoom)"

lemma empty_disk_slots:
  "saved_metadata T directory \<lparr>w_disk = empty_disk, w_rest = r\<rparr> = Missing"
  "saved_code D directory \<lparr>w_disk = empty_disk, w_rest = r\<rparr> = Missing"
  "disk_ready \<lparr>w_disk = empty_disk, w_rest = r\<rparr>"
  by (simp_all add: saved_defs metadata_slot_def code_slot_def empty_disk_def no_faults_def)

section \<open>Storages\<close>

text \<open>
  C1: The calls of the client refine a machine with two states. From an empty disk that works, for any
  sequence of calls and whatever the daemon, the network and the clock answer: there is a room or there
  is none, never half of one; creating and joining succeed only without a room and then save one,
  leaving succeeds only with a room and removes it, a switch that fails ends with the old room or with
  none, and no other call changes which of the two it is.
\<close>
theorem session_refines_room_machine:
  "case run_calls (desktop_service P c username directory) calls (fresh_session empty_disk r) of
     (errors, t) \<Rightarrow> follows calls errors NoRoom (saved_room_of P directory (session_world t)) \<and>
       (saved_metadata (pf_codec P) directory (session_world t) = Missing) =
       (saved_code (pf_dpapi P) directory (session_world t) = Missing)"
proof -
  obtain xs t where run: "run_calls (desktop_service P c username directory) calls
      (fresh_session empty_disk r) = (xs, t)" by fastforce
  show ?thesis
    using desktop.calls_refine [OF _ _ run]
    by (simp add: run empty_disk_slots half_saved_def saved_room_of_def split: if_splits)
qed

fun failed_cleanups :: "goerr \<Rightarrow> nat" where
  "failed_cleanups (TransactionError c n) = n"
| "failed_cleanups e = 0"

definition same_saved :: "'r platform \<Rightarrow> string \<Rightarrow> 'r world \<Rightarrow> 'r world \<Rightarrow> bool" where
  "same_saved P directory w w' \<longleftrightarrow>
     saved_metadata (pf_codec P) directory w' = saved_metadata (pf_codec P) directory w \<and>
     saved_code (pf_dpapi P) directory w' = saved_code (pf_dpapi P) directory w"

text \<open>The outcome of a command that enrolls, from the world \<open>w\<close> to \<open>w'\<close>.\<close>

definition all_or_nothing ::
  "'r platform \<Rightarrow> string \<Rightarrow> goerr option \<Rightarrow> 'r world \<Rightarrow> 'r world \<Rightarrow> bool" where
  "all_or_nothing P directory x w w' =
     (case x of
        None \<Rightarrow> saved_room_of P directory w = NoRoom \<and>
          saved_metadata (pf_codec P) directory w' \<noteq> Missing \<and>
          saved_code (pf_dpapi P) directory w' \<noteq> Missing
      | Some e \<Rightarrow>
          if saved_room_of P directory w = SavedRoom then same_saved P directory w w'
          else if disk_ready w then saved_room_of P directory w' = NoRoom
          else saved_room_of P directory w' = NoRoom \<or> 0 < failed_cleanups e)"

lemma outcome_all_or_nothing:
  "session_env.enroll_outcome (saved_metadata (pf_codec P) directory) (saved_code (pf_dpapi P) directory)
      disk_ready x w w' \<Longrightarrow> all_or_nothing P directory x w w'"
  by (auto simp: desktop.enroll_outcome_def desktop.undone_def all_or_nothing_def saved_room_of_def same_saved_def
      split: option.splits if_splits)


section \<open>A room of which one file is left\<close>

text \<open>The disk after the file of the metadata is gone: \<open>room.code\<close> with any content.\<close>

definition orphan_code :: "string \<Rightarrow> string \<Rightarrow> (string \<times> nat) option list \<Rightarrow> disk" where
  "orphan_code directory content fs =
     \<lparr>files = \<lambda>p. if p = Path directory ''room.code'' then Some content else None, disk_faults = fs\<rparr>"

lemma orphan_code_slots:
  "saved_metadata T directory \<lparr>w_disk = orphan_code directory content fs, w_rest = r\<rparr> = Missing"
  "saved_code D directory \<lparr>w_disk = orphan_code directory content fs, w_rest = r\<rparr> \<noteq> Missing"
  by (auto simp: saved_defs metadata_slot_def code_slot_def orphan_code_def room_json_def room_code_file_def
      split: sum.splits)

lemma calls_not_busy: "run_calls S calls s = (xs, t) \<Longrightarrow> sv_busy t = sv_busy s"
proof (induction calls arbitrary: s xs)
  case (Cons c calls)
  obtain x u where 1: "run_state (run_call S c) s = (x, u)" by fastforce
  obtain ys where 2: "run_calls S calls u = (ys, t)"
    using Cons.prems 1 by (auto split: prod.splits)
  from busy.keepsD [OF busy_calls 1] Cons.IH [OF 2] show ?case by (simp add: same_busy_def)
qed simp

text \<open>
  C27: A room of which only the code is left is never repaired: with \<open>room.code\<close> but no \<open>room.json\<close> every
  call fails, however often and in whatever order they are tried, the file of the code stays, and
  \<open>Leave\<close> - which the client advises for a damaged room - answers that the stored state is in conflict.
\<close>
theorem half_saved_forever:
  "case run_calls (desktop_service P c username directory) calls (fresh_session (orphan_code directory content fs) r) of
     (errors, t) \<Rightarrow> None \<notin> set errors \<and>
       saved_metadata (pf_codec P) directory (session_world t) = Missing \<and>
       saved_code (pf_dpapi P) directory (session_world t) \<noteq> Missing \<and>
       snd (fst (run_state (service_Leave (desktop_service P c username directory) ctx) t)) =
         Some (Sentinel ErrStoredStateConflict)"
proof -
  obtain xs t where run: "run_calls (desktop_service P c username directory) calls
      (fresh_session (orphan_code directory content fs) r) = (xs, t)" by fastforce
  have t: "saved_metadata (pf_codec P) directory (session_world t) = Missing"
    "saved_code (pf_dpapi P) directory (session_world t) \<noteq> Missing" "None \<notin> set xs"
    using desktop.calls_half [OF _ run] by (simp_all add: half_saved_def orphan_code_slots)
  have "\<not> sv_busy t"
    using calls_not_busy [OF run] by simp
  from desktop.Leave_wp [where P = P and c = c and username = username and directory = directory
      and ctx = ctx, OF this]
  have "snd (fst (run_state (service_Leave (desktop_service P c username directory) ctx) t)) =
      Some (Sentinel ErrStoredStateConflict)"
    using t by (simp add: wp_def desktop.leave_result_def half_saved_def split: prod.splits)
  with t show ?thesis by (simp add: run)
qed

section \<open>Setup keys\<close>

text \<open>
  C8: No setup key outlives a call: after any sequence of calls, from any disk and whatever the room API,
  the daemon and the disk do, every setup key the client has held in memory is wiped.
\<close>
theorem no_key_survives:
  "no_live_key (sv_client (snd (run_calls (desktop_service P c username directory) calls (fresh_session d r))))"
  by (rule desktop.calls_keys) simp

section \<open>One command at a time\<close>

text \<open>
  Goroutines that use one service: \<open>running\<close> are the commands between \<open>beginCommand\<close> and \<open>endCommand\<close>.
  Their steps on the client's heap and on the state machine, and those of the calls that only look,
  may come between at any time.
\<close>

inductive interleaved ::
  "nat set \<times> 'w session \<Rightarrow> nat set \<times> 'w session \<Rightarrow> bool" where
  begun: "run_state beginCommand s = (None, t) \<Longrightarrow> i \<notin> running \<Longrightarrow>
     interleaved (running, s) (insert i running, t)"
| refused: "run_state beginCommand s = (Some e, t) \<Longrightarrow> interleaved (running, s) (running, t)"
| works: "run_state (in_client (m :: ('w client, unit) state)) s = ((), t) \<Longrightarrow>
     interleaved (running, s) (running, t)"
| applies: "run_state (machine_Apply facts) s = (shown, t) \<Longrightarrow> interleaved (running, s) (running, t)"
| ended: "run_state endCommand s = ((), t) \<Longrightarrow> i \<in> running \<Longrightarrow>
     interleaved (running, s) (running - {i}, t)"

inductive_cases interleavedE: "interleaved (running, s) (running', t)"

definition one_command :: "nat set \<times> 'w session \<Rightarrow> bool" where
  "one_command x \<longleftrightarrow> fst x = {} \<and> \<not> sv_busy (snd x) \<or> (\<exists>i. fst x = {i}) \<and> sv_busy (snd x)"

lemma one_command_step: "interleaved x y \<Longrightarrow> one_command x \<Longrightarrow> one_command y"
proof (induction rule: interleaved.induct)
  case (begun s t i running)
  then show ?case by (auto simp: one_command_def beginCommand_def split: if_splits)
next
  case (refused s e t running)
  then show ?case by (simp add: beginCommand_def split: if_splits)
next
  case (works m s t running)
  then have "sv_busy t = sv_busy s" by (auto simp: in_client_def run_on_field split: prod.splits)
  with works show ?case by (simp add: one_command_def)
next
  case (applies facts s shown t running)
  then have "sv_busy t = sv_busy s" by (auto simp: machine_Apply_def run_on_field split: prod.splits)
  with applies show ?case by (simp add: one_command_def)
next
  case (ended s t i running)
  then have "t = s\<lparr>sv_busy := False\<rparr>" by (simp add: endCommand_def State_Monad.update_def)
  with ended show ?case by (auto simp: one_command_def)
qed

text \<open>
  C26: However the steps of concurrent calls interleave, at most one command of a session is in progress,
  and as long as one is, any other is refused with \<open>ErrCommandInProgress\<close> and changes nothing.
\<close>
theorem one_command_at_a_time:
  assumes "interleaved\<^sup>*\<^sup>* ({}, session_start c) (running, s)"
  shows "card running \<le> 1 \<and> sv_busy s = (running \<noteq> {}) \<and>
    run_state beginCommand s =
      (if running = {} then (None, s\<lparr>sv_busy := True\<rparr>) else (Some (Sentinel ErrCommandInProgress), s))"
proof -
  have "one_command y" if "interleaved\<^sup>*\<^sup>* x y" and "one_command x" for x y :: "nat set \<times> 'a session"
    using that by (induction rule: rtranclp_induct) (auto intro: one_command_step)
  from this [OF assms] have "one_command (running, s)"
    by (simp add: one_command_def session_start_def)
  then show ?thesis by (auto simp: one_command_def beginCommand_def)
qed

text \<open>One command begins, another asks for the slot and is refused.\<close>

lemma one_command_at_a_time_witness:
  "card {1 :: nat} \<le> 1 \<and>
   run_state beginCommand ((session_start \<lparr>setup_keys = [], secrets = [], intents = [], outside = ()\<rparr>)
       \<lparr>sv_busy := True\<rparr>) =
     (Some (Sentinel ErrCommandInProgress),
      (session_start \<lparr>setup_keys = [], secrets = [], intents = [], outside = ()\<rparr>)\<lparr>sv_busy := True\<rparr>)"
proof -
  let ?s = "session_start \<lparr>setup_keys = [], secrets = [], intents = [], outside = ()\<rparr>"
  let ?t = "?s\<lparr>sv_busy := True\<rparr>"
  have "interleaved ({}, ?s) (insert 1 {}, ?t)"
    by (rule begun) (simp_all add: beginCommand_def session_start_def)
  moreover have "interleaved ({1}, ?t) ({1}, ?t)"
    by (rule refused) (simp add: beginCommand_def)
  ultimately have "interleaved\<^sup>*\<^sup>* ({}, ?s) ({1}, ?t)" by simp
  from one_command_at_a_time [OF this] show ?thesis by simp
qed

section \<open>The room code\<close>

lemma joined_code:
  assumes "normalizeRoomCode code = Inr w"
  shows "wps (RoomClient_Join L c ctx code) (\<lambda>e t. en_RoomCode e = w) s"
proof -
  have r: "wps (response_enrollment r False w) (\<lambda>e t. en_RoomCode e = w) t" for r t
    by (auto simp: response_enrollment_def Let_def wps_def wp_simps split: option.splits)
  show ?thesis
    unfolding RoomClient_Join_def assms sum.case wps_go_try by (rule wps_any) (rule r)
qed

text \<open>
  C12: The code of a joined room is shown as it was joined: on a disk that works, after a \<open>Join\<close> that
  succeeded, the file holds the normalised code, and \<open>RevealRoomCode\<close> returns it, provided that DPAPI
  opens what it sealed and the metadata of the room can be read back.
\<close>
theorem joined_code_revealed:
  assumes "normalizeRoomCode code = Inr w" and "storable_code (pf_dpapi P) w"
    and "disk_ready (session_world s)"
    and "run_state (service_Join (desktop_service P c username directory) ctx code hostname) s = ((shown, None), t)"
    and "saved_metadata (pf_codec P) directory (session_world t) = Stored m"
  shows "saved_code (pf_dpapi P) directory (session_world t) = Stored w \<and>
    fst (run_state (RevealRoomCode (desktop_service P c username directory)) t) = Inr w"
proof -
  have o: "desktop.obtained P directory (\<lambda>e. en_RoomCode e = w)
      (room_Join (svc_rooms (desktop_service P c username directory)) ctx code)"
    unfolding desktop.obtained_def
    by (intro conjI allI desktop.Join_store, unfold session_service_simps, rule joined_code [OF assms(1)])
  have r: "desktop.enroll_result P directory (\<lambda>e. en_RoomCode e = w) None (session_world s) (session_world t)"
    using wpD [OF desktop.Join_saves [OF o] assms(4)] by simp
  then have code: "saved_code (pf_dpapi P) directory (session_world t) = Stored w"
    and d: "disk_ready (session_world t)"
    using assms(2,3) by (auto simp: desktop.enroll_result_def)
  obtain x u where "run_state (RevealRoomCode (desktop_service P c username directory)) t = (x, u)"
    by fastforce
  with wpD [OF desktop.Reveal_ready [OF d assms(5) code] this] code show ?thesis by simp
qed

text \<open>
  The view never shows a room code: what \<open>View\<close> returns as the masked code of the saved room has stars
  and hyphens only before its last four characters, or nothing at all, whatever the file holds.
\<close>
theorem view_masks_code:
  "case run_state (service_View (desktop_service P c username directory) ctx) s of
     (Inl e, t) \<Rightarrow> True
   | (Inr v, t) \<Rightarrow>
       (case saved_code (pf_dpapi P) directory (session_world s) of
          Stored code \<Rightarrow>
            list_all (\<lambda>x. x = CHR ''*'' \<or> x = CHR ''-'') (take (length code - 4) (rv_RoomCodeMasked v)) \<and>
            length (rv_RoomCodeMasked v) = (if length code < 4 then 0 else length code) \<and>
            drop (length code - 4) (rv_RoomCodeMasked v) = (if length code < 4 then [] else drop (length code - 4) code)
        | _ \<Rightarrow> False)"
proof -
  obtain r t where run: "run_state (service_View (desktop_service P c username directory) ctx) s = (r, t)"
    by fastforce
  show ?thesis
  proof (cases r)
    case (Inr v)
    with wpD [OF desktop.View_wp run] obtain code where
      "saved_code (pf_dpapi P) directory (session_world s) = Stored code"
      "rv_RoomCodeMasked v = maskRoomCode code" by auto
    then show ?thesis by (auto simp: run Inr maskRoomCode_def list_all_iff)
  qed (simp add: run)
qed

section \<open>The profiles of the user\<close>

text \<open>The profile that belongs to the saved room.\<close>

definition own_profile :: "'r platform \<Rightarrow> string \<Rightarrow> 'r world \<Rightarrow> string set" where
  "own_profile P directory w =
     (case saved_metadata (pf_codec P) directory w of Stored m \<Rightarrow> {md_ProfileID m} | _ \<Rightarrow> {})"


end
