(* ===== verification/ClientWitness.thy ===== *)
theory ClientWitness
  imports DesktopSpec "HOL-Library.Code_Target_Nat" "HOL-Library.Code_Target_Int"
begin

text \<open>
  A concrete machine for the client: a daemon with a list of profiles, a server that lets everybody join
  one room, a clock that stands still.  Each witness applies a property of the client to it.
  Natural numbers and integers are evaluated in binary.
\<close>

section \<open>The machine\<close>

record box =
  bx_profiles :: "(string \<times> string) list"
  bx_active :: string
  bx_connects :: nat
  bx_requests :: nat

definition sample_box :: box where
  "sample_box = \<lparr>bx_profiles = [(''home'', ''Home'')], bx_active = ''home'', bx_connects = 0, bx_requests = 0\<rparr>"

text \<open>A new profile gets an identity that is longer than any other.\<close>

definition fresh_id :: "(string \<times> string) list \<Rightarrow> string" where
  "fresh_id ps = CHR ''p'' # concat (map fst ps)"

definition sample_status :: pb_StatusResponse where
  "sample_status = \<lparr>psr_Status = ''Connected'', psr_FullStatus = None, psr_DaemonVersion = ''0.74.7''\<rparr>"

definition sample_daemon :: "box daemon" where
  "sample_daemon =
     \<lparr>rpc_ListProfiles = \<lambda>c u. State (\<lambda>b. (Inr (map (\<lambda>(i, n). Some \<lparr>ppr_Id = i, ppr_Name = n,
        ppr_IsActive = (i = bx_active b)\<rparr>) (bx_profiles b)), b)),
      rpc_GetActiveProfile = \<lambda>c. State (\<lambda>b. (Inr \<lparr>apr_Id = bx_active b, apr_ProfileName = [], apr_Username = []\<rparr>, b)),
      rpc_AddProfile = \<lambda>c u n. State (\<lambda>b. (Inr (fresh_id (bx_profiles b)),
        b\<lparr>bx_profiles := bx_profiles b @ [(fresh_id (bx_profiles b), n)]\<rparr>)),
      rpc_SwitchProfile = \<lambda>c p u. State (\<lambda>b. (Inr p, b\<lparr>bx_active := p\<rparr>)),
      rpc_RemoveProfile = \<lambda>c u p. State (\<lambda>b. (Inr p,
        b\<lparr>bx_profiles := filter (\<lambda>(j, n). j \<noteq> p) (bx_profiles b)\<rparr>)),
      rpc_Login = \<lambda>c r. ok (),
      rpc_Up = \<lambda>c p u. State (\<lambda>b. (Inr (), b\<lparr>bx_connects := bx_connects b + 1\<rparr>)),
      rpc_Status = \<lambda>c full. ok sample_status,
      rpc_Down = \<lambda>c. ok (), rpc_Logout = \<lambda>c p u. ok (), rpc_SubscribeEvents = \<lambda>c. ok (),
      rpc_Recv = \<lambda>c. err (Sentinel io_EOF)\<rparr>"

definition sample_runtime :: "box runtime" where
  "sample_runtime =
     \<lparr>ctx_Err = \<lambda>c. State_Monad.return None, timer_or_Done = \<lambda>c d. State_Monad.return True,
      send_or_Done = \<lambda>c. State_Monad.return True, send_or_default = \<lambda>c. State_Monad.return True,
      time_Now = State_Monad.return 5, rand_ReadFull = \<lambda>n. ok (replicate n CHR ''r'')\<rparr>"

definition sample_answer :: string where
  "sample_answer = render (JObj [(''room_id'', JStr ''r1''), (''room_code'', JStr ''ABCD-EFGH-2345''),
     (''management_url'', JStr ''https://n.example''), (''setup_key'', JStr ''SECRET'')])"

definition sample_http_do :: "box http_do" where
  "sample_http_do = (\<lambda>c r. State (\<lambda>b. (Inr (\<lparr>rs_status = 200, rs_headers = [], rs_body = sample_answer\<rparr>, None),
     b\<lparr>bx_requests := bx_requests b + 1\<rparr>)))"

definition sample_protobuf :: protobuf where
  "sample_protobuf = \<lparr>ts_IsValid = \<lambda>t. False, ts_AsTime = \<lambda>t. 0, EnumStringOf = \<lambda>names n. []\<rparr>"

definition sample_filepath :: filepath where
  "sample_filepath =
     \<lparr>filepath_Base = \<lambda>p. p, filepath_Abs = \<lambda>p. Some (Path ''d'' p), filepath_Join = concat,
      filepath_Dir = \<lambda>p. p, os_Getenv = \<lambda>k. ''d'', os_UserConfigDir = Inr ''d''\<rparr>"

definition sample_platform :: "box platform" where
  "sample_platform =
     \<lparr>pf_http = sample_http_do, pf_ParseTime = \<lambda>s. None, pf_daemon = sample_daemon, pf_dial = None,
      pf_protobuf = sample_protobuf, pf_status_Code = \<lambda>e. 2, pf_runtime = sample_runtime,
      pf_filepath = sample_filepath, pf_codec = sample_codec, pf_dpapi = sample_dpapi,
      pf_user = Inr ''alice''\<rparr>"

definition sample_rooms :: "box world RoomClient" where
  "sample_rooms = projr (NewClient roomAPIBaseURL (local_http sample_http_do))"

abbreviation sample_desktop :: "box world SessionService" where
  "sample_desktop \<equiv> desktop_service sample_platform sample_rooms ''alice'' ''d''"

abbreviation sample_session :: "box world session" where
  "sample_session \<equiv> fresh_session empty_disk sample_box"

section \<open>Evaluation\<close>

text \<open>The search for a free temporary name stops at the first one.\<close>

function first_free :: "(nat \<Rightarrow> bool) \<Rightarrow> nat \<Rightarrow> nat \<Rightarrow> nat option" where
  "first_free P i j = (if i < j then (if P i then Some i else first_free P (i + 1) j) else None)"
  by auto
termination by (relation "measure (\<lambda>(P, i, j). j - i)") auto

declare first_free.simps [simp del]

lemma find_upt [code_unfold]: "find P [i..<j] = first_free P i j"
  by (induction P i j rule: first_free.induct)
     (simp add: upt_conv_Cons first_free.simps [where i = i and j = j for i j])

lemma sample_rooms: "NewClient roomAPIBaseURL (local_http sample_http_do) = Inr sample_rooms"
proof -
  have "\<not> isl (NewClient roomAPIBaseURL (local_http sample_http_do))" by code_simp
  then show ?thesis unfolding sample_rooms_def by (cases "NewClient roomAPIBaseURL (local_http sample_http_do)") simp_all
qed

lemmas sample_newClient = sample_rooms [unfolded NewClient_def]

lemma calls_from_0: "calls_bounded count n m \<Longrightarrow> count s = 0 \<Longrightarrow> count (snd (run_state m s)) \<le> n"
  unfolding calls_bounded_def by (metis add_0)

section \<open>The room API client\<close>


lemma sample_counts_requests:
  "counts_requests (\<lambda>s. bx_requests (w_rest (outside s))) (desktop_room_library sample_platform) sample_rooms"
proof -
  have "rc_httpClient sample_rooms = local_http sample_http_do"
    by (rule newClient_InrD [OF sample_newClient]) (erule ssubst, rule RoomClient.select_convs(2))
  then show ?thesis
    by (simp add: counts_requests_def calls_bounded_def run_in_world desktop_room_library_def
        desktop_runtime_def local_runtime_def local_http_def on_rest_def run_on_field sample_http_do_def
        sample_platform_def sample_runtime_def)
qed

lemma requests_bounded_witness:
  "bx_requests (w_rest (outside (snd (run_state
      (roomapi_do (desktop_room_library sample_platform) sample_rooms Background ''GET'' ''/health'' None [] Some)
      (sv_client sample_session))))) \<le> 4"
  by (rule calls_from_0, rule requests_bounded [OF sample_newClient sample_counts_requests, THEN conjunct1])
     (simp add: sample_box_def)

definition sample_heap :: "box world client" where
  "sample_heap = (sv_client sample_session)\<lparr>setup_keys := [''SECRET''],
     secrets := [\<lparr>es_key = Some 0, es_consumed = False\<rparr>],
     intents := [\<lparr>ci_key = ''sogame-room-1'', ci_inFlight = False, ci_complete = False\<rparr>]\<rparr>"


definition sample_enrollment :: Enrollment where
  "sample_enrollment = \<lparr>en_RoomID = ''r1'', en_RoomCode = ''ABCD-EFGH-2345'',
     en_ManagementURL = ''https://n.example'', en_secret = Some 0\<rparr>"

lemma setup_key_once_witness:
  "SetupKey_value 0 (snd (run_state (ConsumeSetupKey sample_enrollment (Some (\<lambda>k. ok ()))) sample_heap)) = [] \<and>
   fst (run_state (ConsumeSetupKey sample_enrollment (Some (\<lambda>k. ok ())))
     (snd (run_state (ConsumeSetupKey sample_enrollment (Some (\<lambda>k. ok ()))) sample_heap))) =
     Inl (Sentinel ErrSetupKeyConsumed)"
  using setup_key_once [of sample_enrollment 0 sample_heap 0 "\<lambda>k. ok ()", OF _ _ _ _ _ _ prod.collapse [symmetric],
      where g = "\<lambda>k. ok ()"]
  by (simp add: sample_enrollment_def sample_heap_def secrets.keeps_intros keys.keeps_intros)

section \<open>The adapter of the daemon\<close>

abbreviation sample_adapter :: "box world client Adapter" where
  "sample_adapter \<equiv> desktop_adapter sample_platform ''alice''"

definition old_daemon :: "box daemon" where
  "old_daemon = sample_daemon\<lparr>rpc_Status := \<lambda>c full. ok (sample_status\<lparr>psr_DaemonVersion := ''0.59.0''\<rparr>)\<rparr>"

abbreviation old_adapter :: "box client VersionedAdapter" where
  "old_adapter \<equiv> EnforceExactVersion
     (RPCAdapter_Adapter \<lparr>lib_protobuf = sample_protobuf, lib_status_Code = \<lambda>e. 2, lib_runtime = sample_runtime\<rparr>
        (newRPCAdapter old_daemon ''alice'')) netbird_ExpectedVersion"

abbreviation sample_client :: "box client" where
  "sample_client \<equiv> \<lparr>setup_keys = [], secrets = [], intents = [], outside = sample_box\<rparr>"

lemma version_gate_witness:
  "run_state (ad_Connect (VersionedAdapter_Adapter old_adapter) Background ''home'') sample_client =
     (Inl (VersionMismatchError netbird_ExpectedVersion ''0.59.0''), sample_client)"
proof -
  have "other_version old_adapter Background sample_client ''0.59.0'' sample_client"
    by (simp add: other_version_def EnforceExactVersion_def RPCAdapter_selectors RPCAdapter_DaemonVersion_def
        run_go_try run_sanitized run_in_world newRPCAdapter_selectors old_daemon_def sample_status_def
        netbird_ExpectedVersion_def)
  from version_gate [OF this] show ?thesis by (simp add: Let_def)
qed

abbreviation sample_monitor :: "box client RecoveryMonitor" where
  "sample_monitor \<equiv> NewRecoveryMonitor
     (RPCAdapter_Adapter \<lparr>lib_protobuf = sample_protobuf, lib_status_Code = \<lambda>e. 2, lib_runtime = sample_runtime\<rparr>
        (newRPCAdapter sample_daemon ''alice''))"

lemma sample_runtime_ok: "runtime_ok sample_runtime"
  by (simp add: runtime_ok_def sample_runtime_def)

lemma sample_counts_connects: "counts_connects (\<lambda>s. bx_connects (outside s)) sample_runtime sample_monitor"
  by (auto simp: counts_connects_def calls_bounded_def NewRecoveryMonitor_def newRecoveryMonitor_def
      RPCAdapter_selectors RPCAdapter_Connect_def RPCAdapter_Status_def run_go_try run_sanitized run_in_world
      newRPCAdapter_selectors profiles_defs run_wrap_err sample_daemon_def sample_runtime_def
      split: sum.splits prod.splits option.splits)

lemma Resume_bounded_witness:
  "bx_connects (outside (snd (run_state (Resume sample_runtime sample_monitor Background ''home'') sample_client))) \<le>
     length (rm_retryDelays sample_monitor) + 1"
  by (rule calls_from_0, rule Resume_bounded [OF sample_counts_connects sample_runtime_ok, THEN conjunct1])
     (simp add: sample_box_def)

lemma stream_recovery_bounded_witness:
  "wt_streamFailures (fst (run_state (watch_start sample_runtime sample_monitor Background) sample_client)) \<le>
     length (rm_retryDelays sample_monitor) + 1"
  using stream_recovery_bounded [OF watch_reaches.start [OF prod.collapse [symmetric]]] by blast

section \<open>The session\<close>

lemma sample_join:
  "case run_state (service_Join sample_desktop Background ''abcd-efgh-2345'' ''pc'') sample_session of
     ((shown, e), t) \<Rightarrow> e = None \<and> saved_metadata sample_codec ''d'' (session_world t) =
       Stored \<lparr>md_Version = 1, md_RoomID = ''r1'', md_ManagementURL = ''https://n.example'',
         md_ProfileID = ''phome'', md_CreatedAt = 5\<rparr>"
  by code_simp

lemma joined_code_revealed_witness:
  "fst (run_state (RevealRoomCode sample_desktop)
     (snd (run_state (service_Join sample_desktop Background ''abcd-efgh-2345'' ''pc'') sample_session))) =
   Inr ''ABCD-EFGH-2345''"
proof -
  obtain shown t where run: "run_state (service_Join sample_desktop Background ''abcd-efgh-2345'' ''pc'')
      sample_session = ((shown, None), t)"
    and m: "saved_metadata sample_codec ''d'' (session_world t) =
       Stored \<lparr>md_Version = 1, md_RoomID = ''r1'', md_ManagementURL = ''https://n.example'',
         md_ProfileID = ''phome'', md_CreatedAt = 5\<rparr>"
    using sample_join by (auto split: prod.splits)
  have "normalizeRoomCode ''abcd-efgh-2345'' = Inr ''ABCD-EFGH-2345''" by code_simp
  moreover have "storable_code (pf_dpapi sample_platform) ''ABCD-EFGH-2345''"
    by (simp add: sample_platform_def sample_storable_code)
  moreover have "disk_ready (session_world sample_session)" by (simp add: empty_disk_slots)
  moreover have "saved_metadata (pf_codec sample_platform) ''d'' (session_world t) =
       Stored \<lparr>md_Version = 1, md_RoomID = ''r1'', md_ManagementURL = ''https://n.example'',
         md_ProfileID = ''phome'', md_CreatedAt = 5\<rparr>"
    by (simp add: sample_platform_def m)
  ultimately show ?thesis using joined_code_revealed [OF _ _ _ run] by (simp add: run)
qed

lemma fresh_id_new: "fresh_id ps \<notin> fst ` set ps"
proof
  have l: "length i \<le> length (concat (map fst ps))" if "i \<in> fst ` set ps" for i
    using that by (induction ps) (auto intro: trans_le_add2 simp: image_iff)
  assume "fresh_id ps \<in> fst ` set ps"
  from l [OF this] show False by (simp add: fresh_id_def)
qed

lemma listed_profiles:
  "map (\<lambda>p. (ppr_Id p, ppr_Name p)) (List.map_filter id (map (\<lambda>(i, n).
     Some \<lparr>ppr_Id = i, ppr_Name = n, ppr_IsActive = (i = a)\<rparr>) ps)) = ps"
  by (induction ps) (auto simp: map_filter_def)

lemma sample_profile_daemon: "profile_daemon sample_daemon ''alice'' bx_profiles bx_active"
  unfolding profile_daemon_def
  by (intro conjI allI impI) (auto simp: sample_daemon_def fresh_id_new listed_profiles)

lemma sample_contract: "profiles_contract sample_platform ''alice'' bx_profiles bx_active"
  by (simp add: profiles_contract_def sample_platform_def sample_profile_daemon keeps_profiles_def
      connection_calls_keep_profiles_def sample_http_do_def sample_runtime_def)
     (simp add: sample_daemon_def)


end
