(* ===== verification/AppErrors.thy ===== *)
theory AppErrors
  imports RoomApiClient
begin

text \<open>
  The errors the window shows (\<open>client/app/errors.go\<close> and \<open>publicError\<close> of \<open>client/app/controller.go\<close>).  The
  messages are Chinese; \<open>utf8\<close> encodes their code points as the bytes of the Go strings.
\<close>

section \<open>Texts\<close>

definition utf8_char :: "nat \<Rightarrow> string" where
  "utf8_char c =
     (if c < 0x80 then [char_of c]
      else if c < 0x800 then [char_of (0xC0 + c div 0x40), char_of (0x80 + c mod 0x40)]
      else [char_of (0xE0 + c div 0x1000), char_of (0x80 + c div 0x40 mod 0x40),
            char_of (0x80 + c mod 0x40)])"

definition utf8 :: "nat list \<Rightarrow> string" where "utf8 cs = concat (map utf8_char cs)"

definition text_service_missing :: string where
  "text_service_missing = ''NetBird '' @ utf8 [0x670D, 0x52A1, 0x672A, 0x5B89, 0x88C5]"
definition text_repair_service :: string where
  "text_repair_service = utf8 [0x4FEE, 0x590D] @ '' NetBird '' @ utf8 [0x670D, 0x52A1]"
definition text_service_version :: string where
  "text_service_version = ''NetBird '' @ utf8 [0x670D, 0x52A1, 0x7248, 0x672C, 0x4E0D, 0x5339, 0x914D]"
definition text_service_stopped :: string where
  "text_service_stopped = ''NetBird '' @ utf8 [0x670D, 0x52A1, 0x672A, 0x8FD0, 0x884C]"
definition text_repair_or_start :: string where
  "text_repair_or_start = utf8 [0x4FEE, 0x590D, 0x6216, 0x542F, 0x52A8, 0x670D, 0x52A1]"
definition text_busy :: string where
  "text_busy = utf8 [0x5DF2, 0x6709, 0x623F, 0x95F4, 0x64CD, 0x4F5C, 0x6B63, 0x5728, 0x8FDB, 0x884C]"
definition text_wait :: string where
  "text_wait = utf8 [0x7B49, 0x5F85, 0x5F53, 0x524D, 0x64CD, 0x4F5C, 0x5B8C, 0x6210]"
definition text_room_unavailable :: string where
  "text_room_unavailable = utf8 [0x623F, 0x95F4, 0x4E0D, 0x5B58, 0x5728, 0x6216, 0x5DF2, 0x4E0D, 0x53EF, 0x7528]"
definition text_check_code :: string where
  "text_check_code = utf8 [0x68C0, 0x67E5, 0x623F, 0x95F4, 0x7801, 0x540E, 0x91CD, 0x8BD5]"
definition text_rate_limited :: string where
  "text_rate_limited = utf8 [0x8BF7, 0x6C42, 0x8FC7, 0x4E8E, 0x9891, 0x7E41]"
definition text_retry_later :: string where
  "text_retry_later = utf8 [0x7A0D, 0x540E, 0x91CD, 0x8BD5]"
definition text_api_unavailable :: string where
  "text_api_unavailable = utf8 [0x623F, 0x95F4, 0x670D, 0x52A1, 0x6682, 0x65F6, 0x4E0D, 0x53EF, 0x7528]"
definition text_request_failed :: string where
  "text_request_failed = utf8 [0x623F, 0x95F4, 0x8BF7, 0x6C42, 0x672A, 0x5B8C, 0x6210]"
definition text_already_saved :: string where
  "text_already_saved = utf8 [0x5F53, 0x524D, 0x5DF2, 0x6709, 0x4E00, 0x4E2A, 0x5DF2, 0x4FDD, 0x5B58, 0x623F, 0x95F4]"
definition text_leave_first :: string where
  "text_leave_first = utf8 [0x5148, 0x79BB, 0x5F00, 0x5F53, 0x524D, 0x623F, 0x95F4]"
definition text_data_incomplete :: string where
  "text_data_incomplete = utf8 [0x672C, 0x5730, 0x623F, 0x95F4, 0x6570, 0x636E, 0x4E0D, 0x5B8C, 0x6574]"
definition text_repair_or_leave :: string where
  "text_repair_or_leave = utf8 [0x4FEE, 0x590D, 0x6216, 0x79BB, 0x5F00, 0x5F53, 0x524D, 0x623F, 0x95F4]"
definition text_confirm_switch :: string where
  "text_confirm_switch = utf8 [0x5207, 0x6362, 0x623F, 0x95F4, 0x9700, 0x8981, 0x786E, 0x8BA4, 0x5148, 0x79BB, 0x5F00, 0x5F53, 0x524D, 0x623F, 0x95F4]"
definition text_tick_and_retry :: string where
  "text_tick_and_retry = utf8 [0x52FE, 0x9009, 0x786E, 0x8BA4, 0x540E, 0x91CD, 0x8BD5]"
definition text_bad_mode :: string where
  "text_bad_mode = utf8 [0x5207, 0x6362, 0x6A21, 0x5F0F, 0x65E0, 0x6548]"
definition text_choose_mode :: string where
  "text_choose_mode = utf8 [0x9009, 0x62E9, 0x521B, 0x5EFA, 0x6216, 0x52A0, 0x5165]"
definition text_version_prefix :: string where
  "text_version_prefix = ''NetBird '' @ utf8 [0x7248, 0x672C, 0x4E0D, 0x5339, 0x914D, 0xFF0C, 0x9700, 0x8981] @ '' v''"
definition text_profile_conflict :: string where
  "text_profile_conflict = ''NetBird '' @ utf8 [0x7BA1, 0x7406, 0x914D, 0x7F6E, 0x4E0E, 0x672C, 0x5730, 0x623F, 0x95F4, 0x4E0D, 0x4E00, 0x81F4]"
definition text_service_unavailable :: string where
  "text_service_unavailable = ''NetBird '' @ utf8 [0x670D, 0x52A1, 0x6682, 0x65F6, 0x4E0D, 0x53EF, 0x7528]"
definition text_check_or_repair :: string where
  "text_check_or_repair = utf8 [0x68C0, 0x67E5, 0x670D, 0x52A1, 0x6216, 0x4FEE, 0x590D]"
definition text_service_access :: string where
  "text_service_access = utf8 [0x65E0, 0x6CD5, 0x8BFB, 0x53D6] @ '' NetBird '' @ utf8 [0x670D, 0x52A1, 0x72B6, 0x6001]"
definition text_retry_or_repair :: string where
  "text_retry_or_repair = utf8 [0x91CD, 0x8BD5, 0x6216, 0x4FEE, 0x590D, 0x670D, 0x52A1]"
definition text_session_unavailable :: string where
  "text_session_unavailable = ''NetBird '' @ utf8 [0x670D, 0x52A1, 0x4E0D, 0x53EF, 0x7528]"
definition text_check_and_retry :: string where
  "text_check_and_retry = utf8 [0x68C0, 0x67E5, 0x670D, 0x52A1, 0x540E, 0x91CD, 0x8BD5]"
definition text_join_failed :: string where
  "text_join_failed = utf8 [0x52A0, 0x5165, 0x623F, 0x95F4, 0x5931, 0x8D25]"

section \<open>Public errors\<close>

datatype AppErrorCode =
    Code_InvalidInput | Code_RoomUnavailable | Code_RoomAPIRateLimited | Code_RoomAPIUnavailable
  | Code_ServiceMissing | Code_ServiceUnavailable | Code_VersionMismatch | Code_ProfileConflict
  | Code_EnrollmentFailed | Code_OperationConflict | Code_SecureStore | Code_Internal

fun AppErrorCode_text :: "AppErrorCode \<Rightarrow> string" where
  "AppErrorCode_text Code_InvalidInput = ''INVALID_INPUT''"
| "AppErrorCode_text Code_RoomUnavailable = ''ROOM_UNAVAILABLE''"
| "AppErrorCode_text Code_RoomAPIRateLimited = ''ROOM_API_RATE_LIMITED''"
| "AppErrorCode_text Code_RoomAPIUnavailable = ''ROOM_API_UNAVAILABLE''"
| "AppErrorCode_text Code_ServiceMissing = ''NETBIRD_SERVICE_MISSING''"
| "AppErrorCode_text Code_ServiceUnavailable = ''NETBIRD_SERVICE_UNAVAILABLE''"
| "AppErrorCode_text Code_VersionMismatch = ''NETBIRD_VERSION_MISMATCH''"
| "AppErrorCode_text Code_ProfileConflict = ''NETBIRD_PROFILE_CONFLICT''"
| "AppErrorCode_text Code_EnrollmentFailed = ''ENROLLMENT_FAILED''"
| "AppErrorCode_text Code_OperationConflict = ''OPERATION_CONFLICT''"
| "AppErrorCode_text Code_SecureStore = ''SECURE_STORE_UNAVAILABLE''"
| "AppErrorCode_text Code_Internal = ''INTERNAL''"

record PublicError =
  pe_Code :: AppErrorCode
  pe_Message :: string
  pe_Retryable :: bool
  pe_Action :: string

definition public :: "AppErrorCode \<Rightarrow> string \<Rightarrow> bool \<Rightarrow> string \<Rightarrow> PublicError" where
  "public code message retryable action =
     \<lparr>pe_Code = code, pe_Message = message, pe_Retryable = retryable, pe_Action = action\<rparr>"

definition PublicError_Error :: "PublicError option \<Rightarrow> string" where
  "PublicError_Error e = (case e of None \<Rightarrow> [] | Some e \<Rightarrow> AppErrorCode_text (pe_Code e))"

text \<open>\<open>strings.Contains\<close>\<close>

definition Contains :: "string \<Rightarrow> string \<Rightarrow> bool" where
  "Contains s sub = list_ex (\<lambda>n. take (length sub) (drop n s) = sub) [0..<length s + 1]"

definition public_http_error :: "goerr \<Rightarrow> PublicError" where
  "public_http_error h =
     (case Code h of
        ErrorRoomUnavailable \<Rightarrow>
          public Code_RoomUnavailable text_room_unavailable False text_check_code
      | ErrorRateLimited \<Rightarrow> public Code_RoomAPIRateLimited text_rate_limited True text_retry_later
      | ErrorServiceUnavailable \<Rightarrow>
          public Code_RoomAPIUnavailable text_api_unavailable True text_retry_later
      | _ \<Rightarrow> public Code_Internal text_request_failed (Transient h) text_retry_later)"

definition publicError :: "goerr option \<Rightarrow> PublicError option" where
  "publicError e =
     (case e of
        None \<Rightarrow> None
      | Some e \<Rightarrow> Some (
          case errors_As_HTTPError e of
            Some h \<Rightarrow> public_http_error h
          | None \<Rightarrow>
              if errors_Is e ErrRoomAlreadySaved \<or> errors_Is e ErrCommandInProgress
                then public Code_OperationConflict text_already_saved False text_leave_first
              else if errors_Is e ErrStoredStateConflict
                then public Code_SecureStore text_data_incomplete False text_repair_or_leave
              else if errors_Is e ErrSwitchConfirmationRequired
                then public Code_InvalidInput text_confirm_switch False text_tick_and_retry
              else if errors_Is e ErrInvalidSwitchMode
                then public Code_InvalidInput text_bad_mode False text_choose_mode
              else (case errors_As_VersionMismatch e of
                Some m \<Rightarrow>
                  public Code_VersionMismatch (text_version_prefix @ Expected m) False text_repair_service
              | None \<Rightarrow>
                  if errors_Is e ErrManagedProfileConflict \<or> errors_Is e ErrManagedProfileInconsistent
                    then public Code_ProfileConflict text_profile_conflict False text_repair_service
                  else if errors_Is e ErrServiceMissing
                    then public Code_ServiceMissing text_service_missing True text_repair_service
                  else if errors_Is e ErrServiceUnavailable
                    then public Code_ServiceUnavailable text_service_unavailable True text_check_or_repair
                  else if errors_Is e ErrServiceAccess
                    then public Code_ServiceUnavailable text_service_access True text_retry_or_repair
                  else if Contains (ToLower (err_text e)) ''room session is unavailable''
                    then public Code_ServiceUnavailable text_session_unavailable True text_check_and_retry
                  else public Code_EnrollmentFailed text_join_failed True text_retry_later)))"

end
