(* ===== verification/Platform.thy ===== *)
theory Platform
  imports GoError
begin

text \<open>
  The NetBird service on the machine (\<open>client/internal/platform\<close>): its inspection (\<open>service.go\<close> and
  \<open>service_windows.go\<close>), the verification of the installer (\<open>artifact.go\<close>, \<open>artifact_windows.go\<close>) and the
  privileged actions (\<open>install.go\<close>, \<open>remove.go\<close>, \<open>install_windows.go\<close>).  The calls into Windows are
  parameters: opening the service manager and the service, its status and configuration, the
  registry, the trust provider, PowerShell and \<open>msiexec\<close>.
\<close>

section \<open>Inspection\<close>

datatype ServiceHealth =
    ServiceMissing | ServiceAccessDenied | ServiceStopped | ServiceUnhealthy
  | ServiceVersionMismatch | ServiceReady | ServiceHealthUnset

record ServiceRecord =
  srec_Installed :: bool
  srec_Running :: bool
  srec_BinaryPath :: string
  srec_Version :: string
  srec_ProcessID :: int

record ServiceInspection =
  si_Health :: ServiceHealth
  si_Installed :: bool
  si_Running :: bool
  si_BinaryPath :: string
  si_Version :: string
  si_ExpectedVersion :: string
  si_ProcessID :: int

record 's ServiceInspector =
  insp_backend :: "('s, goerr + ServiceRecord) state"
  insp_probe :: "('s, goerr + string) state option"
  insp_expectedVersion :: string

definition NewServiceInspectorWithBackend ::
  "string \<Rightarrow> ('s, goerr + string) state option \<Rightarrow> ('s, goerr + ServiceRecord) state \<Rightarrow> 's ServiceInspector" where
  "NewServiceInspectorWithBackend expectedVersion probe backend =
     \<lparr>insp_backend = backend, insp_probe = probe, insp_expectedVersion = expectedVersion\<rparr>"

definition new_inspection :: "string \<Rightarrow> ServiceInspection" where
  "new_inspection expected =
     \<lparr>si_Health = ServiceHealthUnset, si_Installed = False, si_Running = False, si_BinaryPath = [],
      si_Version = [], si_ExpectedVersion = expected, si_ProcessID = 0\<rparr>"

definition inspect_lookup_error :: "ServiceInspection \<Rightarrow> goerr \<Rightarrow> ServiceInspection \<times> goerr option" where
  "inspect_lookup_error result e =
     (if errors_Is e ErrServiceMissing then (result\<lparr>si_Health := ServiceMissing\<rparr>, None)
      else if errors_Is e ErrServiceAccess then (result\<lparr>si_Health := ServiceAccessDenied\<rparr>, Some e)
      else (result\<lparr>si_Health := ServiceUnhealthy\<rparr>, Some (Wrapped ''inspect NetBird service: '' e [])))"

definition Inspect :: "'s ServiceInspector \<Rightarrow> ('s, ServiceInspection \<times> goerr option) state" where
  "Inspect i = do {
     let result = new_inspection (insp_expectedVersion i);
     looked \<leftarrow> insp_backend i;
     case looked of
       Inl e \<Rightarrow> State_Monad.return (inspect_lookup_error result e)
     | Inr r \<Rightarrow>
         let result = result\<lparr>si_Installed := srec_Installed r, si_Running := srec_Running r,
               si_BinaryPath := srec_BinaryPath r, si_Version := srec_Version r,
               si_ProcessID := srec_ProcessID r\<rparr> in
         if \<not> srec_Running r then
           State_Monad.return
             (if srec_Version r \<noteq> [] \<and> srec_Version r \<noteq> insp_expectedVersion i
              then (result\<lparr>si_Health := ServiceVersionMismatch\<rparr>, None)
              else (result\<lparr>si_Health := ServiceStopped\<rparr>, None))
         else (case insp_probe i of
             None \<Rightarrow> State_Monad.return
               (result\<lparr>si_Health := ServiceUnhealthy\<rparr>, Some (Sentinel ErrServiceUnavailable))
           | Some probe \<Rightarrow> do {
               probed \<leftarrow> probe;
               State_Monad.return (case probed of
                   Inl e \<Rightarrow> (result\<lparr>si_Health := ServiceUnhealthy\<rparr>,
                     Some (Wrapped [] (Sentinel ErrServiceUnavailable) ('': '' @ err_text e)))
                 | Inr version \<Rightarrow>
                     if version \<noteq> insp_expectedVersion i
                     then (result\<lparr>si_Version := version, si_Health := ServiceVersionMismatch\<rparr>, None)
                     else (result\<lparr>si_Version := version, si_Health := ServiceReady\<rparr>, None))
             })
   }"

text \<open>
  The service manager of Windows: what the calls of \<open>Lookup\<close> return.  Two codes of Windows matter,
  \<open>ERROR_ACCESS_DENIED\<close> and \<open>ERROR_SERVICE_DOES_NOT_EXIST\<close>.
\<close>

datatype winerr = AccessDenied | ServiceDoesNotExist | OtherError string

definition win_error :: "winerr \<Rightarrow> goerr" where
  "win_error e = Message (case e of AccessDenied \<Rightarrow> ''Access is denied.''
     | ServiceDoesNotExist \<Rightarrow> ''The specified service does not exist as an installed service.''
     | OtherError m \<Rightarrow> m)"

record 's service_manager =
  scm_OpenSCManager :: "('s, winerr + unit) state"
  scm_OpenService :: "string \<Rightarrow> ('s, winerr + unit) state"
  scm_Status :: "('s, winerr + bool \<times> int) state"
  scm_BinaryPath :: "('s, winerr + string) state"
  scm_DecomposeCommandLine :: "string \<Rightarrow> (string list) option"
  scm_DisplayVersion :: "string \<Rightarrow> ('s, string option) state"

definition netBirdServiceName :: string where "netBirdServiceName = ''NetBird''"

definition firstCommandArgument :: "'s service_manager \<Rightarrow> string \<Rightarrow> string" where
  "firstCommandArgument M commandLine =
     (case scm_DecomposeCommandLine M commandLine of
        None \<Rightarrow> commandLine
      | Some arguments \<Rightarrow> if length arguments = 0 then commandLine else arguments ! 0)"

definition readMSIDisplayVersion :: "'s service_manager \<Rightarrow> string \<Rightarrow> ('s, string) state" where
  "readMSIDisplayVersion M productCode =
     (if productCode = [] then State_Monad.return []
      else do {
        version \<leftarrow> scm_DisplayVersion M productCode;
        State_Monad.return (case version of None \<Rightarrow> [] | Some v \<Rightarrow> v)
      })"

definition windows_Lookup :: "'s service_manager \<Rightarrow> string \<Rightarrow> ('s, goerr + ServiceRecord) state" where
  "windows_Lookup M productCode = do {
     manager \<leftarrow> scm_OpenSCManager M;
     case manager of
       Inl e \<Rightarrow> err (if e = AccessDenied then Sentinel ErrServiceAccess else win_error e)
     | Inr _ \<Rightarrow> do {
         service \<leftarrow> scm_OpenService M netBirdServiceName;
         case service of
           Inl e \<Rightarrow> err (case e of
               ServiceDoesNotExist \<Rightarrow> Sentinel ErrServiceMissing
             | AccessDenied \<Rightarrow> Sentinel ErrServiceAccess
             | OtherError m \<Rightarrow> win_error e)
         | Inr _ \<Rightarrow> do {
             status \<leftarrow> scm_Status M;
             case status of
               Inl e \<Rightarrow> err (win_error e)
             | Inr (running, pid) \<Rightarrow> do {
                 binary \<leftarrow> scm_BinaryPath M;
                 case binary of
                   Inl e \<Rightarrow> err (win_error e)
                 | Inr binaryPath \<Rightarrow> do {
                     version \<leftarrow> readMSIDisplayVersion M productCode;
                     ok \<lparr>srec_Installed = True, srec_Running = running,
                         srec_BinaryPath = firstCommandArgument M binaryPath, srec_Version = version,
                         srec_ProcessID = pid\<rparr>
                   }
               }
           }
       }
   }"

definition NewServiceInspector ::
  "'s service_manager \<Rightarrow> string \<Rightarrow> string \<Rightarrow> ('s, goerr + string) state option \<Rightarrow> 's ServiceInspector" where
  "NewServiceInspector M expectedVersion productCode probe =
     NewServiceInspectorWithBackend expectedVersion probe (windows_Lookup M productCode)"

section \<open>The verdict\<close>

text \<open>
  What an inspection says, from the answers of the service manager and of the daemon: the health is
  always one of six, \<open>ServiceReady\<close> exactly if the service runs and the daemon itself reports the
  expected version, and an error comes with an unhealthy service or a refused access only.
\<close>

definition verdict :: "string \<Rightarrow> ServiceInspection \<times> goerr option \<Rightarrow> bool" where
  "verdict expected r \<longleftrightarrow>
     si_ExpectedVersion (fst r) = expected \<and>
     (case si_Health (fst r) of
        ServiceMissing \<Rightarrow> snd r = None \<and> \<not> si_Installed (fst r)
      | ServiceAccessDenied \<Rightarrow> (\<exists>e. snd r = Some e \<and> errors_Is e ErrServiceAccess)
      | ServiceStopped \<Rightarrow> snd r = None \<and> \<not> si_Running (fst r) \<and> si_Version (fst r) \<in> {[], expected}
      | ServiceUnhealthy \<Rightarrow> snd r \<noteq> None
      | ServiceVersionMismatch \<Rightarrow> snd r = None \<and> si_Version (fst r) \<noteq> expected
      | ServiceReady \<Rightarrow> snd r = None \<and> si_Running (fst r) \<and> si_Version (fst r) = expected
      | ServiceHealthUnset \<Rightarrow> False)"

lemma wp_Inspect:
  "wp (Inspect i) (\<lambda>r t. verdict (insp_expectedVersion i) r) s"
  unfolding Inspect_def Let_def wp_bind
  by (rule wp_any)
     (auto simp: wp_simps verdict_def inspect_lookup_error_def new_inspection_def
        split: sum.splits option.splits intro!: wp_any)


end
