(* ===== verification/AppController.thy ===== *)
theory AppController
  imports AppErrors SessionService Platform
begin

text \<open>
  The application layer of the client (\<open>client/app/controller.go\<close>, \<open>dto.go\<close>): what the window shows, and the
  commands it offers over a room session.  The controller reaches the session, the service inspector
  and the repair helper through Go interfaces and function values, records of operations here; \<open>nil\<close> is
  \<open>None\<close>.  \<open>ct_system\<close> is the state those act on.

  The mutex is held for each block between \<open>Lock\<close> and \<open>Unlock\<close>; each of these blocks is a definition of
  its own, so that blocks of other goroutines can come in between.  Log lines are not modelled.
\<close>

section \<open>What the window shows\<close>

record PeerSnapshot =
  ps_ID :: string
  ps_Name :: string
  ps_NetBirdIP :: string
  ps_Connected :: bool
  ps_Path :: PathType

record ServiceSnapshot =
  sn_Installed :: bool
  sn_Running :: bool
  sn_Version :: string
  sn_ExpectedVersion :: string
  sn_RepairRequired :: bool

record StateSnapshot =
  st_Revision :: "64 word"
  st_State :: SessionState
  st_RoomID :: string
  st_RoomCodeMasked :: string
  st_ManagementURL :: string
  st_LocalNetBirdIP :: string
  st_ProfileID :: string
  st_ConnectedPath :: PathType
  st_Peers :: "PeerSnapshot list"
  st_PeersStale :: bool
  st_LastPeerRefreshAt :: string
  st_Service :: ServiceSnapshot
  st_Error :: "PublicError option"
  st_BusyCommand :: string

record CreateRoomRequest =
  cr_DisplayName :: string

record JoinRoomRequest =
  jr_RoomCode :: string
  jr_DisplayName :: string

record SwitchRoomRequest =
  sr_Mode :: string
  sr_RoomCode :: string
  sr_DisplayName :: string
  sr_Confirmed :: bool

record RevealRoomCodeResult =
  rr_RoomCode :: string
  rr_Error :: "PublicError option"

section \<open>Interfaces and state\<close>

type_synonym 's session_command = "('s, SessionSnapshot \<times> goerr option) state"

record 's RoomViewSession =
  rvs_View :: "go_context \<Rightarrow> ('s, goerr + RoomViewSnapshot) state"
  rvs_RevealRoomCode :: "go_context \<Rightarrow> ('s, goerr + string) state"

record 's RoomLifecycleSession =
  rls_Connect :: "go_context \<Rightarrow> 's session_command"
  rls_Disconnect :: "go_context \<Rightarrow> 's session_command"
  rls_Leave :: "go_context \<Rightarrow> 's session_command"
  rls_Switch :: "go_context \<Rightarrow> SwitchRequest \<Rightarrow> 's session_command"

text \<open>A session, and the larger interfaces that it implements or not.\<close>

record 's RoomSession =
  rs_Create :: "go_context \<Rightarrow> string \<Rightarrow> 's session_command"
  rs_Join :: "go_context \<Rightarrow> string \<Rightarrow> string \<Rightarrow> 's session_command"
  rs_view :: "'s RoomViewSession option"
  rs_lifecycle :: "'s RoomLifecycleSession option"

text \<open>The diagnostics writer is opaque here: its type is a parameter.\<close>

record ('s, 'd) Controller =
  ct_ctx :: "go_context option"
  ct_state :: StateSnapshot
  ct_rooms :: "'s RoomSession option"
  ct_close :: "('s, goerr option) state option"
  ct_service :: "(go_context \<Rightarrow> ('s, ServiceInspection \<times> goerr option) state) option"
  ct_repair :: "(go_context \<Rightarrow> ('s, goerr option) state) option"
  ct_diagnostics :: "'d option"
  ct_system :: 's

text \<open>\<open>os.Hostname\<close> and \<open>UTC().Format(time.RFC3339)\<close> belong to the machine and the library.\<close>

record 's app_library =
  al_Hostname :: "('s, string) state"
  al_FormatTime :: "time \<Rightarrow> string"

definition in_system :: "('s, 'a) state \<Rightarrow> (('s, 'd) Controller, 'a) state" where
  "in_system = on_field ct_system (\<lambda>x c. c\<lparr>ct_system := x\<rparr>)"

definition show_state :: "(StateSnapshot \<Rightarrow> StateSnapshot) \<Rightarrow> (('s, 'd) Controller, StateSnapshot) state" where
  "show_state f = State (\<lambda>c. (f (ct_state c), c\<lparr>ct_state := f (ct_state c)\<rparr>))"

definition expectedNetBirdVersion :: string where "expectedNetBirdVersion = ''0.74.7''"

definition initial_state :: StateSnapshot where
  "initial_state =
     \<lparr>st_Revision = 0, st_State = StateNoRoom, st_RoomID = [], st_RoomCodeMasked = [],
      st_ManagementURL = [], st_LocalNetBirdIP = [], st_ProfileID = [], st_ConnectedPath = PathNone,
      st_Peers = [], st_PeersStale = False, st_LastPeerRefreshAt = [],
      st_Service = \<lparr>sn_Installed = False, sn_Running = False, sn_Version = [],
        sn_ExpectedVersion = expectedNetBirdVersion, sn_RepairRequired = False\<rparr>,
      st_Error = None, st_BusyCommand = []\<rparr>"

definition New_controller :: "'s \<Rightarrow> ('s, 'd) Controller" where
  "New_controller x =
     \<lparr>ct_ctx = None, ct_state = initial_state, ct_rooms = None, ct_close = None, ct_service = None,
      ct_repair = None, ct_diagnostics = None, ct_system = x\<rparr>"

definition NewWithSession ::
  "'s RoomSession \<Rightarrow> ('s, goerr option) state \<Rightarrow> 's \<Rightarrow> ('s, 'd) Controller" where
  "NewWithSession rooms close x = (New_controller x)\<lparr>ct_rooms := Some rooms, ct_close := Some close\<rparr>"

definition ConfigureService ::
  "(go_context \<Rightarrow> ('s, ServiceInspection \<times> goerr option) state) \<Rightarrow>
     (go_context \<Rightarrow> ('s, goerr option) state) \<Rightarrow> ('s, 'd) Controller \<Rightarrow> ('s, 'd) Controller" where
  "ConfigureService checker repair c = c\<lparr>ct_service := Some checker, ct_repair := Some repair\<rparr>"

definition ConfigureDiagnostics :: "'d \<Rightarrow> ('s, 'd) Controller \<Rightarrow> ('s, 'd) Controller" where
  "ConfigureDiagnostics writer c = c\<lparr>ct_diagnostics := Some writer\<rparr>"

definition controller_context :: "('s, 'd) Controller \<Rightarrow> go_context" where
  "controller_context c = (case ct_ctx c of None \<Rightarrow> Background | Some ctx \<Rightarrow> ctx)"

definition GetState :: "(('s, 'd) Controller, StateSnapshot) state" where
  "GetState = show_state id"

section \<open>The service\<close>

definition health_error :: "ServiceHealth \<Rightarrow> PublicError option" where
  "health_error h =
     (case h of
        ServiceMissing \<Rightarrow> Some (public Code_ServiceMissing text_service_missing True text_repair_service)
      | ServiceVersionMismatch \<Rightarrow>
          Some (public Code_VersionMismatch text_service_version False text_repair_service)
      | ServiceStopped \<Rightarrow>
          Some (public Code_ServiceUnavailable text_service_stopped True text_repair_or_start)
      | ServiceUnhealthy \<Rightarrow>
          Some (public Code_ServiceUnavailable text_service_stopped True text_repair_or_start)
      | _ \<Rightarrow> None)"

definition show_inspection :: "ServiceInspection \<Rightarrow> goerr option \<Rightarrow> StateSnapshot \<Rightarrow> StateSnapshot" where
  "show_inspection i e s =
     (let s = s\<lparr>st_Service := \<lparr>sn_Installed = si_Installed i, sn_Running = si_Running i,
                 sn_Version = si_Version i, sn_ExpectedVersion = si_ExpectedVersion i,
                 sn_RepairRequired = (si_Health i \<noteq> ServiceReady)\<rparr>\<rparr>;
          s = (if e \<noteq> None \<and> st_Error s = None then s\<lparr>st_Error := publicError e\<rparr> else s)
      in if st_Error s = None then s\<lparr>st_Error := health_error (si_Health i)\<rparr> else s)"

definition refreshService :: "go_context \<Rightarrow> (('s, 'd) Controller, unit) state" where
  "refreshService ctx = do {
     c \<leftarrow> State_Monad.get;
     case ct_service c of
       None \<Rightarrow> State_Monad.return ()
     | Some checker \<Rightarrow> do {
         (inspection, e) \<leftarrow> in_system (checker ctx);
         _ \<leftarrow> show_state (show_inspection inspection e);
         State_Monad.return ()
       }
   }"

definition repair_required :: "goerr \<Rightarrow> StateSnapshot \<Rightarrow> StateSnapshot" where
  "repair_required e s =
     s\<lparr>st_Error := publicError (Some e), st_Service := (st_Service s)\<lparr>sn_RepairRequired := True\<rparr>\<rparr>"

definition repair_begin :: "(('s, 'd) Controller, StateSnapshot) state" where
  "repair_begin = show_state (\<lambda>s. s\<lparr>st_BusyCommand := ''repair'', st_Error := None\<rparr>)"

definition repair_end :: "goerr option \<Rightarrow> (('s, 'd) Controller, StateSnapshot) state" where
  "repair_end e = show_state (\<lambda>s.
     let s = s\<lparr>st_BusyCommand := []\<rparr> in
     case e of
       Some e \<Rightarrow> repair_required e s
     | None \<Rightarrow> s\<lparr>st_Error := None, st_Service := (st_Service s)\<lparr>sn_RepairRequired := False\<rparr>\<rparr>)"

definition RepairService :: "(('s, 'd) Controller, StateSnapshot) state" where
  "RepairService = do {
     c \<leftarrow> State_Monad.get;
     let ctx = controller_context c;
     case ct_repair c of
       None \<Rightarrow> show_state (repair_required (Sentinel ErrServiceUnavailable))
     | Some repair \<Rightarrow> do {
         _ \<leftarrow> repair_begin;
         e \<leftarrow> in_system (repair ctx);
         state \<leftarrow> repair_end e;
         (if e = None then refreshService ctx else State_Monad.return ());
         State_Monad.return state
       }
   }"

section \<open>The view of the room\<close>

definition show_peer :: "PathType \<Rightarrow> RoomPeer \<Rightarrow> PeerSnapshot" where
  "show_peer path peer =
     \<lparr>ps_ID = rp_ID peer, ps_Name = rp_Name peer, ps_NetBirdIP = rp_NetBirdIP peer,
      ps_Connected = rp_Connected peer, ps_Path = (if rp_Connected peer then path else PathNone)\<rparr>"

definition show_view :: "'s app_library \<Rightarrow> RoomViewSnapshot \<Rightarrow> StateSnapshot \<Rightarrow> StateSnapshot" where
  "show_view L view s =
     s\<lparr>st_Revision := ss_Revision (rv_Session view), st_State := ss_State (rv_Session view),
       st_ConnectedPath := ss_Path (rv_Session view), st_RoomID := md_RoomID (rv_Metadata view),
       st_RoomCodeMasked := rv_RoomCodeMasked view,
       st_ManagementURL := md_ManagementURL (rv_Metadata view),
       st_ProfileID := md_ProfileID (rv_Metadata view), st_LocalNetBirdIP := rv_LocalNetBirdIP view,
       st_PeersStale := rv_PeersStale view,
       st_LastPeerRefreshAt :=
         (if time_IsZero (rv_LastPeerRefresh view) then [] else al_FormatTime L (rv_LastPeerRefresh view)),
       st_Peers := map (show_peer (ss_Path (rv_Session view))) (rv_Peers view)\<rparr>"

definition show_view_error :: "goerr \<Rightarrow> StateSnapshot \<Rightarrow> StateSnapshot" where
  "show_view_error e s =
     (if errors_Is e ErrStoredStateConflict \<or> errors_Is e ErrRoomAlreadySaved
      then s\<lparr>st_State := StateRecoverableError, st_Error := publicError (Some e)\<rparr> else s)"

definition view_session :: "('s, 'd) Controller \<Rightarrow> 's RoomViewSession option" where
  "view_session c = Option.bind (ct_rooms c) rs_view"

definition refreshRoomView :: "'s app_library \<Rightarrow> go_context \<Rightarrow> (('s, 'd) Controller, unit) state" where
  "refreshRoomView L ctx = do {
     c \<leftarrow> State_Monad.get;
     case view_session c of
       None \<Rightarrow> State_Monad.return ()
     | Some viewSession \<Rightarrow> do {
         r \<leftarrow> in_system (rvs_View viewSession ctx);
         _ \<leftarrow> show_state (case r of Inl e \<Rightarrow> show_view_error e | Inr view \<Rightarrow> show_view L view);
         State_Monad.return ()
       }
   }"

text \<open>\<open>Startup\<close> stores the context and starts two goroutines, each of them one refresh.\<close>

definition Startup :: "go_context \<Rightarrow> (('s, 'd) Controller, unit) state" where
  "Startup ctx = State_Monad.update (\<lambda>c. c\<lparr>ct_ctx := Some ctx\<rparr>)"

definition Shutdown :: "(('s, 'd) Controller, unit) state" where
  "Shutdown = do {
     c \<leftarrow> State_Monad.get;
     case ct_close c of
       None \<Rightarrow> State_Monad.return ()
     | Some close \<Rightarrow> do { _ \<leftarrow> in_system close; State_Monad.return () }
   }"

definition session_unavailable :: goerr where
  "session_unavailable = Message ''room session is unavailable''"

definition app_RevealRoomCode :: "(('s, 'd) Controller, RevealRoomCodeResult) state" where
  "app_RevealRoomCode = do {
     c \<leftarrow> State_Monad.get;
     case view_session c of
       None \<Rightarrow> State_Monad.return \<lparr>rr_RoomCode = [], rr_Error = publicError (Some session_unavailable)\<rparr>
     | Some view \<Rightarrow> do {
         r \<leftarrow> in_system (rvs_RevealRoomCode view (controller_context c));
         State_Monad.return (case r of
             Inl e \<Rightarrow> \<lparr>rr_RoomCode = [], rr_Error = publicError (Some e)\<rparr>
           | Inr code \<Rightarrow> \<lparr>rr_RoomCode = code, rr_Error = None\<rparr>)
       }
   }"

section \<open>Commands\<close>

definition clearActiveRoom :: "StateSnapshot \<Rightarrow> StateSnapshot" where
  "clearActiveRoom s =
     s\<lparr>st_RoomID := [], st_RoomCodeMasked := [], st_ManagementURL := [], st_LocalNetBirdIP := [],
       st_ProfileID := [], st_Peers := [], st_PeersStale := False, st_LastPeerRefreshAt := []\<rparr>"

definition busy_error :: PublicError where
  "busy_error = public Code_OperationConflict text_busy True text_wait"

text \<open>The first critical section: \<open>Inl\<close> is the answer to a command that may not begin.\<close>

definition command_begin ::
  "string \<Rightarrow> SessionState option \<Rightarrow> (('s, 'd) Controller, StateSnapshot + go_context) state" where
  "command_begin command initialState = do {
     c \<leftarrow> State_Monad.get;
     if st_BusyCommand (ct_state c) \<noteq> [] then do {
       state \<leftarrow> show_state (\<lambda>s. s\<lparr>st_Error := Some busy_error\<rparr>);
       State_Monad.return (Inl state)
     }
     else do {
       _ \<leftarrow> show_state (\<lambda>s.
         let s = s\<lparr>st_BusyCommand := command, st_Error := None\<rparr> in
         case initialState of
           Some x \<Rightarrow> if st_State s = StateNoRoom then s\<lparr>st_State := x\<rparr> else s
         | None \<Rightarrow> s);
       State_Monad.return (Inr (controller_context c))
     }
   }"

text \<open>The last one.\<close>

definition command_shown :: "SessionSnapshot \<Rightarrow> goerr option \<Rightarrow> StateSnapshot \<Rightarrow> StateSnapshot" where
  "command_shown snapshot e s =
     (let s = s\<lparr>st_BusyCommand := []\<rparr> in
      case e of
        Some e \<Rightarrow> s\<lparr>st_State := StateRecoverableError, st_ConnectedPath := PathNone,
                    st_Error := publicError (Some e)\<rparr>
      | None \<Rightarrow>
          let s = s\<lparr>st_Revision := ss_Revision snapshot, st_State := ss_State snapshot,
                    st_ConnectedPath := ss_Path snapshot, st_Error := None\<rparr>
          in if ss_State snapshot = StateNoRoom then clearActiveRoom s else s)"

definition runCommand ::
  "'s app_library \<Rightarrow> string \<Rightarrow> SessionState option \<Rightarrow>
     (go_context \<Rightarrow> (('s, 'd) Controller, SessionSnapshot \<times> goerr option) state) \<Rightarrow>
     (('s, 'd) Controller, StateSnapshot) state" where
  "runCommand L command initialState execute = do {
     begun \<leftarrow> command_begin command initialState;
     case begun of
       Inl state \<Rightarrow> State_Monad.return state
     | Inr ctx \<Rightarrow> do {
         (snapshot, e) \<leftarrow> execute ctx;
         (if e = None then refreshRoomView L ctx else State_Monad.return ());
         show_state (command_shown snapshot e)
       }
   }"

text \<open>\<open>session.Snapshot{}\<close>: nobody looks at it, it comes with an error.\<close>

definition no_session_snapshot :: SessionSnapshot where
  "no_session_snapshot = \<lparr>ss_Revision = 0, ss_State = StateNoRoom, ss_Path = PathNone\<rparr>"

definition on_rooms ::
  "('s RoomSession \<Rightarrow> 's session_command option) \<Rightarrow>
     (('s, 'd) Controller, SessionSnapshot \<times> goerr option) state" where
  "on_rooms call = do {
     c \<leftarrow> State_Monad.get;
     case Option.bind (ct_rooms c) call of
       None \<Rightarrow> State_Monad.return (no_session_snapshot, Some session_unavailable)
     | Some m \<Rightarrow> in_system m
   }"

definition lifecycleSession ::
  "('s RoomLifecycleSession \<Rightarrow> 's session_command) \<Rightarrow> 's RoomSession \<Rightarrow> 's session_command option" where
  "lifecycleSession call rooms = map_option call (rs_lifecycle rooms)"

definition runRoomCommand where
  "runRoomCommand L command execute = runCommand L command (Some StateEnrolling) execute"

definition display_name :: "'s app_library \<Rightarrow> string \<Rightarrow> (('s, 'd) Controller, string) state" where
  "display_name L name =
     (if TrimSpace name = [] then in_system (al_Hostname L) else State_Monad.return name)"

definition app_CreateRoom ::
  "'s app_library \<Rightarrow> CreateRoomRequest \<Rightarrow> (('s, 'd) Controller, StateSnapshot) state" where
  "app_CreateRoom L request = do {
     displayName \<leftarrow> display_name L (cr_DisplayName request);
     runRoomCommand L ''create'' (\<lambda>ctx. on_rooms (\<lambda>rooms. Some (rs_Create rooms ctx displayName)))
   }"

definition JoinRoom ::
  "'s app_library \<Rightarrow> JoinRoomRequest \<Rightarrow> (('s, 'd) Controller, StateSnapshot) state" where
  "JoinRoom L request = do {
     displayName \<leftarrow> display_name L (jr_DisplayName request);
     runRoomCommand L ''join'' (\<lambda>ctx. on_rooms (\<lambda>rooms.
       Some (rs_Join rooms ctx (jr_RoomCode request) displayName)))
   }"

definition ConnectRoom :: "'s app_library \<Rightarrow> (('s, 'd) Controller, StateSnapshot) state" where
  "ConnectRoom L = runCommand L ''connect'' None (\<lambda>ctx. on_rooms (lifecycleSession (\<lambda>l. rls_Connect l ctx)))"

definition DisconnectRoom :: "'s app_library \<Rightarrow> (('s, 'd) Controller, StateSnapshot) state" where
  "DisconnectRoom L =
     runCommand L ''disconnect'' None (\<lambda>ctx. on_rooms (lifecycleSession (\<lambda>l. rls_Disconnect l ctx)))"

definition LeaveRoom :: "'s app_library \<Rightarrow> (('s, 'd) Controller, StateSnapshot) state" where
  "LeaveRoom L = runCommand L ''leave'' None (\<lambda>ctx. on_rooms (lifecycleSession (\<lambda>l. rls_Leave l ctx)))"

definition SwitchRoom ::
  "'s app_library \<Rightarrow> SwitchRoomRequest \<Rightarrow> (('s, 'd) Controller, StateSnapshot) state" where
  "SwitchRoom L request = do {
     displayName \<leftarrow> display_name L (sr_DisplayName request);
     runCommand L ''switch'' None (\<lambda>ctx. on_rooms (lifecycleSession (\<lambda>l. rls_Switch l ctx
       \<lparr>sw_Mode = sr_Mode request, sw_RoomCode = sr_RoomCode request, sw_Hostname = displayName,
        sw_Confirmed = sr_Confirmed request\<rparr>)))
   }"

section \<open>The session service behind it\<close>

definition service_session :: "'w SessionService \<Rightarrow> 'w session RoomSession" where
  "service_session S =
     \<lparr>rs_Create = service_Create S, rs_Join = service_Join S,
      rs_view = Some \<lparr>rvs_View = service_View S, rvs_RevealRoomCode = \<lambda>ctx. RevealRoomCode S\<rparr>,
      rs_lifecycle = Some \<lparr>rls_Connect = service_Connect S, rls_Disconnect = service_Disconnect S,
        rls_Leave = service_Leave S, rls_Switch = service_Switch S\<rparr>\<rparr>"

end
