(* ===== verification/AppControllerSpec.thy ===== *)
theory AppControllerSpec
  imports AppController SessionEnv
begin

text \<open>
  What the window shows, whatever order its goroutines run in: \<open>window_shows\<close> are the snapshots that the
  critical sections of the controller can produce over a session service, each of them at any time
  and with the result of any call of the service.
\<close>

section \<open>Running the controller\<close>

lemma run_in_system:
  "run_state (in_system m) c = (case run_state m (ct_system c) of (a, x) \<Rightarrow> (a, c\<lparr>ct_system := x\<rparr>))"
  by (simp add: in_system_def run_on_field)

lemma wp_in_system [wp_simps]:
  "wp (in_system m) Q c = wp m (\<lambda>a x. Q a (c\<lparr>ct_system := x\<rparr>)) (ct_system c)"
  by (simp add: in_system_def wp_simps)

lemma wp_show_state [wp_simps]: "wp (show_state f) Q c = Q (f (ct_state c)) (c\<lparr>ct_state := f (ct_state c)\<rparr>)"
  by (simp add: show_state_def wp_def)

section \<open>Snapshots\<close>

inductive window_shows ::
  "'w SessionService \<Rightarrow> 'w session app_library \<Rightarrow> StateSnapshot \<Rightarrow> bool" for S L where
  start: "window_shows S L initial_state"
| begin_command: "window_shows S L (ct_state c) \<Longrightarrow>
     run_state (command_begin command initialState) (c :: ('w session, unit) Controller) = (r, c') \<Longrightarrow>
     initialState = None \<or> initialState = Some StateEnrolling \<Longrightarrow> window_shows S L (ct_state c')"
| end_command: "window_shows S L s \<Longrightarrow>
     window_shows S L (command_shown snapshot e s)"
| viewed: "window_shows S L s \<Longrightarrow> run_state (service_View S ctx) x = (Inr view, y) \<Longrightarrow>
     window_shows S L (show_view L view s)"
| view_failed: "window_shows S L s \<Longrightarrow> window_shows S L (show_view_error e s)"
| inspected: "window_shows S L s \<Longrightarrow> window_shows S L (show_inspection i e s)"
| relabelled: "window_shows S L s \<Longrightarrow>
     window_shows S L (s\<lparr>st_BusyCommand := b, st_Error := p, st_Service := v\<rparr>)"

text \<open>\<open>relabelled\<close> is what \<open>RepairService\<close> does: it changes these three fields only.\<close>

lemma shows_relabelled:
  assumes "window_shows S L s"
  shows "window_shows S L (s\<lparr>st_BusyCommand := b\<rparr>)" "window_shows S L (s\<lparr>st_Error := p\<rparr>)"
    "window_shows S L (s\<lparr>st_Service := v\<rparr>)"
  using relabelled [OF assms, where b = b and p = "st_Error s" and v = "st_Service s"]
    relabelled [OF assms, where b = "st_BusyCommand s" and p = p and v = "st_Service s"]
    relabelled [OF assms, where b = "st_BusyCommand s" and p = "st_Error s" and v = v] by simp_all

text \<open>A view is one of a saved room, with the code masked.\<close>

lemma Derive_saved:
  "RoomSaved f \<Longrightarrow> \<not> EnrollmentInProgress f \<Longrightarrow> \<not> RecoverableError f \<Longrightarrow> fst (Derive f) \<noteq> StateNoRoom"
  by (auto simp: Derive_def Let_def split: PathType.splits)

lemma wp_machine_Apply_state:
  "(\<And>shown m. ss_State shown = fst (Derive f) \<Longrightarrow> Q shown (s\<lparr>sv_machine := m\<rparr>)) \<Longrightarrow> wp (machine_Apply f) Q s"
  by (auto simp: machine_Apply_def wp_simps wp_def [of "Machine_Apply f"] run_Machine_Apply Let_def
      Machine_Snapshot_def split: if_splits)

lemma Derive_view: "fst (Derive (view_facts d)) \<noteq> StateNoRoom" "StateNoRoom \<noteq> fst (Derive (view_facts d))"
  using Derive_saved [of "view_facts d"] by (simp_all add: view_facts_def no_facts_def)

lemma View_shows:
  "wps (service_View S ctx) (\<lambda>view t. ss_State (rv_Session view) \<noteq> StateNoRoom \<and>
     (\<exists>code. rv_RoomCodeMasked view = maskRoomCode code)) s"
  unfolding service_View_def
  by (auto simp: wps_simps wps_def wp_simps Let_def Derive_view intro!: wp_any wp_machine_Apply_state exI
      split: sum.splits option.splits)

section \<open>What is hidden\<close>

definition no_details :: "StateSnapshot \<Rightarrow> bool" where
  "no_details s \<longleftrightarrow> st_RoomID s = [] \<and> st_RoomCodeMasked s = [] \<and> st_ManagementURL s = [] \<and>
     st_LocalNetBirdIP s = [] \<and> st_ProfileID s = [] \<and> st_Peers s = [] \<and> \<not> st_PeersStale s \<and>
     st_LastPeerRefreshAt s = []"

definition stars :: "string \<Rightarrow> bool" where
  "stars m \<longleftrightarrow> list_all (\<lambda>c. c = CHR ''*'' \<or> c = CHR ''-'') (take (length m - 4) m)"

lemma stars_mask: "stars (maskRoomCode code)"
  by (auto simp: stars_def maskRoomCode_def list_all_iff)

definition window_inv :: "StateSnapshot \<Rightarrow> bool" where
  "window_inv s \<longleftrightarrow> (st_State s = StateNoRoom \<longrightarrow> no_details s) \<and> stars (st_RoomCodeMasked s)"

lemma stars_Nil [simp]: "stars []"
  by (simp add: stars_def)

lemma window_inv_steps:
  "window_inv initial_state"
  "window_inv s \<Longrightarrow> window_inv (command_shown snapshot e s)"
  "window_inv s \<Longrightarrow> window_inv (show_view_error x s)"
  "window_inv s \<Longrightarrow> window_inv (show_inspection i e s)"
  "window_inv s \<Longrightarrow> window_inv (s\<lparr>st_BusyCommand := b, st_Error := p, st_Service := v\<rparr>)"
  by (auto simp: window_inv_def no_details_def initial_state_def command_shown_def show_view_error_def
      show_inspection_def clearActiveRoom_def Let_def split: option.splits)

lemma window_inv_view:
  "ss_State (rv_Session view) \<noteq> StateNoRoom \<Longrightarrow> rv_RoomCodeMasked view = maskRoomCode code \<Longrightarrow>
     window_inv (show_view L view s)"
  by (simp add: window_inv_def show_view_def stars_mask)

lemma window_inv_begin:
  assumes "run_state (command_begin command initialState) c = (r, c')" and "window_inv (ct_state c)"
    and "initialState = None \<or> initialState = Some StateEnrolling"
  shows "window_inv (ct_state c')"
  using assms
  by (auto simp: command_begin_def show_state_def Let_def window_inv_def no_details_def split: if_splits option.splits)

lemma window_shows_inv: "window_shows S L s \<Longrightarrow> window_inv s"
proof (induction rule: window_shows.induct)
  case (viewed s ctx x view y)
  with wpsD [OF View_shows] show ?case by (blast intro: window_inv_view)
qed (auto intro: window_inv_steps window_inv_begin)

section \<open>The operations of the controller\<close>

text \<open>A controller over a session service; everything else about it is open.\<close>

definition serves :: "'w SessionService \<Rightarrow> ('w session, unit) Controller \<Rightarrow> bool" where
  "serves S c \<longleftrightarrow> ct_rooms c = None \<or> ct_rooms c = Some (service_session S)"

abbreviation shows_well :: "'w SessionService \<Rightarrow> 'w session app_library \<Rightarrow> ('w session, unit) Controller \<Rightarrow> bool" where
  "shows_well S L c \<equiv> serves S c \<and> window_shows S L (ct_state c)"

lemma serves_simps [simp]:
  "serves S (c\<lparr>ct_system := x\<rparr>) = serves S c" "serves S (c\<lparr>ct_state := s\<rparr>) = serves S c"
  by (simp_all add: serves_def)

lemma view_session_service:
  "serves S c \<Longrightarrow> view_session c = None \<or> view_session c =
     Some \<lparr>rvs_View = service_View S, rvs_RevealRoomCode = \<lambda>ctx. RevealRoomCode S\<rparr>"
  by (auto simp: serves_def view_session_def service_session_def)

lemma refreshRoomView_shows:
  assumes "shows_well S L c"
  shows "wp (refreshRoomView L ctx) (\<lambda>r c'. shows_well S L c') c"
proof (cases "view_session c")
  case None
  with assms show ?thesis by (simp add: refreshRoomView_def wp_simps)
next
  case (Some v)
  with view_session_service [of S c] assms have v: "rvs_View v = service_View S" by auto
  show ?thesis
    by (rule wpI) (use assms Some v in \<open>auto simp: refreshRoomView_def run_in_system show_state_def
        intro: viewed view_failed split: prod.splits sum.splits\<close>)
qed

lemma refreshService_shows:
  "shows_well S L c \<Longrightarrow> wp (refreshService ctx) (\<lambda>r c'. shows_well S L c') c"
  unfolding refreshService_def
  by (auto simp: wp_simps intro!: wp_any inspected split: option.splits)

lemma RepairService_shows:
  "shows_well S L c \<Longrightarrow> wp RepairService (\<lambda>r c'. shows_well S L c') c"
  unfolding RepairService_def repair_begin_def repair_end_def repair_required_def
  by (auto simp: wp_simps Let_def intro!: wp_any refreshService_shows shows_relabelled split: option.splits)

lemma on_rooms_system: "wp (on_rooms call) (\<lambda>r c'. \<exists>x. c' = c\<lparr>ct_system := x\<rparr>) c"
  unfolding on_rooms_def
  by (auto simp: wp_simps intro!: wp_any split: option.splits)
     (metis Controller.surjective Controller.update_convs(8))

lemma runCommand_shows:
  assumes "shows_well S L c" and "initialState = None \<or> initialState = Some StateEnrolling"
  shows "wp (runCommand L command initialState (\<lambda>ctx. on_rooms (f ctx))) (\<lambda>r c'. shows_well S L c') c"
  unfolding runCommand_def wp_bind
proof (rule wpI)
  fix r c1
  assume run: "run_state (command_begin command initialState) c = (r, c1)"
  have "window_shows S L (ct_state c1)" by (rule begin_command [OF _ run]) (use assms in auto)
  moreover have "serves S c1"
    using run assms(1) by (auto simp: command_begin_def show_state_def serves_def split: if_splits)
  ultimately have 1: "shows_well S L c1" by simp
  show "wp (case r of Inl state \<Rightarrow> State_Monad.return state
      | Inr ctx \<Rightarrow> do {
          (snapshot, e) \<leftarrow> on_rooms (f ctx);
          (if e = None then refreshRoomView L ctx else State_Monad.return ());
          show_state (command_shown snapshot e)
        }) (\<lambda>r c'. shows_well S L c') c1"
    using 1
    by (auto simp: wp_simps intro!: wp_mono [OF on_rooms_system] wp_mono [OF refreshRoomView_shows]
        end_command split: sum.splits)
qed

lemma display_name_system: "wp (display_name L name) (\<lambda>r c'. \<exists>x. c' = c\<lparr>ct_system := x\<rparr>) c"
  unfolding display_name_def
  by (auto simp: wp_simps intro!: wp_any) (metis Controller.surjective Controller.update_convs(8))

text \<open>The calls of the window, and the two refreshes that \<open>Startup\<close> starts.\<close>

datatype window_call =
    W_Startup go_context
  | W_RefreshView go_context
  | W_RefreshService go_context
  | W_Repair
  | W_Create CreateRoomRequest
  | W_Join JoinRoomRequest
  | W_Connect
  | W_Disconnect
  | W_Leave
  | W_Switch SwitchRoomRequest
  | W_Reveal
  | W_GetState
  | W_Shutdown

definition ignored :: "('s, 'a) state \<Rightarrow> ('s, unit) state" where
  "ignored m = State_Monad.bind m (\<lambda>_. State_Monad.return ())"

fun run_window_call :: "'s app_library \<Rightarrow> window_call \<Rightarrow> (('s, 'd) Controller, unit) state" where
  "run_window_call L (W_Startup ctx) = Startup ctx"
| "run_window_call L (W_RefreshView ctx) = refreshRoomView L ctx"
| "run_window_call L (W_RefreshService ctx) = refreshService ctx"
| "run_window_call L W_Repair = ignored RepairService"
| "run_window_call L (W_Create r) = ignored (app_CreateRoom L r)"
| "run_window_call L (W_Join r) = ignored (JoinRoom L r)"
| "run_window_call L W_Connect = ignored (ConnectRoom L)"
| "run_window_call L W_Disconnect = ignored (DisconnectRoom L)"
| "run_window_call L W_Leave = ignored (LeaveRoom L)"
| "run_window_call L (W_Switch r) = ignored (SwitchRoom L r)"
| "run_window_call L W_Reveal = ignored app_RevealRoomCode"
| "run_window_call L W_GetState = ignored GetState"
| "run_window_call L W_Shutdown = Shutdown"

primrec run_window_calls :: "'s app_library \<Rightarrow> window_call list \<Rightarrow> ('s, 'd) Controller \<Rightarrow> ('s, 'd) Controller" where
  "run_window_calls L [] c = c"
| "run_window_calls L (w # ws) c = run_window_calls L ws (snd (run_state (run_window_call L w) c))"

lemma wp_ignored [wp_simps]: "wp (ignored m) Q c = wp m (\<lambda>_ t. Q () t) c"
  by (simp add: ignored_def wp_simps)

lemma named_command_shows:
  assumes "shows_well S L c"
  shows "wp (do { n \<leftarrow> display_name L name; runCommand L command (Some StateEnrolling) (\<lambda>ctx. on_rooms (f n ctx)) })
      (\<lambda>r c'. shows_well S L c') c"
    and "wp (do { n \<leftarrow> display_name L name; runCommand L command None (\<lambda>ctx. on_rooms (f n ctx)) })
      (\<lambda>r c'. shows_well S L c') c"
  unfolding wp_bind
  by (rule wp_mono [OF display_name_system], use assms in \<open>auto intro!: runCommand_shows\<close>)+

lemma window_call_shows:
  assumes "shows_well S L c"
  shows "wp (run_window_call L w) (\<lambda>r c'. shows_well S L c') c"
proof (cases w)
  case W_Reveal
  with assms show ?thesis
    by (auto simp: app_RevealRoomCode_def wp_simps intro!: wp_any split: option.splits)
next
  case (W_Startup ctx)
  with assms show ?thesis by (simp add: Startup_def wp_simps serves_def)
next
  case W_Shutdown
  with assms show ?thesis
    by (auto simp: Shutdown_def wp_simps intro!: wp_any split: option.splits)
qed (use assms in \<open>auto simp: wp_ignored GetState_def wp_simps app_CreateRoom_def JoinRoom_def ConnectRoom_def
      DisconnectRoom_def LeaveRoom_def SwitchRoom_def runRoomCommand_def simp del: wp_bind
      intro!: named_command_shows runCommand_shows refreshRoomView_shows refreshService_shows
        RepairService_shows\<close>)

lemma window_calls_show: "shows_well S L c \<Longrightarrow> shows_well S L (run_window_calls L ws c)"
proof (induction ws arbitrary: c)
  case (Cons w ws)
  have "shows_well S L (snd (run_state (run_window_call L w) c))"
    using window_call_shows [OF Cons.prems] by (simp add: wp_def split_beta)
  with Cons.IH show ?case by simp
qed simp

section \<open>Texts of errors\<close>

lemma Contains_chars:
  assumes "Contains s sub"
  shows "set sub \<subseteq> set s"
proof -
  from assms obtain n where n: "take (length sub) (drop n s) = sub" by (auto simp: Contains_def list_ex_iff)
  have "set (take (length sub) (drop n s)) \<subseteq> set s" by (meson set_drop_subset set_take_subset subset_trans)
  with n show ?thesis by simp
qed

text \<open>\<open>err_text\<close> of this error has no letter \<open>l\<close>, so it does not read \<open>room session is unavailable\<close>.\<close>

definition resume_mismatch :: goerr where
  "resume_mismatch = RecoveryError ''resume'' 3 (VersionMismatchError netbird_ExpectedVersion ''0.59.0'')"

lemma resume_mismatch_text:
  "\<not> Contains (ToLower (err_text resume_mismatch)) ''room session is unavailable''"
proof -
  have "CHR ''l'' \<notin> set (ToLower (err_text resume_mismatch))" by code_simp
  then show ?thesis by (auto dest: Contains_chars)
qed

section \<open>Properties\<close>


text \<open>
  C29: A second command is refused while one is in progress, without any effect on the session; but
  \<open>RepairService\<close> neither waits for the command in progress nor restores it: when the repair ends, the window
  takes the next command although the first one may still run.
\<close>
theorem busy_window:
  "(case run_state (runCommand L command initialState execute) c of
      (shown, c') \<Rightarrow>
        if st_BusyCommand (ct_state c) \<noteq> []
        then shown = (ct_state c)\<lparr>st_Error := Some busy_error\<rparr> \<and> c' = c\<lparr>ct_state := shown\<rparr>
        else st_BusyCommand shown = []) \<and>
   fst (run_state (command_begin command initialState)
      (snd (run_state (repair_end e) (snd (run_state repair_begin c))))) = Inr (controller_context c)"
proof -
  have "wp (runCommand L command initialState execute) (\<lambda>shown c'.
      if st_BusyCommand (ct_state c) \<noteq> []
        then shown = (ct_state c)\<lparr>st_Error := Some busy_error\<rparr> \<and> c' = c\<lparr>ct_state := shown\<rparr>
        else st_BusyCommand shown = []) c"
    by (auto simp: runCommand_def command_begin_def wp_simps Let_def command_shown_def clearActiveRoom_def
        intro!: wp_any split: option.splits)
  then show ?thesis
    by (auto simp: wp_def command_begin_def repair_begin_def repair_end_def show_state_def Let_def
        repair_required_def controller_context_def split: option.splits prod.splits)
qed

text \<open>
  After a command the window shows an old revision: \<open>runCommand\<close> looks at the room after the command
  and then overwrites revision, state and path of that view with those of the command's own snapshot,
  next to the room and the peers of the newer view.
\<close>
theorem command_overwrites_view:
  assumes "ct_rooms c = Some rooms" and "rs_view rooms = Some v" and "st_BusyCommand (ct_state c) = []"
    and "TrimSpace (jr_DisplayName r) \<noteq> []"
    and "run_state (rs_Join rooms (controller_context c) (jr_RoomCode r) (jr_DisplayName r)) (ct_system c) =
      ((snapshot, None), x)"
    and "run_state (rvs_View v (controller_context c)) x = (Inr view, y)"
    and "ss_State snapshot \<noteq> StateNoRoom"
  shows "case run_state (JoinRoom L r) c of (shown, c') \<Rightarrow>
    st_Revision shown = ss_Revision snapshot \<and> st_State shown = ss_State snapshot \<and>
    st_ConnectedPath shown = ss_Path snapshot \<and> st_RoomID shown = md_RoomID (rv_Metadata view) \<and>
    st_Peers shown = map (show_peer (ss_Path (rv_Session view))) (rv_Peers view)"
proof -
  have c: "controller_context (c\<lparr>ct_state := s\<rparr>) = controller_context c" for s
    by (simp add: controller_context_def)
  have v: "view_session (c\<lparr>ct_state := s, ct_system := x\<rparr>) = Some v" for s
    using assms(1,2) by (simp add: view_session_def)
  show ?thesis
    using assms
    by (simp add: JoinRoom_def runRoomCommand_def runCommand_def command_begin_def display_name_def on_rooms_def
        refreshRoomView_def show_state_def run_in_system v c Let_def command_shown_def show_view_def
        split: prod.splits)
qed

text \<open>
  Two errors are shown as something else: a daemon of the wrong version, found while reconnecting, is
  reported as a failed join that may be retried, because \<open>RecoveryError\<close> does not unwrap to its cause, where
  the same mismatch elsewhere asks for a repair; and a command that finds another one in progress is told
  to leave the saved room.
\<close>
theorem misleading_errors:
  "publicError (Some resume_mismatch) =
     Some (public Code_EnrollmentFailed text_join_failed True text_retry_later) \<and>
   publicError (Some (VersionMismatchError netbird_ExpectedVersion ''0.59.0'')) =
     Some (public Code_VersionMismatch (text_version_prefix @ netbird_ExpectedVersion) False
       text_repair_service) \<and>
   publicError (Some (Sentinel ErrCommandInProgress)) = publicError (Some (Sentinel ErrRoomAlreadySaved)) \<and>
   publicError (Some (Sentinel ErrCommandInProgress)) =
     Some (public Code_OperationConflict text_already_saved False text_leave_first)"
proof -
  have "publicError (Some resume_mismatch) =
      Some (public Code_EnrollmentFailed text_join_failed True text_retry_later)"
    using resume_mismatch_text
    by (simp add: publicError_def errors_Is_def errors_As_HTTPError_def errors_As_VersionMismatch_def
        resume_mismatch_def)
  then show ?thesis
    by (simp add: publicError_def errors_Is_def errors_As_HTTPError_def errors_As_VersionMismatch_def)
qed

end
