(* ===== verification/AppWitness.thy ===== *)
theory AppWitness
  imports AppControllerSpec ClientWitness
begin

text \<open>
  The properties of the application layer at concrete inputs: a window over the sample machine of
  \<open>ClientWitness\<close>, and a window over a session that is ahead of its last command.
\<close>

section \<open>The window of the sample machine\<close>

definition sample_library :: "'s app_library" where
  "sample_library = \<lparr>al_Hostname = State_Monad.return ''pc'', al_FormatTime = \<lambda>t. ''now''\<rparr>"

definition sample_window :: "(box world session, unit) Controller" where
  "sample_window = NewWithSession (service_session sample_desktop) (State_Monad.return None) sample_session"


section \<open>A session that moves on while its command returns\<close>

definition ahead_view :: RoomViewSnapshot where
  "ahead_view =
     \<lparr>rv_Session = \<lparr>ss_Revision = 4, ss_State = StateConnectedP2P, ss_Path = PathP2P\<rparr>,
      rv_Metadata = \<lparr>md_Version = 1, md_RoomID = ''r1'', md_ManagementURL = ''https://n.example'',
        md_ProfileID = ''p1'', md_CreatedAt = 5\<rparr>,
      rv_RoomCodeMasked = ''****-****-2345'', rv_LocalNetBirdIP = ''100.64.0.1'', rv_Peers = [],
      rv_PeersStale = False, rv_LastPeerRefresh = 5\<rparr>"

definition ahead_snapshot :: SessionSnapshot where
  "ahead_snapshot = \<lparr>ss_Revision = 3, ss_State = StateControlPlaneConnected, ss_Path = PathNone\<rparr>"

definition ahead_session :: "unit RoomSession" where
  "ahead_session =
     \<lparr>rs_Create = \<lambda>c n. State_Monad.return (ahead_snapshot, None),
      rs_Join = \<lambda>c code n. State_Monad.return (ahead_snapshot, None),
      rs_view = Some \<lparr>rvs_View = \<lambda>c. ok ahead_view, rvs_RevealRoomCode = \<lambda>c. ok ''ABCD-EFGH-2345''\<rparr>,
      rs_lifecycle = None\<rparr>"

definition ahead_window :: "(unit, unit) Controller" where
  "ahead_window = NewWithSession ahead_session (State_Monad.return None) ()"

definition ahead_join :: JoinRoomRequest where
  "ahead_join = \<lparr>jr_RoomCode = ''ABCD-EFGH-2345'', jr_DisplayName = ''me''\<rparr>"

lemma command_overwrites_view_witness:
  "(case run_state (JoinRoom sample_library ahead_join) ahead_window of (shown, c') \<Rightarrow>
     st_Revision shown = 3 \<and> st_State shown = StateControlPlaneConnected \<and>
     st_ConnectedPath shown = PathNone \<and> st_RoomID shown = ''r1'' \<and> st_Peers shown = []) \<and>
   ss_Revision (rv_Session ahead_view) = 4"
proof -
  have "case run_state (JoinRoom sample_library ahead_join) ahead_window of (shown, c') \<Rightarrow>
      st_Revision shown = ss_Revision ahead_snapshot \<and> st_State shown = ss_State ahead_snapshot \<and>
      st_ConnectedPath shown = ss_Path ahead_snapshot \<and> st_RoomID shown = md_RoomID (rv_Metadata ahead_view) \<and>
      st_Peers shown = map (show_peer (ss_Path (rv_Session ahead_view))) (rv_Peers ahead_view)"
  proof (rule command_overwrites_view [where rooms = ahead_session and x = "()" and y = "()"
        and v = "\<lparr>rvs_View = \<lambda>c. ok ahead_view, rvs_RevealRoomCode = \<lambda>c. ok ''ABCD-EFGH-2345''\<rparr>"])
    show "TrimSpace (jr_DisplayName ahead_join) \<noteq> []" by code_simp
  qed (simp_all add: ahead_window_def NewWithSession_def New_controller_def ahead_session_def initial_state_def
      ahead_snapshot_def)
  then show ?thesis by (simp add: ahead_snapshot_def ahead_view_def split: prod.splits)
qed

end
