(* ===== verification/GoRegexp.thy ===== *)
theory GoRegexp
  imports Json
begin

text \<open>
  What the code uses of Go's \<open>regexp\<close>: matching at a place, leftmost-first search (the first
  alternative in the order of the pattern, a greedy repetition before its shorter versions) and
  \<open>ReplaceAllString\<close>.  A text is the list of its runes, each rune the bytes it is encoded with; a byte
  that is not part of an encoding is a rune of its own, as in Go.
\<close>

section \<open>Runes\<close>

function runes :: "string \<Rightarrow> string list" where
  "runes [] = []"
| "runes (c # s) =
     (let n = max 1 (rune_size (c # s)) in take n (c # s) # runes (drop n (c # s)))"
  by pat_completeness auto
termination
  by (relation "measure length") auto

lemma concat_runes [simp]: "concat (runes s) = s"
  by (induction s rule: runes.induct) (simp_all add: Let_def del: rune_size.simps)

text \<open>An ASCII character is a rune of its own, and the bytes of any other rune are not ASCII.\<close>

definition rune_like :: "string \<Rightarrow> bool" where
  "rune_like r \<longleftrightarrow> r \<noteq> [] \<and> ((\<exists>c. r = [c] \<and> is_ascii c) \<or> list_all (\<lambda>c. \<not> is_ascii c) r)"

lemma rune_like_ascii [simp]: "is_ascii c \<Longrightarrow> rune_like [c]"
  by (simp add: rune_like_def)

lemma high_range:
  "in_range CHR 0x80 hi c \<Longrightarrow> \<not> is_ascii c" "in_range CHR 0x90 hi c \<Longrightarrow> \<not> is_ascii c"
  "in_range CHR 0xA0 hi c \<Longrightarrow> \<not> is_ascii c" "cont_byte c \<Longrightarrow> \<not> is_ascii c"
  by (simp_all add: cont_byte_def in_range_def is_ascii_def byte_def)

lemma rune_size_tail:
  assumes "\<not> is_ascii c" and "1 < rune_size (c # s)"
  shows "list_all (\<lambda>c. \<not> is_ascii c) (take (rune_size (c # s)) (c # s))"
proof -
  have "\<not> byte c < 128" using assms(1) by (simp add: is_ascii_def)
  then consider (two) b t where "s = b # t" "\<not> is_ascii b" "rune_size (c # s) = 2"
    | (three) b d t where "s = b # d # t" "\<not> is_ascii b" "\<not> is_ascii d" "rune_size (c # s) = 3"
    | (four) b d e t where "s = b # d # e # t" "\<not> is_ascii b" "\<not> is_ascii d" "\<not> is_ascii e"
        "rune_size (c # s) = 4"
    using assms(2) by (simp split: if_split_asm list.split_asm) (blast dest: high_range)+
  then show ?thesis using assms(1) by cases (simp_all del: rune_size.simps)
qed

lemma take_rune_like: "rune_like (take (max 1 (rune_size (c # s))) (c # s))"
proof (cases "is_ascii c")
  case False
  show ?thesis
  proof (cases "1 < rune_size (c # s)")
    case True
    with rune_size_tail [OF False True] show ?thesis by (simp add: rune_like_def max_def del: rune_size.simps)
  qed (use False in \<open>simp add: rune_like_def max_def del: rune_size.simps\<close>)
qed (simp add: is_ascii_def rune_like_def)

lemma runes_like: "r \<in> set (runes s) \<Longrightarrow> rune_like r"
proof (induction s rule: runes.induct)
  case (2 c s)
  then show ?case using take_rune_like [of c s] by (auto simp: Let_def simp del: rune_size.simps)
qed simp

lemma runes_ascii [simp]: "is_ascii c \<Longrightarrow> runes (c # s) = [c] # runes s"
  by (simp add: is_ascii_def)

lemma runes_all_ascii: "list_all is_ascii s \<Longrightarrow> runes s = map (\<lambda>c. [c]) s"
  by (induction s) (simp_all del: runes.simps(2))

section \<open>Patterns\<close>

text \<open>\<open>Cls\<close> is a class of runes, \<open>TextStart\<close> and \<open>TextEnd\<close> are \<open>^\<close> and \<open>$\<close> without the flag \<open>m\<close>,
  \<open>Star True\<close> the greedy and \<open>Star False\<close> the lazy repetition.\<close>

datatype re =
    Eps
  | Cls "string \<Rightarrow> bool"
  | Boundary
  | TextStart
  | TextEnd
  | Then re re
  | Or re re
  | Star bool re
  | Capture re

text \<open>A place in a text: the rune before it, if any, and the runes after it.\<close>

type_synonym place = "string option \<times> string list"

definition word_char :: "char \<Rightarrow> bool" where
  "word_char c \<longleftrightarrow> is_upper c \<or> is_lower c \<or> is_digit c \<or> c = CHR ''_''"

definition word_rune :: "string option \<Rightarrow> bool" where
  "word_rune r = (case r of Some [c] \<Rightarrow> word_char c | _ \<Rightarrow> False)"

definition first_rune :: "string list \<Rightarrow> string option" where
  "first_rune rs = (case rs of [] \<Rightarrow> None | r # _ \<Rightarrow> Some r)"

definition at_boundary :: "place \<Rightarrow> bool" where
  "at_boundary x \<longleftrightarrow> word_rune (fst x) \<noteq> word_rune (first_rune (snd x))"

text \<open>
  All ways to match at a place, the preferred one first, each with what the captures saw and the place
  behind the match.  A round of a repetition that matches nothing is dropped.
\<close>

fun rounds :: "bool \<Rightarrow> (place \<Rightarrow> (string list list \<times> place) list) \<Rightarrow> nat \<Rightarrow> place \<Rightarrow>
    (string list list \<times> place) list" where
  "rounds greedy f 0 x = [([], x)]"
| "rounds greedy f (Suc n) x =
     (let more = concat (map (\<lambda>(k, y). map (\<lambda>(l, z). (k @ l, z)) (rounds greedy f n y))
            (filter (\<lambda>(k, y). length (snd y) < length (snd x)) (f x)))
      in if greedy then more @ [([], x)] else ([], x) # more)"

fun matches :: "re \<Rightarrow> place \<Rightarrow> (string list list \<times> place) list" where
  "matches Eps x = [([], x)]"
| "matches (Cls p) x =
     (case snd x of [] \<Rightarrow> [] | r # rs \<Rightarrow> if p r then [([], (Some r, rs))] else [])"
| "matches Boundary x = (if at_boundary x then [([], x)] else [])"
| "matches TextStart x = (if fst x = None then [([], x)] else [])"
| "matches TextEnd x = (if snd x = [] then [([], x)] else [])"
| "matches (Then a b) x =
     concat (map (\<lambda>(k, y). map (\<lambda>(l, z). (k @ l, z)) (matches b y)) (matches a x))"
| "matches (Or a b) x = matches a x @ matches b x"
| "matches (Star greedy a) x = rounds greedy (matches a) (length (snd x)) x"
| "matches (Capture a) x =
     map (\<lambda>(k, y). (take (length (snd x) - length (snd y)) (snd x) # k, y)) (matches a x)"

definition first_match :: "re \<Rightarrow> place \<Rightarrow> (string list list \<times> place) option" where
  "first_match r x = (case matches r x of [] \<Rightarrow> None | m # _ \<Rightarrow> Some m)"

text \<open>
  \<open>ReplaceAllString\<close>, for patterns that do not match the empty text.  The replacement is made of runes, from
  the captures.
\<close>

function replace_runes ::
  "re \<Rightarrow> (string list list \<Rightarrow> string list) \<Rightarrow> string option \<Rightarrow> string list \<Rightarrow> string list" where
  "replace_runes r f c [] = []"
| "replace_runes r f c (u # rs) =
     (case first_match r (c, u # rs) of
        Some (k, (c', rs')) \<Rightarrow>
          if length rs' < length (u # rs) then f k @ replace_runes r f c' rs'
          else u # replace_runes r f (Some u) rs
      | None \<Rightarrow> u # replace_runes r f (Some u) rs)"
  by pat_completeness auto
termination
  by (relation "measure (\<lambda>(r, f, c, rs). length rs)") auto

definition ReplaceAllString :: "re \<Rightarrow> (string list list \<Rightarrow> string list) \<Rightarrow> string \<Rightarrow> string" where
  "ReplaceAllString r f s = concat (replace_runes r f None (runes s))"

definition MatchString :: "re \<Rightarrow> string \<Rightarrow> bool" where
  "MatchString r s =
     (let rs = runes s in
      list_ex (\<lambda>n. matches r (if n = 0 then None else Some (rs ! (n - 1)), drop n rs) \<noteq> [])
        [0..<length rs + 1])"

section \<open>Notation of patterns\<close>

definition any_of :: "(char \<Rightarrow> bool) \<Rightarrow> re" where
  "any_of p = Cls (\<lambda>r. case r of [c] \<Rightarrow> p c | _ \<Rightarrow> False)"

text \<open>A negated class has every other rune, ASCII or not.\<close>

definition none_of :: "string \<Rightarrow> re" where
  "none_of cs = Cls (\<lambda>r. case r of [c] \<Rightarrow> c \<notin> set cs | _ \<Rightarrow> True)"

text \<open>
  \<open>(?i)\<close>: a letter stands for itself in both cases; beyond ASCII, U+017F folds to \<open>s\<close> and U+212A to
  \<open>k\<close>.
\<close>

definition fold_rune :: "(char \<Rightarrow> bool) \<Rightarrow> string \<Rightarrow> bool" where
  "fold_rune p r =
     (case r of
        [c] \<Rightarrow> p (ascii_lower c) \<or> p (ascii_upper c)
      | _ \<Rightarrow> (r = [CHR 0xC5, CHR 0xBF] \<and> (p CHR ''s'' \<or> p CHR ''S'')) \<or>
             (r = [CHR 0xE2, CHR 0x84, CHR 0xAA] \<and> (p CHR ''k'' \<or> p CHR ''K'')))"

definition folded :: "(char \<Rightarrow> bool) \<Rightarrow> re" where "folded p = Cls (fold_rune p)"

fun seq :: "re list \<Rightarrow> re" where
  "seq [] = Eps"
| "seq [r] = r"
| "seq (r # s # rs) = Then r (seq (s # rs))"

fun alt :: "re list \<Rightarrow> re" where
  "alt [] = Cls (\<lambda>_. False)"
| "alt [r] = r"
| "alt (r # s # rs) = Or r (alt (s # rs))"

definition literal :: "string \<Rightarrow> re" where "literal s = seq (map (\<lambda>c. any_of (\<lambda>d. d = c)) s)"
definition literal_fold :: "string \<Rightarrow> re" where "literal_fold s = seq (map (\<lambda>c. folded (\<lambda>d. d = c)) s)"

definition optional :: "re \<Rightarrow> re" where "optional r = Or r Eps"
definition some_of :: "re \<Rightarrow> re" where "some_of r = Then r (Star True r)"
definition exactly :: "nat \<Rightarrow> re \<Rightarrow> re" where "exactly n r = seq (replicate n r)"

primrec up_to :: "nat \<Rightarrow> re \<Rightarrow> re" where
  "up_to 0 r = Eps"
| "up_to (Suc n) r = optional (Then r (up_to n r))"

definition at_least :: "nat \<Rightarrow> re \<Rightarrow> re" where "at_least n r = Then (exactly n r) (Star True r)"

definition space_class :: string where
  "space_class = [CHR 0x09, CHR 0x0A, CHR 0x0C, CHR 0x0D, CHR '' '']"

section \<open>Laws\<close>

text \<open>A match moves forward: what it consumed is a piece of the text.\<close>

definition moves :: "place \<Rightarrow> place \<Rightarrow> bool" where
  "moves x y \<longleftrightarrow> (\<exists>us. snd x = us @ snd y \<and> fst y = fold (\<lambda>u _. Some u) us (fst x))"

lemma moves_refl [simp]: "moves x x"
  by (simp add: moves_def)

lemma moves_trans:
  assumes "moves x y" and "moves y z"
  shows "moves x z"
proof -
  from assms obtain us vs where "snd x = us @ snd y" "fst y = fold (\<lambda>u _. Some u) us (fst x)"
    and "snd y = vs @ snd z" "fst z = fold (\<lambda>u _. Some u) vs (fst y)" by (auto simp: moves_def)
  then have "snd x = (us @ vs) @ snd z \<and> fst z = fold (\<lambda>u _. Some u) (us @ vs) (fst x)" by simp
  then show ?thesis unfolding moves_def by blast
qed

lemma in_rounds:
  "(k, y) \<in> set (rounds greedy f (Suc n) x) \<longleftrightarrow> k = [] \<and> y = x \<or>
     (\<exists>j z l. (j, z) \<in> set (f x) \<and> length (snd z) < length (snd x) \<and>
        (l, y) \<in> set (rounds greedy f n z) \<and> k = j @ l)"
  by (auto simp: Let_def split: if_splits; force)

lemma in_then:
  "(k, y) \<in> set (matches (Then a b) x) \<longleftrightarrow>
     (\<exists>j z l. (j, z) \<in> set (matches a x) \<and> (l, y) \<in> set (matches b z) \<and> k = j @ l)"
  by (simp; force)

lemma in_cls:
  "(k, y) \<in> set (matches (Cls p) x) \<longleftrightarrow> (\<exists>u rs. snd x = u # rs \<and> p u \<and> k = [] \<and> y = (Some u, rs))"
  by (auto split: list.splits)

lemma rounds_move:
  assumes "\<And>x k y. (k, y) \<in> set (f x) \<Longrightarrow> moves x y"
  shows "(k, y) \<in> set (rounds greedy f n x) \<Longrightarrow> moves x y"
proof (induction n arbitrary: k x)
  case (Suc n)
  from Suc.prems [unfolded in_rounds] show ?case
    by (auto dest!: assms Suc.IH intro: moves_trans simp del: rounds.simps)
qed simp

lemma matches_move: "(k, y) \<in> set (matches r x) \<Longrightarrow> moves x y"
proof (induction r arbitrary: x y k)
  case (Cls p)
  then obtain u rs where "snd x = [u] @ rs" "y = (Some u, rs)" unfolding in_cls by auto
  then show ?case by (auto simp: moves_def intro!: exI [of _ "[u]"])
next
  case (Then a b)
  from Then.prems [unfolded in_then] show ?case by (auto dest!: Then.IH intro: moves_trans)
next
  case (Star greedy a)
  from Star.prems show ?case
    using rounds_move [of "matches a" k y greedy "length (snd x)" x, OF Star.IH] by simp
qed (auto split: if_splits)

lemma first_match_in: "first_match r x = Some (k, y) \<Longrightarrow> (k, y) \<in> set (matches r x)"
  by (simp add: first_match_def split: list.splits)

lemma first_match_None: "first_match r x = None \<longleftrightarrow> matches r x = []"
  by (simp add: first_match_def split: list.splits)

text \<open>
  The matcher against what the patterns mean: \<open>spans r x y\<close> says that \<open>r\<close> matches the text between two
  places.
\<close>

fun spans :: "re \<Rightarrow> place \<Rightarrow> place \<Rightarrow> bool" where
  "spans Eps x y \<longleftrightarrow> x = y"
| "spans (Cls p) x y \<longleftrightarrow> (\<exists>u rs. snd x = u # rs \<and> p u \<and> y = (Some u, rs))"
| "spans Boundary x y \<longleftrightarrow> x = y \<and> at_boundary x"
| "spans TextStart x y \<longleftrightarrow> x = y \<and> fst x = None"
| "spans TextEnd x y \<longleftrightarrow> x = y \<and> snd x = []"
| "spans (Then a b) x z \<longleftrightarrow> (\<exists>y. spans a x y \<and> spans b y z)"
| "spans (Or a b) x y \<longleftrightarrow> spans a x y \<or> spans b x y"
| "spans (Star greedy a) x y \<longleftrightarrow> (spans a)\<^sup>*\<^sup>* x y"
| "spans (Capture a) x y \<longleftrightarrow> spans a x y"

lemma moves_length: "moves x y \<Longrightarrow> length (snd y) < length (snd x) \<or> y = x"
  by (cases x; cases y) (auto simp: moves_def)

lemma rounds_sound:
  assumes "\<And>x k y. (k, y) \<in> set (f x) \<Longrightarrow> R x y"
  shows "(k, y) \<in> set (rounds greedy f n x) \<Longrightarrow> R\<^sup>*\<^sup>* x y"
proof (induction n arbitrary: k x)
  case (Suc n)
  from Suc.prems [unfolded in_rounds] show ?case
    by (auto dest!: assms Suc.IH intro: converse_rtranclp_into_rtranclp simp del: rounds.simps)
qed simp

lemma rounds_complete:
  assumes "\<And>x y. R x y \<Longrightarrow> moves x y \<and> (\<exists>k. (k, y) \<in> set (f x))"
  shows "R\<^sup>*\<^sup>* x y \<Longrightarrow> length (snd x) \<le> n \<Longrightarrow> \<exists>k. (k, y) \<in> set (rounds greedy f n x)"
proof (induction arbitrary: n rule: converse_rtranclp_induct)
  case base
  have "([], y) \<in> set (rounds greedy f n y)" by (cases n) (auto simp: in_rounds simp del: rounds.simps(2))
  then show ?case by blast
next
  case (step x z)
  from assms [OF step.hyps(1)] obtain j where j: "(j, z) \<in> set (f x)" and m: "moves x z" by blast
  show ?case
  proof (cases "z = x")
    case True
    with step show ?thesis by blast
  next
    case False
    with moves_length [OF m] have less: "length (snd z) < length (snd x)" by blast
    then obtain n' where n: "n = Suc n'" using step.prems by (cases n) auto
    with less step.prems obtain l where "(l, y) \<in> set (rounds greedy f n' z)" using step.IH [of n'] by auto
    with j less have "(j @ l, y) \<in> set (rounds greedy f n x)" unfolding n in_rounds by blast
    then show ?thesis by blast
  qed
qed

lemma spans_move: "spans r x y \<Longrightarrow> moves x y"
proof (induction r arbitrary: x y)
  case (Cls p)
  then obtain u rs where "snd x = [u] @ rs" "y = (Some u, rs)" by auto
  then show ?case by (auto simp: moves_def intro!: exI [of _ "[u]"])
next
  case (Then a b)
  then obtain z where "spans a x z" "spans b z y" by auto
  with Then.IH show ?case using moves_trans by blast
next
  case (Star greedy a)
  then have "(spans a)\<^sup>*\<^sup>* x y" by simp
  then show ?case by (induction rule: rtranclp_induct) (simp, use moves_trans Star.IH in blast)
qed auto

theorem matches_spans: "(\<exists>k. (k, y) \<in> set (matches r x)) \<longleftrightarrow> spans r x y"
proof (induction r arbitrary: x y)
  case (Cls p)
  then show ?case by (auto simp: in_cls simp del: matches.simps)
next
  case (Then a b)
  have "(\<exists>k. (k, y) \<in> set (matches (Then a b) x)) \<longleftrightarrow>
      (\<exists>z. (\<exists>j. (j, z) \<in> set (matches a x)) \<and> (\<exists>l. (l, y) \<in> set (matches b z)))"
    unfolding in_then by blast
  then show ?case by (simp only: Then.IH spans.simps)
next
  case (Or a b)
  have "(\<exists>k. (k, y) \<in> set (matches (Or a b) x)) \<longleftrightarrow>
      (\<exists>k. (k, y) \<in> set (matches a x)) \<or> (\<exists>k. (k, y) \<in> set (matches b x))" by auto
  then show ?case by (simp only: Or.IH spans.simps)
next
  case (Star greedy a)
  have 1: "spans a x y \<Longrightarrow> moves x y \<and> (\<exists>k. (k, y) \<in> set (matches a x))" for x y
    using spans_move Star.IH by blast
  have 2: "(k, y) \<in> set (matches a x) \<Longrightarrow> spans a x y" for k x y using Star.IH by blast
  have "(\<exists>k. (k, y) \<in> set (rounds greedy (matches a) (length (snd x)) x)) \<longleftrightarrow> (spans a)\<^sup>*\<^sup>* x y"
  proof
    show "(spans a)\<^sup>*\<^sup>* x y" if "\<exists>k. (k, y) \<in> set (rounds greedy (matches a) (length (snd x)) x)"
      using that by (auto intro: rounds_sound 2)
    show "\<exists>k. (k, y) \<in> set (rounds greedy (matches a) (length (snd x)) x)" if "(spans a)\<^sup>*\<^sup>* x y"
      by (rule rounds_complete [OF 1 that]) simp_all
  qed
  then show ?case by simp
next
  case (Capture a)
  have "(\<exists>k. (k, y) \<in> set (matches (Capture a) x)) \<longleftrightarrow> (\<exists>k. (k, y) \<in> set (matches a x))" by force
  then show ?case by (simp only: Capture.IH spans.simps)
qed auto

lemma first_match_spans: "first_match r x = Some (k, y) \<Longrightarrow> spans r x y"
  using first_match_in matches_spans by blast

lemma no_match_spans: "first_match r x = None \<Longrightarrow> \<not> spans r x y"
  using matches_spans [of y r x] by (auto simp: first_match_None)

lemma spans_seq [simp]: "spans (seq (r # rs)) x z \<longleftrightarrow> (\<exists>y. spans r x y \<and> spans (seq rs) y z)"
  by (cases rs; cases z) simp_all

text \<open>A run of a class.\<close>

lemma spans_times:
  "spans (exactly n (Cls p)) x y \<longleftrightarrow>
     (\<exists>us. length us = n \<and> list_all p us \<and> snd x = us @ snd y \<and> fst y = fold (\<lambda>u _. Some u) us (fst x))"
  (is "_ = ?run n x")
proof (induction n arbitrary: x)
  case 0
  then show ?case by (cases x; cases y) (auto simp: exactly_def)
next
  case (Suc n)
  have "spans (exactly (Suc n) (Cls p)) x y \<longleftrightarrow>
      (\<exists>u rs. snd x = u # rs \<and> p u \<and> ?run n (Some u, rs))"
    using Suc by (auto simp: exactly_def)
  also have "\<dots> \<longleftrightarrow> ?run (Suc n) x"
    by (auto simp: length_Suc_conv)
  finally show ?case .
qed

text \<open>A pattern that cannot match the empty text.\<close>

fun consumes :: "re \<Rightarrow> bool" where
  "consumes (Cls p) = True"
| "consumes (Then a b) = (consumes a \<or> consumes b)"
| "consumes (Or a b) = (consumes a \<and> consumes b)"
| "consumes (Capture a) = consumes a"
| "consumes _ = False"

lemma consumes_less: "consumes r \<Longrightarrow> spans r x y \<Longrightarrow> length (snd y) < length (snd x)"
proof (induction r arbitrary: x y)
  case (Then a b)
  then obtain z where "spans a x z" "spans b z y" by auto
  with Then show ?case using moves_length [OF spans_move, of a x z] moves_length [OF spans_move, of b z y] by fastforce
qed auto

lemma consumes_seq [simp]: "consumes (seq (r # rs)) \<longleftrightarrow> consumes r \<or> consumes (seq rs)"
  by (cases rs) auto

text \<open>The greedy repetition of a class, the longest run first.\<close>

abbreviation rune_before :: "string list \<Rightarrow> string option \<Rightarrow> string option" where
  "rune_before us c \<equiv> fold (\<lambda>u _. Some u) us c"

definition runs_of :: "(string \<Rightarrow> bool) \<Rightarrow> place \<Rightarrow> nat list" where
  "runs_of p x = rev [0..<Suc (length (takeWhile p (snd x)))]"

lemma matches_star_class:
  "matches (Star True (Cls p)) x =
     map (\<lambda>i. ([], (rune_before (take i (snd x)) (fst x), drop i (snd x)))) (runs_of p x)"
proof -
  have "length (snd x) \<le> n \<Longrightarrow> rounds True (matches (Cls p)) n x =
      map (\<lambda>i. ([], (rune_before (take i (snd x)) (fst x), drop i (snd x)))) (runs_of p x)" for n
  proof (induction n arbitrary: x)
    case 0
    then show ?case by (cases x) (simp add: runs_of_def)
  next
    case (Suc n)
    obtain c rs where x: "x = (c, rs)" by (cases x)
    show ?case
    proof (cases rs)
      case Nil
      with x show ?thesis by (simp add: runs_of_def)
    next
      case (Cons u us)
      show ?thesis
      proof (cases "p u")
        case True
        have "rev [0..<Suc (Suc m)] = map Suc (rev [0..<Suc m]) @ [0]" for m
          by (simp only: upt_conv_Cons [of 0 "Suc (Suc m)"] map_Suc_upt [symmetric] rev_map rev.simps)
        with True Suc.IH [of "(Some u, us)"] Suc.prems x Cons show ?thesis
          by (simp add: runs_of_def comp_def del: upt_Suc)
      qed (use x Cons in \<open>simp add: runs_of_def\<close>)
    qed
  qed
  then show ?thesis by simp
qed

end
