(* ===== verification/Redact.thy ===== *)
theory Redact
  imports GoRegexp
begin

text \<open>
  What leaves the client in logs and diagnostics (\<open>client/internal/observability/redact.go\<close>): the patterns,
  \<open>Redact\<close>, \<open>Anonymize\<close> and the log handler.  The handler of \<open>log/slog\<close> behind it is the list of lines
  it was given.
\<close>

section \<open>Patterns\<close>

definition alnum :: "char \<Rightarrow> bool" where "alnum c \<longleftrightarrow> is_upper c \<or> is_digit c"
definition hex_upper :: "char \<Rightarrow> bool" where
  "hex_upper c \<longleftrightarrow> is_digit c \<or> in_range CHR ''A'' CHR ''F'' c"
definition hex_lower :: "char \<Rightarrow> bool" where
  "hex_lower c \<longleftrightarrow> is_digit c \<or> in_range CHR ''a'' CHR ''f'' c"
definition alnum_lower :: "char \<Rightarrow> bool" where "alnum_lower c \<longleftrightarrow> is_lower c \<or> is_digit c"

definition dash_or_underscore :: re where "dash_or_underscore = any_of (\<lambda>c. c = CHR ''-'' \<or> c = CHR ''_'')"

definition spaces :: re where "spaces = Star True (any_of (\<lambda>c. c \<in> set space_class))"

definition credential_name :: re where
  "credential_name = alt
     [literal_fold ''authorization'',
      seq [literal_fold ''setup'', optional (seq [any_of (\<lambda>c. c \<in> set ''-_ '')]), literal_fold ''key''],
      seq [literal_fold ''room'', optional (seq [any_of (\<lambda>c. c \<in> set ''-_ '')]), literal_fold ''code''],
      seq [literal_fold ''admin'', optional (seq [any_of (\<lambda>c. c \<in> set ''-_ '')]), literal_fold ''token''],
      seq [literal_fold ''private'', optional (seq [any_of (\<lambda>c. c \<in> set ''-_ '')]), literal_fold ''key''],
      literal_fold ''bearer'']"

definition credentialAssignment :: re where
  "credentialAssignment = seq
     [Capture credential_name,
      Capture (alt [seq [spaces, any_of (\<lambda>c. c = CHR '':'' \<or> c = CHR ''=''), spaces],
        some_of (any_of (\<lambda>c. c \<in> set space_class))]),
      some_of (none_of (space_class @ '',;''))]"

definition roomCodePattern :: re where
  "roomCodePattern = seq
     [Boundary, exactly 4 (folded alnum),
      exactly 2 (seq [literal ''-'', exactly 4 (folded alnum)]), Boundary]"

definition setupKeyPattern :: re where
  "setupKeyPattern = seq
     [Boundary, exactly 8 (folded hex_upper),
      exactly 3 (seq [literal ''-'', exactly 4 (folded hex_upper)]),
      literal ''-'', exactly 12 (folded hex_upper), Boundary]"

definition privateKeyBlock :: re where
  "privateKeyBlock = seq
     [literal_fold ''-----BEGIN '', Star True (none_of ''-''), literal_fold ''PRIVATE KEY-----'',
      Star False (Cls (\<lambda>_. True)),
      literal_fold ''-----END '', Star True (none_of ''-''), literal_fold ''PRIVATE KEY-----'']"

definition octet :: re where
  "octet = alt
     [seq [literal ''25'', any_of (\<lambda>c. in_range CHR ''0'' CHR ''5'' c)],
      seq [literal ''2'', any_of (\<lambda>c. in_range CHR ''0'' CHR ''4'' c), any_of is_digit],
      seq [optional (literal ''1''), optional (any_of is_digit), any_of is_digit]]"

definition ipv4Pattern :: re where
  "ipv4Pattern = seq [Boundary, octet, exactly 3 (seq [literal ''.'', octet]), Boundary]"

definition ipv6Pattern :: re where
  "ipv6Pattern = seq
     [Boundary, at_least 2 (seq [up_to 4 (folded hex_lower), literal '':'']),
      at_least 2 (folded (\<lambda>c. hex_lower c \<or> c = CHR '':'')), Boundary]"

definition hostURLPattern :: re where
  "hostURLPattern = seq
     [Capture (seq [literal_fold ''http'', optional (literal_fold ''s''), literal ''://'']),
      folded alnum_lower,
      optional (seq [Star True (folded (\<lambda>c. alnum_lower c \<or> c = CHR ''.'' \<or> c = CHR ''-'')), folded alnum_lower])]"

definition hostnamePattern :: re where
  "hostnamePattern = seq
     [Boundary, folded alnum_lower,
      optional (seq [up_to 61 (folded (\<lambda>c. alnum_lower c \<or> c = CHR ''-'')), folded alnum_lower]),
      some_of (seq [literal ''.'', at_least 2 (folded is_lower)]), Boundary]"

definition peerIDPattern :: re where
  "peerIDPattern = seq [Boundary, exactly 64 (folded hex_lower), Boundary]"

section \<open>Redaction\<close>

definition redacted_mark :: string where "redacted_mark = ''[REDACTED]''"

definition Redact :: "string \<Rightarrow> string" where
  "Redact v =
     (let v = ReplaceAllString privateKeyBlock (\<lambda>k. runes ''[PRIVATE_KEY]'') v;
          v = ReplaceAllString credentialAssignment (\<lambda>k. k ! 0 @ runes (''='' @ redacted_mark)) v;
          v = ReplaceAllString setupKeyPattern (\<lambda>k. runes redacted_mark) v
      in ReplaceAllString roomCodePattern (\<lambda>k. runes redacted_mark) v)"

definition Anonymize :: "string \<Rightarrow> string" where
  "Anonymize v =
     (let v = Redact v;
          v = ReplaceAllString ipv4Pattern (\<lambda>k. runes ''[IP]'') v;
          v = ReplaceAllString ipv6Pattern (\<lambda>k. runes ''[IP]'') v;
          v = ReplaceAllString peerIDPattern (\<lambda>k. runes ''[PEER_ID]'') v;
          v = ReplaceAllString hostURLPattern (\<lambda>k. k ! 0 @ runes ''[HOST]'') v
      in ReplaceAllString hostnamePattern (\<lambda>k. runes ''[HOST]'') v)"

definition sensitiveKeys :: "string list" where
  "sensitiveKeys =
     [''authorization'', ''setupkey'', ''setup_key'', ''roomcode'', ''room_code'', ''token'',
      ''privatekey'', ''private_key'', ''password'']"

definition isSensitiveKey :: "string \<Rightarrow> bool" where
  "isSensitiveKey key \<longleftrightarrow> ToLower (TrimSpace key) \<in> set sensitiveKeys"

section \<open>The log handler\<close>

text \<open>
  Attributes of \<open>slog\<close> by the kinds the code tells apart; \<open>AnyValue\<close> stands for every other kind, such as
  an \<open>error\<close>, with the text the JSON handler writes for it.
\<close>

datatype attr_value = StringValue string | GroupValue "(string \<times> attr_value) list" | AnyValue string

type_synonym slog_attr = "string \<times> attr_value"

fun redactAttr :: "slog_attr \<Rightarrow> slog_attr"
  and redact_value :: "attr_value \<Rightarrow> attr_value" where
  "redactAttr (key, v) = (if isSensitiveKey key then (key, StringValue redacted_mark) else (key, redact_value v))"
| "redact_value (StringValue s) = StringValue (Redact s)"
| "redact_value (GroupValue attrs) = GroupValue (map redactAttr attrs)"
| "redact_value (AnyValue t) = AnyValue t"

text \<open>The handler behind: what was attached to it, and the lines written.\<close>

datatype slog_scope = Scope_attrs "slog_attr list" | Scope_group string

record RedactingHandler =
  rh_level :: int
  rh_scopes :: "slog_scope list"

record slog_line =
  sl_scopes :: "slog_scope list"
  sl_message :: string
  sl_attrs :: "slog_attr list"

definition NewRedactingHandler :: "int \<Rightarrow> RedactingHandler" where
  "NewRedactingHandler level = \<lparr>rh_level = level, rh_scopes = []\<rparr>"

definition Enabled :: "RedactingHandler \<Rightarrow> int \<Rightarrow> bool" where
  "Enabled h level \<longleftrightarrow> level \<ge> rh_level h"

definition Handle :: "RedactingHandler \<Rightarrow> string \<Rightarrow> slog_attr list \<Rightarrow> (slog_line list, unit) state" where
  "Handle h message attrs = State_Monad.update (\<lambda>lines. lines @
     [\<lparr>sl_scopes = rh_scopes h, sl_message = Redact message, sl_attrs = map redactAttr attrs\<rparr>])"

definition WithAttrs :: "RedactingHandler \<Rightarrow> slog_attr list \<Rightarrow> RedactingHandler" where
  "WithAttrs h attrs = h\<lparr>rh_scopes := rh_scopes h @ [Scope_attrs (map redactAttr attrs)]\<rparr>"

definition WithGroup :: "RedactingHandler \<Rightarrow> string \<Rightarrow> RedactingHandler" where
  "WithGroup h name = h\<lparr>rh_scopes := rh_scopes h @ [Scope_group name]\<rparr>"

end
