(* ===== verification/AppJson.thy ===== *)
theory AppJson
  imports AppController Redact SecureStore
begin

text \<open>
  What the window and the diagnostics get as JSON: the two \<open>MarshalJSON\<close> of \<open>client/app/dto.go\<close> and
  \<open>client/app/errors.go\<close>, which redact their texts, and the view of the session service, which
  \<open>encoding/json\<close> renders by the names of its fields.
\<close>

fun ConnectionState_text :: "SessionState \<Rightarrow> string" where
  "ConnectionState_text StateNoRoom = ''NoRoom''"
| "ConnectionState_text StateEnrolling = ''Enrolling''"
| "ConnectionState_text StateControlPlaneConnected = ''ControlPlaneConnected''"
| "ConnectionState_text StateWaitingForPeer = ''WaitingForPeer''"
| "ConnectionState_text StateConnectingPeer = ''ConnectingPeer''"
| "ConnectionState_text StateConnectedP2P = ''ConnectedP2P''"
| "ConnectionState_text StateConnectedRelay = ''ConnectedRelay''"
| "ConnectionState_text StateReconnecting = ''Reconnecting''"
| "ConnectionState_text StateRecoverableError = ''RecoverableError''"

fun PathType_text :: "PathType \<Rightarrow> string" where
  "PathType_text PathNone = ''none''"
| "PathType_text PathP2P = ''p2p''"
| "PathType_text PathRelay = ''relay''"

text \<open>\<open>omitempty\<close> of a string.\<close>

definition nonempty_member :: "string \<Rightarrow> string \<Rightarrow> (string \<times> json) list" where
  "nonempty_member k v = (if v = [] then [] else [(k, JStr v)])"

text \<open>
  A slice that was copied with \<open>append([]T(nil), xs...)\<close>: the copy of an empty one is \<open>nil\<close>, which is
  rendered as \<open>null\<close>.
\<close>

definition json_copied_slice :: "('a \<Rightarrow> json) \<Rightarrow> 'a list \<Rightarrow> json" where
  "json_copied_slice f xs = (if xs = [] then JNull else JArr (map f xs))"

definition json_uint :: "'a::len word \<Rightarrow> json" where "json_uint n = JNum (show_nat (unat n))"

definition PublicError_json :: "PublicError option \<Rightarrow> json" where
  "PublicError_json e =
     (case e of
        None \<Rightarrow> JNull
      | Some e \<Rightarrow>
          let clean = e\<lparr>pe_Message := Redact (pe_Message e), pe_Action := Redact (pe_Action e)\<rparr>
          in JObj ([(''code'', JStr (AppErrorCode_text (pe_Code clean))), (''message'', JStr (pe_Message clean)),
               (''retryable'', JBool (pe_Retryable clean))] @ nonempty_member ''action'' (pe_Action clean)))"

definition PeerSnapshot_json :: "PeerSnapshot \<Rightarrow> json" where
  "PeerSnapshot_json p = JObj
     [(''id'', JStr (ps_ID p)), (''name'', JStr (ps_Name p)), (''netbirdIp'', JStr (ps_NetBirdIP p)),
      (''connected'', JBool (ps_Connected p)), (''path'', JStr (PathType_text (ps_Path p)))]"

definition ServiceSnapshot_json :: "ServiceSnapshot \<Rightarrow> json" where
  "ServiceSnapshot_json v = JObj
     [(''installed'', JBool (sn_Installed v)), (''running'', JBool (sn_Running v)),
      (''version'', JStr (sn_Version v)), (''expectedVersion'', JStr (sn_ExpectedVersion v)),
      (''repairRequired'', JBool (sn_RepairRequired v))]"

definition clean_peer :: "PeerSnapshot \<Rightarrow> PeerSnapshot" where
  "clean_peer p = p\<lparr>ps_ID := Redact (ps_ID p), ps_Name := Redact (ps_Name p), ps_NetBirdIP := Redact (ps_NetBirdIP p)\<rparr>"

definition clean_state :: "StateSnapshot \<Rightarrow> StateSnapshot" where
  "clean_state s =
     s\<lparr>st_RoomID := Redact (st_RoomID s), st_RoomCodeMasked := Redact (st_RoomCodeMasked s),
       st_ManagementURL := Redact (st_ManagementURL s), st_LocalNetBirdIP := Redact (st_LocalNetBirdIP s),
       st_ProfileID := Redact (st_ProfileID s), st_LastPeerRefreshAt := Redact (st_LastPeerRefreshAt s),
       st_BusyCommand := Redact (st_BusyCommand s), st_Peers := map clean_peer (st_Peers s)\<rparr>"

definition StateSnapshot_json :: "StateSnapshot \<Rightarrow> json" where
  "StateSnapshot_json s =
     (let clean = clean_state s in JObj
       ([(''revision'', json_uint (st_Revision clean)),
         (''state'', JStr (ConnectionState_text (st_State clean)))] @
        nonempty_member ''roomId'' (st_RoomID clean) @
        nonempty_member ''roomCodeMasked'' (st_RoomCodeMasked clean) @
        nonempty_member ''managementUrl'' (st_ManagementURL clean) @
        nonempty_member ''localNetbirdIp'' (st_LocalNetBirdIP clean) @
        nonempty_member ''profileId'' (st_ProfileID clean) @
        [(''connectedPath'', JStr (PathType_text (st_ConnectedPath clean))),
         (''peers'', json_copied_slice PeerSnapshot_json (st_Peers clean)),
         (''peersStale'', JBool (st_PeersStale clean))] @
        nonempty_member ''lastPeerRefreshAt'' (st_LastPeerRefreshAt clean) @
        [(''service'', ServiceSnapshot_json (st_Service clean))] @
        (if st_Error clean = None then [] else [(''error'', PublicError_json (st_Error clean))]) @
        nonempty_member ''busyCommand'' (st_BusyCommand clean)))"

text \<open>The view of the session, with the times of its library; \<open>None\<close> is an error of \<open>Marshal\<close>.\<close>

definition RoomPeer_json :: "RoomPeer \<Rightarrow> json" where
  "RoomPeer_json p = JObj
     [(''ID'', JStr (rp_ID p)), (''Name'', JStr (rp_Name p)), (''NetBirdIP'', JStr (rp_NetBirdIP p)),
      (''Connected'', JBool (rp_Connected p)), (''Hostname'', JStr (rp_Hostname p))]"

definition SessionSnapshot_json :: "SessionSnapshot \<Rightarrow> json" where
  "SessionSnapshot_json s = JObj
     [(''Revision'', json_uint (ss_Revision s)), (''State'', JStr (ConnectionState_text (ss_State s))),
      (''Path'', JStr (PathType_text (ss_Path s)))]"

definition RoomViewSnapshot_json :: "time_codec \<Rightarrow> RoomViewSnapshot \<Rightarrow> json option" where
  "RoomViewSnapshot_json T v =
     (case (encode_metadata T (rv_Metadata v), time_MarshalJSON T (rv_LastPeerRefresh v)) of
        (Some metadata, Some refreshed) \<Rightarrow> Some (JObj
          [(''Session'', SessionSnapshot_json (rv_Session v)), (''Metadata'', metadata),
           (''RoomCodeMasked'', JStr (rv_RoomCodeMasked v)), (''LocalNetBirdIP'', JStr (rv_LocalNetBirdIP v)),
           (''Peers'', json_copied_slice RoomPeer_json (rv_Peers v)), (''PeersStale'', JBool (rv_PeersStale v)),
           (''LastPeerRefresh'', JStr refreshed)])
      | _ \<Rightarrow> None)"

end
