(* ===== verification/RedactSpec.thy ===== *)
theory RedactSpec
  imports Redact "HOL-Library.Code_Target_Nat"
begin

text \<open>
  What redaction promises: no room code and no setup key in its usual form is left standing alone in a
  redacted text, or in a line of the log.
\<close>

section \<open>Exposed secrets\<close>

text \<open>
  A form is a list of character classes; a text exposes a secret of that form if it stands in the text
  with no word character next to it.
\<close>

definition has_form :: "(char \<Rightarrow> bool) list \<Rightarrow> string \<Rightarrow> bool" where
  "has_form ps w = list_all2 (\<lambda>p c. p c) ps w"

definition ends_word :: "string \<Rightarrow> bool" where "ends_word a \<longleftrightarrow> a \<noteq> [] \<and> word_char (List.last a)"
definition starts_word :: "string \<Rightarrow> bool" where
  "starts_word b = (case b of [] \<Rightarrow> False | c # _ \<Rightarrow> word_char c)"

definition exposes :: "(char \<Rightarrow> bool) list \<Rightarrow> string \<Rightarrow> bool" where
  "exposes ps s =
     list_ex (\<lambda>n. has_form ps (take (length ps) (drop n s)) \<and> \<not> ends_word (take n s) \<and>
       \<not> starts_word (drop (n + length ps) s)) [0..<length s + 1]"

definition letter_or_digit :: "char \<Rightarrow> bool" where
  "letter_or_digit c \<longleftrightarrow> is_upper c \<or> is_lower c \<or> is_digit c"
definition hex_char :: "char \<Rightarrow> bool" where
  "hex_char c \<longleftrightarrow> is_digit c \<or> in_range CHR ''A'' CHR ''F'' c \<or> in_range CHR ''a'' CHR ''f'' c"
definition is_dash :: "char \<Rightarrow> bool" where "is_dash c \<longleftrightarrow> c = CHR ''-''"

definition room_code_form :: "(char \<Rightarrow> bool) list" where
  "room_code_form = replicate 4 letter_or_digit @ is_dash # replicate 4 letter_or_digit @
     is_dash # replicate 4 letter_or_digit"

definition setup_key_form :: "(char \<Rightarrow> bool) list" where
  "setup_key_form = replicate 8 hex_char @ is_dash # replicate 4 hex_char @ is_dash # replicate 4 hex_char @
     is_dash # replicate 4 hex_char @ is_dash # replicate 12 hex_char"

lemma has_form_length: "has_form ps w \<Longrightarrow> length w = length ps"
  by (simp add: has_form_def list_all2_lengthD)

lemma exposes_iff:
  "exposes ps s \<longleftrightarrow> (\<exists>a w b. s = a @ w @ b \<and> has_form ps w \<and> \<not> ends_word a \<and> \<not> starts_word b)"
proof
  assume "exposes ps s"
  then obtain n where n: "has_form ps (take (length ps) (drop n s))" "\<not> ends_word (take n s)"
      "\<not> starts_word (drop (n + length ps) s)"
    by (auto simp: exposes_def list_ex_iff simp del: upt_Suc)
  have "s = take n s @ take (length ps) (drop n s) @ drop (n + length ps) s"
    by (metis append_take_drop_id drop_drop add.commute)
  with n show "\<exists>a w b. s = a @ w @ b \<and> has_form ps w \<and> \<not> ends_word a \<and> \<not> starts_word b" by blast
next
  assume "\<exists>a w b. s = a @ w @ b \<and> has_form ps w \<and> \<not> ends_word a \<and> \<not> starts_word b"
  then obtain a w b where s: "s = a @ w @ b" "has_form ps w" "\<not> ends_word a" "\<not> starts_word b" by blast
  then show "exposes ps s"
    using has_form_length [of ps w] unfolding exposes_def list_ex_iff
    by (intro bexI [of _ "length a"]) auto
qed

text \<open>The forms at hand: at least ten characters, each a letter, a digit or a dash, the outer ones no dash.\<close>

definition secret_form :: "(char \<Rightarrow> bool) list \<Rightarrow> bool" where
  "secret_form ps \<longleftrightarrow> 10 \<le> length ps \<and>
     (\<forall>p \<in> set ps. \<forall>c. p c \<longrightarrow> letter_or_digit c \<or> is_dash c) \<and>
     (\<forall>c. hd ps c \<longrightarrow> letter_or_digit c) \<and> (\<forall>c. List.last ps c \<longrightarrow> letter_or_digit c)"

lemma letter_or_digit_word [simp]: "letter_or_digit c \<Longrightarrow> word_char c"
  by (auto simp: letter_or_digit_def word_char_def)

lemma hex_char_letter: "hex_char c \<Longrightarrow> letter_or_digit c"
  by (auto simp: letter_or_digit_def hex_char_def in_range_def is_upper_def is_lower_def byte_def)

lemma secret_forms: "secret_form room_code_form" "secret_form setup_key_form"
  by (auto simp: secret_form_def room_code_form_def setup_key_form_def hex_char_letter)

lemma letter_or_digit_ascii: "letter_or_digit c \<or> is_dash c \<Longrightarrow> is_ascii c"
  by (auto simp: letter_or_digit_def is_dash_def char_class_defs byte_def)

lemma form_chars:
  assumes "secret_form ps" and "has_form ps w"
  shows "w \<noteq> []" "10 \<le> length w" "list_all is_ascii w" "CHR ''['' \<notin> set w" "CHR '']'' \<notin> set w"
    "CHR ''/'' \<notin> set w" "letter_or_digit (hd w)" "word_char (List.last w)"
proof -
  have len: "length w = length ps" using assms(2) by (rule has_form_length)
  show ten: "10 \<le> length w" using assms(1) len by (simp add: secret_form_def)
  then show ne: "w \<noteq> []" by auto
  have chars: "letter_or_digit c \<or> is_dash c" if "c \<in> set w" for c
  proof -
    from that obtain i where i: "i < length w" "c = w ! i" by (auto simp: in_set_conv_nth)
    with assms(2) len have "ps ! i \<in> set ps" "(ps ! i) c" by (simp_all add: has_form_def list_all2_conv_all_nth)
    with assms(1) show ?thesis unfolding secret_form_def by blast
  qed
  then show "list_all is_ascii w" using letter_or_digit_ascii unfolding list_all_iff by blast
  have "\<not> (letter_or_digit CHR ''['' \<or> is_dash CHR ''['')" "\<not> (letter_or_digit CHR '']'' \<or> is_dash CHR '']'')"
    "\<not> (letter_or_digit CHR ''/'' \<or> is_dash CHR ''/'')"
    by (simp_all add: letter_or_digit_def is_dash_def char_class_defs byte_def)
  with chars show "CHR ''['' \<notin> set w" "CHR '']'' \<notin> set w" "CHR ''/'' \<notin> set w" by blast+
  have "ps \<noteq> []" using len ne by auto
  then have "hd ps (hd w)" "List.last ps (List.last w)"
    using assms(2) ne len by (simp_all add: has_form_def list_all2_conv_all_nth hd_conv_nth last_conv_nth)
  with assms(1) show "letter_or_digit (hd w)" "word_char (List.last w)" by (auto simp: secret_form_def)
qed

section \<open>Texts and their runes\<close>

abbreviation ascii_runes :: "string \<Rightarrow> string list" where "ascii_runes w \<equiv> map (\<lambda>c. [c]) w"

lemma rune_before_last: "us \<noteq> [] \<Longrightarrow> rune_before us c = Some (List.last us)"
  by (induction us arbitrary: c) (auto split: if_splits)

text \<open>A secret of the form stands at a place.\<close>

definition stands :: "(char \<Rightarrow> bool) list \<Rightarrow> place \<Rightarrow> bool" where
  "stands ps x \<longleftrightarrow> (\<exists>w suf. snd x = ascii_runes w @ suf \<and> has_form ps w \<and> at_boundary x \<and>
     at_boundary (rune_before (ascii_runes w) (fst x), suf))"

lemma concat_ascii_prefix:
  "list_all rune_like rs \<Longrightarrow> list_all is_ascii w \<Longrightarrow> concat rs = w @ b \<Longrightarrow>
     \<exists>suf. rs = ascii_runes w @ suf \<and> concat suf = b"
proof (induction w arbitrary: rs)
  case (Cons d w)
  then obtain r rs' where rs: "rs = r # rs'" by (cases rs) auto
  with Cons.prems obtain r' where r: "r = d # r'" by (cases r) (auto simp: rune_like_def)
  with Cons.prems rs have "r' = []" by (auto simp: rune_like_def)
  with Cons rs r show ?case by auto
qed simp

lemma concat_ascii_split:
  "list_all rune_like rs \<Longrightarrow> list_all is_ascii w \<Longrightarrow> w \<noteq> [] \<Longrightarrow> concat rs = a @ w @ b \<Longrightarrow>
     \<exists>pre suf. rs = pre @ ascii_runes w @ suf \<and> concat pre = a \<and> concat suf = b"
proof (induction rs arbitrary: a)
  case (Cons r rs)
  show ?case
  proof (cases a)
    case Nil
    with concat_ascii_prefix [of "r # rs" w b] Cons.prems
    obtain suf where "r # rs = [] @ ascii_runes w @ suf" "concat suf = b" by auto
    with Nil show ?thesis by (intro exI [of _ "[]"] exI [of _ suf]) simp
  next
    case (Cons d a')
    have eq: "r @ concat rs = a @ w @ b" using Cons.prems(4) by simp
    have "length r \<le> length a"
    proof (rule ccontr)
      assume "\<not> length r \<le> length a"
      define x where "x = drop (length a) r"
      have "take (length a) r = a"
        using arg_cong [OF eq, of "take (length a)"] \<open>\<not> length r \<le> length a\<close> by simp
      then have x: "r = a @ x" "x \<noteq> []"
        using append_take_drop_id [of "length a" r] \<open>\<not> length r \<le> length a\<close> by (simp_all add: x_def)
      with eq have x3: "x @ concat rs = w @ b" by simp
      from x3 \<open>w \<noteq> []\<close> x(2) have "hd w = hd x" by (metis hd_append2)
      with x have "hd w \<in> set r" by simp
      moreover have "is_ascii (hd w)" using Cons.prems(2,3) by (cases w) auto
      moreover have "length r > 1" using x Cons by (cases x) auto
      ultimately show False using Cons.prems(1) by (auto simp: rune_like_def list_all_iff)
    qed
    moreover define a2 where "a2 = drop (length r) a"
    ultimately have "a = r @ a2" "concat rs = a2 @ w @ b"
      using arg_cong [OF eq, of "take (length r)"] arg_cong [OF eq, of "drop (length r)"]
        append_take_drop_id [of "length r" a] by simp_all
    with Cons.IH [of a2] Cons.prems obtain pre suf where
      "r # rs = (r # pre) @ ascii_runes w @ suf" "concat (r # pre) = a" "concat suf = b" by auto
    then show ?thesis by blast
  qed
qed simp

lemma word_rune_like:
  assumes r: "rune_like r"
  shows "word_rune (Some r) = word_char (List.last r) \<and> word_rune (Some r) = word_char (hd r)"
proof -
  have high: "\<not> word_char c" if "\<not> is_ascii c" for c
    using that by (auto simp: word_char_def char_class_defs byte_def)
  from r consider c where "r = [c]" | "length r > 1" "list_all (\<lambda>c. \<not> is_ascii c) r" "r \<noteq> []"
    by (cases r) (auto simp: rune_like_def)
  then show ?thesis
    by cases (auto simp: word_rune_def list_all_iff high split: list.splits)
qed

lemma ends_word_runes:
  assumes "list_all rune_like pre"
  shows "word_rune (rune_before pre None) = ends_word (concat pre)"
proof (cases pre rule: rev_cases)
  case (snoc us r)
  then have "rune_like r" "r \<noteq> []" using assms by (auto simp: rune_like_def)
  with snoc show ?thesis by (simp add: ends_word_def word_rune_like)
qed (simp add: ends_word_def word_rune_def)

lemma starts_word_runes:
  assumes "list_all rune_like suf"
  shows "word_rune (first_rune suf) = starts_word (concat suf)"
proof (cases suf)
  case (Cons r us)
  then have r: "rune_like r" "r \<noteq> []" using assms by (auto simp: rune_like_def)
  then show ?thesis
    using Cons word_rune_like [OF r(1), THEN conjunct2]
    by (cases r) (simp_all add: starts_word_def first_rune_def del: fold_Cons)
qed (simp add: starts_word_def first_rune_def word_rune_def)

lemma word_rune_single [simp]: "word_rune (Some [c]) = word_char c"
  by (simp add: word_rune_def)

lemma stands_iff:
  assumes "secret_form ps"
  shows "stands ps (c, rs) \<longleftrightarrow> (\<exists>w suf. rs = ascii_runes w @ suf \<and> has_form ps w \<and> \<not> word_rune c \<and>
     \<not> word_rune (first_rune suf))"
proof -
  have "at_boundary (c, ascii_runes w @ suf) \<longleftrightarrow> \<not> word_rune c"
      "at_boundary (rune_before (ascii_runes w) c, suf) \<longleftrightarrow> \<not> word_rune (first_rune suf)"
    if "has_form ps w" for w suf
  proof -
    note w = form_chars [OF assms that]
    then have "rune_before (ascii_runes w) c = Some [List.last w]" "first_rune (ascii_runes w @ suf) = Some [hd w]"
      by (simp_all add: rune_before_last last_map) (cases w; simp add: first_rune_def)
    with w show "at_boundary (c, ascii_runes w @ suf) \<longleftrightarrow> \<not> word_rune c"
        "at_boundary (rune_before (ascii_runes w) c, suf) \<longleftrightarrow> \<not> word_rune (first_rune suf)"
      by (simp_all add: at_boundary_def)
  qed
  then show ?thesis by (simp add: stands_def cong: conj_cong)
qed

lemma stands_exposes:
  assumes "secret_form ps" and "list_all rune_like rs"
  shows "(\<exists>pre rs'. rs = pre @ rs' \<and> stands ps (rune_before pre None, rs')) \<longleftrightarrow> exposes ps (concat rs)"
proof
  assume "\<exists>pre rs'. rs = pre @ rs' \<and> stands ps (rune_before pre None, rs')"
  then obtain pre w suf where rs: "rs = pre @ ascii_runes w @ suf" "has_form ps w"
      "\<not> word_rune (rune_before pre None)" "\<not> word_rune (first_rune suf)"
    by (auto simp: stands_iff [OF assms(1)])
  with assms(2) show "exposes ps (concat rs)"
    unfolding exposes_iff
    by (intro exI [of _ "concat pre"] exI [of _ w] exI [of _ "concat suf"])
       (simp add: ends_word_runes starts_word_runes)
next
  assume "exposes ps (concat rs)"
  then obtain a w b where s: "concat rs = a @ w @ b" "has_form ps w" "\<not> ends_word a" "\<not> starts_word b"
    by (auto simp: exposes_iff)
  with concat_ascii_split [OF assms(2), of w a b] form_chars [OF assms(1) s(2)]
  obtain pre suf where rs: "rs = pre @ ascii_runes w @ suf" "concat pre = a" "concat suf = b" by auto
  with s assms(2) have "\<not> word_rune (rune_before pre None)" "\<not> word_rune (first_rune suf)"
    by (simp_all add: ends_word_runes starts_word_runes)
  with s(2) have "stands ps (rune_before pre None, ascii_runes w @ suf)"
    unfolding stands_iff [OF assms(1)] by blast
  with rs(1) show "\<exists>pre rs'. rs = pre @ rs' \<and> stands ps (rune_before pre None, rs')" by blast
qed

section \<open>What a replacement does to secrets\<close>

text \<open>
  A replacement puts a mark such as \<open>[REDACTED]\<close> in the place of the match, perhaps behind a copied piece
  that ends in a slash, as \<open>https://\<close>.  If it begins between two words, or with the copy, and no secret can
  begin right behind it, then a secret that stands in the result stood in the text before.
\<close>

definition is_mark :: "string \<Rightarrow> bool" where
  "is_mark m \<longleftrightarrow> m \<noteq> [] \<and> length m \<le> 10 \<and> list_all is_ascii m \<and> hd m = CHR ''['' \<and> List.last m = CHR '']''"

definition secret_start :: "string list \<Rightarrow> bool" where
  "secret_start rs \<longleftrightarrow> (\<exists>d us. rs = [d] # us \<and> letter_or_digit d)"

definition good_piece :: "place \<Rightarrow> place \<Rightarrow> string list \<Rightarrow> bool" where
  "good_piece x y piece \<longleftrightarrow> length (snd y) < length (snd x) \<and>
     (at_boundary y \<or> \<not> secret_start (snd y)) \<and>
     (\<exists>cap m us. piece = cap @ ascii_runes m \<and> is_mark m \<and> snd x = cap @ us \<and>
        (if cap = [] then at_boundary x else List.last cap = ''/'' \<and> length cap \<le> 10))"

definition good_replacement :: "re \<Rightarrow> (string list list \<Rightarrow> string list) \<Rightarrow> bool" where
  "good_replacement r f \<longleftrightarrow> (\<forall>x k y. first_match r x = Some (k, y) \<longrightarrow> good_piece x y (f k))"

lemma good_pieceE:
  assumes "good_piece x y piece"
  obtains cap m us where "piece = cap @ ascii_runes m" "is_mark m" "snd x = cap @ us"
    "cap = [] \<Longrightarrow> at_boundary x" "cap \<noteq> [] \<Longrightarrow> List.last cap = ''/'' \<and> length cap \<le> 10"
proof -
  from assms obtain cap m us where 1: "piece = cap @ ascii_runes m" "is_mark m" "snd x = cap @ us"
    and 2: "if cap = [] then at_boundary x else List.last cap = ''/'' \<and> length cap \<le> 10"
    unfolding good_piece_def by blast
  show thesis by (rule that [of cap m us]) (use 1 2 in \<open>simp_all split: if_splits\<close>)
qed

declare replace_runes.simps(2) [simp del]

lemma replace_None: "first_match r (c, u # rs) = None \<Longrightarrow> replace_runes r f c (u # rs) = u # replace_runes r f (Some u) rs"
  by (simp add: replace_runes.simps(2))

lemma replace_Some:
  assumes "good_replacement r f" and "first_match r (c, u # rs) = Some (k, c', rs')"
  shows "replace_runes r f c (u # rs) = f k @ replace_runes r f c' rs'"
    and "good_piece (c, u # rs) (c', rs') (f k)"
proof -
  from assms show good: "good_piece (c, u # rs) (c', rs') (f k)" by (auto simp: good_replacement_def)
  then have "length rs' < length (u # rs)" by (simp add: good_piece_def)
  with assms(2) show "replace_runes r f c (u # rs) = f k @ replace_runes r f c' rs'"
    by (simp add: replace_runes.simps(2))
qed

lemma first_of_replaced:
  assumes "good_replacement r f"
  shows "word_rune (first_rune (replace_runes r f c rs)) = word_rune (first_rune rs) \<or> at_boundary (c, rs)"
proof (cases rs)
  case (Cons u us)
  show ?thesis
  proof (cases "first_match r (c, u # us)")
    case None
    with Cons show ?thesis by (simp add: replace_None first_rune_def)
  next
    case (Some m)
    obtain k c' rs' where "m = (k, c', rs')" by (cases m) auto
    with Some replace_Some [OF assms] have "replace_runes r f c (u # us) = f k @ replace_runes r f c' rs'"
      and "good_piece (c, u # us) (c', rs') (f k)" by blast+
    then show ?thesis
      using Cons by (auto simp: first_rune_def Cons_eq_append_conv elim!: good_pieceE split: list.splits)
  qed
qed simp

text \<open>Characters of a secret in the result are those of the text.\<close>

lemma prefix_kept:
  assumes "good_replacement r f"
  shows "replace_runes r f c rs = ascii_runes w @ suf \<Longrightarrow> CHR ''['' \<notin> set w \<Longrightarrow> CHR ''/'' \<notin> set w \<Longrightarrow>
     \<exists>rs'. rs = ascii_runes w @ rs' \<and> (word_rune (first_rune suf) = word_rune (first_rune rs') \<or>
       at_boundary (rune_before (ascii_runes w) c, rs'))"
proof (induction w arbitrary: c rs)
  case Nil
  then show ?case using first_of_replaced [OF assms, of c rs] by auto
next
  case (Cons d w)
  then obtain u us where rs: "rs = u # us" by (cases rs) auto
  show ?case
  proof (cases "first_match r (c, u # us)")
    case None
    then have "replace_runes r f c (u # us) = u # replace_runes r f (Some u) us" by (rule replace_None)
    moreover have "replace_runes r f c (u # us) = [d] # ascii_runes w @ suf" using Cons.prems(1) rs by simp
    ultimately have "u # replace_runes r f (Some u) us = [d] # ascii_runes w @ suf" by (simp only:)
    then have "u = [d]" "replace_runes r f (Some u) us = ascii_runes w @ suf" by blast+
    with Cons.IH Cons.prems(2,3) rs show ?thesis by auto
  next
    case (Some m)
    obtain k c' rs' where m: "m = (k, c', rs')" by (cases m) auto
    note step = replace_Some [OF assms Some [unfolded m]]
    obtain cap mk vs where piece: "f k = cap @ ascii_runes mk" "is_mark mk" "u # us = cap @ vs"
      "cap \<noteq> [] \<Longrightarrow> List.last cap = ''/'' \<and> length cap \<le> 10"
      using step(2) by (rule good_pieceE) simp_all
    from Cons.prems(1) rs step(1) piece(1)
    have eq: "ascii_runes (d # w) @ suf = cap @ ascii_runes mk @ replace_runes r f c' rs'" by simp
    have "cap \<noteq> []"
    proof
      assume "cap = []"
      with eq piece(2) have "d = CHR ''[''" by (cases mk) (auto simp: is_mark_def)
      with Cons.prems(2) show False by simp
    qed
    have "length (d # w) < length cap"
    proof (rule ccontr)
      assume "\<not> length (d # w) < length cap"
      then have "take (length cap) (ascii_runes (d # w) @ suf) = take (length cap) (ascii_runes (d # w))"
        by (simp only: take_append length_map not_less diff_is_0_eq' take_0 append_Nil2)
      then have "cap = take (length cap) (ascii_runes (d # w))" unfolding eq by simp
      then have "List.last cap \<in> set (ascii_runes (d # w))"
        using \<open>cap \<noteq> []\<close> by (metis in_set_takeD last_in_set)
      with piece(4) \<open>cap \<noteq> []\<close> Cons.prems(3) show False by auto
    qed
    moreover define cap' where "cap' = drop (length (d # w)) cap"
    moreover have "take (length (d # w)) (ascii_runes (d # w) @ suf) = ascii_runes (d # w)" by simp
    ultimately have "take (length (d # w)) cap = ascii_runes (d # w)" "cap' \<noteq> []" unfolding eq by simp_all
    then have cap: "cap = ascii_runes (d # w) @ cap'" "cap' \<noteq> []"
      using append_take_drop_id [of "length (d # w)" cap] by (simp_all add: cap'_def)
    from cap eq piece(3) rs have "rs = ascii_runes (d # w) @ cap' @ vs" by simp
    moreover from cap eq have "first_rune suf = first_rune (cap' @ vs)" by (cases cap') (simp_all add: first_rune_def)
    ultimately show ?thesis by auto
  qed
qed

text \<open>A secret does not begin in a piece that was put in.\<close>

lemma not_at_forbidden:
  assumes "pre @ ascii_runes w @ suf = piece @ rest" and "10 \<le> length w"
    and "i < length piece" and "piece ! i = [c]" and "c \<notin> set w" and "length pre \<le> i"
  shows "length pre + 10 \<le> i"
proof (rule ccontr)
  assume "\<not> length pre + 10 \<le> i"
  then have "i - length pre < length w" using assms(2) by simp
  then have "(pre @ ascii_runes w @ suf) ! i = [w ! (i - length pre)]" using assms(6) by (simp add: nth_append)
  moreover have "(piece @ rest) ! i = [c]" using assms(3,4) by (simp add: nth_append)
  ultimately have "w ! (i - length pre) = c" using assms(1) by simp
  with \<open>i - length pre < length w\<close> assms(5) show False by (metis nth_mem)
qed

lemma not_in_piece:
  assumes eq: "pre @ ascii_runes w @ suf = (cap @ ascii_runes m) @ rest" and "is_mark m"
    and "cap \<noteq> [] \<Longrightarrow> List.last cap = ''/'' \<and> length cap \<le> 10"
    and w: "10 \<le> length w" "CHR '']'' \<notin> set w" "CHR ''/'' \<notin> set w"
  shows "\<exists>pre'. pre = (cap @ ascii_runes m) @ pre'"
proof -
  have m: "m \<noteq> []" "length m \<le> 10" "List.last m = CHR '']''" using assms(2) by (auto simp: is_mark_def)
  have last: "(cap @ ascii_runes m) ! (length cap + length m - 1) = [CHR '']'']"
    using m last_conv_nth [of "cap @ ascii_runes m"] by (simp add: last_map)
  have "length cap \<le> length pre"
  proof (cases "cap = []")
    case False
    with assms(3) have "length cap \<le> 10" by simp
    from False assms(3) have "(cap @ ascii_runes m) ! (length cap - 1) = [CHR ''/'']" "length cap \<le> 10"
      by (simp_all add: nth_append last_conv_nth)
    moreover have "length cap - 1 < length (cap @ ascii_runes m)" using False by (cases cap) simp_all
    ultimately have "length pre \<le> length cap - 1 \<Longrightarrow> length pre + 10 \<le> length cap - 1"
      using not_at_forbidden [OF eq w(1) _ _ w(3), of "length cap - 1"] by blast
    with \<open>length cap \<le> 10\<close> show ?thesis by linarith
  qed simp
  moreover have "\<not> length pre < length cap + length m"
  proof
    assume "length pre < length cap + length m"
    with not_at_forbidden [OF eq w(1) _ last w(2)] m(1,2) \<open>length cap \<le> length pre\<close>
    show False by (cases m) auto
  qed
  ultimately have "length (cap @ ascii_runes m) \<le> length pre" by simp
  then have "take (length (cap @ ascii_runes m)) pre = cap @ ascii_runes m"
    using arg_cong [OF eq, of "take (length (cap @ ascii_runes m))"] by simp
  then show ?thesis by (metis append_take_drop_id)
qed

lemma stands_before:
  assumes r: "good_replacement r f" and ps: "secret_form ps"
  shows "replace_runes r f c rs = pre @ out \<Longrightarrow> stands ps (rune_before pre d, out) \<Longrightarrow>
     word_rune d = word_rune c \<or> at_boundary (c, rs) \<or> \<not> secret_start rs \<Longrightarrow>
     \<exists>pre0 rs0. rs = pre0 @ rs0 \<and> stands ps (rune_before pre0 c, rs0) \<and>
       first_match r (rune_before pre0 c, rs0) = None"
proof (induction "length rs" arbitrary: c rs pre d rule: less_induct)
  case less
  from less.prems(2) obtain w suf where out: "out = ascii_runes w @ suf" "has_form ps w"
      "\<not> word_rune (rune_before pre d)" "\<not> word_rune (first_rune suf)"
    by (auto simp: stands_iff [OF ps])
  note w = form_chars [OF ps out(2)]
  obtain u us where rs: "rs = u # us" using less.prems(1) out(1) w(1) by (cases rs) auto
  show ?case
  proof (cases "first_match r (c, u # us)")
    case None
    then have step: "pre @ out = u # replace_runes r f (Some u) us"
      using less.prems(1) rs by (simp add: replace_None)
    show ?thesis
    proof (cases pre)
      case Nil
      with less.prems(1) out(1) prefix_kept [OF r, of c rs w suf] w(4,6) obtain rs' where
        rs': "rs = ascii_runes w @ rs'" "word_rune (first_rune suf) = word_rune (first_rune rs') \<or>
          at_boundary (rune_before (ascii_runes w) c, rs')" by auto
      have last_w: "rune_before (ascii_runes w) c = Some [List.last w]"
        using w(1) by (simp add: rune_before_last last_map)
      have first_w: "first_rune rs = Some [hd w]" "secret_start rs"
        using rs' w(1,7) by (cases w; simp add: first_rune_def secret_start_def)+
      have "\<not> word_rune c"
        using less.prems(3) out(3) Nil first_w w(7) by (auto simp: at_boundary_def)
      moreover have "\<not> word_rune (first_rune rs')"
        using rs'(2) out(4) last_w w(8) by (auto simp: at_boundary_def)
      ultimately have "stands ps (c, rs)" using rs'(1) out(2) unfolding stands_iff [OF ps] by blast
      with None rs show ?thesis by (intro exI [of _ "[]"] exI [of _ rs]) simp
    next
      case (Cons v pre')
      with step have v: "v = u" "replace_runes r f (Some u) us = pre' @ out" by auto
      have "\<exists>pre0 rs0. us = pre0 @ rs0 \<and> stands ps (rune_before pre0 (Some u), rs0) \<and>
          first_match r (rune_before pre0 (Some u), rs0) = None"
        by (rule less.hyps [where d = "Some u" and pre = pre']) (use rs v less.prems(2) Cons in simp_all)
      then obtain pre0 rs0 where "us = pre0 @ rs0" "stands ps (rune_before pre0 (Some u), rs0)"
        "first_match r (rune_before pre0 (Some u), rs0) = None" by blast
      with rs show ?thesis by (intro exI [of _ "u # pre0"] exI [of _ rs0]) simp
    qed
  next
    case (Some x)
    obtain k c' rs' where x: "x = (k, c', rs')" by (cases x) auto
    note step = replace_Some [OF r Some [unfolded x]]
    obtain cap m where piece: "f k = cap @ ascii_runes m" "is_mark m"
      "cap \<noteq> [] \<Longrightarrow> List.last cap = ''/'' \<and> length cap \<le> 10"
      using step(2) by (rule good_pieceE) simp
    have after: "length rs' < length rs" "at_boundary (c', rs') \<or> \<not> secret_start rs'"
      using step(2) rs by (simp_all add: good_piece_def)
    from Some x have "moves (c, rs) (c', rs')" using rs spans_move first_match_spans by blast
    then obtain vs where vs: "rs = vs @ rs'" "c' = rune_before vs c" by (auto simp: moves_def)
    from less.prems(1) rs step(1) piece(1) have out2: "pre @ out = (cap @ ascii_runes m) @ replace_runes r f c' rs'"
      by simp
    with not_in_piece [of pre w suf cap m] out(1) piece(2,3) w(2,5,6) obtain pre' where
      pre': "pre = (cap @ ascii_runes m) @ pre'" by auto
    with out2 have rest: "replace_runes r f c' rs' = pre' @ out" by simp
    have "rune_before pre d = rune_before pre' (Some [CHR '']''])"
      using pre' piece(2) rune_before_last [of "ascii_runes m"] by (simp add: is_mark_def last_map)
    with less.prems(2) have "\<exists>pre0 rs0. rs' = pre0 @ rs0 \<and> stands ps (rune_before pre0 c', rs0) \<and>
        first_match r (rune_before pre0 c', rs0) = None"
      by (intro less.hyps [where d = "Some [CHR '']'']" and pre = pre']) (use after rest in simp_all)
    then obtain pre0 rs0 where "rs' = pre0 @ rs0" "stands ps (rune_before pre0 c', rs0)"
      "first_match r (rune_before pre0 c', rs0) = None" by blast
    with vs show ?thesis by (intro exI [of _ "vs @ pre0"] exI [of _ rs0]) simp
  qed
qed

lemma ReplaceAllString_exposes:
  assumes r: "good_replacement r f" and ps: "secret_form ps"
    and like: "list_all rune_like (replace_runes r f None (runes s))"
    and e: "exposes ps (ReplaceAllString r f s)"
  shows "exposes ps s \<and> (\<exists>x. stands ps x \<and> first_match r x = None)"
proof -
  have like0: "list_all rune_like (runes s)" by (auto simp: list_all_iff runes_like)
  have "exposes ps (concat (replace_runes r f None (runes s)))" using e by (simp add: ReplaceAllString_def)
  then obtain pre out where
    "replace_runes r f None (runes s) = pre @ out" "stands ps (rune_before pre None, out)"
    unfolding stands_exposes [OF ps like, symmetric] by blast
  from stands_before [OF r ps this] obtain pre0 rs0 where
    "runes s = pre0 @ rs0" "stands ps (rune_before pre0 None, rs0)"
    "first_match r (rune_before pre0 None, rs0) = None" by blast
  moreover from this have "exposes ps (concat (runes s))" unfolding stands_exposes [OF ps like0, symmetric] by blast
  ultimately show ?thesis unfolding concat_runes by blast
qed

lemma replaced_like:
  assumes "good_replacement r f"
  shows "list_all rune_like rs \<Longrightarrow> list_all rune_like (replace_runes r f c rs)"
proof (induction "length rs" arbitrary: c rs rule: less_induct)
  case less
  show ?case
  proof (cases rs)
    case (Cons u us)
    show ?thesis
    proof (cases "first_match r (c, u # us)")
      case None
      with Cons less show ?thesis by (simp add: replace_None)
    next
      case (Some x)
      obtain k c' rs' where x: "x = (k, c', rs')" by (cases x) auto
      note step = replace_Some [OF assms Some [unfolded x]]
      obtain cap m vs where piece: "f k = cap @ ascii_runes m" "is_mark m" "u # us = cap @ vs"
        using step(2) by (rule good_pieceE) simp
      have "moves (c, rs) (c', rs')" using Some x Cons spans_move first_match_spans by blast
      then obtain ws where "rs = ws @ rs'" by (auto simp: moves_def)
      with less.prems have "list_all rune_like rs'" by simp
      moreover have "length rs' < length rs" using step(2) Cons by (simp add: good_piece_def)
      moreover have "list_all rune_like cap" using less.prems Cons piece(3) by simp
      moreover have "list_all rune_like (ascii_runes m)" using piece(2) by (auto simp: is_mark_def list_all_iff)
      ultimately show ?thesis using less.hyps Cons step(1) piece(1) by simp
    qed
  qed simp
qed

lemma replacement_exposes:
  assumes "good_replacement r f" and "secret_form ps" and "exposes ps (ReplaceAllString r f s)"
  shows "exposes ps s \<and> (\<exists>x. stands ps x \<and> first_match r x = None)"
  using ReplaceAllString_exposes [OF assms(1,2) replaced_like [OF assms(1)] assms(3)]
  by (auto simp: list_all_iff runes_like)

section \<open>The patterns of the code\<close>

lemma bounded_good:
  assumes "consumes (seq rs)" and "is_mark m" and "runes m = ascii_runes m"
  shows "good_replacement (seq (Boundary # rs @ [Boundary])) (\<lambda>k. runes m)"
  unfolding good_replacement_def
proof (intro allI impI)
  fix x k z
  assume "first_match (seq (Boundary # rs @ [Boundary])) x = Some (k, z)"
  then have "spans (seq (Boundary # rs @ [Boundary])) x z" by (rule first_match_spans)
  moreover have "spans (seq (rs @ [Boundary])) x z \<longleftrightarrow> spans (seq rs) x z \<and> at_boundary z" for x
    by (induction rs arbitrary: x) auto
  ultimately have "at_boundary x" "at_boundary z" "spans (seq rs) x z" by auto
  with assms show "good_piece x z (runes m)" by (auto simp: good_piece_def dest: consumes_less)
qed

lemma marks:
  "is_mark redacted_mark" "is_mark ''[IP]''" "is_mark ''[PEER_ID]''" "is_mark ''[HOST]''"
  "runes redacted_mark = ascii_runes redacted_mark" "runes ''[IP]'' = ascii_runes ''[IP]''"
  "runes ''[PEER_ID]'' = ascii_runes ''[PEER_ID]''" "runes ''[HOST]'' = ascii_runes ''[HOST]''"
  by (simp_all add: is_mark_def redacted_mark_def runes_all_ascii is_ascii_def byte_def)

lemma consumes_run: "consumes (exactly n r) \<longleftrightarrow> 0 < n \<and> consumes r"
  unfolding exactly_def by (induction n) auto

lemma bounded_patterns:
  "good_replacement roomCodePattern (\<lambda>k. runes redacted_mark)"
  "good_replacement setupKeyPattern (\<lambda>k. runes redacted_mark)"
proof -
  have "good_replacement (seq (Boundary # [exactly 4 (folded alnum),
      exactly 2 (seq [literal ''-'', exactly 4 (folded alnum)])] @ [Boundary])) (\<lambda>k. runes redacted_mark)"
    by (rule bounded_good) (simp_all add: consumes_run folded_def marks)
  then show "good_replacement roomCodePattern (\<lambda>k. runes redacted_mark)" by (simp add: roomCodePattern_def)
  have "good_replacement (seq (Boundary # [exactly 8 (folded hex_upper),
      exactly 3 (seq [literal ''-'', exactly 4 (folded hex_upper)]),
      literal ''-'', exactly 12 (folded hex_upper)] @ [Boundary])) (\<lambda>k. runes redacted_mark)"
    by (rule bounded_good) (simp_all add: consumes_run folded_def marks)
  then show "good_replacement setupKeyPattern (\<lambda>k. runes redacted_mark)" by (simp add: setupKeyPattern_def)
qed

text \<open>Matches of the parts of the patterns, at a place before the characters.\<close>

lemma spans_run:
  assumes "\<And>c. c \<in> set w \<Longrightarrow> p (ascii_lower c) \<or> p (ascii_upper c)" and "length w = n" and "0 < n"
  shows "spans (exactly n (folded p)) (c, ascii_runes w @ rest) (Some [List.last w], rest)"
  unfolding folded_def spans_times
  using assms rune_before_last [of "ascii_runes w" c]
  by (intro exI [of _ "ascii_runes w"]) (auto simp: list_all_iff fold_rune_def last_map)

lemma spans_dash: "spans (literal ''-'') (c, [CHR ''-''] # rest) (Some ''-'', rest)"
  by (simp add: literal_def any_of_def)

lemma fold_letter: "letter_or_digit c \<Longrightarrow> alnum (ascii_lower c) \<or> alnum (ascii_upper c)"
  by (auto simp: letter_or_digit_def alnum_def ascii_upper_def ascii_lower_def char_class_defs byte_def)

lemma fold_hex: "hex_char c \<Longrightarrow> hex_upper (ascii_lower c) \<or> hex_upper (ascii_upper c)"
  by (auto simp: hex_char_def hex_upper_def ascii_upper_def ascii_lower_def char_class_defs byte_def)

lemma form_replicate: "list_all2 (\<lambda>p c. p c) (replicate n p) w \<longleftrightarrow> length w = n \<and> (\<forall>c \<in> set w. p c)"
  by (induction n arbitrary: w) (auto simp: list_all2_Cons1 length_Suc_conv)

lemma room_code_parts:
  assumes "has_form room_code_form w"
  obtains a b c where "w = a @ CHR ''-'' # b @ CHR ''-'' # c" "length a = 4" "length b = 4" "length c = 4"
    "\<forall>x \<in> set (a @ b @ c). letter_or_digit x"
  using assms
  by (auto simp: has_form_def room_code_form_def list_all2_append1 list_all2_Cons1 form_replicate is_dash_def ball_Un
 simp del: replicate.simps)

lemma setup_key_parts:
  assumes "has_form setup_key_form w"
  obtains a b c d e where "w = a @ CHR ''-'' # b @ CHR ''-'' # c @ CHR ''-'' # d @ CHR ''-'' # e"
    "length a = 8" "length b = 4" "length c = 4" "length d = 4" "length e = 12"
    "\<forall>x \<in> set (a @ b @ c @ d @ e). hex_char x"
  using assms
  by (auto simp: has_form_def setup_key_form_def list_all2_append1 list_all2_Cons1 form_replicate is_dash_def ball_Un
 simp del: replicate.simps)

lemma spans_Cons: "spans r x y \<Longrightarrow> spans (seq rs) y z \<Longrightarrow> spans (seq (r # rs)) x z"
  by (simp only: spans_seq) blast

lemma spans_dash_run:
  assumes "\<And>c. c \<in> set w \<Longrightarrow> p (ascii_lower c) \<or> p (ascii_upper c)" and "length w = n" and "0 < n"
  shows "spans (seq [literal ''-'', exactly n (folded p)]) (c, [CHR ''-''] # ascii_runes w @ rest) (Some [List.last w], rest)"
  by (rule spans_Cons, rule spans_dash, rule spans_Cons, rule spans_run) (use assms in simp_all)

lemma exactly_few: "exactly 2 r = seq [r, r]" "exactly 3 r = seq [r, r, r]"
  by (simp_all add: exactly_def numeral_2_eq_2 numeral_3_eq_3)

lemma room_codes_caught:
  assumes "stands room_code_form x"
  shows "\<exists>y. spans roomCodePattern x y"
proof -
  obtain p rs where x: "x = (p, rs)" by (cases x)
  from assms obtain w suf where w: "rs = ascii_runes w @ suf" "has_form room_code_form w"
      "at_boundary (p, rs)" "at_boundary (rune_before (ascii_runes w) p, suf)"
    by (auto simp: stands_def x)
  from w(2) obtain a b c where abc: "w = a @ CHR ''-'' # b @ CHR ''-'' # c"
    "length a = 4" "length b = 4" "length c = 4" "\<forall>x \<in> set (a @ b @ c). letter_or_digit x"
    by (rule room_code_parts)
  have last: "rune_before (ascii_runes w) p = Some [List.last c]"
    using abc by (subst rune_before_last) (auto simp: last_map)
  note run = spans_run [where p = alnum and n = 4] and dash_run = spans_dash_run [where p = alnum and n = 4]
  let ?c = "[CHR ''-''] # ascii_runes c @ suf"
  let ?b = "[CHR ''-''] # ascii_runes b @ ?c"
  have rs: "rs = ascii_runes a @ ?b" using w(1) abc(1) by simp
  have 1: "spans Boundary (p, rs) (p, rs)" using w(3) by simp
  have 2: "spans (exactly 4 (folded alnum)) (p, rs) (Some [List.last a], ?b)"
    unfolding rs by (rule run) (use abc fold_letter in auto)
  have 3: "spans (seq [literal ''-'', exactly 4 (folded alnum)]) (Some [List.last a], ?b) (Some [List.last b], ?c)"
    by (rule dash_run) (use abc fold_letter in auto)
  have 4: "spans (seq [literal ''-'', exactly 4 (folded alnum)]) (Some [List.last b], ?c) (Some [List.last c], suf)"
    by (rule dash_run) (use abc fold_letter in auto)
  have 5: "spans (exactly 2 (seq [literal ''-'', exactly 4 (folded alnum)])) (Some [List.last a], ?b)
      (Some [List.last c], suf)"
    unfolding exactly_few by (rule spans_Cons [OF 3 spans_Cons [OF 4]]) simp
  have 6: "spans Boundary (Some [List.last c], suf) (Some [List.last c], suf)" using w(4) last by simp
  have "spans roomCodePattern x (Some [List.last c], suf)"
    unfolding roomCodePattern_def x
    by (rule spans_Cons [OF 1 spans_Cons [OF 2 spans_Cons [OF 5 spans_Cons [OF 6]]]]) simp
  then show ?thesis by blast
qed

lemma setup_keys_caught:
  assumes "stands setup_key_form x"
  shows "\<exists>y. spans setupKeyPattern x y"
proof -
  obtain p rs where x: "x = (p, rs)" by (cases x)
  from assms obtain w suf where w: "rs = ascii_runes w @ suf" "has_form setup_key_form w"
      "at_boundary (p, rs)" "at_boundary (rune_before (ascii_runes w) p, suf)"
    by (auto simp: stands_def x)
  from w(2) obtain a b c d e where parts:
    "w = a @ CHR ''-'' # b @ CHR ''-'' # c @ CHR ''-'' # d @ CHR ''-'' # e"
    "length a = 8" "length b = 4" "length c = 4" "length d = 4" "length e = 12"
    "\<forall>x \<in> set (a @ b @ c @ d @ e). hex_char x"
    by (rule setup_key_parts)
  have last: "rune_before (ascii_runes w) p = Some [List.last e]"
    using parts by (subst rune_before_last) (auto simp: last_map)
  note run = spans_run [where p = hex_upper] and dash_run = spans_dash_run [where p = hex_upper and n = 4]
  let ?e = "[CHR ''-''] # ascii_runes e @ suf"
  let ?d = "[CHR ''-''] # ascii_runes d @ ?e"
  let ?c = "[CHR ''-''] # ascii_runes c @ ?d"
  let ?b = "[CHR ''-''] # ascii_runes b @ ?c"
  let ?piece = "seq [literal ''-'', exactly 4 (folded hex_upper)]"
  have rs: "rs = ascii_runes a @ ?b" using w(1) parts(1) by simp
  have 1: "spans Boundary (p, rs) (p, rs)" using w(3) by simp
  have 2: "spans (exactly 8 (folded hex_upper)) (p, rs) (Some [List.last a], ?b)"
    unfolding rs by (rule run) (use parts fold_hex in auto)
  have b: "spans ?piece (Some [List.last a], ?b) (Some [List.last b], ?c)"
    and c: "spans ?piece (Some [List.last b], ?c) (Some [List.last c], ?d)"
    and d: "spans ?piece (Some [List.last c], ?d) (Some [List.last d], ?e)"
    by (rule dash_run; use parts fold_hex in auto)+
  have 3: "spans (exactly 3 ?piece) (Some [List.last a], ?b) (Some [List.last d], ?e)"
    unfolding exactly_few by (rule spans_Cons [OF b spans_Cons [OF c spans_Cons [OF d]]]) simp
  have 4: "spans (literal ''-'') (Some [List.last d], ?e) (Some ''-'', ascii_runes e @ suf)"
    by (rule spans_dash)
  have 5: "spans (exactly 12 (folded hex_upper)) (Some ''-'', ascii_runes e @ suf) (Some [List.last e], suf)"
    by (rule run) (use parts fold_hex in auto)
  have 6: "spans Boundary (Some [List.last e], suf) (Some [List.last e], suf)" using w(4) last by simp
  have "spans setupKeyPattern x (Some [List.last e], suf)"
    unfolding setupKeyPattern_def x
    by (rule spans_Cons [OF 1 spans_Cons [OF 2 spans_Cons [OF 3 spans_Cons [OF 4 spans_Cons [OF 5 spans_Cons [OF 6]]]]]])
       simp
  then show ?thesis by blast
qed

lemma caught_replaced:
  assumes "good_replacement r f" and "secret_form ps" and "\<And>x. stands ps x \<Longrightarrow> \<exists>y. spans r x y"
  shows "\<not> exposes ps (ReplaceAllString r f s)"
  using replacement_exposes [OF assms(1,2)] assms(3) no_match_spans by blast

definition hides_codes :: "string \<Rightarrow> bool" where
  "hides_codes t \<longleftrightarrow> \<not> exposes room_code_form t \<and> \<not> exposes setup_key_form t"

lemma good_hides: "good_replacement r f \<Longrightarrow> hides_codes s \<Longrightarrow> hides_codes (ReplaceAllString r f s)"
  using replacement_exposes [OF _ secret_forms(1)] replacement_exposes [OF _ secret_forms(2)]
  unfolding hides_codes_def by blast

lemma Redact_hides: "hides_codes (Redact v)"
  unfolding hides_codes_def Redact_def Let_def
  using caught_replaced [OF bounded_patterns(1) secret_forms(1) room_codes_caught]
    caught_replaced [OF bounded_patterns(2) secret_forms(2) setup_keys_caught]
    replacement_exposes [OF bounded_patterns(1) secret_forms(2)] by blast

section \<open>Log lines\<close>

text \<open>The strings of a log line; a value that is not a string is none of them.\<close>

fun attr_texts :: "slog_attr \<Rightarrow> string list"
  and value_texts :: "attr_value \<Rightarrow> string list" where
  "attr_texts (key, v) = value_texts v"
| "value_texts (StringValue s) = [s]"
| "value_texts (GroupValue attrs) = concat (map attr_texts attrs)"
| "value_texts (AnyValue t) = []"

fun scope_texts :: "slog_scope \<Rightarrow> string list" where
  "scope_texts (Scope_attrs attrs) = concat (map attr_texts attrs)"
| "scope_texts (Scope_group name) = []"

definition line_texts :: "slog_line \<Rightarrow> string list" where
  "line_texts l = sl_message l # concat (map attr_texts (sl_attrs l)) @ concat (map scope_texts (sl_scopes l))"

text \<open>A handler and what was derived from it.\<close>

fun derive_handler :: "slog_scope \<Rightarrow> RedactingHandler \<Rightarrow> RedactingHandler" where
  "derive_handler (Scope_attrs attrs) h = WithAttrs h attrs"
| "derive_handler (Scope_group name) h = WithGroup h name"

lemma hides_mark: "hides_codes redacted_mark"
  by code_simp

lemma redactAttr_hides:
  "list_all hides_codes (attr_texts (redactAttr a))"
  "list_all hides_codes (value_texts (redact_value v))"
  by (induction a and v rule: redactAttr_redact_value.induct) (auto simp: hides_mark Redact_hides list_all_iff)

lemma redacted_attrs_hide: "list_all hides_codes (concat (map attr_texts (map redactAttr attrs)))"
  using redactAttr_hides(1) by (auto simp: list_all_iff)

lemma derived_scopes:
  "list_all hides_codes (concat (map scope_texts (rh_scopes h))) \<Longrightarrow>
     list_all hides_codes (concat (map scope_texts (rh_scopes (fold derive_handler scopes h))))"
proof (induction scopes arbitrary: h)
  case (Cons scope scopes)
  have "list_all hides_codes (concat (map scope_texts (rh_scopes (derive_handler scope h))))"
    using Cons.prems redacted_attrs_hide by (cases scope) (auto simp: WithAttrs_def WithGroup_def)
  then show ?case by (simp add: Cons.IH)
qed simp

section \<open>Properties\<close>

text \<open>
  C21: A log line written through the handler, or through any handler derived from it, exposes no code and
  no setup key in its message or in a string of its attributes, at any depth; but an error among the
  attributes is written as it is.
\<close>
theorem log_line_redacted:
  "let h = fold derive_handler scopes (NewRedactingHandler level);
       lines' = snd (run_state (Handle h message (attrs @ [(''error'', AnyValue t)])) lines)
   in take (length lines) lines' = lines \<and> length lines' = length lines + 1 \<and>
      list_all hides_codes (line_texts (List.last lines')) \<and>
      List.last (sl_attrs (List.last lines')) = (''error'', AnyValue t)"
proof -
  have "\<not> isSensitiveKey ''error''" by code_simp
  moreover have "list_all hides_codes (concat (map scope_texts
      (rh_scopes (fold derive_handler scopes (NewRedactingHandler level)))))"
    by (rule derived_scopes) (simp add: NewRedactingHandler_def)
  ultimately show ?thesis
    using redacted_attrs_hide [of attrs] Redact_hides
    by (simp add: Handle_def Let_def line_texts_def State_Monad.update_def)
qed

end
