(* ===== verification/AppJsonSpec.thy ===== *)
theory AppJsonSpec
  imports AppJson RedactSpec
begin

text \<open>What the JSON of the window shows: every string of it, and its list of peers.\<close>

fun json_texts :: "json \<Rightarrow> string list" where
  "json_texts (JStr v) = [v]"
| "json_texts (JArr js) = concat (map json_texts js)"
| "json_texts (JObj ms) = concat (map (\<lambda>m. json_texts (snd m)) ms)"
| "json_texts _ = []"

fun json_member :: "string \<Rightarrow> json \<Rightarrow> json option" where
  "json_member k (JObj ms) = map_of ms k"
| "json_member k _ = None"

lemma state_text_hides: "hides_codes (ConnectionState_text x)"
  by (cases x; simp; code_simp)

lemma path_text_hides: "hides_codes (PathType_text x)"
  by (cases x; simp; code_simp)

lemma code_text_hides: "hides_codes (AppErrorCode_text x)"
  by (cases x; simp; code_simp)

lemmas fixed_texts_hide = state_text_hides path_text_hides code_text_hides

lemma member_texts: "concat (map (\<lambda>m. json_texts (snd m)) (nonempty_member k v)) = (if v = [] then [] else [v])"
  by (simp add: nonempty_member_def)

lemma error_texts_hide: "list_all hides_codes (json_texts (PublicError_json e))"
  by (auto simp: PublicError_json_def Let_def member_texts fixed_texts_hide Redact_hides split: option.splits)

lemma peer_texts_hide: "list_all hides_codes (json_texts (PeerSnapshot_json (clean_peer p)))"
  by (simp add: PeerSnapshot_json_def clean_peer_def fixed_texts_hide Redact_hides)

lemma peers_texts_hide: "list_all hides_codes (json_texts (json_copied_slice PeerSnapshot_json (map clean_peer ps)))"
  using peer_texts_hide by (auto simp: json_copied_slice_def list_all_iff)

text \<open>
  C28: The JSON of the window exposes no room code and no setup key in any of its strings but the two
  versions, which come from the registry and the daemon; and its list of peers is \<open>null\<close> exactly when
  there are no peers, although the window itself never holds a \<open>nil\<close> list.
\<close>
theorem window_json:
  "list_all hides_codes (json_texts (StateSnapshot_json
     (s\<lparr>st_Service := (st_Service s)\<lparr>sn_Version := [], sn_ExpectedVersion := []\<rparr>\<rparr>))) \<and>
   json_member ''peers'' (StateSnapshot_json s) = Some
     (if st_Peers s = [] then JNull else JArr (map (\<lambda>p. PeerSnapshot_json (clean_peer p)) (st_Peers s)))"
proof
  have "hides_codes []" by code_simp
  then show "list_all hides_codes (json_texts (StateSnapshot_json
     (s\<lparr>st_Service := (st_Service s)\<lparr>sn_Version := [], sn_ExpectedVersion := []\<rparr>\<rparr>)))"
    using error_texts_hide [of "st_Error s"] peers_texts_hide [of "st_Peers s"]
    by (simp add: StateSnapshot_json_def clean_state_def Let_def member_texts json_uint_def
        ServiceSnapshot_json_def fixed_texts_hide Redact_hides)
  show "json_member ''peers'' (StateSnapshot_json s) = Some
     (if st_Peers s = [] then JNull else JArr (map (\<lambda>p. PeerSnapshot_json (clean_peer p)) (st_Peers s)))"
    by (simp add: StateSnapshot_json_def clean_state_def Let_def nonempty_member_def json_copied_slice_def
        map_add_def comp_def)
qed

end
