(* ===== verification/Diagnostics.thy ===== *)
theory Diagnostics
  imports SecureStore Redact
begin

text \<open>
  The diagnostic bundle and the crash report (\<open>client/internal/diagnostics/bundle.go\<close>).  A report has the
  two values as \<open>json.Marshal\<close> renders them, or its error.  The bytes of a ZIP archive and the text of a
  time are parameters; the calls on files are those of \<open>Disk\<close>, and \<open>os.Rename\<close> is its \<open>replaceFile\<close>.
\<close>

section \<open>Reports and writers\<close>

definition maxReportBytes :: int where "maxReportBytes = 256 * 1024"
definition maxBundleBytes :: int where "maxBundleBytes = 2 * 1024 * 1024"

record Report =
  rep_Application :: "goerr + string"
  rep_NetBird :: "goerr + string"
  rep_Logs :: string

record Writer =
  wr_Directory :: string

definition NewWriter :: "filepath \<Rightarrow> string \<Rightarrow> goerr + Writer" where
  "NewWriter F directory =
     (if directory = [] then Inl (Message ''diagnostic directory is required'')
      else case filepath_Abs F directory of
        None \<Rightarrow> Inl (Message ''resolve diagnostic directory'')
      | Some absolute \<Rightarrow>
          Inr \<lparr>wr_Directory = filepath_Join F [path_dir absolute, path_name absolute]\<rparr>)"

definition boundedJSON :: "goerr + string \<Rightarrow> goerr + string" where
  "boundedJSON marshalled =
     (case marshalled of
        Inl e \<Rightarrow> Inl e
      | Inr payload \<Rightarrow>
          if int (length payload) > maxReportBytes then Inl (Message ''report exceeds size limit'')
          else Inr payload)"

section \<open>Archives\<close>

text \<open>\<open>byteReader\<close>: the bytes and how many of them were read; \<open>None\<close> is \<open>io.EOF\<close>.\<close>

record byteReader =
  br_value :: string
  br_index :: nat

definition byteReader_Read :: "nat \<Rightarrow> byteReader \<Rightarrow> string option \<times> byteReader" where
  "byteReader_Read limit r =
     (if br_index r \<ge> length (br_value r) then (None, r)
      else let chunk = take limit (drop (br_index r) (br_value r))
        in (Some chunk, r\<lparr>br_index := br_index r + length chunk\<rparr>))"

definition bytesReader :: "string \<Rightarrow> byteReader" where
  "bytesReader v = \<lparr>br_value = v, br_index = 0\<rparr>"

text \<open>\<open>io.Copy\<close> with a buffer of the given size.  A buffer of size 0 would never end.\<close>

partial_function (option) io_Copy :: "nat \<Rightarrow> byteReader \<Rightarrow> string option" where
  "io_Copy limit r =
     (case byteReader_Read limit r of
        (None, r') \<Rightarrow> Some []
      | (Some chunk, r') \<Rightarrow> Option.bind (io_Copy limit r') (\<lambda>rest. Some (chunk @ rest)))"

record zip_format =
  zip_header :: "string \<Rightarrow> string"
  zip_data :: "string \<Rightarrow> string"
  zip_directory :: "(string \<times> string) list \<Rightarrow> string"

definition content_of :: "path \<Rightarrow> disk \<Rightarrow> string" where
  "content_of p d = (case files d p of None \<Rightarrow> [] | Some c \<Rightarrow> c)"

definition file_Append :: "path \<Rightarrow> string \<Rightarrow> (disk, goerr + unit) state" where
  "file_Append p chunk =
     os_call (\<lambda>n d. write_file p (Some (content_of p d @ take n chunk)) d)
       (do { State_Monad.update (\<lambda>d. write_file p (Some (content_of p d @ chunk)) d); ok () })"

definition os_Stat_size :: "path \<Rightarrow> (disk, goerr + int) state" where
  "os_Stat_size p = os_call clean (do {
     d \<leftarrow> State_Monad.get;
     case files d p of None \<Rightarrow> err (not_exist ''stat: '') | Some content \<Rightarrow> ok (int (length content))
   })"

definition copy_buffer :: nat where "copy_buffer = 32 * 1024"

definition writeEntry :: "zip_format \<Rightarrow> path \<Rightarrow> string \<Rightarrow> string \<Rightarrow> (disk, goerr + unit) state" where
  "writeEntry Z p name payload =
     go_try (wrap_os (''create diagnostic entry '' @ name @ '': '') (file_Append p (zip_header Z name))) (\<lambda>_.
     case io_Copy copy_buffer (bytesReader payload) of
       None \<Rightarrow> err (Message ''no progress'')
     | Some copied \<Rightarrow>
         wrap_os (''write diagnostic entry '' @ name @ '': '') (file_Append p (zip_data Z copied)))"

definition readme_text :: string where
  "readme_text = ''This diagnostic bundle is local-only. No data was uploaded.'' @ [CHR 0x0A]"

definition bundle_entries :: "string \<Rightarrow> string \<Rightarrow> string \<Rightarrow> (string \<times> string) list" where
  "bundle_entries application netbird logs =
     [(''application.json'', application), (''netbird.json'', netbird), (''logs.txt'', logs),
      (''README.txt'', readme_text)]"

primrec write_entries :: "zip_format \<Rightarrow> path \<Rightarrow> (string \<times> string) list \<Rightarrow> (disk, goerr + unit) state" where
  "write_entries Z p [] = ok ()"
| "write_entries Z p (e # es) = go_try (writeEntry Z p (fst e) (snd e)) (\<lambda>_. write_entries Z p es)"

definition fill_bundle ::
  "zip_format \<Rightarrow> path \<Rightarrow> path \<Rightarrow> (string \<times> string) list \<Rightarrow> (disk, goerr + path) state" where
  "fill_bundle Z temporary target entries =
     go_try (write_entries Z temporary entries) (\<lambda>_.
     go_try (wrap_os ''close diagnostic bundle: '' (file_Append temporary (zip_directory Z entries))) (\<lambda>_.
     go_try (wrap_os ''flush diagnostic bundle: '' (file_Sync temporary)) (\<lambda>_.
     go_try (wrap_os ''close diagnostic bundle: '' (file_Close temporary)) (\<lambda>_.
     go_try (wrap_os ''stat diagnostic bundle: '' (os_Stat_size temporary)) (\<lambda>limit.
     if limit > maxBundleBytes then err (Message ''diagnostic bundle exceeds size limit'')
     else go_try (wrap_os ''publish diagnostic bundle: '' (replaceFile temporary target)) (\<lambda>_.
     ok target))))))"

definition publish_bundle ::
  "zip_format \<Rightarrow> Writer \<Rightarrow> string \<Rightarrow> (string \<times> string) list \<Rightarrow> (disk, goerr + path) state" where
  "publish_bundle Z w name entries =
     go_try (wrap_os ''create diagnostic bundle: '' (os_CreateTemp (wr_Directory w) ''.diagnostic-'')) (\<lambda>temporary. do {
       r \<leftarrow> fill_bundle Z temporary (Path (wr_Directory w) name) entries;
       deferred_cleanup temporary (case r of Inl _ \<Rightarrow> True | Inr _ \<Rightarrow> False);
       State_Monad.return r
     })"

section \<open>Write\<close>

text \<open>The checks before anything is written.\<close>

definition prepare_entries :: "Report \<Rightarrow> goerr + (string \<times> string) list" where
  "prepare_entries report =
     (case boundedJSON (rep_Application report) of
        Inl e \<Rightarrow> Inl (Wrapped ''encode application diagnostic: '' e [])
      | Inr application \<Rightarrow>
     (case boundedJSON (rep_NetBird report) of
        Inl e \<Rightarrow> Inl (Wrapped ''encode NetBird diagnostic: '' e [])
      | Inr netbird \<Rightarrow>
          if int (length (rep_Logs report)) > maxReportBytes
          then Inl (Message ''diagnostic logs exceed size limit'')
          else Inr (bundle_entries (Anonymize application) (Anonymize netbird) (Anonymize (rep_Logs report)))))"

text \<open>Where the disk is in the state of the program, and what the clock formats.\<close>

record 's diagnostic_env =
  de_disk :: "'s \<Rightarrow> disk"
  de_put_disk :: "disk \<Rightarrow> 's \<Rightarrow> 's"
  de_timestamp :: "('s, string) state"
  de_zip :: zip_format

definition de_on_disk :: "'s diagnostic_env \<Rightarrow> (disk, 'a) state \<Rightarrow> ('s, 'a) state" where
  "de_on_disk E = on_field (de_disk E) (de_put_disk E)"

definition Writer_Write ::
  "'s diagnostic_env \<Rightarrow> Writer \<Rightarrow> ('s, goerr + Report) state option \<Rightarrow> ('s, goerr + path) state" where
  "Writer_Write E w source =
     (case source of
        None \<Rightarrow> err (Message ''diagnostic source is required'')
      | Some collect \<Rightarrow>
          go_try collect (\<lambda>report.
          case prepare_entries report of
            Inl e \<Rightarrow> err e
          | Inr entries \<Rightarrow>
              go_try (de_on_disk E (wrap_os ''create diagnostic directory: '' (os_MkdirAll (wr_Directory w)))) (\<lambda>_. do {
                stamp \<leftarrow> de_timestamp E;
                de_on_disk E (publish_bundle (de_zip E) w (''diagnostic-'' @ stamp @ ''.zip'') entries)
              })))"

definition fill_crash :: "path \<Rightarrow> path \<Rightarrow> string \<Rightarrow> (disk, goerr + path) state" where
  "fill_crash temporary target payload =
     go_try (wrap_os ''write local crash report: '' (file_Write temporary (Anonymize payload))) (\<lambda>_.
     go_try (wrap_os ''flush local crash report: '' (file_Sync temporary)) (\<lambda>_.
     go_try (wrap_os ''close local crash report: '' (file_Close temporary)) (\<lambda>_.
     go_try (wrap_os ''publish local crash report: '' (replaceFile temporary target)) (\<lambda>_.
     ok target))))"

definition WriteLocalCrash :: "'s diagnostic_env \<Rightarrow> Writer \<Rightarrow> string \<Rightarrow> ('s, goerr + path) state" where
  "WriteLocalCrash E w payload =
     (if length payload = 0 then err (Message ''crash report is empty'')
      else if int (length payload) > maxReportBytes then err (Message ''crash report exceeds size limit'')
      else go_try (de_on_disk E (wrap_os ''create crash report directory: '' (os_MkdirAll (wr_Directory w)))) (\<lambda>_. do {
        stamp \<leftarrow> de_timestamp E;
        de_on_disk E (go_try (wrap_os ''create local crash report: ''
            (os_CreateTemp (wr_Directory w) ''.crash-'')) (\<lambda>temporary. do {
          r \<leftarrow> fill_crash temporary (Path (wr_Directory w) (''crash-'' @ stamp @ ''.log'')) payload;
          deferred_cleanup temporary (case r of Inl _ \<Rightarrow> True | Inr _ \<Rightarrow> False);
          State_Monad.return r
        }))
      }))"

end
