(* ===== verification/AnonymizeSpec.thy ===== *)
theory AnonymizeSpec
  imports RedactSpec
begin

text \<open>
  What anonymization keeps of redaction: its further replacements do not uncover a code again.  Four of the
  patterns lie between word boundaries; the host of a URL does not, but it is matched greedily, so no
  letter or digit follows it.
\<close>

section \<open>Patterns between word boundaries\<close>

lemma bounded_anonymous:
  "good_replacement ipv4Pattern (\<lambda>k. runes ''[IP]'')"
  "good_replacement ipv6Pattern (\<lambda>k. runes ''[IP]'')"
  "good_replacement peerIDPattern (\<lambda>k. runes ''[PEER_ID]'')"
  "good_replacement hostnamePattern (\<lambda>k. runes ''[HOST]'')"
proof -
  have octet: "consumes octet" by (simp add: octet_def any_of_def literal_def optional_def)
  have "good_replacement (seq (Boundary # [octet, exactly 3 (seq [literal ''.'', octet])] @ [Boundary])) (\<lambda>k. runes ''[IP]'')"
    by (rule bounded_good [OF _ marks(2) marks(6)]) (simp add: octet)
  then show "good_replacement ipv4Pattern (\<lambda>k. runes ''[IP]'')" by (simp add: ipv4Pattern_def)
  have "good_replacement (seq (Boundary # [at_least 2 (seq [up_to 4 (folded hex_lower), literal '':'']),
      at_least 2 (folded (\<lambda>c. hex_lower c \<or> c = CHR '':''))] @ [Boundary])) (\<lambda>k. runes ''[IP]'')"
    by (rule bounded_good [OF _ marks(2) marks(6)]) (simp add: at_least_def consumes_run folded_def literal_def any_of_def)
  then show "good_replacement ipv6Pattern (\<lambda>k. runes ''[IP]'')" by (simp add: ipv6Pattern_def)
  have "good_replacement (seq (Boundary # [exactly 64 (folded hex_lower)] @ [Boundary])) (\<lambda>k. runes ''[PEER_ID]'')"
    by (rule bounded_good [OF _ marks(3) marks(7)]) (simp add: consumes_run folded_def)
  then show "good_replacement peerIDPattern (\<lambda>k. runes ''[PEER_ID]'')" by (simp add: peerIDPattern_def)
  have "good_replacement (seq (Boundary # [folded alnum_lower,
      optional (seq [up_to 61 (folded (\<lambda>c. alnum_lower c \<or> c = CHR ''-'')), folded alnum_lower]),
      some_of (seq [literal ''.'', at_least 2 (folded is_lower)])] @ [Boundary])) (\<lambda>k. runes ''[HOST]'')"
    by (rule bounded_good [OF _ marks(4) marks(8)]) (simp add: folded_def)
  then show "good_replacement hostnamePattern (\<lambda>k. runes ''[HOST]'')" by (simp add: hostnamePattern_def)
qed

section \<open>The host of a URL\<close>

text \<open>The first match of a sequence, and of a greedy run that ends in a narrower class.\<close>

lemma hd_concat_map:
  "concat (map f xs) \<noteq> [] \<Longrightarrow> \<exists>a \<in> set xs. f a \<noteq> [] \<and> hd (concat (map f xs)) = hd (f a)"
proof (induction xs)
  case (Cons x xs)
  show ?case
  proof (cases "f x = []")
    case True
    with Cons obtain a where "a \<in> set xs" "f a \<noteq> []" "hd (concat (map f xs)) = hd (f a)" by auto
    with True show ?thesis by auto
  qed (intro bexI [of _ x], simp_all)
qed simp

lemma hd_concat_map_rev:
  "concat (map f (rev [0..<n])) \<noteq> [] \<Longrightarrow>
     \<exists>i<n. f i \<noteq> [] \<and> (\<forall>j. i < j \<and> j < n \<longrightarrow> f j = []) \<and> hd (concat (map f (rev [0..<n]))) = hd (f i)"
proof (induction n)
  case (Suc n)
  show ?case
  proof (cases "f n = []")
    case True
    with Suc obtain i where "i < n" "f i \<noteq> []" "\<forall>j. i < j \<and> j < n \<longrightarrow> f j = []"
      "hd (concat (map f (rev [0..<n]))) = hd (f i)" by auto
    with True show ?thesis by (intro exI [of _ i]) (auto simp: less_Suc_eq)
  qed (intro exI [of _ n], auto)
qed simp

lemma first_match_hd: "first_match r x = Some m \<longleftrightarrow> matches r x \<noteq> [] \<and> hd (matches r x) = m"
  by (cases "matches r x") (simp_all add: first_match_def)

lemma first_match_Then:
  assumes "first_match (Then a b) x = Some (k, z)"
  shows "\<exists>j y l. (j, y) \<in> set (matches a x) \<and> first_match b y = Some (l, z) \<and> k = j @ l"
proof -
  let ?f = "\<lambda>(k, y). map (\<lambda>(l, z). (k @ l, z)) (matches b y)"
  from assms have "concat (map ?f (matches a x)) \<noteq> []" "hd (concat (map ?f (matches a x))) = (k, z)"
    by (simp_all add: first_match_hd)
  with hd_concat_map [of ?f "matches a x"] obtain m where
    m: "m \<in> set (matches a x)" "?f m \<noteq> []" "hd (?f m) = (k, z)" by metis
  obtain j y where "m = (j, y)" by (cases m)
  with m obtain l rest where "(j, y) \<in> set (matches a x)" "matches b y = (l, z) # rest" "k = j @ l"
    by (cases "matches b y") (auto split: prod.splits)
  then have "(j, y) \<in> set (matches a x) \<and> first_match b y = Some (l, z) \<and> k = j @ l" by (simp add: first_match_def)
  then show ?thesis by blast
qed

lemma first_match_optional:
  "first_match (optional r) x = (if matches r x = [] then Some ([], x) else Some (hd (matches r x)))"
  by (cases "matches r x") (simp_all add: optional_def first_match_def)

lemma greedy_run_ends:
  assumes sub: "\<And>u. q u \<Longrightarrow> p u"
    and first: "first_match (optional (seq [Star True (Cls p), Cls q])) (c, rs) = Some (l, c', rest)"
  shows "\<not> (\<exists>u us. rest = u # us \<and> q u)"
proof -
  let ?m = "length (takeWhile p rs)"
  define g where "g i = (if i < length rs \<and> q (rs ! i) then [([] :: string list list, Some (rs ! i), drop (Suc i) rs)] else [])" for i
  have "matches (Cls q) (rune_before (take i rs) c, drop i rs) = g i" for i
    by (cases "i < length rs") (auto simp: g_def Cons_nth_drop_Suc [symmetric])
  then have run: "matches (seq [Star True (Cls p), Cls q]) (c, rs) = concat (map g (rev [0..<Suc ?m]))"
    by (simp add: matches_star_class runs_of_def comp_def del: matches.simps(2) matches.simps(8) upt_Suc)
  show ?thesis
  proof (cases "concat (map g (rev [0..<Suc ?m])) = []")
    case True
    then have "g 0 = []" by (simp del: upt_Suc)
    moreover have "rest = rs" using first True run unfolding first_match_optional by (simp only: if_True) simp
    ultimately show ?thesis by (auto simp: g_def split: if_splits)
  next
    case False
    from hd_concat_map_rev [OF False] obtain i where i: "i < Suc ?m" "g i \<noteq> []"
      "\<forall>j. i < j \<and> j < Suc ?m \<longrightarrow> g j = []" "hd (concat (map g (rev [0..<Suc ?m]))) = hd (g i)" by blast
    have "hd (g i) = (l, c', rest)"
      using first False run i(4) unfolding first_match_optional by (simp only: if_False option.inject)
    with i(2) have ri: "i < length rs" "q (rs ! i)" "rest = drop (Suc i) rs" by (auto simp: g_def split: if_splits)
    show ?thesis
    proof
      assume "\<exists>u us. rest = u # us \<and> q u"
      with ri(3) have nxt: "Suc i < length rs" "q (rs ! Suc i)"
        by (auto simp: drop_eq_Nil Cons_nth_drop_Suc [symmetric]) (metis drop_eq_Nil leI list.distinct(1), metis Cons_nth_drop_Suc drop_eq_Nil leI list.distinct(1) list.inject)
      have "i \<noteq> ?m" using sub [OF ri(2)] ri(1) nth_length_takeWhile [of p rs] by auto
      with i(1) have "Suc i < Suc ?m" by simp
      with i(3) have "g (Suc i) = []" by simp
      with nxt show False by (simp add: g_def)
    qed
  qed
qed

text \<open>How much a pattern without repetition can match.\<close>

fun width :: "re \<Rightarrow> nat option" where
  "width Eps = Some 0"
| "width (Cls p) = Some 1"
| "width Boundary = Some 0"
| "width TextStart = Some 0"
| "width TextEnd = Some 0"
| "width (Then a b) = (case (width a, width b) of (Some m, Some n) \<Rightarrow> Some (m + n) | _ \<Rightarrow> None)"
| "width (Or a b) = (case (width a, width b) of (Some m, Some n) \<Rightarrow> Some (max m n) | _ \<Rightarrow> None)"
| "width (Star greedy a) = None"
| "width (Capture a) = width a"

lemma spans_width: "width r = Some n \<Longrightarrow> spans r x y \<Longrightarrow> length (snd x) \<le> length (snd y) + n"
proof (induction r arbitrary: x y n)
  case (Then a b)
  then obtain l m z where "width a = Some l" "width b = Some m" "n = l + m" "spans a x z" "spans b z y"
    by (auto split: option.splits)
  with Then.IH(1) [of l x z] Then.IH(2) [of m z y] show ?case by simp
next
  case (Or a b)
  then obtain l m where "width a = Some l" "width b = Some m" "n = max l m" by (auto split: option.splits)
  with Or.prems(2) Or.IH(1) [of l x y] Or.IH(2) [of m x y] show ?case by auto
qed auto

definition url_scheme :: re where
  "url_scheme = seq [literal_fold ''http'', optional (literal_fold ''s''), literal ''://'']"

lemma url_scheme_match:
  assumes "spans url_scheme x y"
  obtains cap where "snd x = cap @ snd y" "fst y = rune_before cap (fst x)" "cap \<noteq> []"
    "List.last cap = ''/''" "length cap \<le> 10"
proof -
  have "moves x y" using assms by (rule spans_move)
  then obtain cap where cap: "snd x = cap @ snd y" "fst y = rune_before cap (fst x)" by (auto simp: moves_def)
  have "width url_scheme = Some 8"
    by (simp add: url_scheme_def literal_fold_def literal_def optional_def folded_def any_of_def)
  with spans_width assms have "length (snd x) \<le> length (snd y) + 8" by blast
  then have "length cap \<le> 10" using cap by simp
  moreover have "consumes url_scheme" by (simp add: url_scheme_def literal_fold_def folded_def)
  with consumes_less assms have "cap \<noteq> []" using cap by fastforce
  moreover have "fst y = Some ''/''"
    using assms by (auto simp: url_scheme_def literal_def any_of_def split: list.splits)
  with cap \<open>cap \<noteq> []\<close> have "List.last cap = ''/''" by (simp add: rune_before_last)
  ultimately show thesis using cap that by blast
qed

lemma hostURL_good: "good_replacement hostURLPattern (\<lambda>k. k ! 0 @ runes ''[HOST]'')"
  unfolding good_replacement_def
proof (intro allI impI)
  fix x k z
  define host where "host = seq [folded alnum_lower,
      optional (seq [Star True (folded (\<lambda>c. alnum_lower c \<or> c = CHR ''.'' \<or> c = CHR ''-'')), folded alnum_lower])]"
  assume first: "first_match hostURLPattern x = Some (k, z)"
  then have "first_match (Then (Capture url_scheme) host) x = Some (k, z)"
    by (simp add: hostURLPattern_def url_scheme_def host_def)
  from first_match_Then [OF this] obtain j y l where
    j: "(j, y) \<in> set (matches (Capture url_scheme) x)" and l: "first_match host y = Some (l, z)" and k: "k = j @ l"
    by blast
  then obtain i where i: "(i, y) \<in> set (matches url_scheme x)"
    "j = take (length (snd x) - length (snd y)) (snd x) # i" by auto
  from i(1) have "spans url_scheme x y" using matches_spans by blast
  then obtain cap where cap: "snd x = cap @ snd y" "cap \<noteq> []" "List.last cap = ''/''" "length cap \<le> 10"
    using url_scheme_match by metis
  then have k0: "k ! 0 = cap" using i(2) k by simp
  from l first_match_Then [of "folded alnum_lower" "optional (seq [Star True (folded (\<lambda>c. alnum_lower c \<or> c = CHR ''.'' \<or>
      c = CHR ''-'')), folded alnum_lower])" y l z] obtain m v n where
    m: "(m, v) \<in> set (matches (folded alnum_lower) y)" and
    n: "first_match (optional (seq [Star True (folded (\<lambda>c. alnum_lower c \<or> c = CHR ''.'' \<or> c = CHR ''-'')),
      folded alnum_lower])) v = Some (n, z)" by (auto simp: host_def)
  have sub: "fold_rune alnum_lower u \<Longrightarrow> fold_rune (\<lambda>c. alnum_lower c \<or> c = CHR ''.'' \<or> c = CHR ''-'') u" for u
    by (auto simp: fold_rune_def split: list.splits)
  have ends: "\<not> (\<exists>u us. snd z = u # us \<and> fold_rune alnum_lower u)"
    by (rule greedy_run_ends [OF sub, where c = "fst v" and rs = "snd v" and l = n and c' = "fst z"])
       (use n in \<open>simp_all add: folded_def\<close>)
  have "\<not> secret_start (snd z)"
  proof
    assume "secret_start (snd z)"
    then obtain d us where "snd z = [d] # us" "letter_or_digit d" by (auto simp: secret_start_def)
    moreover from this(2) have "fold_rune alnum_lower [d]"
      by (auto simp: fold_rune_def alnum_lower_def letter_or_digit_def ascii_lower_def ascii_upper_def
          char_class_defs byte_def)
    ultimately show False using ends by blast
  qed
  moreover have "length (snd z) < length (snd x)"
  proof -
    have "length (snd v) < length (snd y)" using m by (auto simp: folded_def in_cls simp del: matches.simps)
    moreover have "moves v z" using n first_match_spans spans_move by blast
    then have "length (snd z) \<le> length (snd v)" using moves_length by fastforce
    ultimately show ?thesis using cap(1) by simp
  qed
  ultimately show "good_piece x z (k ! 0 @ runes ''[HOST]'')"
    unfolding good_piece_def k0 marks(8) using cap marks(4) by auto
qed

lemma Anonymize_hides: "hides_codes (Anonymize v)"
  unfolding Anonymize_def Let_def
  by (intro good_hides bounded_anonymous hostURL_good Redact_hides)

section \<open>Properties\<close>

text \<open>
  C7: Whatever text is redacted or anonymized, no room code (\<open>XXXX-XXXX-XXXX\<close>) and no setup key (a UUID) is
  left in the result with no letter, digit or underscore next to it: replacing the one kind does not
  uncover one of the other, and neither do the replacements of addresses and host names.
\<close>
theorem redaction_hides_codes:
  "\<not> exposes room_code_form (Redact v) \<and> \<not> exposes setup_key_form (Redact v) \<and>
   \<not> exposes room_code_form (Anonymize v) \<and> \<not> exposes setup_key_form (Anonymize v)"
  using Redact_hides Anonymize_hides by (simp add: hides_codes_def)

text \<open>
  What redaction leaves: the token of an \<open>Authorization\<close> header, because the name and the word
  \<open>Bearer\<close> are replaced and the token is not; a token behind a quoted name, as in JSON; a room code at the
  start of a line of a JSON string, because the escape for the line break ends in a letter; and an IPv6
  address whose last group is a single digit.
\<close>
theorem redaction_leaves:
  "Redact ''Authorization: Bearer super-secret-token'' = ''Authorization=[REDACTED] super-secret-token'' \<and>
   Redact (render (JObj [(''admin_token'', JStr ''hunter2'')])) = render (JObj [(''admin_token'', JStr ''hunter2'')]) \<and>
   Redact (render (JStr (CHR 0x0A # ''7X4K-329B-YY95''))) = render (JStr (CHR 0x0A # ''7X4K-329B-YY95'')) \<and>
   Anonymize ''fd00::1'' = ''fd00::1''"
  by (intro conjI; code_simp)

end
