(* ===== verification/DiagnosticsSpec.thy ===== *)
theory DiagnosticsSpec
  imports Diagnostics AnonymizeSpec SecureStoreSpec
begin

text \<open>
  What the diagnostics promise: a bundle or a crash report is complete or absent, whatever fails, and no
  room code or setup key is exposed in what it holds.
\<close>

section \<open>Copying\<close>

lemma io_Copy_all:
  assumes "0 < n"
  shows "io_Copy n \<lparr>br_value = v, br_index = i\<rparr> = Some (drop i v)"
proof (induction "length v - i" arbitrary: i rule: less_induct)
  case less
  show ?case
  proof (cases "i \<ge> length v")
    case True
    then show ?thesis by (subst io_Copy.simps) (simp add: byteReader_Read_def)
  next
    case False
    define k where "k = length (take n (drop i v))"
    have k: "0 < k" "k \<le> length v - i" using assms False by (auto simp: k_def)
    then have "io_Copy n \<lparr>br_value = v, br_index = i + k\<rparr> = Some (drop (i + k) v)"
      using False by (intro less.hyps) linarith
    moreover have "take n (drop i v) @ drop (i + k) v = drop i v"
    proof (cases "n \<le> length v - i")
      case True
      then have "k = n" by (simp add: k_def)
      then show ?thesis by (metis append_take_drop_id drop_drop add.commute)
    qed (simp add: k_def)
    ultimately show ?thesis
      using False by (subst io_Copy.simps) (simp add: byteReader_Read_def Let_def k_def)
  qed
qed

text \<open>
  C40: Copying an entry into the archive ends, whatever its length and whatever the size of the copy buffer, and
  what was copied is the whole entry: \<open>byteReader\<close> makes progress with every read and answers the end of the
  file behind the last byte, also for an empty entry.
\<close>
theorem copy_terminates:
  "io_Copy (Suc buffer) (bytesReader payload) = Some payload"
  by (simp add: bytesReader_def io_Copy_all)

section \<open>Effects on the files\<close>

lemma wp_file_Append:
  "(\<And>e n d'. files d' = (files d)(p := Some (content_of p d @ take n chunk)) \<Longrightarrow> Q (Inl e) d') \<Longrightarrow>
   (\<And>d'. files d' = (files d)(p := Some (content_of p d @ chunk)) \<Longrightarrow> Q (Inr ()) d') \<Longrightarrow>
   wp (file_Append p chunk) Q d"
  unfolding file_Append_def by (rule wp_os_call) (auto simp: wp_simps content_of_def)

lemma wp_os_Stat_size:
  "(\<And>e d'. files d' = files d \<Longrightarrow> Q (Inl e) d') \<Longrightarrow>
   (\<And>d'. files d' = files d \<Longrightarrow> files d p = Some c \<Longrightarrow> Q (Inr (int (length c))) d') \<Longrightarrow>
   files d p = Some c \<Longrightarrow> wp (os_Stat_size p) Q d"
  unfolding os_Stat_size_def by (rule wp_os_call) (auto simp: wp_simps)

text \<open>The file \<open>p\<close> may have changed, and has the given content if the step succeeded.\<close>

definition grown :: "path \<Rightarrow> disk \<Rightarrow> string \<Rightarrow> goerr + 'a \<Rightarrow> disk \<Rightarrow> bool" where
  "grown p d content r d' \<longleftrightarrow> (\<forall>q. q \<noteq> p \<longrightarrow> files d' q = files d q) \<and>
     (case r of Inl _ \<Rightarrow> True | Inr _ \<Rightarrow> files d' p = Some content)"

definition entry_bytes :: "zip_format \<Rightarrow> string \<times> string \<Rightarrow> string" where
  "entry_bytes Z e = zip_header Z (fst e) @ zip_data Z (snd e)"

definition archive :: "zip_format \<Rightarrow> (string \<times> string) list \<Rightarrow> string" where
  "archive Z es = concat (map (entry_bytes Z) es) @ zip_directory Z es"

lemma writeEntry_effect:
  assumes "files d p = Some c"
  shows "wp (writeEntry Z p name payload) (grown p d (c @ entry_bytes Z (name, payload))) d"
proof -
  have copy: "io_Copy copy_buffer (bytesReader payload) = Some payload"
    by (simp add: bytesReader_def io_Copy_all copy_buffer_def)
  show ?thesis
    using assms unfolding writeEntry_def copy
    by (auto simp: wp_simps grown_def content_of_def entry_bytes_def intro!: wp_file_Append split: sum.splits)
qed

lemma write_entries_effect:
  "files d p = Some c \<Longrightarrow> wp (write_entries Z p es) (grown p d (c @ concat (map (entry_bytes Z) es))) d"
proof (induction es arbitrary: c d)
  case Nil
  then show ?case by (simp add: wp_simps grown_def)
next
  case (Cons e es)
  show ?case
    unfolding write_entries.simps wp_go_try
  proof (rule wp_mono [OF writeEntry_effect [OF Cons.prems, where name = "fst e" and payload = "snd e"]])
    fix r :: "goerr + unit" and d1
    assume g: "grown p d (c @ entry_bytes Z (fst e, snd e)) r d1"
    show "case r of Inl x \<Rightarrow> grown p d (c @ concat (map (entry_bytes Z) (e # es))) (Inl x) d1
        | Inr _ \<Rightarrow> wp (write_entries Z p es) (grown p d (c @ concat (map (entry_bytes Z) (e # es)))) d1"
    proof (cases r)
      case (Inr u)
      with g have "files d1 p = Some (c @ entry_bytes Z e)" "\<forall>q. q \<noteq> p \<longrightarrow> files d1 q = files d q"
        by (auto simp: grown_def)
      then show ?thesis
        using Inr by (auto intro!: wp_mono [OF Cons.IH] simp: grown_def)
    qed (use g in \<open>simp add: grown_def\<close>)
  qed
qed

text \<open>The end of both writers: nothing but the target and the temporary file changed.\<close>

definition published :: "path \<Rightarrow> path \<Rightarrow> disk \<Rightarrow> string \<Rightarrow> goerr + path \<Rightarrow> disk \<Rightarrow> bool" where
  "published temporary target d content r d' \<longleftrightarrow>
     (\<forall>q. q \<noteq> temporary \<longrightarrow> q \<noteq> target \<longrightarrow> files d' q = files d q) \<and>
     (case r of Inl _ \<Rightarrow> files d' target = files d target
      | Inr p \<Rightarrow> p = target \<and> files d' target = Some content \<and> files d' temporary = None)"

lemma fill_bundle_effect:
  assumes "files d temporary = Some []" and "temporary \<noteq> target"
  shows "wp (fill_bundle Z temporary target es)
    (\<lambda>r d'. published temporary target d (archive Z es) r d' \<and>
       (case r of Inl _ \<Rightarrow> True | Inr _ \<Rightarrow> int (length (archive Z es)) \<le> maxBundleBytes)) d"
  unfolding fill_bundle_def wp_go_try
proof (rule wp_mono [OF write_entries_effect [OF assms(1)]])
  fix r :: "goerr + unit" and d1
  assume g: "grown temporary d ([] @ concat (map (entry_bytes Z) es)) r d1"
  let ?Q = "\<lambda>r d'. published temporary target d (archive Z es) r d' \<and>
       (case r of Inl _ \<Rightarrow> True | Inr _ \<Rightarrow> int (length (archive Z es)) \<le> maxBundleBytes)"
  show "case r of Inl e \<Rightarrow> ?Q (Inl e) d1
    | Inr _ \<Rightarrow> wp (wrap_os ''close diagnostic bundle: '' (file_Append temporary (zip_directory Z es)))
        (\<lambda>r t. case r of Inl e \<Rightarrow> ?Q (Inl e) t
          | Inr _ \<Rightarrow> wp (wrap_os ''flush diagnostic bundle: '' (file_Sync temporary))
        (\<lambda>r t. case r of Inl e \<Rightarrow> ?Q (Inl e) t
          | Inr _ \<Rightarrow> wp (wrap_os ''close diagnostic bundle: '' (file_Close temporary))
        (\<lambda>r t. case r of Inl e \<Rightarrow> ?Q (Inl e) t
          | Inr _ \<Rightarrow> wp (wrap_os ''stat diagnostic bundle: '' (os_Stat_size temporary))
        (\<lambda>r t. case r of Inl e \<Rightarrow> ?Q (Inl e) t
          | Inr n \<Rightarrow> wp (if n > maxBundleBytes then err (Message ''diagnostic bundle exceeds size limit'')
              else go_try (wrap_os ''publish diagnostic bundle: '' (replaceFile temporary target)) (\<lambda>_. ok target)) ?Q t)
          t) t) t) d1"
  proof (cases r)
    case (Inl e)
    with g assms show ?thesis by (auto simp: grown_def published_def)
  next
    case (Inr u)
    with g have c: "files d1 temporary = Some (concat (map (entry_bytes Z) es))"
      and same: "\<forall>q. q \<noteq> temporary \<longrightarrow> files d1 q = files d q" by (simp_all add: grown_def)
    show ?thesis
      using Inr assms c same
      by (auto simp: wp_simps published_def archive_def content_of_def
          intro!: wp_file_Append wp_os wp_os_Stat_size [where c = "archive Z es"] split: sum.splits)
  qed
qed

lemma fill_crash_effect:
  assumes "temporary \<noteq> target"
  shows "wp (fill_crash temporary target payload) (published temporary target d (Anonymize payload)) d"
  unfolding fill_crash_def
  using assms by (auto simp: wp_simps published_def intro!: wp_os split: sum.splits)

text \<open>A temporary file is made, filled and cleaned up.\<close>

definition written :: "string \<Rightarrow> path \<Rightarrow> disk \<Rightarrow> string \<Rightarrow> goerr + path \<Rightarrow> disk \<Rightarrow> bool" where
  "written pre target d content r d' \<longleftrightarrow>
     {q. files d' q \<noteq> files d q} \<subseteq> insert target {q. temp_path pre target q} \<and>
     (case r of Inl _ \<Rightarrow> files d' target = files d target
      | Inr p \<Rightarrow> p = target \<and> files d' target = Some content \<and>
          {q. files d' q \<noteq> files d q} \<subseteq> {target})"

lemma unwritten: "files d' = files d \<Longrightarrow> written pre target d content (Inl e) d'"
  by (simp add: written_def)

lemma written_same: "written pre target d content r d' \<Longrightarrow> files d = files d0 \<Longrightarrow> written pre target d0 content r d'"
  by (cases r) (simp_all add: written_def)

lemma publish_effect:
  assumes target: "\<not> temp_path pre target target" and directory: "path_dir target = directory"
    and fill: "\<And>temporary d. files d temporary = Some [] \<Longrightarrow> temporary \<noteq> target \<Longrightarrow>
      wp (fill temporary) (\<lambda>r d'. published temporary target d content r d' \<and> (case r of Inl _ \<Rightarrow> True | Inr _ \<Rightarrow> P)) d"
  shows "wp (go_try (wrap_os what (os_CreateTemp directory pre)) (\<lambda>temporary. do {
       r \<leftarrow> fill temporary;
       deferred_cleanup temporary (case r of Inl _ \<Rightarrow> True | Inr _ \<Rightarrow> False);
       State_Monad.return r
     })) (\<lambda>r d'. written pre target d content r d' \<and> (case r of Inl _ \<Rightarrow> True | Inr _ \<Rightarrow> P)) d"
proof -
  let ?good = "\<lambda>r d'. written pre target d content r d' \<and> (case r of Inl _ \<Rightarrow> True | Inr _ \<Rightarrow> P)"
  have rest: "wp (State_Monad.bind (fill temporary) (\<lambda>r.
      State_Monad.bind (deferred_cleanup temporary (case r of Inl _ \<Rightarrow> True | Inr _ \<Rightarrow> False)) (\<lambda>_.
      State_Monad.return r))) ?good d1"
    if t: "temp_path pre target temporary" and d1: "files d1 = (files d)(temporary := Some [])"
      and free: "files d temporary = None" for temporary d1
  proof -
    have ne: "temporary \<noteq> target" using target t by auto
    have "wp (fill temporary) (\<lambda>r. wp (deferred_cleanup temporary (case r of Inl _ \<Rightarrow> True | Inr _ \<Rightarrow> False))
        (\<lambda>_. ?good r)) d1"
    proof (rule wp_mono [OF fill])
      show "files d1 temporary = Some []" using d1 by simp
      fix r :: "goerr + path" and d2 :: disk
      assume r: "published temporary target d1 content r d2 \<and> (case r of Inl _ \<Rightarrow> True | Inr _ \<Rightarrow> P)"
      show "wp (deferred_cleanup temporary (case r of Inl _ \<Rightarrow> True | Inr _ \<Rightarrow> False)) (\<lambda>_. ?good r) d2"
      proof (rule wp_mono [OF deferred_cleanup_effect])
        fix u :: unit and d3 :: disk
        assume clean: "\<forall>q. q \<noteq> temporary \<or> \<not> (case r of Inl _ \<Rightarrow> True | Inr _ \<Rightarrow> False) \<longrightarrow> files d3 q = files d2 q"
        have other: "files d3 q = files d q" if "q \<noteq> temporary" "q \<noteq> target" for q
          using clean r that d1 by (auto simp: published_def)
        have at: "files d3 target = files d2 target" using clean ne by auto
        show "?good r d3"
        proof (cases r)
          case (Inl e)
          with r at ne d1 have "files d3 target = files d target" by (simp add: published_def)
          moreover have "q = temporary \<or> q = target" if "files d3 q \<noteq> files d q" for q using other that by blast
          ultimately show ?thesis using Inl t by (auto simp: written_def)
        next
          case (Inr p)
          then have "files d3 temporary = None" using clean r by (simp add: published_def)
          with other free have "files d3 q = files d q" if "q \<noteq> target" for q
            using that by (cases "q = temporary") auto
          with Inr r at show ?thesis by (auto simp: written_def published_def)
        qed
      qed
    qed (rule ne)
    then show ?thesis by (simp add: wp_simps)
  qed
  have dir: "temp_path pre target (Path directory (temp_name pre n))" for n
    using directory by (auto simp: temp_path_def)
  show ?thesis
    by (auto simp: wp_go_try wp_wrap_os intro!: wp_os_CreateTemp rest dir unwritten split: sum.splits)
qed

section \<open>Properties\<close>

text \<open>The diagnostics on a disk of their own, with a clock that is given.\<close>

definition on_this_disk :: "zip_format \<Rightarrow> string \<Rightarrow> disk diagnostic_env" where
  "on_this_disk Z stamp =
     \<lparr>de_disk = (\<lambda>d. d), de_put_disk = (\<lambda>d _. d), de_timestamp = State_Monad.return stamp, de_zip = Z\<rparr>"

lemma wp_de_on_disk [wp_simps]: "wp (de_on_disk (on_this_disk Z stamp) m) Q d = wp m Q d"
  by (simp add: de_on_disk_def on_this_disk_def wp_on_field)

lemma on_this_disk_env:
  "de_timestamp (on_this_disk Z stamp) = State_Monad.return stamp" "de_zip (on_this_disk Z stamp) = Z"
  by (simp_all add: on_this_disk_def)

lemma name_not_temporary:
  "\<not> temp_path ''.diagnostic-'' (Path directory (''diagnostic-'' @ n)) (Path directory (''diagnostic-'' @ n))"
  "\<not> temp_path ''.crash-'' (Path directory (''crash-'' @ n)) (Path directory (''crash-'' @ n))"
  by (simp_all add: temp_path_def temp_name_def)

lemma readme_hides: "hides_codes readme_text"
  by code_simp

lemma entries_hide: "prepare_entries report = Inr es \<Longrightarrow> list_all (\<lambda>e. hides_codes (snd e)) es"
  by (auto simp: prepare_entries_def bundle_entries_def Anonymize_hides readme_hides split: sum.splits if_splits)

lemma publish_bundle_effect:
  "wp (publish_bundle Z w (''diagnostic-'' @ n) es)
     (\<lambda>r d'. written ''.diagnostic-'' (Path (wr_Directory w) (''diagnostic-'' @ n)) d (archive Z es) r d' \<and>
        (case r of Inl _ \<Rightarrow> True | Inr _ \<Rightarrow> int (length (archive Z es)) \<le> maxBundleBytes)) d"
  unfolding publish_bundle_def
  by (rule publish_effect [OF name_not_temporary(1)]) (simp, rule fill_bundle_effect)

text \<open>
  C20: A diagnostic bundle is complete or absent, whatever fails: on success the file holds the whole archive
  of the anonymized entries, is at most 2 MB and the only file that changed; on an error the bundle of that
  name is what it was, and only temporary files may be left beside it.  No entry exposes a room code or a
  setup key.
\<close>
theorem bundle_complete_or_absent:
  "wp (Writer_Write (on_this_disk Z stamp) w (Some (State_Monad.return (Inr report))))
     (\<lambda>r d'. case prepare_entries report of
        Inl e \<Rightarrow> r = Inl e \<and> d' = d
      | Inr es \<Rightarrow> list_all (\<lambda>e. hides_codes (snd e)) es \<and>
          written ''.diagnostic-'' (Path (wr_Directory w) (''diagnostic-'' @ stamp @ ''.zip'')) d (archive Z es) r d' \<and>
          (case r of Inl _ \<Rightarrow> True | Inr _ \<Rightarrow> int (length (archive Z es)) \<le> maxBundleBytes)) d"
proof (cases "prepare_entries report")
  case (Inr es)
  define name where "name = ''diagnostic-'' @ stamp @ ''.zip''"
  let ?target = "Path (wr_Directory w) name"
  let ?Q = "\<lambda>r d'. written ''.diagnostic-'' ?target d (archive Z es) r d' \<and>
      (case r of Inl _ \<Rightarrow> True | Inr _ \<Rightarrow> int (length (archive Z es)) \<le> maxBundleBytes)"
  note hide = entries_hide [OF Inr]
  have publish: "wp (publish_bundle Z w name es) ?Q d1" if "files d1 = files d" for d1
    unfolding name_def
    by (rule wp_mono [OF publish_bundle_effect]) (use that written_same in blast)
  have "wp (wrap_os ''create diagnostic directory: '' (os_MkdirAll (wr_Directory w)))
      (\<lambda>r t. case r of Inl e \<Rightarrow> ?Q (Inl e) t
         | Inr _ \<Rightarrow> wp (publish_bundle Z w name es) ?Q t) d"
    unfolding wp_wrap_os
    by (rule wp_os_MkdirAll) (auto simp: unwritten intro: publish split: sum.split)
  with hide show ?thesis
    using Inr unfolding name_def by (simp add: Writer_Write_def wp_simps on_this_disk_env cong: sum.case_cong)
qed (simp add: Writer_Write_def wp_simps)

text \<open>
  A crash report is complete or absent, whatever fails, and exposes no room code and no setup key; one
  that is empty or too long is refused before anything is written.
\<close>
theorem crash_report_complete_or_absent:
  "wp (WriteLocalCrash (on_this_disk Z stamp) w payload)
     (\<lambda>r d'. if payload = [] \<or> int (length payload) > maxReportBytes then isl r \<and> d' = d
        else hides_codes (Anonymize payload) \<and>
          written ''.crash-'' (Path (wr_Directory w) (''crash-'' @ stamp @ ''.log'')) d (Anonymize payload) r d') d"
proof -
  consider "payload = [] \<or> int (length payload) > maxReportBytes"
    | "payload \<noteq> []" "\<not> int (length payload) > maxReportBytes" by blast
  then show ?thesis
  proof cases
    case 2
    define name where "name = ''crash-'' @ stamp @ ''.log''"
    let ?target = "Path (wr_Directory w) name"
    let ?publish = "go_try (wrap_os ''create local crash report: '' (os_CreateTemp (wr_Directory w) ''.crash-'')) (\<lambda>temporary. do {
        r \<leftarrow> fill_crash temporary ?target payload;
        deferred_cleanup temporary (case r of Inl _ \<Rightarrow> True | Inr _ \<Rightarrow> False);
        State_Monad.return r
      })"
    let ?Q = "\<lambda>r d'. written ''.crash-'' ?target d (Anonymize payload) r d'"
    have effect: "wp ?publish (\<lambda>r d'. written ''.crash-'' ?target d1 (Anonymize payload) r d' \<and>
        (case r of Inl _ \<Rightarrow> True | Inr _ \<Rightarrow> True)) d1" for d1
      unfolding name_def
      by (rule publish_effect [OF name_not_temporary(2)])
         (simp, rule wp_mono [OF fill_crash_effect], auto split: sum.split)
    have publish: "wp ?publish ?Q d1" if "files d1 = files d" for d1
      by (rule wp_mono [OF effect]) (use that written_same in blast)
    have "wp (wrap_os ''create crash report directory: '' (os_MkdirAll (wr_Directory w)))
        (\<lambda>r t. case r of Inl e \<Rightarrow> ?Q (Inl e) t | Inr _ \<Rightarrow> wp ?publish ?Q t) d"
      unfolding wp_wrap_os
      by (rule wp_os_MkdirAll) (auto simp: unwritten intro: publish split: sum.split)
    with 2 show ?thesis
      unfolding name_def by (simp add: WriteLocalCrash_def wp_simps on_this_disk_env Anonymize_hides cong: sum.case_cong)
  qed (auto simp: WriteLocalCrash_def wp_simps)
qed

end
