(* ===== verification/BuildRelease.thy ===== *)
theory BuildRelease
  imports Json GoError
begin

text \<open>
  The NetBird release the client is built for (\<open>client/build/metadata.go\<close>) and the file
  \<open>netbird-release.json\<close> that is embedded in the program, line by line.
\<close>

record Publisher =
  pub_SubjectCommonName :: string
  pub_Organization :: string
  pub_CertificateThumbprintAtRelease :: string

record InstallProperties =
  ip_ProductCode :: string
  ip_Executable :: string
  ip_Arguments :: "string list"

record WindowsArtifact =
  wa_Artifact :: string
  wa_URL :: string
  wa_Size :: int
  wa_SHA256 :: string
  wa_Publisher :: Publisher
  wa_Install :: InstallProperties

record ReleaseMetadata =
  rm_SchemaVersion :: int
  rm_Version :: string
  rm_ServerImage :: string
  rm_PackagingMode :: string
  rm_WindowsX64 :: WindowsArtifact

definition no_publisher :: Publisher where
  "no_publisher = \<lparr>pub_SubjectCommonName = [], pub_Organization = [], pub_CertificateThumbprintAtRelease = []\<rparr>"
definition no_install :: InstallProperties where
  "no_install = \<lparr>ip_ProductCode = [], ip_Executable = [], ip_Arguments = []\<rparr>"
definition no_artifact :: WindowsArtifact where
  "no_artifact = \<lparr>wa_Artifact = [], wa_URL = [], wa_Size = 0, wa_SHA256 = [], wa_Publisher = no_publisher,
     wa_Install = no_install\<rparr>"
definition no_release :: ReleaseMetadata where
  "no_release = \<lparr>rm_SchemaVersion = 0, rm_Version = [], rm_ServerImage = [], rm_PackagingMode = [],
     rm_WindowsX64 = no_artifact\<rparr>"

definition decode_publisher :: "json \<Rightarrow> Publisher \<Rightarrow> Publisher option" where
  "decode_publisher = decode_struct (\<lambda>k v r.
     if EqualFold k ''subjectCommonName''
       then map_option (\<lambda>x. r\<lparr>pub_SubjectCommonName := x\<rparr>) (decode_string v (pub_SubjectCommonName r))
     else if EqualFold k ''organization''
       then map_option (\<lambda>x. r\<lparr>pub_Organization := x\<rparr>) (decode_string v (pub_Organization r))
     else if EqualFold k ''certificateThumbprintAtRelease''
       then map_option (\<lambda>x. r\<lparr>pub_CertificateThumbprintAtRelease := x\<rparr>)
         (decode_string v (pub_CertificateThumbprintAtRelease r))
     else Some r)"

definition decode_install :: "json \<Rightarrow> InstallProperties \<Rightarrow> InstallProperties option" where
  "decode_install = decode_struct (\<lambda>k v r.
     if EqualFold k ''productCode'' then map_option (\<lambda>x. r\<lparr>ip_ProductCode := x\<rparr>) (decode_string v (ip_ProductCode r))
     else if EqualFold k ''executable'' then map_option (\<lambda>x. r\<lparr>ip_Executable := x\<rparr>) (decode_string v (ip_Executable r))
     else if EqualFold k ''arguments''
       then map_option (\<lambda>x. r\<lparr>ip_Arguments := x\<rparr>) (decode_list (\<lambda>j. decode_string j []) v (ip_Arguments r))
     else Some r)"

definition decode_artifact :: "json \<Rightarrow> WindowsArtifact \<Rightarrow> WindowsArtifact option" where
  "decode_artifact = decode_struct (\<lambda>k v r.
     if EqualFold k ''artifact'' then map_option (\<lambda>x. r\<lparr>wa_Artifact := x\<rparr>) (decode_string v (wa_Artifact r))
     else if EqualFold k ''url'' then map_option (\<lambda>x. r\<lparr>wa_URL := x\<rparr>) (decode_string v (wa_URL r))
     else if EqualFold k ''size'' then map_option (\<lambda>x. r\<lparr>wa_Size := x\<rparr>) (decode_int v (wa_Size r))
     else if EqualFold k ''sha256'' then map_option (\<lambda>x. r\<lparr>wa_SHA256 := x\<rparr>) (decode_string v (wa_SHA256 r))
     else if EqualFold k ''publisher''
       then map_option (\<lambda>x. r\<lparr>wa_Publisher := x\<rparr>) (decode_publisher v (wa_Publisher r))
     else if EqualFold k ''install'' then map_option (\<lambda>x. r\<lparr>wa_Install := x\<rparr>) (decode_install v (wa_Install r))
     else Some r)"

definition decode_release :: "json \<Rightarrow> ReleaseMetadata option" where
  "decode_release j = decode_struct (\<lambda>k v r.
     if EqualFold k ''schemaVersion''
       then map_option (\<lambda>x. r\<lparr>rm_SchemaVersion := x\<rparr>) (decode_int v (rm_SchemaVersion r))
     else if EqualFold k ''version'' then map_option (\<lambda>x. r\<lparr>rm_Version := x\<rparr>) (decode_string v (rm_Version r))
     else if EqualFold k ''serverImage''
       then map_option (\<lambda>x. r\<lparr>rm_ServerImage := x\<rparr>) (decode_string v (rm_ServerImage r))
     else if EqualFold k ''packagingMode''
       then map_option (\<lambda>x. r\<lparr>rm_PackagingMode := x\<rparr>) (decode_string v (rm_PackagingMode r))
     else if EqualFold k ''windowsX64''
       then map_option (\<lambda>x. r\<lparr>rm_WindowsX64 := x\<rparr>) (decode_artifact v (rm_WindowsX64 r))
     else Some r) j no_release"

definition netbird_release_json :: string where
  "netbird_release_json = concat (map (\<lambda>line. line @ [CHR 0x0A])
     [''{'',
      ''  \"schemaVersion\": 1,'',
      ''  \"version\": \"0.74.7\",'',
      ''  \"serverImage\": \"netbirdio/netbird-server:0.74.7\",'',
      ''  \"packagingMode\": \"official-msi-prerequisite\",'',
      ''  \"windowsX64\": {'',
      ''    \"artifact\": \"netbird_installer_0.74.7_windows_amd64.msi\",'',
      ''    \"url\": \"https://github.com/netbirdio/netbird/releases/download/v0.74.7/netbird_installer_0.74.7_windows_amd64.msi\",'',
      ''    \"size\": 37974016,'',
      ''    \"sha256\": \"1be9ce80767a728a8682bc3c114256b224b8d6657400ac031e458a05b5e5942d\",'',
      ''    \"publisher\": {'',
      ''      \"subjectCommonName\": \"NetBird GmbH\",'',
      ''      \"organization\": \"NetBird GmbH\",'',
      ''      \"certificateThumbprintAtRelease\": \"7B41FCCAFCB794720FE07D381F9CBDF18AB5900F\"'',
      ''    },'',
      ''    \"install\": {'',
      ''      \"productCode\": \"{D656CD63-C692-4494-ABAB-31A779E04E08}\",'',
      ''      \"executable\": \"msiexec.exe\",'',
      ''      \"arguments\": [\"/i\", \"{artifact}\", \"/quiet\", \"/qn\", \"/norestart\", \"/l*v\", \"{log}\", \"AUTOSTART=0\"]'',
      ''    }'',
      ''  }'',
      ''}''])"

text \<open>The file is part of the program, so that reading it does not fail.\<close>

definition load_release :: "string \<Rightarrow> goerr + ReleaseMetadata" where
  "load_release payload =
     (case Option.bind (parse_json payload) decode_release of
        None \<Rightarrow> Inl (Wrapped ''parse embedded NetBird release metadata: '' (Message ''invalid JSON'') [])
      | Some metadata \<Rightarrow>
          if rm_SchemaVersion metadata \<noteq> 1 \<or> rm_Version metadata = [] \<or> wa_SHA256 (rm_WindowsX64 metadata) = []
          then Inl (Message ''invalid embedded NetBird release metadata'') else Inr metadata)"

definition release_Load :: "goerr + ReleaseMetadata" where
  "release_Load = load_release netbird_release_json"

end
