(* ===== verification/WinArgs.thy ===== *)
theory WinArgs
  imports Json
begin

text \<open>
  Command lines as Go writes and reads them on Windows: \<open>syscall.EscapeArg\<close>, the splitting of the
  command line into \<open>os.Args\<close>, and \<open>flag.Parse\<close> for flags with a string value.  The elevated helper of
  the client gets its arguments this way.  The round trip is \<open>argv_escaped\<close>.
\<close>

definition blank :: "char \<Rightarrow> bool" where "blank c \<longleftrightarrow> c = CHR '' '' \<or> c = CHR 0x09"

section \<open>Writing\<close>

text \<open>The loop of \<open>appendEscapeArg\<close>; \<open>slashes\<close> counts the backslashes just before.\<close>

fun escape_chars :: "bool \<Rightarrow> nat \<Rightarrow> string \<Rightarrow> string" where
  "escape_chars hasSpace slashes [] =
     (if hasSpace then replicate slashes backslash @ [quote_mark] else [])"
| "escape_chars hasSpace slashes (c # s) =
     (if c = backslash then c # escape_chars hasSpace (Suc slashes) s
      else if c = quote_mark then replicate slashes backslash @ backslash # c # escape_chars hasSpace 0 s
      else c # escape_chars hasSpace 0 s)"

definition appendEscapeArg :: "string \<Rightarrow> string" where
  "appendEscapeArg s =
     (let needsBackslash = list_ex (\<lambda>c. c = quote_mark \<or> c = backslash) s;
          hasSpace = list_ex blank s
      in if s = [] then [quote_mark, quote_mark]
         else if \<not> needsBackslash \<and> \<not> hasSpace then s
         else if \<not> needsBackslash then quote_mark # s @ [quote_mark]
         else (if hasSpace then [quote_mark] else []) @ escape_chars hasSpace 0 s)"

definition EscapeArg :: "string \<Rightarrow> string" where
  "EscapeArg s =
     (if s = [] then [quote_mark, quote_mark]
      else if list_ex (\<lambda>c. c = quote_mark \<or> c = backslash \<or> blank c) s then appendEscapeArg s else s)"

definition escaped_parameters :: "string list \<Rightarrow> string" where
  "escaped_parameters arguments = Join_with CHR '' '' (map EscapeArg arguments)"

section \<open>Reading\<close>

definition emit :: "string \<Rightarrow> string \<times> string \<Rightarrow> string \<times> string" where
  "emit b r = (b @ fst r, snd r)"

function readNextArg :: "bool \<Rightarrow> nat \<Rightarrow> string \<Rightarrow> string \<times> string" where
  "readNextArg inquote nslash [] = (replicate nslash backslash, [])"
| "readNextArg inquote nslash (c # cmd) =
     (if blank c \<and> \<not> inquote then (replicate nslash backslash, cmd)
      else if c = quote_mark then
        let half = replicate (nslash div 2) backslash in
        if nslash mod 2 = 0 then
          if inquote \<and> cmd \<noteq> [] \<and> hd cmd = quote_mark
          then emit (half @ [c]) (readNextArg (\<not> inquote) 0 (tl cmd))
          else emit half (readNextArg (\<not> inquote) 0 cmd)
        else emit (half @ [c]) (readNextArg inquote 0 cmd)
      else if c = backslash then readNextArg inquote (Suc nslash) cmd
      else emit (replicate nslash backslash @ [c]) (readNextArg inquote 0 cmd))"
  by pat_completeness auto
termination
  by (relation "measure (\<lambda>(q, n, cmd). length cmd)") auto

declare readNextArg.simps(2) [simp del]

lemma snd_emit [simp]: "snd (emit b r) = snd r"
  by (simp add: emit_def)

lemma readNextArg_length: "length (snd (readNextArg q n cmd)) \<le> length cmd"
proof (induction q n cmd rule: readNextArg.induct)
  case (2 q n c cmd)
  have "length (snd (readNextArg (\<not> q) 0 (tl cmd))) \<le> length cmd"
    if "\<not> (blank c \<and> \<not> q)" "c = quote_mark" "n mod 2 = 0" "q \<and> cmd \<noteq> [] \<and> hd cmd = quote_mark"
    using 2(1) [OF that(1,2) refl that(3,4)] by simp
  with 2(2-5) show ?case by (simp add: readNextArg.simps(2) Let_def le_SucI)
qed simp

lemma readNextArg_shorter: "length (snd (readNextArg q n (c # cmd))) < Suc (length cmd)"
  using readNextArg_length [of "\<not> q" 0 "tl cmd"] readNextArg_length [of "\<not> q" 0 cmd]
    readNextArg_length [of q 0 cmd] readNextArg_length [of q "Suc n" cmd]
  by (auto simp: readNextArg.simps(2) Let_def less_Suc_eq_le)

function commandLineToArgv :: "string \<Rightarrow> string list" where
  "commandLineToArgv [] = []"
| "commandLineToArgv (c # cmd) =
     (if blank c then commandLineToArgv cmd
      else let r = readNextArg False 0 (c # cmd) in fst r # commandLineToArgv (snd r))"
  by pat_completeness auto
termination
  by (relation "measure length") (auto simp: readNextArg_shorter)

section \<open>Flags\<close>

datatype flag_stop = FlagHelp | FlagError string

definition set_flag :: "string \<Rightarrow> string \<Rightarrow> (string \<times> string) list \<Rightarrow> (string \<times> string) list" where
  "set_flag k v fs = map (\<lambda>f. if fst f = k then (k, v) else f) fs"

definition flag_key :: "string \<Rightarrow> string" where "flag_key name = takeWhile (\<lambda>c. c \<noteq> CHR ''='') name"
definition flag_value :: "string \<Rightarrow> string option" where
  "flag_value name =
     (if CHR ''='' \<in> set name then Some (tl (dropWhile (\<lambda>c. c \<noteq> CHR ''='') name)) else None)"

definition undefined_flag :: "string \<Rightarrow> flag_stop" where
  "undefined_flag k = (if k = ''help'' \<or> k = ''h'' then FlagHelp
     else FlagError (''flag provided but not defined: -'' @ k))"

fun parse_flags :: "(string \<times> string) list \<Rightarrow> string list \<Rightarrow> flag_stop + (string \<times> string) list" where
  "parse_flags fs [] = Inr fs"
| "parse_flags fs (s # args) =
     (if length s < 2 \<or> s ! 0 \<noteq> CHR ''-'' then Inr fs
      else if s = ''--'' then Inr fs
      else let name = (if s ! 1 = CHR ''-'' then drop 2 s else drop 1 s) in
        if name = [] \<or> name ! 0 = CHR ''-'' \<or> name ! 0 = CHR ''='' then Inl (FlagError (''bad flag syntax: '' @ s))
        else if map_of fs (flag_key name) = None then Inl (undefined_flag (flag_key name))
        else case flag_value name of
          Some v \<Rightarrow> parse_flags (set_flag (flag_key name) v fs) args
        | None \<Rightarrow> (case args of
            [] \<Rightarrow> Inl (FlagError (''flag needs an argument: -'' @ flag_key name))
          | v # rest \<Rightarrow> parse_flags (set_flag (flag_key name) v fs) rest))"

section \<open>The round trip\<close>

text \<open>Where an argument ends: at the end of the line, or at the blank before the next one.\<close>

definition arg_end :: "string \<Rightarrow> bool" where
  "arg_end t \<longleftrightarrow> t = [] \<or> blank (hd t)"

lemma special_chars [simp]:
  "backslash \<noteq> quote_mark" "quote_mark \<noteq> backslash" "\<not> blank backslash" "\<not> blank quote_mark"
  by (simp_all add: backslash_def quote_mark_def blank_def)

lemma fst_emit [simp]: "fst (emit b r) = b @ fst r"
  by (simp add: emit_def)

lemma read_slashes:
  "readNextArg q n (replicate k backslash @ t) = readNextArg q (n + k) t"
  by (induction k arbitrary: n) (simp_all add: readNextArg.simps(2))

lemma read_end: "arg_end t \<Longrightarrow> readNextArg False n t = (replicate n backslash, tl t)"
  by (cases t) (auto simp: arg_end_def readNextArg.simps(2))

lemma read_closing: "arg_end t \<Longrightarrow> readNextArg True (n + n) (quote_mark # t) = (replicate n backslash, tl t)"
proof (cases t)
  case Nil
  then show ?thesis by (simp add: emit_def readNextArg.simps(2))
next
  case (Cons c s)
  moreover assume "arg_end t"
  ultimately show ?thesis by (auto simp: arg_end_def Let_def emit_def readNextArg.simps(2))
qed

lemma read_escaped:
  assumes "arg_end t" and "q \<or> \<not> list_ex blank s"
  shows "readNextArg q n (escape_chars q n s @ t) = (replicate n backslash @ s, tl t)"
  using assms(2)
proof (induction s arbitrary: n)
  case Nil
  show ?case using read_closing [OF assms(1), of n] read_end [OF assms(1)] by (simp add: read_slashes)
next
  case (Cons c s)
  have odd: "readNextArg q (Suc (n + n)) (quote_mark # u) =
      emit (replicate n backslash @ [quote_mark]) (readNextArg q 0 u)" for u
    by (simp add: mod_Suc readNextArg.simps(2))
  consider "c = backslash" | "c = quote_mark" | "c \<noteq> backslash" "c \<noteq> quote_mark" by blast
  then show ?case
  proof cases
    case 1
    then show ?thesis using Cons.IH [of "Suc n"] Cons.prems by (simp add: replicate_append_same readNextArg.simps(2))
  next
    case 2
    then show ?thesis
      using Cons.IH [of 0] Cons.prems odd
      by (simp add: read_slashes emit_def readNextArg.simps(2) [of _ _ backslash])
  next
    case 3
    then show ?thesis using Cons.IH [of 0] Cons.prems by (auto simp: emit_def readNextArg.simps(2))
  qed
qed

lemma escape_plain:
  "\<not> list_ex (\<lambda>c. c = quote_mark \<or> c = backslash) s \<Longrightarrow>
     escape_chars q n s = s @ (if q then replicate (if s = [] then n else 0) backslash @ [quote_mark] else [])"
  by (induction s arbitrary: n) auto

lemma EscapeArg_chars:
  "EscapeArg s =
     (if s = [] \<or> list_ex blank s then quote_mark # escape_chars True 0 s else escape_chars False 0 s)"
proof (cases "list_ex (\<lambda>c. c = quote_mark \<or> c = backslash) s")
  case True
  then have "list_ex (\<lambda>c. c = quote_mark \<or> c = backslash \<or> blank c) s" "s \<noteq> []"
    by (auto simp: list_ex_iff)
  with True show ?thesis by (simp add: EscapeArg_def appendEscapeArg_def)
next
  case False
  then have "list_ex (\<lambda>c. c = quote_mark \<or> c = backslash \<or> blank c) s = list_ex blank s"
    by (auto simp: list_ex_iff)
  with False show ?thesis by (simp add: EscapeArg_def appendEscapeArg_def escape_plain)
qed

lemma read_EscapeArg: "arg_end t \<Longrightarrow> readNextArg False 0 (EscapeArg s @ t) = (s, tl t)"
  using read_escaped [of t True s 0] read_escaped [of t False s 0]
  by (auto simp: EscapeArg_chars emit_def readNextArg.simps(2))

lemma EscapeArg_start: "\<exists>c cs. EscapeArg s = c # cs \<and> \<not> blank c"
proof (cases "s = [] \<or> list_ex blank s")
  case True
  then show ?thesis by (simp add: EscapeArg_chars)
next
  case False
  then obtain c cs where "s = c # cs" "\<not> blank c" by (cases s) auto
  with False show ?thesis by (auto simp: EscapeArg_chars)
qed

lemma argv_one: "arg_end t \<Longrightarrow> commandLineToArgv (EscapeArg s @ t) = s # commandLineToArgv (tl t)"
  using EscapeArg_start [of s] read_EscapeArg [of t s] by auto

lemma argv_escaped: "commandLineToArgv (escaped_parameters args) = args"
proof (induction args rule: induct_list012)
  case (2 a)
  show ?case using argv_one [of "[]" a] by (simp add: escaped_parameters_def arg_end_def)
next
  case (3 a b args)
  have "arg_end (CHR '' '' # t)" for t by (simp add: arg_end_def blank_def)
  from argv_one [OF this, of a] 3(2) show ?case by (simp add: escaped_parameters_def)
qed (simp add: escaped_parameters_def)

end
