(* ===== verification/Installer.thy ===== *)
theory Installer
  imports BuildRelease SecureStore GoRegexp WinArgs ClientHeap
begin

text \<open>
  Installing, repairing and removing the NetBird service (\<open>client/internal/platform\<close>: \<open>artifact.go\<close>,
  \<open>artifact_windows.go\<close>, \<open>install.go\<close>, \<open>install_windows.go\<close>, \<open>remove.go\<close>, \<open>elevation_windows.go\<close>) and the
  elevated helper that does it (\<open>client/cmd/sogame-helper/main_windows.go\<close>).  The calls of Windows, SHA-256
  and \<open>strconv.Quote\<close> are the record \<open>windows_api\<close>, over any state of the machine.
\<close>

section \<open>Paths\<close>

definition is_separator :: "char \<Rightarrow> bool" where "is_separator c \<longleftrightarrow> c = CHR ''/'' \<or> c = backslash"

definition filepath_Ext :: "string \<Rightarrow> string" where
  "filepath_Ext p =
     (let base = rev (takeWhile (\<lambda>c. \<not> is_separator c) (rev p))
      in if CHR ''.'' \<in> set base then CHR ''.'' # rev (takeWhile (\<lambda>c. c \<noteq> CHR ''.'') (rev base)) else [])"

text \<open>The part of a path before the second separator from \<open>n\<close> on, or all of it.\<close>

fun uncLen_from :: "nat \<Rightarrow> nat \<Rightarrow> string \<Rightarrow> nat" where
  "uncLen_from count i [] = i"
| "uncLen_from count i (c # s) =
     (if is_separator c then (if count = 1 then i else uncLen_from (Suc count) (Suc i) s)
      else uncLen_from count (Suc i) s)"

definition uncLen :: "string \<Rightarrow> nat \<Rightarrow> nat" where
  "uncLen p n = (if n \<ge> length p then length p else uncLen_from 0 n (drop n p))"

definition pathHasPrefixFold :: "string \<Rightarrow> string \<Rightarrow> bool" where
  "pathHasPrefixFold s pre \<longleftrightarrow> length s \<ge> length pre \<and>
     list_all2 (\<lambda>a b. if is_separator b then is_separator a else ascii_upper a = ascii_upper b)
       (take (length pre) s) pre \<and>
     (length s > length pre \<longrightarrow> is_separator (s ! length pre))"

definition volumeNameLen :: "string \<Rightarrow> nat" where
  "volumeNameLen p =
     (if length p \<ge> 2 \<and> p ! 1 = CHR '':'' then 2
      else if length p = 0 \<or> \<not> is_separator (p ! 0) then 0
      else if pathHasPrefixFold p [backslash, backslash, CHR ''.'', backslash, CHR ''U'', CHR ''N'', CHR ''C'']
        then uncLen p 8
      else if pathHasPrefixFold p [backslash, backslash, CHR ''.''] \<or>
          pathHasPrefixFold p [backslash, backslash, CHR ''?''] \<or>
          pathHasPrefixFold p [backslash, CHR ''?'', CHR ''?'']
        then if length p = 3 then 3 else 4 + length (takeWhile (\<lambda>c. \<not> is_separator c) (drop 4 p))
      else if length p \<ge> 2 \<and> is_separator (p ! 1) then uncLen p 2
      else 0)"

definition filepath_IsAbs :: "string \<Rightarrow> bool" where
  "filepath_IsAbs p =
     (let l = volumeNameLen p in
      l \<noteq> 0 \<and>
      (is_separator (p ! 0) \<and> is_separator (p ! 1) \<or>
       (let rest = drop l p in rest \<noteq> [] \<and> is_separator (rest ! 0))))"

section \<open>The machine\<close>

datatype trust_action = TrustVerify | TrustClose

record 's windows_api =
  wi_Open :: "string \<Rightarrow> ('s, goerr + nat) state"
  wi_Stat :: "nat \<Rightarrow> ('s, goerr + bool \<times> int) state"
  wi_Copy :: "nat \<Rightarrow> ('s, goerr + string) state"
  wi_Close :: "nat \<Rightarrow> ('s, unit) state"
  wi_SHA256 :: "string \<Rightarrow> string"
  wi_WinVerifyTrust :: "trust_action \<Rightarrow> string \<Rightarrow> ('s, string option) state"
  wi_PowerShell :: "go_context \<Rightarrow> string \<Rightarrow> string \<Rightarrow> ('s, goerr option \<times> string) state"
  wi_IsElevated :: "('s, bool) state"
  wi_msiexec :: "go_context \<Rightarrow> string list \<Rightarrow> ('s, goerr option \<times> string) state"
  wi_ShellExecute :: "string option \<Rightarrow> string option \<Rightarrow> string option \<Rightarrow> string option \<Rightarrow> ('s, goerr option) state"
  wi_Quote :: "string \<Rightarrow> string"

text \<open>\<open>fmt.Errorf("p: %w", err)\<close> around a call.\<close>

definition in_context :: "string \<Rightarrow> ('s, goerr + 'a) state \<Rightarrow> ('s, goerr + 'a) state" where
  "in_context p m = do {
     r \<leftarrow> m;
     case r of Inl e \<Rightarrow> err (Wrapped p e []) | Inr x \<Rightarrow> ok x
   }"

text \<open>\<open>UTF16PtrFromString\<close>: a string with a NUL byte has none.\<close>

definition utf16_ptr :: "string \<Rightarrow> string option" where
  "utf16_ptr s = (if CHR 0x00 \<in> set s then None else Some s)"

section \<open>Publishers\<close>

text \<open>
  \<open>hasDNValue\<close>.  A rune beyond ASCII of the key or the value stands for itself only; the names of the
  release are ASCII.
\<close>

definition literal_name :: "string \<Rightarrow> re" where
  "literal_name s = seq (map (\<lambda>r. case r of [c] \<Rightarrow> folded (\<lambda>d. d = c) | _ \<Rightarrow> Cls (\<lambda>u. u = r)) (runes s))"

definition dn_pattern :: "string \<Rightarrow> string \<Rightarrow> re" where
  "dn_pattern key v = seq
     [alt [TextStart, Then (literal '','') (Star True (any_of (\<lambda>c. c \<in> set space_class)))],
      literal_name key, literal ''='', literal_name v, alt [literal '','', TextEnd]]"

definition hasDNValue :: "string \<Rightarrow> string \<Rightarrow> string \<Rightarrow> bool" where
  "hasDNValue subject key v = MatchString (dn_pattern key v) subject"

definition verifyWindowsTrust :: "'s windows_api \<Rightarrow> string \<Rightarrow> ('s, goerr + unit) state" where
  "verifyWindowsTrust W p =
     (case utf16_ptr p of
        None \<Rightarrow> err (Wrapped ''encode artifact path: '' (Message ''invalid argument'') [])
      | Some pathUTF16 \<Rightarrow> do {
          verifyErr \<leftarrow> wi_WinVerifyTrust W TrustVerify pathUTF16;
          _ \<leftarrow> wi_WinVerifyTrust W TrustClose pathUTF16;
          case verifyErr of
            Some e \<Rightarrow> err (Wrapped [] (Sentinel ErrSignatureInvalid) ('': '' @ e))
          | None \<Rightarrow> ok ()
        })"

definition authenticode_script :: string where
  "authenticode_script = ''$ErrorActionPreference='' @ [CHR 0x27] @ ''Stop'' @ [CHR 0x27] @
     ''; $s=Get-AuthenticodeSignature -LiteralPath $env:SOGAME_SIGNATURE_PATH; '' @
     ''[Console]::Out.Write(([pscustomobject]@'' @
     ''{Status=$s.Status.ToString();Subject=$s.SignerCertificate.Subject}'' @
     ''|ConvertTo-Json -Compress))''"

definition decode_authenticode :: "json \<Rightarrow> (string \<times> string) option" where
  "decode_authenticode j = decode_struct (\<lambda>k v r.
     if EqualFold k ''Status'' then map_option (\<lambda>x. (x, snd r)) (decode_string v (fst r))
     else if EqualFold k ''Subject'' then map_option (\<lambda>x. (fst r, x)) (decode_string v (snd r))
     else Some r) j ([], [])"

definition subject_of_output :: "string \<Rightarrow> goerr + string" where
  "subject_of_output out =
     (case Option.bind (parse_json out) decode_authenticode of
        None \<Rightarrow> Inl (Wrapped ''parse Authenticode publisher: '' (Message ''invalid JSON'') [])
      | Some (status, subject) \<Rightarrow>
          if \<not> EqualFold status ''Valid'' \<or> subject = []
          then Inl (Wrapped [] (Sentinel ErrSignatureInvalid) ('': status '' @ status))
          else Inr subject)"

definition authenticodeSubject :: "'s windows_api \<Rightarrow> go_context \<Rightarrow> string \<Rightarrow> ('s, goerr + string) state" where
  "authenticodeSubject W ctx p = do {
     (e, out) \<leftarrow> wi_PowerShell W ctx authenticode_script p;
     case e of
       Some e \<Rightarrow> err (Wrapped ''read Authenticode publisher: '' e ('': '' @ TrimSpace out))
     | None \<Rightarrow> State_Monad.return (subject_of_output out)
   }"

definition WindowsSignatureVerifier_Verify ::
  "'s windows_api \<Rightarrow> go_context \<Rightarrow> string \<Rightarrow> Publisher \<Rightarrow> ('s, goerr + unit) state" where
  "WindowsSignatureVerifier_Verify W ctx p expected =
     go_try (verifyWindowsTrust W p) (\<lambda>_.
     go_try (authenticodeSubject W ctx p) (\<lambda>subject.
     if \<not> hasDNValue subject ''CN'' (pub_SubjectCommonName expected) \<or>
        \<not> hasDNValue subject ''O'' (pub_Organization expected)
     then err (Wrapped [] (Sentinel ErrPublisherMismatch) ('': subject '' @ wi_Quote W subject))
     else ok ()))"

section \<open>Artifacts\<close>

type_synonym 's SignatureVerifier = "go_context \<Rightarrow> string \<Rightarrow> Publisher \<Rightarrow> ('s, goerr + unit) state"

definition verify_opened ::
  "'s windows_api \<Rightarrow> 's SignatureVerifier option \<Rightarrow> go_context \<Rightarrow> string \<Rightarrow> nat \<Rightarrow> WindowsArtifact \<Rightarrow>
     ('s, goerr + unit) state" where
  "verify_opened W signatures ctx p handle expected =
     go_try (in_context ''stat NetBird artifact: '' (wi_Stat W handle)) (\<lambda>(regular, bytes).
     if \<not> regular then err (Sentinel ErrArtifactMissing)
     else if bytes \<noteq> wa_Size expected
     then err (Wrapped [] (Sentinel ErrArtifactSize)
       ('': expected '' @ show_int (wa_Size expected) @ '' bytes, got '' @ show_int bytes))
     else go_try (in_context ''hash NetBird artifact: '' (wi_Copy W handle)) (\<lambda>content.
     let got = hex_encode (wi_SHA256 W content) in
     if \<not> EqualFold got (wa_SHA256 expected)
     then err (Wrapped [] (Sentinel ErrArtifactDigest) ('': got '' @ got))
     else case signatures of
       None \<Rightarrow> err (Sentinel ErrSignatureInvalid)
     | Some verify \<Rightarrow> verify ctx p (wa_Publisher expected)))"

definition ArtifactVerifier_Verify ::
  "'s windows_api \<Rightarrow> 's SignatureVerifier option \<Rightarrow> go_context \<Rightarrow> string \<Rightarrow> WindowsArtifact \<Rightarrow>
     ('s, goerr + unit) state" where
  "ArtifactVerifier_Verify W signatures ctx p expected = do {
     opened \<leftarrow> wi_Open W p;
     case opened of
       Inl e \<Rightarrow> err (if errors_Is e os_ErrNotExist then Sentinel ErrArtifactMissing
                    else Wrapped ''open NetBird artifact: '' e [])
     | Inr handle \<Rightarrow> do {
         r \<leftarrow> verify_opened W signatures ctx p handle expected;
         wi_Close W handle;
         State_Monad.return r
       }
   }"

section \<open>The installer\<close>

type_synonym MSIAction = string

definition MSIInstall :: MSIAction where "MSIInstall = ''install''"
definition MSIRepair :: MSIAction where "MSIRepair = ''repair''"
definition MSIRemove :: MSIAction where "MSIRemove = ''remove''"

record 's PrivilegedInstaller =
  pi_artifacts :: "go_context \<Rightarrow> string \<Rightarrow> WindowsArtifact \<Rightarrow> ('s, goerr + unit) state"
  pi_runner :: "go_context \<Rightarrow> MSIAction \<Rightarrow> string \<Rightarrow> string \<Rightarrow> ('s, goerr + unit) state"

definition PrivilegedInstaller_Execute ::
  "'s PrivilegedInstaller \<Rightarrow> go_context \<Rightarrow> MSIAction \<Rightarrow> string \<Rightarrow> string \<Rightarrow> WindowsArtifact \<Rightarrow>
     ('s, goerr + unit) state" where
  "PrivilegedInstaller_Execute i ctx action artifactPath logPath expected =
     (if action \<noteq> MSIInstall \<and> action \<noteq> MSIRepair then err (Sentinel ErrUnsupportedAction)
      else if \<not> filepath_IsAbs artifactPath \<or> \<not> EqualFold (filepath_Ext artifactPath) ''.msi''
      then err (Message ''invalid NetBird MSI path'')
      else if \<not> filepath_IsAbs logPath \<or> \<not> EqualFold (filepath_Ext logPath) ''.log''
      then err (Message ''invalid installer log path'')
      else
        go_try (in_context (''verify NetBird MSI before '' @ action @ '': '')
          (pi_artifacts i ctx artifactPath expected)) (\<lambda>_.
        go_try (in_context (''run NetBird MSI '' @ action @ '': '')
          (pi_runner i ctx action artifactPath logPath)) (\<lambda>_.
        ok ())))"

definition BuildMSIArguments :: "MSIAction \<Rightarrow> string \<Rightarrow> string \<Rightarrow> goerr + string list" where
  "BuildMSIArguments action artifactPath logPath =
     (if action \<noteq> MSIInstall \<and> action \<noteq> MSIRepair then Inl (Sentinel ErrUnsupportedAction)
      else
        let arguments = [''/i'', artifactPath, ''/quiet'', ''/qn'', ''/norestart'', ''/l*v'', logPath, ''AUTOSTART=0'']
        in Inr (if action = MSIRepair then arguments @ [''REINSTALL=ALL'', ''REINSTALLMODE=vomus''] else arguments))"

definition RedactInstallerOutput :: "string \<Rightarrow> string" where
  "RedactInstallerOutput out = ''installer details retained in the local MSI log''"

definition run_msiexec :: "'s windows_api \<Rightarrow> go_context \<Rightarrow> string list \<Rightarrow> ('s, goerr + unit) state" where
  "run_msiexec W ctx arguments = do {
     (e, out) \<leftarrow> wi_msiexec W ctx arguments;
     case e of
       Some e \<Rightarrow> err (Wrapped ''msiexec failed: '' e ('': '' @ RedactInstallerOutput out))
     | None \<Rightarrow> ok ()
   }"

definition WindowsMSIRunner_Run ::
  "'s windows_api \<Rightarrow> go_context \<Rightarrow> MSIAction \<Rightarrow> string \<Rightarrow> string \<Rightarrow> ('s, goerr + unit) state" where
  "WindowsMSIRunner_Run W ctx action artifactPath logPath = do {
     elevated \<leftarrow> wi_IsElevated W;
     if \<not> elevated then err (Sentinel ErrElevationRequired)
     else case BuildMSIArguments action artifactPath logPath of
       Inl e \<Rightarrow> err e
     | Inr arguments \<Rightarrow> run_msiexec W ctx arguments
   }"

section \<open>The remover\<close>

definition hex_code :: "char \<Rightarrow> bool" where
  "hex_code c \<longleftrightarrow> is_digit c \<or> in_range CHR ''A'' CHR ''F'' c \<or> in_range CHR ''a'' CHR ''f'' c"

definition productCodePattern :: re where
  "productCodePattern = seq
     [TextStart, literal ''{'', exactly 8 (any_of hex_code), literal ''-'', exactly 4 (any_of hex_code), literal ''-'',
      exactly 4 (any_of hex_code), literal ''-'', exactly 4 (any_of hex_code), literal ''-'',
      exactly 12 (any_of hex_code), literal ''}'', TextEnd]"

definition BuildMSIRemovalArguments :: "string \<Rightarrow> string \<Rightarrow> goerr + string list" where
  "BuildMSIRemovalArguments productCode logPath =
     (if \<not> MatchString productCodePattern productCode then Inl (Message ''invalid NetBird MSI product code'')
      else Inr [''/x'', productCode, ''/quiet'', ''/qn'', ''/norestart'', ''/l*v'', logPath])"

definition WindowsMSIRunner_Remove ::
  "'s windows_api \<Rightarrow> go_context \<Rightarrow> string \<Rightarrow> string \<Rightarrow> ('s, goerr + unit) state" where
  "WindowsMSIRunner_Remove W ctx productCode logPath = do {
     elevated \<leftarrow> wi_IsElevated W;
     if \<not> elevated then err (Sentinel ErrElevationRequired)
     else case BuildMSIRemovalArguments productCode logPath of
       Inl e \<Rightarrow> err e
     | Inr arguments \<Rightarrow> run_msiexec W ctx arguments
   }"

definition DaemonRemover_Remove ::
  "(go_context \<Rightarrow> string \<Rightarrow> string \<Rightarrow> ('s, goerr + unit) state) \<Rightarrow>
     go_context \<Rightarrow> bool \<Rightarrow> string \<Rightarrow> string \<Rightarrow> ('s, goerr + unit) state" where
  "DaemonRemover_Remove runner ctx confirmed productCode logPath =
     (if \<not> confirmed then err (Sentinel ErrRemovalNotConfirmed)
      else if \<not> MatchString productCodePattern productCode then err (Message ''invalid NetBird MSI product code'')
      else if \<not> filepath_IsAbs logPath \<or> \<not> EqualFold (filepath_Ext logPath) ''.log''
      then err (Message ''invalid uninstaller log path'')
      else go_try (in_context ''remove official NetBird service: '' (runner ctx productCode logPath)) (\<lambda>_. ok ()))"

section \<open>Elevation\<close>

definition is_helper :: "filepath \<Rightarrow> string \<Rightarrow> bool" where
  "is_helper F helperPath \<longleftrightarrow>
     filepath_IsAbs helperPath \<and> EqualFold (filepath_Base F helperPath) ''sogame-helper.exe''"

definition run_elevated ::
  "'s windows_api \<Rightarrow> filepath \<Rightarrow> string \<Rightarrow> string \<Rightarrow> string list \<Rightarrow> ('s, goerr + unit) state" where
  "run_elevated W F failure helperPath arguments = do {
     e \<leftarrow> wi_ShellExecute W (utf16_ptr ''runas'') (utf16_ptr helperPath)
       (utf16_ptr (escaped_parameters arguments)) (utf16_ptr (filepath_Dir F helperPath));
     case e of Some e \<Rightarrow> err (Wrapped failure e []) | None \<Rightarrow> ok ()
   }"

definition RequestInstallerElevation ::
  "'s windows_api \<Rightarrow> filepath \<Rightarrow> string \<Rightarrow> MSIAction \<Rightarrow> string \<Rightarrow> string \<Rightarrow> ('s, goerr + unit) state" where
  "RequestInstallerElevation W F helperPath action artifactPath logPath =
     (if action \<noteq> MSIInstall \<and> action \<noteq> MSIRepair then err (Sentinel ErrUnsupportedAction)
      else if \<not> is_helper F helperPath then err (Message ''invalid elevated helper path'')
      else if \<not> filepath_IsAbs artifactPath \<or> \<not> filepath_IsAbs logPath
      then err (Message ''elevated helper requires absolute paths'')
      else run_elevated W F ''request NetBird installer elevation: '' helperPath
        [''--action'', action, ''--artifact'', artifactPath, ''--log'', logPath])"

definition RequestDaemonRemovalElevation ::
  "'s windows_api \<Rightarrow> filepath \<Rightarrow> string \<Rightarrow> bool \<Rightarrow> string \<Rightarrow> ('s, goerr + unit) state" where
  "RequestDaemonRemovalElevation W F helperPath confirmed logPath =
     (if \<not> confirmed then err (Sentinel ErrRemovalNotConfirmed)
      else if \<not> is_helper F helperPath then err (Message ''invalid elevated helper path'')
      else if \<not> filepath_IsAbs logPath then err (Message ''elevated helper requires an absolute log path'')
      else run_elevated W F ''request NetBird removal elevation: '' helperPath
        [''--action'', MSIRemove, ''--log'', logPath])"

section \<open>The helper\<close>

text \<open>
  \<open>main\<close> of the helper on its arguments: its exit status and the line it prints on \<open>os.Stderr\<close>, without the
  usage text that \<open>flag\<close> adds.
\<close>

datatype helper_exit = Exit nat string

definition helper_flags :: "(string \<times> string) list" where
  "helper_flags = [(''action'', []), (''artifact'', []), (''log'', [])]"

definition flag_of :: "(string \<times> string) list \<Rightarrow> string \<Rightarrow> string" where
  "flag_of fs k = (case map_of fs k of None \<Rightarrow> [] | Some v \<Rightarrow> v)"

definition helper_installer :: "'s windows_api \<Rightarrow> 's PrivilegedInstaller" where
  "helper_installer W =
     \<lparr>pi_artifacts = ArtifactVerifier_Verify W (Some (WindowsSignatureVerifier_Verify W)),
      pi_runner = WindowsMSIRunner_Run W\<rparr>"

definition helper_context :: go_context where "helper_context = WithTimeout Background (10 * minute)"

definition helper_act ::
  "'s windows_api \<Rightarrow> ReleaseMetadata \<Rightarrow> MSIAction \<Rightarrow> string \<Rightarrow> string \<Rightarrow> ('s, goerr + unit) state" where
  "helper_act W metadata action artifactPath logPath =
     (if action = MSIRemove
      then DaemonRemover_Remove (WindowsMSIRunner_Remove W) helper_context True
        (ip_ProductCode (wa_Install (rm_WindowsX64 metadata))) logPath
      else PrivilegedInstaller_Execute (helper_installer W) helper_context action artifactPath logPath
        (rm_WindowsX64 metadata))"

definition helper_with ::
  "'s windows_api \<Rightarrow> goerr + ReleaseMetadata \<Rightarrow> string list \<Rightarrow> ('s, helper_exit) state" where
  "helper_with W loaded args =
     (case parse_flags helper_flags args of
        Inl FlagHelp \<Rightarrow> State_Monad.return (Exit 0 [])
      | Inl (FlagError m) \<Rightarrow> State_Monad.return (Exit 2 m)
      | Inr fs \<Rightarrow>
          let action = flag_of fs ''action'' in
          if action \<noteq> MSIInstall \<and> action \<noteq> MSIRepair \<and> action \<noteq> MSIRemove
          then State_Monad.return (Exit 1 (err_text (Sentinel ErrUnsupportedAction)))
          else case loaded of
            Inl e \<Rightarrow> State_Monad.return (Exit 1 (err_text e))
          | Inr metadata \<Rightarrow> do {
              r \<leftarrow> helper_act W metadata action (flag_of fs ''artifact'') (flag_of fs ''log'');
              State_Monad.return (case r of Inl e \<Rightarrow> Exit 1 (err_text e) | Inr _ \<Rightarrow> Exit 0 [])
            })"

definition helper_main :: "'s windows_api \<Rightarrow> string list \<Rightarrow> ('s, helper_exit) state" where
  "helper_main W args = helper_with W release_Load args"

end
