(* ===== verification/InstallerSpec.thy ===== *)
theory InstallerSpec
  imports Installer "HOL-Library.Code_Target_Nat"
begin

text \<open>
  What the helper promises: it is started with exactly the arguments that were asked for, and it runs
  \<open>msiexec\<close> only on an artifact that it has verified, or to remove the product of the release.  The second
  is stated over a machine that records what the helper did.
\<close>

section \<open>A machine that keeps a record\<close>

datatype win_event =
    Opened string nat
  | Statted nat bool int
  | Copied nat string
  | Trusted string
  | Signed string string
  | Elevated
  | is_Msiexec: Msiexec "string list"

record 's machine =
  mc_outside :: 's
  mc_events :: "win_event list"

definition traced :: "('a \<Rightarrow> win_event list) \<Rightarrow> ('s, 'a) state \<Rightarrow> ('s machine, 'a) state" where
  "traced f m = do {
     x \<leftarrow> on_field mc_outside (\<lambda>t w. w\<lparr>mc_outside := t\<rparr>) m;
     State_Monad.update (\<lambda>w. w\<lparr>mc_events := mc_events w @ f x\<rparr>);
     State_Monad.return x
   }"

definition traced_api :: "'s windows_api \<Rightarrow> 's machine windows_api" where
  "traced_api W =
     \<lparr>wi_Open = (\<lambda>p. traced (\<lambda>r. case r of Inl e \<Rightarrow> [] | Inr h \<Rightarrow> [Opened p h]) (wi_Open W p)),
      wi_Stat = (\<lambda>h. traced (\<lambda>r. case r of Inl e \<Rightarrow> [] | Inr x \<Rightarrow> [Statted h (fst x) (snd x)]) (wi_Stat W h)),
      wi_Copy = (\<lambda>h. traced (\<lambda>r. case r of Inl e \<Rightarrow> [] | Inr content \<Rightarrow> [Copied h content]) (wi_Copy W h)),
      wi_Close = (\<lambda>h. traced (\<lambda>_. []) (wi_Close W h)),
      wi_SHA256 = wi_SHA256 W,
      wi_WinVerifyTrust = (\<lambda>a p. traced (\<lambda>e. if a = TrustVerify \<and> e = None then [Trusted p] else [])
        (wi_WinVerifyTrust W a p)),
      wi_PowerShell = (\<lambda>ctx script p. traced (\<lambda>r. if fst r = None \<and> script = authenticode_script then [Signed p (snd r)] else [])
        (wi_PowerShell W ctx script p)),
      wi_IsElevated = traced (\<lambda>b. if b then [Elevated] else []) (wi_IsElevated W),
      wi_msiexec = (\<lambda>ctx arguments. traced (\<lambda>_. [Msiexec arguments]) (wi_msiexec W ctx arguments)),
      wi_ShellExecute = (\<lambda>verb f parameters d. traced (\<lambda>_. []) (wi_ShellExecute W verb f parameters d)),
      wi_Quote = wi_Quote W\<rparr>"

lemma wp_traced [wp_simps]:
  "wp (traced f m) Q w =
     wp m (\<lambda>a t. Q a (w\<lparr>mc_outside := t, mc_events := mc_events w @ f a\<rparr>)) (mc_outside w)"
  by (simp add: traced_def wp_simps wp_on_field)

lemma wp_in_context [wp_simps]:
  "wp (in_context p m) Q s =
     wp m (\<lambda>r t. case r of Inl e \<Rightarrow> Q (Inl (Wrapped p e [])) t | Inr x \<Rightarrow> Q (Inr x) t) s"
  by (auto simp: in_context_def wp_simps wp_def split: prod.splits sum.splits)

text \<open>
  What a call leaves in the record: after an error no \<open>msiexec\<close> more than before, and after a success
  exactly the events named.
\<close>

definition quiet :: "win_event list \<Rightarrow> win_event list \<Rightarrow> bool" where
  "quiet es es' \<longleftrightarrow> filter is_Msiexec es' = filter is_Msiexec es"

definition leaves :: "('a \<Rightarrow> win_event list \<Rightarrow> bool) \<Rightarrow> win_event list \<Rightarrow> goerr + 'a \<Rightarrow> 's machine \<Rightarrow> bool" where
  "leaves P es r w = (case r of Inl e \<Rightarrow> quiet es (mc_events w) | Inr x \<Rightarrow> \<exists>new. mc_events w = es @ new \<and> P x new)"

lemma quiet_simps [simp]: "quiet es es" "quiet es (es @ new) = list_all (\<lambda>x. \<not> is_Msiexec x) new"
  by (auto simp: quiet_def filter_empty_conv list_all_iff)

lemma leaves_done [simp]:
  "wp (ok y) (leaves Q es) w \<longleftrightarrow> (\<exists>new. mc_events w = es @ new \<and> Q y new)"
  "wp (err e) (leaves Q es) w \<longleftrightarrow> quiet es (mc_events w)"
  by (simp_all add: wp_simps leaves_def)

lemma leaves_in_context: "wp m (leaves P es) w \<Longrightarrow> wp (in_context p m) (leaves P es) w"
  by (simp add: wp_simps) (erule wp_mono, simp add: leaves_def split: sum.splits)

lemma leaves_mono: "wp m (leaves P es) w \<Longrightarrow> (\<And>x new. P x new \<Longrightarrow> Q x new) \<Longrightarrow> wp m (leaves Q es) w"
  by (erule wp_mono) (auto simp: leaves_def split: sum.splits)

text \<open>One call after another; only the last one may be \<open>msiexec\<close>.\<close>

lemma leaves_try:
  assumes "wp m (leaves P es) w"
    and "\<And>x new. P x new \<Longrightarrow> list_all (\<lambda>e. \<not> is_Msiexec e) new"
    and "\<And>x new w'. P x new \<Longrightarrow> mc_events w' = es @ new \<Longrightarrow>
      wp (f x) (leaves (\<lambda>y new'. Q y (new @ new')) (es @ new)) w'"
  shows "wp (go_try m f) (leaves Q es) w"
  unfolding wp_go_try
proof (rule wp_mono [OF assms(1)], goal_cases)
  case (1 r w')
  show ?case
  proof (cases r)
    case (Inl e)
    with 1 show ?thesis by (simp add: leaves_def)
  next
    case (Inr x)
    with 1 obtain new where new: "P x new" "mc_events w' = es @ new" by (auto simp: leaves_def)
    have "wp (f x) (leaves Q es) w'"
      by (rule wp_mono [OF assms(3) [OF new]])
        (use new assms(2) [OF new(1)] in \<open>auto simp: leaves_def quiet_def filter_empty_conv list_all_iff split: sum.splits\<close>)
    with Inr show ?thesis by simp
  qed
qed

section \<open>What each call leaves\<close>

definition good_subject :: "Publisher \<Rightarrow> string \<Rightarrow> bool" where
  "good_subject expected out =
     (case subject_of_output out of
        Inl e \<Rightarrow> False
      | Inr subject \<Rightarrow> hasDNValue subject ''CN'' (pub_SubjectCommonName expected) \<and>
          hasDNValue subject ''O'' (pub_Organization expected))"

lemma api_leaves:
  "mc_events w = es \<Longrightarrow>
     wp (wi_Stat (traced_api W) h) (leaves (\<lambda>x new. new = [Statted h (fst x) (snd x)]) es) w"
  "mc_events w = es \<Longrightarrow> wp (wi_Copy (traced_api W) h) (leaves (\<lambda>content new. new = [Copied h content]) es) w"
  by (auto simp: traced_api_def wp_simps leaves_def intro!: wp_any split: sum.splits)

lemma trust_leaves:
  "mc_events w = es \<Longrightarrow>
     wp (verifyWindowsTrust (traced_api W) p) (leaves (\<lambda>_ new. new = [Trusted p]) es) w"
  by (auto simp: verifyWindowsTrust_def traced_api_def wp_simps leaves_def utf16_ptr_def
      intro!: wp_any split: option.splits)

lemma subject_leaves:
  "mc_events w = es \<Longrightarrow>
     wp (authenticodeSubject (traced_api W) ctx p)
     (leaves (\<lambda>subject new. \<exists>out. new = [Signed p out] \<and> subject_of_output out = Inr subject) es) w"
  by (auto simp: authenticodeSubject_def traced_api_def wp_simps leaves_def
      intro!: wp_any split: option.splits sum.splits)

lemma signature_leaves:
  assumes "mc_events w = es"
  shows "wp (WindowsSignatureVerifier_Verify (traced_api W) ctx p expected)
     (leaves (\<lambda>_ new. \<exists>out. new = [Trusted p, Signed p out] \<and> good_subject expected out) es) w"
  unfolding WindowsSignatureVerifier_Verify_def
  by (rule leaves_try [OF trust_leaves [OF assms]], simp, rule leaves_try [OF subject_leaves])
    (auto simp: good_subject_def)

definition verified :: "'s windows_api \<Rightarrow> string \<Rightarrow> WindowsArtifact \<Rightarrow> win_event list \<Rightarrow> bool" where
  "verified W p expected es \<longleftrightarrow>
     (\<exists>h content out.
        es = [Opened p h, Statted h True (wa_Size expected), Copied h content, Trusted p, Signed p out] \<and>
        EqualFold (hex_encode (wi_SHA256 W content)) (wa_SHA256 expected) \<and>
        good_subject (wa_Publisher expected) out)"

lemma opened_leaves:
  assumes "mc_events w = es"
  shows "wp (verify_opened (traced_api W) (Some (WindowsSignatureVerifier_Verify (traced_api W))) ctx p h expected)
     (leaves (\<lambda>_ new. verified W p expected (Opened p h # new)) es) w"
  unfolding verify_opened_def
proof (rule leaves_try [OF leaves_in_context [OF api_leaves(1) [OF assms]]], simp, goal_cases)
  case (1 x new w')
  have sha: "wi_SHA256 (traced_api W) = wi_SHA256 W" by (simp add: traced_api_def)
  show ?case
  proof (cases "fst x \<and> snd x = wa_Size expected")
    case True
    have "wp (go_try (in_context ''hash NetBird artifact: '' (wi_Copy (traced_api W) h)) (\<lambda>content.
         let got = hex_encode (wi_SHA256 W content) in
         if \<not> EqualFold got (wa_SHA256 expected)
         then err (Wrapped [] (Sentinel ErrArtifactDigest) ('': got '' @ got))
         else WindowsSignatureVerifier_Verify (traced_api W) ctx p (wa_Publisher expected)))
       (leaves (\<lambda>y new'. verified W p expected (Opened p h # new @ new')) (es @ new)) w'"
      by (rule leaves_try [OF leaves_in_context [OF api_leaves(2)]])
        (use 1 True in \<open>auto simp: Let_def verified_def intro!: leaves_mono [OF signature_leaves]\<close>)
    with True show ?thesis by (simp add: sha case_prod_beta cong: if_cong)
  qed (use 1 in \<open>auto simp: case_prod_beta\<close>)
qed

lemma artifact_leaves:
  assumes "mc_events w = es"
  shows "wp (ArtifactVerifier_Verify (traced_api W) (Some (WindowsSignatureVerifier_Verify (traced_api W))) ctx p expected)
     (leaves (\<lambda>_ new. verified W p expected new) es) w"
proof -
  have "wp (verify_opened (traced_api W) (Some (WindowsSignatureVerifier_Verify (traced_api W))) ctx p h expected)
      (\<lambda>r w'. wp (wi_Close (traced_api W) h) (\<lambda>_. leaves (\<lambda>_ new. verified W p expected new) es r) w') w'"
    if "mc_events w' = es @ [Opened p h]" for h w'
    by (rule wp_mono [OF opened_leaves [OF that]])
      (auto simp: traced_api_def wp_simps leaves_def quiet_def intro!: wp_any split: sum.splits)
  moreover have "wp (wi_Open (traced_api W) p) (leaves (\<lambda>h new. new = [Opened p h]) es) w"
    using assms by (auto simp: traced_api_def wp_simps leaves_def intro!: wp_any split: sum.splits)
  ultimately show ?thesis
    unfolding ArtifactVerifier_Verify_def wp_bind
    by (elim wp_mono) (auto simp: wp_simps leaves_def [of _ _ "Inl _"] leaves_def [of "\<lambda>h new. new = [Opened p h]"]
        split: sum.splits)
qed

section \<open>The installer and the remover\<close>

lemma msiexec_leaves:
  assumes "mc_events w = es"
  shows "wp (run_msiexec (traced_api W) ctx arguments)
    (\<lambda>r w'. mc_events w' = es @ [Msiexec arguments]) w"
  using assms by (auto simp: run_msiexec_def traced_api_def wp_simps intro!: wp_any split: option.splits)

text \<open>
  All that was done with \<open>msiexec\<close>, from an empty record: nothing and an error, or one call, the last thing
  that was done, by an elevated process.
\<close>

definition ends_with :: "(win_event list \<Rightarrow> string list \<Rightarrow> bool) \<Rightarrow> bool \<Rightarrow> win_event list \<Rightarrow> bool" where
  "ends_with P failed es \<longleftrightarrow> failed \<and> list_all (\<lambda>e. \<not> is_Msiexec e) es \<or>
     (\<exists>done arguments. es = done @ [Elevated, Msiexec arguments] \<and> P done arguments)"

lemma ends_with_quiet: "quiet [] es \<Longrightarrow> ends_with P True es"
  by (auto simp: ends_with_def quiet_def filter_empty_conv list_all_iff)

lemma elevated_leaves:
  "wp (wi_IsElevated (traced_api W)) (\<lambda>b w'. mc_events w' = mc_events w @ (if b then [Elevated] else [])) w"
  by (auto simp: traced_api_def wp_simps intro!: wp_any)

lemma elevated_run:
  assumes "list_all (\<lambda>e. \<not> is_Msiexec e) (mc_events w)"
    and "\<And>arguments. built = Inr arguments \<Longrightarrow> P (mc_events w) arguments"
  shows "wp (do {
      elevated \<leftarrow> wi_IsElevated (traced_api W);
      if \<not> elevated then err (Sentinel ErrElevationRequired)
      else case built of Inl e \<Rightarrow> err e | Inr arguments \<Rightarrow> run_msiexec (traced_api W) ctx arguments
    }) (\<lambda>r w'. ends_with P (isl r) (mc_events w')) w"
proof -
  have "wp (run_msiexec (traced_api W) ctx arguments) (\<lambda>r w'. ends_with P (isl r) (mc_events w')) w'"
    if "mc_events w' = mc_events w @ [Elevated]" "built = Inr arguments" for w' arguments
    by (rule wp_mono [OF msiexec_leaves [OF refl]]) (use that assms(2) in \<open>auto simp: ends_with_def\<close>)
  then show ?thesis
    unfolding wp_bind
    by (intro wp_mono [OF elevated_leaves])
      (use assms(1) in \<open>auto simp: wp_simps ends_with_def split: sum.splits if_splits\<close>)
qed

lemma wp_in_context_ends:
  "wp m (\<lambda>r w'. ends_with P (isl r) (mc_events w')) w \<Longrightarrow>
     wp (go_try (in_context t m) (\<lambda>_. ok ())) (\<lambda>r w'. ends_with P (isl r) (mc_events w')) w"
  by (simp add: wp_simps) (erule wp_mono, auto simp: wp_simps split: sum.splits)

lemma installer_ends:
  assumes "mc_events w = []"
  shows "wp (PrivilegedInstaller_Execute (helper_installer (traced_api W)) ctx action p l expected)
    (\<lambda>r w'. ends_with (\<lambda>done arguments. verified W p expected done \<and> BuildMSIArguments action p l = Inr arguments)
       (isl r) (mc_events w')) w"
proof -
  have quiet: "verified W p expected new \<Longrightarrow> list_all (\<lambda>e. \<not> is_Msiexec e) new" for new
    by (auto simp: verified_def)
  have "wp (go_try (in_context (''run NetBird MSI '' @ action @ '': '') (WindowsMSIRunner_Run (traced_api W) ctx action p l)) (\<lambda>_. ok ()))
      (\<lambda>r w'. ends_with (\<lambda>done arguments. verified W p expected done \<and> BuildMSIArguments action p l = Inr arguments)
         (isl r) (mc_events w')) w'"
    if "verified W p expected (mc_events w')" for w'
    unfolding WindowsMSIRunner_Run_def
    by (rule wp_in_context_ends, rule elevated_run) (use that quiet in auto)
  then have "wp (go_try (in_context (''verify NetBird MSI before '' @ action @ '': '')
        (pi_artifacts (helper_installer (traced_api W)) ctx p expected)) (\<lambda>_.
      go_try (in_context (''run NetBird MSI '' @ action @ '': '')
        (pi_runner (helper_installer (traced_api W)) ctx action p l)) (\<lambda>_. ok ())))
      (\<lambda>r w'. ends_with (\<lambda>done arguments. verified W p expected done \<and> BuildMSIArguments action p l = Inr arguments)
         (isl r) (mc_events w')) w"
    unfolding helper_installer_def wp_go_try [of "in_context (''verify NetBird MSI before '' @ action @ '': '') m" for m]
      PrivilegedInstaller.select_convs
    by (intro wp_mono [OF leaves_in_context [OF artifact_leaves [OF assms]]])
      (auto simp: leaves_def ends_with_quiet split: sum.splits)
  then show ?thesis
    using assms by (auto simp: PrivilegedInstaller_Execute_def wp_simps(1) ends_with_def)
qed

lemma remover_ends:
  assumes "mc_events w = []"
  shows "wp (DaemonRemover_Remove (WindowsMSIRunner_Remove (traced_api W)) ctx confirmed productCode l)
    (\<lambda>r w'. ends_with (\<lambda>done arguments. done = [] \<and> BuildMSIRemovalArguments productCode l = Inr arguments)
       (isl r) (mc_events w')) w"
proof -
  have "wp (go_try (in_context ''remove official NetBird service: '' (WindowsMSIRunner_Remove (traced_api W) ctx productCode l))
      (\<lambda>_. ok ()))
    (\<lambda>r w'. ends_with (\<lambda>done arguments. done = [] \<and> BuildMSIRemovalArguments productCode l = Inr arguments)
       (isl r) (mc_events w')) w"
    unfolding WindowsMSIRunner_Remove_def
    by (rule wp_in_context_ends, rule elevated_run) (use assms in auto)
  then show ?thesis
    using assms by (auto simp: DaemonRemover_Remove_def wp_simps(1) ends_with_def)
qed

section \<open>The arguments of the helper\<close>

lemma helper_parses:
  "parse_flags helper_flags [''--action'', a, ''--artifact'', p, ''--log'', l] =
     Inr [(''action'', a), (''artifact'', p), (''log'', l)]"
  "parse_flags helper_flags [''--action'', a, ''--log'', l] =
     Inr [(''action'', a), (''artifact'', []), (''log'', l)]"
  by (simp_all add: helper_flags_def flag_key_def flag_value_def set_flag_def)

text \<open>
  A name in quotes passes for an attribute of its own: this subject belongs to another publisher.
\<close>

lemma publisher_in_quotes:
  "hasDNValue ''CN=\"Mallory, CN=NetBird GmbH, O=NetBird GmbH, Inc.\", O=Mallory'' ''CN'' ''NetBird GmbH''"
  "hasDNValue ''CN=\"Mallory, CN=NetBird GmbH, O=NetBird GmbH, Inc.\", O=Mallory'' ''O'' ''NetBird GmbH''"
  by code_simp+

section \<open>Properties\<close>

text \<open>What the helper may have done before it runs \<open>msiexec\<close> with these arguments.\<close>

definition allowed ::
  "'s windows_api \<Rightarrow> ReleaseMetadata \<Rightarrow> (string \<times> string) list \<Rightarrow> win_event list \<Rightarrow> string list \<Rightarrow> bool" where
  "allowed W metadata fs done arguments \<longleftrightarrow>
     (if flag_of fs ''action'' = MSIRemove
      then done = [] \<and>
        BuildMSIRemovalArguments (ip_ProductCode (wa_Install (rm_WindowsX64 metadata))) (flag_of fs ''log'') = Inr arguments
      else verified W (flag_of fs ''artifact'') (rm_WindowsX64 metadata) done \<and>
        BuildMSIArguments (flag_of fs ''action'') (flag_of fs ''artifact'') (flag_of fs ''log'') = Inr arguments)"

lemma exit_failed:
  "((case r of Inl e \<Rightarrow> Exit 1 (err_text e) | Inr u \<Rightarrow> Exit 0 []) = Exit 0 []) = (\<not> isl r)"
  by (cases r) simp_all

lemma helper_with_events:
  "wp (helper_with (traced_api W) loaded args)
     (\<lambda>exit w. case (parse_flags helper_flags args, loaded) of
        (Inr fs, Inr metadata) \<Rightarrow> ends_with (allowed W metadata fs) (exit \<noteq> Exit 0 []) (mc_events w)
      | _ \<Rightarrow> mc_events w = [])
     \<lparr>mc_outside = s, mc_events = []\<rparr>"
proof (cases "parse_flags helper_flags args"; cases loaded)
  fix fs metadata
  let ?w = "\<lparr>mc_outside = s, mc_events = []\<rparr>"
  assume parts: "parse_flags helper_flags args = Inr fs" "loaded = Inr metadata"
  have "wp (helper_act (traced_api W) metadata (flag_of fs ''action'') (flag_of fs ''artifact'') (flag_of fs ''log''))
     (\<lambda>r w'. ends_with (allowed W metadata fs) (isl r) (mc_events w')) ?w"
    by (simp add: helper_act_def installer_ends remover_ends allowed_def [abs_def])
  moreover have "ends_with (allowed W metadata fs) True []" by (simp add: ends_with_def)
  ultimately show ?thesis by (simp add: helper_with_def parts Let_def wp_simps exit_failed)
qed (auto simp: helper_with_def Let_def wp_simps split: flag_stop.splits)

text \<open>
  C34: Whatever arguments the helper gets and whatever Windows answers, it runs \<open>msiexec\<close> at most once, as
  the last thing it does, in an elevated process, and only with the arguments of the code: to install or
  repair, after the same path was opened, found to be a regular file of the size and SHA-256 of the release,
  trusted by Windows and signed by the publisher of the release; or to remove the product of the release.
  It reports success only if \<open>msiexec\<close> ran or its usage was asked for.
\<close>
theorem msiexec_only_verified:
  "wp (helper_main (traced_api W) args)
     (\<lambda>exit w. case (parse_flags helper_flags args, release_Load) of
        (Inr fs, Inr metadata) \<Rightarrow> ends_with (allowed W metadata fs) (exit \<noteq> Exit 0 []) (mc_events w)
      | _ \<Rightarrow> mc_events w = [])
     \<lparr>mc_outside = s, mc_events = []\<rparr>"
  unfolding helper_main_def by (rule helper_with_events)

end
