(* ===== verification/ElevationSpec.thy ===== *)
theory ElevationSpec
  imports InstallerSpec
begin

text \<open>
  The way from the window to the elevated helper: what \<open>RequestInstallerElevation\<close> asks Windows to start is
  what the helper then does, whatever characters the paths have.
\<close>

section \<open>The parameters\<close>

lemma escape_chars_mem:
  "c \<noteq> backslash \<Longrightarrow> c \<noteq> quote_mark \<Longrightarrow> c \<in> set (escape_chars q n s) \<longleftrightarrow> c \<in> set s"
  by (induction s arbitrary: n) auto

lemma EscapeArg_mem:
  "c \<noteq> backslash \<Longrightarrow> c \<noteq> quote_mark \<Longrightarrow> c \<in> set (EscapeArg s) \<longleftrightarrow> c \<in> set s"
  by (auto simp: EscapeArg_chars escape_chars_mem)

lemma Join_with_mem: "c \<noteq> sep \<Longrightarrow> c \<in> set (Join_with sep ps) \<longleftrightarrow> (\<exists>p\<in>set ps. c \<in> set p)"
  by (induction sep ps rule: Join_with.induct) auto

lemma parameters_ptr:
  "utf16_ptr (escaped_parameters args) =
     (if list_ex (\<lambda>a. CHR 0x00 \<in> set a) args then None else Some (escaped_parameters args))"
proof -
  have "CHR 0x00 \<noteq> backslash" "CHR 0x00 \<noteq> quote_mark" by (simp_all add: backslash_def quote_mark_def)
  then show ?thesis
    by (auto simp: utf16_ptr_def escaped_parameters_def Join_with_mem EscapeArg_mem list_ex_iff)
qed

section \<open>A Windows that starts the helper\<close>

text \<open>
  \<open>ShellExecute\<close> with the verb \<open>runas\<close> starts the program with its parameters as command line; the user may
  refuse.  It returns when the program was started, whatever that does.
\<close>

definition starting_helper :: "('s, bool) state \<Rightarrow> 's windows_api \<Rightarrow> 's windows_api" where
  "starting_helper consent V = V\<lparr>wi_ShellExecute := (\<lambda>verb program parameters d. do {
     agreed \<leftarrow> consent;
     if \<not> agreed \<or> program = None then State_Monad.return (Some (Message ''The operation was canceled by the user.''))
     else do {
       _ \<leftarrow> helper_main V (case parameters of None \<Rightarrow> [] | Some line \<Rightarrow> commandLineToArgv line);
       State_Monad.return None
     }
   })\<rparr>"

definition elevated ::
  "('s, bool) state \<Rightarrow> string \<Rightarrow> string \<Rightarrow> ('s, helper_exit) state \<Rightarrow> ('s, goerr + unit) state" where
  "elevated consent failure helperPath act = do {
     agreed \<leftarrow> consent;
     if \<not> agreed \<or> CHR 0x00 \<in> set helperPath
     then err (Wrapped failure (Message ''The operation was canceled by the user.'') [])
     else do { _ \<leftarrow> act; ok () }
   }"

lemma ptr_None: "utf16_ptr s = None \<longleftrightarrow> CHR 0x00 \<in> set s"
  by (simp add: utf16_ptr_def)

lemma run_elevated_helper:
  "run_elevated (starting_helper consent V) F failure helperPath args =
     elevated consent failure helperPath
       (helper_main V (if list_ex (\<lambda>a. CHR 0x00 \<in> set a) args then [] else args))"
  by (rule state.expand, rule ext)
    (simp add: run_elevated_def elevated_def starting_helper_def parameters_ptr ptr_None argv_escaped
      split: prod.splits)

lemma helper_main_nothing: "helper_main V [] = State_Monad.return (Exit 1 (err_text (Sentinel ErrUnsupportedAction)))"
  by (simp add: helper_main_def helper_with_def helper_flags_def flag_of_def MSIInstall_def MSIRepair_def
      MSIRemove_def)

text \<open>What the helper does with well-formed arguments.\<close>

definition helper_performs ::
  "'s windows_api \<Rightarrow> MSIAction \<Rightarrow> string \<Rightarrow> string \<Rightarrow> ('s, helper_exit) state" where
  "helper_performs V action artifactPath logPath =
     (case release_Load of
        Inl e \<Rightarrow> State_Monad.return (Exit 1 (err_text e))
      | Inr metadata \<Rightarrow> do {
          r \<leftarrow> helper_act V metadata action artifactPath logPath;
          State_Monad.return (case r of Inl e \<Rightarrow> Exit 1 (err_text e) | Inr _ \<Rightarrow> Exit 0 [])
        })"

lemma helper_main_parsed:
  "action = MSIInstall \<or> action = MSIRepair \<or> action = MSIRemove \<Longrightarrow>
     helper_main V [''--action'', action, ''--artifact'', p, ''--log'', l] = helper_performs V action p l"
  "helper_main V [''--action'', MSIRemove, ''--log'', l] = helper_performs V MSIRemove [] l"
  by (auto simp: helper_main_def helper_with_def helper_parses flag_of_def helper_performs_def
      simp del: parse_flags.simps cong: sum.case_cong)

lemma MSIActions_text: "CHR 0x00 \<notin> set MSIInstall" "CHR 0x00 \<notin> set MSIRepair" "CHR 0x00 \<notin> set MSIRemove"
  by (simp_all add: MSIInstall_def MSIRepair_def MSIRemove_def)

section \<open>Properties\<close>

text \<open>
  C35: A request of the window for elevation is, apart from the consent of the user, the action of the helper
  itself: quoting the arguments, splitting the command line and parsing the flags give back exactly the
  action, the artifact and the log path, whatever blanks, quotes and backslashes they have.  Only a NUL byte
  is lost: then the helper is started without arguments and does nothing.
\<close>
theorem elevation_reaches_helper:
  "RequestInstallerElevation (starting_helper consent V) F helperPath action artifactPath logPath =
     (if action \<noteq> MSIInstall \<and> action \<noteq> MSIRepair then err (Sentinel ErrUnsupportedAction)
      else if \<not> is_helper F helperPath then err (Message ''invalid elevated helper path'')
      else if filepath_IsAbs artifactPath \<and> filepath_IsAbs logPath
      then elevated consent ''request NetBird installer elevation: '' helperPath
        (if CHR 0x00 \<in> set (artifactPath @ logPath)
         then State_Monad.return (Exit 1 ''unsupported privileged action'')
         else helper_performs V action artifactPath logPath)
      else err (Message ''elevated helper requires absolute paths'')) \<and>
   RequestDaemonRemovalElevation (starting_helper consent V) F helperPath confirmed logPath =
     (if \<not> confirmed then err (Sentinel ErrRemovalNotConfirmed)
      else if \<not> is_helper F helperPath then err (Message ''invalid elevated helper path'')
      else if \<not> filepath_IsAbs logPath then err (Message ''elevated helper requires an absolute log path'')
      else elevated consent ''request NetBird removal elevation: '' helperPath
        (if CHR 0x00 \<in> set logPath then State_Monad.return (Exit 1 ''unsupported privileged action'')
         else helper_performs V MSIRemove [] logPath))"
  unfolding RequestInstallerElevation_def RequestDaemonRemovalElevation_def
  by (auto simp: run_elevated_helper helper_main_parsed helper_main_nothing MSIActions_text)

end
