(* ===== verification/DesktopWindow.thy ===== *)
theory DesktopWindow
  imports DesktopSpec AppJson Diagnostics Installer Platform
begin

text \<open>
  The window on the desktop (\<open>client/app/bootstrap_windows.go\<close>): the controller over the session of
  \<open>Desktop\<close>, the inspector of the service, the repair that starts the elevated helper, and the export of
  diagnostics (\<open>client/app/controller.go\<close>).  The state of the system is the session, whose outside is the
  machine.
\<close>

section \<open>The machine\<close>

text \<open>Beside \<open>platform\<close>: what the window asks of Windows.\<close>

record 'r window_platform =
  wm_windows :: "'r windows_api"
  wm_services :: "'r service_manager"
  wm_Executable :: "('r, goerr + string) state"
  wm_Close :: "('r, goerr option) state"
  wm_timestamp :: "('r, string) state"
  wm_zip :: zip_format

definition on_machine :: "('r, 'a) state \<Rightarrow> ('r world session, 'a) state" where
  "on_machine m = in_client (in_world (on_rest m))"

definition machine_services :: "'r service_manager \<Rightarrow> 'r world session service_manager" where
  "machine_services M =
     \<lparr>scm_OpenSCManager = on_machine (scm_OpenSCManager M),
      scm_OpenService = \<lambda>name. on_machine (scm_OpenService M name),
      scm_Status = on_machine (scm_Status M),
      scm_BinaryPath = on_machine (scm_BinaryPath M),
      scm_DecomposeCommandLine = scm_DecomposeCommandLine M,
      scm_DisplayVersion = \<lambda>code. on_machine (scm_DisplayVersion M code)\<rparr>"

section \<open>The controller of the desktop\<close>

definition windowsRepairFunc ::
  "'r platform \<Rightarrow> 'r window_platform \<Rightarrow> ReleaseMetadata \<Rightarrow> go_context \<Rightarrow> ('r world session, goerr option) state" where
  "windowsRepairFunc P N release ctx = do {
     executable \<leftarrow> on_machine (wm_Executable N);
     case executable of
       Inl e \<Rightarrow> State_Monad.return (Some (Message ''resolve Sogame installation directory''))
     | Inr executable \<Rightarrow>
         let root = filepath_Dir (pf_filepath P) executable in
         case DefaultMetadataPath (pf_filepath P) of
           Inl e \<Rightarrow> State_Monad.return (Some e)
         | Inr logRoot \<Rightarrow>
             let logPath = filepath_Join (pf_filepath P) [filepath_Dir (pf_filepath P) logRoot, ''netbird-repair.log'']
             in do {
               r \<leftarrow> on_machine (RequestInstallerElevation (wm_windows N) (pf_filepath P)
                 (filepath_Join (pf_filepath P) [root, ''sogame-helper.exe'']) MSIRepair
                 (filepath_Join (pf_filepath P) [root, wa_Artifact (rm_WindowsX64 release)]) logPath);
               State_Monad.return (case r of Inl e \<Rightarrow> Some e | Inr _ \<Rightarrow> None)
             }
   }"

definition controllerWithStartupError :: "('s, 'd) Controller \<Rightarrow> goerr \<Rightarrow> ('s, 'd) Controller" where
  "controllerWithStartupError c e =
     c\<lparr>ct_state := (ct_state c)\<lparr>st_State := StateRecoverableError, st_Error := publicError (Some e),
         st_Service := (st_Service (ct_state c))\<lparr>sn_RepairRequired := True\<rparr>\<rparr>\<rparr>"

text \<open>The inspector and the repair, if the release could be loaded.\<close>

definition configure_release ::
  "'r platform \<Rightarrow> 'r window_platform \<Rightarrow> goerr + ReleaseMetadata \<Rightarrow>
     (go_context \<Rightarrow> ('r world session, goerr + string) state) option \<Rightarrow>
     ('r world session, Writer) Controller \<Rightarrow> ('r world session, Writer) Controller" where
  "configure_release P N loaded probe c =
     (case loaded of
        Inl e \<Rightarrow> c
      | Inr release \<Rightarrow> ConfigureService
          (\<lambda>ctx. Inspect (NewServiceInspector (machine_services (wm_services N)) netbird_ExpectedVersion
            (ip_ProductCode (wa_Install (rm_WindowsX64 release))) (map_option (\<lambda>p. p ctx) probe)))
          (windowsRepairFunc P N release) c)"

definition configure_diagnostics ::
  "filepath \<Rightarrow> string \<Rightarrow> ('s, Writer) Controller \<Rightarrow> ('s, Writer) Controller" where
  "configure_diagnostics F metadataPath c =
     (case NewWriter F (filepath_Join F [filepath_Dir F metadataPath, ''diagnostics'']) of
        Inl e \<Rightarrow> c
      | Inr writer \<Rightarrow> ConfigureDiagnostics writer c)"

text \<open>The last steps, with everything at hand.\<close>

definition controller_with_session ::
  "'r platform \<Rightarrow> 'r window_platform \<Rightarrow> goerr + ReleaseMetadata \<Rightarrow> 'r world RoomClient \<Rightarrow> string \<Rightarrow>
     MetadataStore \<Rightarrow> RoomCodeStore \<Rightarrow> 'r world session \<Rightarrow> ('r world session, Writer) Controller" where
  "controller_with_session P N loaded rooms username metadata codes x =
     (let adapter = desktop_adapter P username in
      configure_release P N loaded (Some (\<lambda>ctx. in_client (ad_DaemonVersion adapter ctx)))
        (NewWithSession (service_session (session_service P rooms username metadata codes))
          (on_machine (wm_Close N)) x))"

definition NewWindowsController_with ::
  "'r platform \<Rightarrow> 'r window_platform \<Rightarrow> goerr + ReleaseMetadata \<Rightarrow> 'r world session \<Rightarrow>
     ('r world session, Writer) Controller" where
  "NewWindowsController_with P N loaded x =
     (let controller = configure_release P N loaded None (New_controller x) in
      case NewClient roomAPIBaseURL (local_http (pf_http P)) of
        Inl e \<Rightarrow> controllerWithStartupError controller e
      | Inr rooms \<Rightarrow>
     (case DefaultMetadataPath (pf_filepath P) of
        Inl e \<Rightarrow> controllerWithStartupError controller e
      | Inr metadataPath \<Rightarrow>
     (case NewMetadataStore (pf_filepath P) (pf_codec P) metadataPath of
        Inl e \<Rightarrow> controllerWithStartupError controller e
      | Inr metadata \<Rightarrow>
      let controller = configure_diagnostics (pf_filepath P) metadataPath controller in
     (case DefaultRoomCodePath (pf_filepath P) of
        Inl e \<Rightarrow> controllerWithStartupError controller e
      | Inr roomCodePath \<Rightarrow>
     (case NewRoomCodeStore (pf_filepath P) (pf_dpapi P) roomCodePath of
        Inl e \<Rightarrow> controllerWithStartupError controller e
      | Inr codes \<Rightarrow>
     (case pf_user P of
        Inl e \<Rightarrow> controllerWithStartupError controller (Message ''resolve current Windows user'')
      | Inr username \<Rightarrow>
     (case pf_dial P of
        Some e \<Rightarrow> controllerWithStartupError controller (Wrapped ''connect to local NetBird daemon: '' e [])
      | None \<Rightarrow> controller_with_session P N loaded rooms username metadata codes x)))))))"

definition NewWindowsController ::
  "'r platform \<Rightarrow> 'r window_platform \<Rightarrow> 'r world session \<Rightarrow> ('r world session, Writer) Controller" where
  "NewWindowsController P N x = NewWindowsController_with P N release_Load x"

section \<open>The export of diagnostics\<close>

record DiagnosticResult =
  dr_Path :: "path option"
  dr_Error :: "PublicError option"

text \<open>What \<open>json.Marshal\<close> makes of the view; its only error is that of a time.\<close>

definition marshal_view :: "time_codec \<Rightarrow> RoomViewSnapshot \<Rightarrow> goerr + string" where
  "marshal_view T view =
     (case RoomViewSnapshot_json T view of
        None \<Rightarrow> Inl (Message ''json: error calling MarshalJSON for type time.Time'')
      | Some j \<Rightarrow> Inr (render j))"

definition Collect :: "time_codec \<Rightarrow> go_context \<Rightarrow> (('s, 'd) Controller, goerr + Report) state" where
  "Collect T ctx = do {
     state \<leftarrow> GetState;
     let application = Inr (render (StateSnapshot_json state));
     c \<leftarrow> State_Monad.get;
     netbird \<leftarrow> (case view_session c of
         None \<Rightarrow> State_Monad.return application
       | Some viewSession \<Rightarrow> do {
           r \<leftarrow> in_system (rvs_View viewSession ctx);
           State_Monad.return (case r of Inl e \<Rightarrow> application | Inr view \<Rightarrow> marshal_view T view)
         });
     ok \<lparr>rep_Application = application, rep_NetBird = netbird, rep_Logs = []\<rparr>
   }"

definition ExportDiagnostics ::
  "time_codec \<Rightarrow> ('s, Writer) Controller diagnostic_env \<Rightarrow> (('s, Writer) Controller, DiagnosticResult) state" where
  "ExportDiagnostics T E = do {
     c \<leftarrow> State_Monad.get;
     case ct_diagnostics c of
       None \<Rightarrow> State_Monad.return
         \<lparr>dr_Path = None, dr_Error = publicError (Some (Message ''diagnostics are unavailable''))\<rparr>
     | Some writer \<Rightarrow> do {
         r \<leftarrow> Writer_Write E writer (Some (Collect T (controller_context c)));
         State_Monad.return (case r of
             Inl e \<Rightarrow> \<lparr>dr_Path = None, dr_Error = publicError (Some e)\<rparr>
           | Inr p \<Rightarrow> \<lparr>dr_Path = Some p, dr_Error = None\<rparr>)
       }
   }"

text \<open>The disk of the desktop, and its clock.\<close>

definition desktop_diagnostics ::
  "'r window_platform \<Rightarrow> ('r world session, 'd) Controller diagnostic_env" where
  "desktop_diagnostics N =
     \<lparr>de_disk = \<lambda>c. w_disk (session_world (ct_system c)),
      de_put_disk = \<lambda>d c. c\<lparr>ct_system := (ct_system c)\<lparr>sv_client := (sv_client (ct_system c))
        \<lparr>outside := (session_world (ct_system c))\<lparr>w_disk := d\<rparr>\<rparr>\<rparr>\<rparr>,
      de_timestamp = in_system (on_machine (wm_timestamp N)),
      de_zip = wm_zip N\<rparr>"

end
