(* ===== verification/DesktopWindowSpec.thy ===== *)
theory DesktopWindowSpec
  imports DesktopWindow AppControllerSpec
begin

text \<open>What the window of the desktop promises when it starts and when a room is left.\<close>

section \<open>Start\<close>

lemma configure_release_simps [simp]:
  "ct_rooms (configure_release P N loaded probe c) = ct_rooms c"
  "ct_state (configure_release P N loaded probe c) = ct_state c"
  "ct_diagnostics (configure_release P N loaded probe c) = ct_diagnostics c"
  by (simp_all add: configure_release_def ConfigureService_def split: sum.splits)

lemma configure_diagnostics_simps [simp]:
  "ct_rooms (configure_diagnostics F p c) = ct_rooms c" "ct_state (configure_diagnostics F p c) = ct_state c"
  by (simp_all add: configure_diagnostics_def ConfigureDiagnostics_def split: sum.splits)

lemma new_controller_simps [simp]:
  "ct_rooms (New_controller x) = None" "ct_state (New_controller x) = initial_state"
  "ct_diagnostics (New_controller x) = None"
  "ct_rooms (NewWithSession rooms close x) = Some rooms" "ct_state (NewWithSession rooms close x) = initial_state"
  "ct_diagnostics (NewWithSession rooms close x) = None"
  by (simp_all add: New_controller_def NewWithSession_def)

lemma startup_error_simps [simp]:
  "ct_rooms (controllerWithStartupError c e) = ct_rooms c"
  "ct_state (controllerWithStartupError c e) = (ct_state c)\<lparr>st_State := StateRecoverableError,
     st_Error := publicError (Some e), st_Service := (st_Service (ct_state c))\<lparr>sn_RepairRequired := True\<rparr>\<rparr>"
  by (simp_all add: controllerWithStartupError_def)

text \<open>What the window shows when it could not start.\<close>

definition startup_failed :: "goerr \<Rightarrow> StateSnapshot" where
  "startup_failed e = initial_state\<lparr>st_State := StateRecoverableError, st_Error := publicError (Some e),
     st_Service := (st_Service initial_state)\<lparr>sn_RepairRequired := True\<rparr>\<rparr>"

lemma NewWindowsController_session:
  "case NewWindowsSession P of
     Inl e \<Rightarrow> ct_rooms (NewWindowsController_with P N loaded x) = None \<and>
       ct_state (NewWindowsController_with P N loaded x) = startup_failed e
   | Inr S \<Rightarrow> ct_rooms (NewWindowsController_with P N loaded x) = Some (service_session S) \<and>
       ct_state (NewWindowsController_with P N loaded x) = initial_state \<and>
       ct_diagnostics (NewWindowsController_with P N loaded x) = None"
  by (simp add: NewWindowsSession_def NewWindowsController_with_def controller_with_session_def Let_def
      startup_failed_def split: sum.split option.split)

section \<open>Leaving\<close>

lemma Leave_shown:
  "wp (service_Leave S ctx) (\<lambda>r t. snd r = None \<longrightarrow> ss_State (fst r) = StateNoRoom) s"
  unfolding service_Leave_def run_command_def leaveUnlocked_def service_fail_def service_done_def
  by (auto simp: wp_simps Let_def Derive_def no_facts_def intro!: wp_any wp_machine_Apply_state
      split: option.splits sum.splits)

lemma Leave_truth:
  assumes "\<not> sv_busy x"
  shows "wp (service_Leave (desktop_service P conf username directory) ctx) (\<lambda>r t.
     case snd r of
       None \<Rightarrow> ss_State (fst r) = StateNoRoom \<and> saved_room_of P directory (session_world x) = SavedRoom \<and>
         saved_room_of P directory (session_world t) = NoRoom
     | Some e \<Rightarrow> disk_ready (session_world x) \<longrightarrow> same_saved P directory (session_world x) (session_world t)) x"
proof -
  have "wp (service_Leave (desktop_service P conf username directory) ctx) (\<lambda>r t.
      desktop.leave_result P directory (snd r) (session_world x) (session_world t) \<and>
      (snd r = None \<longrightarrow> ss_State (fst r) = StateNoRoom)) x"
    using desktop.Leave_wp [OF assms] Leave_shown by (simp add: wp_conj)
  then show ?thesis
    by (rule wp_mono)
      (auto simp: desktop.leave_result_def saved_room_of_def same_saved_def split: option.splits)
qed

lemma publicError_Some: "\<exists>p. publicError (Some e) = Some p"
  by (simp add: publicError_def split: option.split)

lemma command_shown_ok:
  assumes "ss_State snapshot = StateNoRoom"
  shows "st_Error (command_shown snapshot None s) = None" "st_BusyCommand (command_shown snapshot None s) = []"
    "st_State (command_shown snapshot None s) = StateNoRoom" "no_details (command_shown snapshot None s)"
  using assms by (simp_all add: command_shown_def Let_def clearActiveRoom_def no_details_def)

lemma command_shown_error:
  "st_Error (command_shown snapshot (Some e) s) \<noteq> None" "st_BusyCommand (command_shown snapshot (Some e) s) = []"
  "st_State (command_shown snapshot (Some e) s) = StateRecoverableError"
  using publicError_Some [of e] by (auto simp: command_shown_def Let_def)

text \<open>A view changes neither file.\<close>

lemma refresh_keeps_room:
  assumes "ct_rooms c = Some (service_session (desktop_service P conf username directory))"
  shows "wp (refreshRoomView L ctx) (\<lambda>r c'. saved_room_of P directory (session_world (ct_system c')) =
     saved_room_of P directory (session_world (ct_system c))) c"
proof -
  have "view_session c = Some \<lparr>rvs_View = service_View (desktop_service P conf username directory),
      rvs_RevealRoomCode = \<lambda>ctx. RevealRoomCode (desktop_service P conf username directory)\<rparr>"
    using assms by (simp add: view_session_def service_session_def)
  moreover have "wp (service_View (desktop_service P conf username directory) ctx)
      (\<lambda>r t. saved_room_of P directory (session_world t) = saved_room_of P directory (session_world (ct_system c)))
      (ct_system c)"
    by (rule wp_mono [OF desktop.View_wp]) (simp add: desktop.looked_def saved_room_of_def)
  ultimately show ?thesis by (simp add: refreshRoomView_def wp_simps)
qed

text \<open>A window of the desktop that is not busy, whatever it shows and whatever is on the disk.\<close>

definition idle_window ::
  "'r platform \<Rightarrow> 'r world RoomClient \<Rightarrow> string \<Rightarrow> string \<Rightarrow> ('r world session, goerr option) state \<Rightarrow>
     StateSnapshot \<Rightarrow> 'r world session \<Rightarrow> ('r world session, Writer) Controller" where
  "idle_window P conf username directory close s x =
     (NewWithSession (service_session (desktop_service P conf username directory)) close (x\<lparr>sv_busy := False\<rparr>))
       \<lparr>ct_state := s\<lparr>st_BusyCommand := []\<rparr>\<rparr>"

text \<open>What the window shows and what is on the disk after the command, beside the files it had in the world \<open>w\<close>.\<close>

definition leave_told ::
  "'r platform \<Rightarrow> string \<Rightarrow> 'r world \<Rightarrow> StateSnapshot \<Rightarrow> ('r world session, Writer) Controller \<Rightarrow> bool" where
  "leave_told P directory w shown c' \<longleftrightarrow> ct_state c' = shown \<and> st_BusyCommand shown = [] \<and>
     (if st_Error shown = None
      then st_State shown = StateNoRoom \<and> no_details shown \<and>
        saved_room_of P directory w = SavedRoom \<and>
        saved_room_of P directory (session_world (ct_system c')) = NoRoom
      else st_State shown = StateRecoverableError \<and>
        (if disk_ready w then same_saved P directory w (session_world (ct_system c')) else True))"

lemma leave_shown:
  assumes "ct_rooms c = Some (service_session (desktop_service P conf username directory))"
    and "case snd r of
       None \<Rightarrow> ss_State (fst r) = StateNoRoom \<and> saved_room_of P directory w = SavedRoom \<and>
         saved_room_of P directory (session_world t) = NoRoom
     | Some e \<Rightarrow> disk_ready w \<longrightarrow> same_saved P directory w (session_world t)"
  shows "wp (do { (if snd r = None then refreshRoomView L ctx else State_Monad.return ());
      show_state (command_shown (fst r) (snd r)) }) (leave_told P directory w) (c\<lparr>ct_system := t\<rparr>)"
proof (cases "snd r")
  case None
  then have "wp (refreshRoomView L ctx) (\<lambda>u c'. saved_room_of P directory (session_world (ct_system c')) = NoRoom)
      (c\<lparr>ct_system := t\<rparr>)"
    using refresh_keeps_room [of "c\<lparr>ct_system := t\<rparr>" P conf username directory L ctx] assms by simp
  with None assms(2) show ?thesis
    by (simp add: wp_simps leave_told_def) (erule wp_mono, simp add: command_shown_ok)
next
  case (Some e)
  with assms(2) show ?thesis by (simp add: wp_simps leave_told_def command_shown_error)
qed

lemma LeaveRoom_run:
  assumes "ct_rooms c = Some (service_session (desktop_service P conf username directory))"
    and "st_BusyCommand (ct_state c) = []"
  shows "wp (LeaveRoom L) Q c =
      wp (service_Leave (desktop_service P conf username directory) (controller_context c))
        (\<lambda>r t. wp (do { (if snd r = None then refreshRoomView L (controller_context c) else State_Monad.return ());
           show_state (command_shown (fst r) (snd r)) }) Q
         (c\<lparr>ct_state := (ct_state c)\<lparr>st_BusyCommand := ''leave'', st_Error := None\<rparr>, ct_system := t\<rparr>)) (ct_system c)"
  unfolding LeaveRoom_def runCommand_def command_begin_def on_rooms_def lifecycleSession_def
  by (simp add: wp_simps assms service_session_def Let_def case_prod_beta)

text \<open>
  C37: The button that leaves a room tells the truth: on a window that is not busy, from any state of the
  disk and whatever the daemon answers, it shows no error exactly when a room was saved before and none is
  now, and then no detail of the room is shown any more; with an error the window offers to recover, and on
  a disk that works both files are what they were.
\<close>
theorem leave_button:
  "case run_state (LeaveRoom L) (idle_window P conf username directory close s x) of
     (shown, c') \<Rightarrow> ct_state c' = shown \<and> st_BusyCommand shown = [] \<and>
       (if st_Error shown = None
        then st_State shown = StateNoRoom \<and> no_details shown \<and>
          saved_room_of P directory (session_world x) = SavedRoom \<and>
          saved_room_of P directory (session_world (ct_system c')) = NoRoom
        else st_State shown = StateRecoverableError \<and>
          (if disk_ready (session_world x)
           then same_saved P directory (session_world x) (session_world (ct_system c')) else True))"
proof -
  define c where "c = idle_window P conf username directory close s x"
  have c: "ct_rooms c = Some (service_session (desktop_service P conf username directory))"
    "st_BusyCommand (ct_state c) = []" "ct_system c = x\<lparr>sv_busy := False\<rparr>"
    by (simp_all add: c_def idle_window_def NewWithSession_def New_controller_def)
  have idle: "\<not> sv_busy (ct_system c)" and world: "session_world (ct_system c) = session_world x"
    by (simp_all add: c)
  have "wp (LeaveRoom L) (leave_told P directory (session_world x)) c"
    unfolding LeaveRoom_run [OF c(1,2)]
    by (rule wp_mono [OF Leave_truth [OF idle]], rule leave_shown) (simp_all only: world, simp add: c)
  then show ?thesis by (simp add: wp_def leave_told_def c_def)
qed

text \<open>
  C36: The window starts with the session if everything it needs is there, and otherwise without one, with
  the error that stopped it and the advice to repair.  But once it has a session it can never export
  diagnostics: the writer was given to the controller that is thrown away, and the user reads that joining a
  room failed.
\<close>
theorem startup_outcome:
  "case NewWindowsSession P of
     Inl e \<Rightarrow> ct_rooms (NewWindowsController P N x) = None \<and>
       ct_state (NewWindowsController P N x) = startup_failed e
   | Inr S \<Rightarrow> ct_rooms (NewWindowsController P N x) = Some (service_session S) \<and>
       ct_state (NewWindowsController P N x) = initial_state \<and>
       run_state (ExportDiagnostics T E) (NewWindowsController P N x) =
         (\<lparr>dr_Path = None,
           dr_Error = Some (public Code_EnrollmentFailed text_join_failed True text_retry_later)\<rparr>,
          NewWindowsController P N x)"
proof -
  have "CHR ''m'' \<notin> set (ToLower ''diagnostics are unavailable'')" by code_simp
  then have "\<not> Contains (ToLower ''diagnostics are unavailable'') ''room session is unavailable''"
    by (auto dest: Contains_chars)
  then have "publicError (Some (Message ''diagnostics are unavailable'')) =
      Some (public Code_EnrollmentFailed text_join_failed True text_retry_later)"
    by (simp add: publicError_def errors_As_HTTPError_def errors_As_VersionMismatch_def)
  then show ?thesis
    using NewWindowsController_session [of P N release_Load x]
    by (simp add: NewWindowsController_def ExportDiagnostics_def split: sum.splits)
qed

end
