(* ===== verification/Tray.thy ===== *)
theory Tray
  imports GoPrelude
begin

text \<open>
  The icon in the notification area (\<open>client/tray_windows.go\<close>): the window procedure, the message loop as
  steps of its goroutine, and \<open>Close\<close>, which may come at any time.  Windows is a queue of posted messages
  and the facts whether the window exists and the icon is shown; what the user does and what other programs
  post is any sequence of messages.
\<close>

section \<open>Messages\<close>

definition trayCallbackMessage :: "32 word" where "trayCallbackMessage = 0x0400 + 1"
definition trayOpenCommand :: "64 word" where "trayOpenCommand = 1001"
definition trayExitCommand :: "64 word" where "trayExitCommand = 1002"
definition wmTrayNotify :: "32 word" where "wmTrayNotify = trayCallbackMessage"
definition wmLButtonUp :: "64 word" where "wmLButtonUp = 0x0202"
definition wmRButtonUp :: "64 word" where "wmRButtonUp = 0x0205"
definition wmCommand :: "32 word" where "wmCommand = 0x0111"
definition wmClose :: "32 word" where "wmClose = 0x0010"
definition wmQuit :: "32 word" where "wmQuit = 0x0012"

record trayMsg =
  tm_Message :: "32 word"
  tm_WParam :: "64 word"
  tm_LParam :: "64 word"

text \<open>What the program asks the toolkit to do, in order.\<close>

datatype tray_effect = WindowShow | AppQuit | PopupMenu

record tray_windows =
  tw_queue :: "trayMsg list"
  tw_window :: bool
  tw_icon :: bool
  tw_effects :: "tray_effect list"

record systemTray =
  tr_ctx :: bool
  tr_hwnd :: "64 word"
  tr_closed :: bool

record tray_state =
  ts_tray :: systemTray
  ts_windows :: tray_windows

definition newSystemTray :: systemTray where
  "newSystemTray = \<lparr>tr_ctx = False, tr_hwnd = 0, tr_closed = False\<rparr>"

definition tray_start :: tray_state where
  "tray_start = \<lparr>ts_tray = newSystemTray,
     ts_windows = \<lparr>tw_queue = [], tw_window = False, tw_icon = False, tw_effects = []\<rparr>\<rparr>"

definition on_tray :: "(systemTray \<Rightarrow> systemTray) \<Rightarrow> tray_state \<Rightarrow> tray_state" where
  "on_tray f s = s\<lparr>ts_tray := f (ts_tray s)\<rparr>"
definition on_windows :: "(tray_windows \<Rightarrow> tray_windows) \<Rightarrow> tray_state \<Rightarrow> tray_state" where
  "on_windows f s = s\<lparr>ts_windows := f (ts_windows s)\<rparr>"

text \<open>\<open>PostMessage\<close> fails once the window is destroyed.\<close>

definition post :: "trayMsg \<Rightarrow> tray_state \<Rightarrow> tray_state" where
  "post m = on_windows (\<lambda>w. if tw_window w then w\<lparr>tw_queue := tw_queue w @ [m]\<rparr> else w)"

definition plain_message :: "32 word \<Rightarrow> trayMsg" where
  "plain_message n = \<lparr>tm_Message = n, tm_WParam = 0, tm_LParam = 0\<rparr>"

text \<open>\<open>DestroyWindow\<close> drops what was posted to the window, \<open>PostQuitMessage\<close> leaves \<open>WM_QUIT\<close> for the thread.\<close>

definition destroy_and_quit :: "tray_state \<Rightarrow> tray_state" where
  "destroy_and_quit = on_windows (\<lambda>w. w\<lparr>tw_window := False, tw_queue := [plain_message wmQuit]\<rparr>)"

definition effect :: "tray_effect \<Rightarrow> tray_state \<Rightarrow> tray_state" where
  "effect e = on_windows (\<lambda>w. w\<lparr>tw_effects := tw_effects w @ [e]\<rparr>)"

section \<open>The window procedure\<close>

definition showWindow :: "tray_state \<Rightarrow> tray_state" where
  "showWindow s = (if tr_ctx (ts_tray s) then effect WindowShow s else s)"

definition quitApp :: "tray_state \<Rightarrow> tray_state" where
  "quitApp s = (if tr_ctx (ts_tray s) then effect AppQuit s else s)"

text \<open>Every message without a case goes to \<open>DefWindowProc\<close>, which does nothing here.\<close>

definition tray_callback :: "trayMsg \<Rightarrow> tray_state \<Rightarrow> tray_state" where
  "tray_callback m s =
     (if tm_Message m = wmTrayNotify then
        if tm_LParam m = wmLButtonUp then showWindow s
        else if tm_LParam m = wmRButtonUp then effect PopupMenu s
        else s
      else if tm_Message m = wmCommand then
        let command = Bit_Operations.and (tm_WParam m) 0xffff in
        if command = trayOpenCommand then showWindow s
        else if command = trayExitCommand then quitApp s
        else s
      else if tm_Message m = wmClose then
        destroy_and_quit s
      else s)"

section \<open>The goroutine of \<open>run\<close>\<close>

text \<open>
  Where \<open>run\<close> is: before \<open>CreateWindowEx\<close>, before \<open>t.hwnd\<close> is set, before the icon is added, in the loop with the
  variable \<open>message\<close>, and behind it.  \<open>GetMessage\<close> waits for a message and returns zero for \<open>WM_QUIT\<close>; when it
  fails it returns \<open>-1\<close> and leaves the variable alone.
\<close>

datatype tray_pc =
    Idle
  | Starting
  | Created "64 word"
  | Adding
  | Loop trayMsg
  | Leaving
  | Clearing
  | Finished

datatype tray_event =
    Start
  | Close
  | CreateWindow "64 word"
  | SetWindow
  | AddIcon
  | GetMessage
  | GetMessageFails
  | DeleteIcon
  | ClearWindow
  | Posted trayMsg

text \<open>\<open>messageResult <= 0\<close>, on \<open>uintptr\<close>.\<close>

definition messageResult_ends :: "64 word \<Rightarrow> bool" where "messageResult_ends messageResult \<longleftrightarrow> messageResult \<le> 0"

definition get_message_result :: "trayMsg \<Rightarrow> 64 word" where
  "get_message_result m = (if tm_Message m = wmQuit then 0 else 1)"

definition tray_Start :: "tray_state \<Rightarrow> tray_state" where
  "tray_Start = on_tray (\<lambda>t. t\<lparr>tr_ctx := True\<rparr>)"

definition tray_Close :: "tray_state \<Rightarrow> tray_state" where
  "tray_Close s =
     (let s' = on_tray (\<lambda>t. t\<lparr>tr_closed := True\<rparr>) s
      in if tr_hwnd (ts_tray s) \<noteq> 0 then post (plain_message wmClose) s' else s')"

text \<open>One round of the loop, with the result of \<open>GetMessage\<close> and the message it found.\<close>

definition tray_round :: "64 word \<Rightarrow> trayMsg \<Rightarrow> tray_state \<Rightarrow> tray_pc \<times> tray_state" where
  "tray_round messageResult m s =
     (if messageResult_ends messageResult then (Leaving, s) else (Loop m, tray_callback m s))"

text \<open>One step; \<open>None\<close> where the event cannot happen.\<close>

fun tray_step :: "tray_event \<Rightarrow> tray_pc \<times> tray_state \<Rightarrow> (tray_pc \<times> tray_state) option" where
  "tray_step Start (Idle, s) = Some (Starting, tray_Start s)"
| "tray_step (CreateWindow hwnd) (Starting, s) =
     (if hwnd = 0 then Some (Finished, s)
      else Some (Created hwnd, on_windows (\<lambda>w. w\<lparr>tw_window := True\<rparr>) s))"
| "tray_step SetWindow (Created hwnd, s) = Some (Adding, on_tray (\<lambda>t. t\<lparr>tr_hwnd := hwnd\<rparr>) s)"
| "tray_step AddIcon (Adding, s) = Some (Loop (plain_message 0), on_windows (\<lambda>w. w\<lparr>tw_icon := True\<rparr>) s)"
| "tray_step GetMessage (Loop m, s) =
     (case tw_queue (ts_windows s) of
        [] \<Rightarrow> None
      | m' # ms \<Rightarrow> Some (tray_round (get_message_result m') m' (on_windows (\<lambda>w. w\<lparr>tw_queue := ms\<rparr>) s)))"
| "tray_step GetMessageFails (Loop m, s) = Some (tray_round (- 1) m s)"
| "tray_step DeleteIcon (Leaving, s) = Some (Clearing, on_windows (\<lambda>w. w\<lparr>tw_icon := False\<rparr>) s)"
| "tray_step ClearWindow (Clearing, s) = Some (Finished, on_tray (\<lambda>t. t\<lparr>tr_hwnd := 0\<rparr>) s)"
| "tray_step Close (pc, s) = Some (pc, tray_Close s)"
| "tray_step (Posted m) (pc, s) = Some (pc, post m s)"
| "tray_step e (pc, s) = None"

fun run_tray :: "tray_event list \<Rightarrow> tray_pc \<times> tray_state \<Rightarrow> (tray_pc \<times> tray_state) option" where
  "run_tray [] x = Some x"
| "run_tray (e # es) x = Option.bind (tray_step e x) (run_tray es)"

inductive tray_reaches :: "tray_pc \<times> tray_state \<Rightarrow> bool" where
  start: "tray_reaches (Idle, tray_start)"
| step: "tray_reaches x \<Longrightarrow> tray_step e x = Some y \<Longrightarrow> tray_reaches y"

section \<open>The loop ends\<close>

lemma word_le_0: "messageResult_ends r \<longleftrightarrow> r = 0"
  by (simp add: messageResult_ends_def)

lemma simple_fields [simp]:
  "ts_tray (on_windows f s) = ts_tray s" "ts_windows (on_tray g s) = ts_windows s"
  "ts_windows (on_windows f s) = f (ts_windows s)" "ts_tray (on_tray g s) = g (ts_tray s)"
  by (simp_all add: on_windows_def on_tray_def)

lemma effect_keeps [simp]:
  "ts_tray (effect e s) = ts_tray s" "tw_queue (ts_windows (effect e s)) = tw_queue (ts_windows s)"
  "tw_window (ts_windows (effect e s)) = tw_window (ts_windows s)"
  "tw_icon (ts_windows (effect e s)) = tw_icon (ts_windows s)"
  by (simp_all add: effect_def)

lemma callback_keeps:
  "ts_tray (tray_callback m s) = ts_tray s"
  "tw_icon (ts_windows (tray_callback m s)) = tw_icon (ts_windows s)"
  "tm_Message m \<noteq> wmClose \<Longrightarrow> tw_queue (ts_windows (tray_callback m s)) = tw_queue (ts_windows s) \<and>
     tw_window (ts_windows (tray_callback m s)) = tw_window (ts_windows s)"
  "tm_Message m = wmClose \<Longrightarrow> tw_queue (ts_windows (tray_callback m s)) = [plain_message wmQuit] \<and>
     \<not> tw_window (ts_windows (tray_callback m s))"
  by (auto simp: tray_callback_def showWindow_def quitApp_def Let_def destroy_and_quit_def wmClose_def wmCommand_def
      wmTrayNotify_def trayCallbackMessage_def)

text \<open>
  The state at each place of \<open>run\<close>: in the loop the tray knows its window, and a window that is gone has left
  \<open>WM_QUIT\<close>; at the end the icon is gone and the window forgotten.
\<close>

definition ends :: "trayMsg \<Rightarrow> bool" where "ends m \<longleftrightarrow> tm_Message m = wmQuit \<or> tm_Message m = wmClose"

definition ending :: "tray_state \<Rightarrow> bool" where
  "ending s \<longleftrightarrow> list_ex ends (tw_queue (ts_windows s))"

text \<open>How many calls of \<open>GetMessage\<close> the loop has left before the one that ends it.\<close>

fun rank :: "trayMsg list \<Rightarrow> nat" where
  "rank [] = 0"
| "rank (m # ms) = (if tm_Message m = wmQuit then 0 else if tm_Message m = wmClose then 1 else Suc (rank ms))"

fun tray_inv :: "tray_pc \<times> tray_state \<Rightarrow> bool" where
  "tray_inv (Loop m, s) \<longleftrightarrow> tr_hwnd (ts_tray s) \<noteq> 0 \<and> (tw_window (ts_windows s) \<or> ending s)"
| "tray_inv (Adding, s) \<longleftrightarrow> tr_hwnd (ts_tray s) \<noteq> 0 \<and> tw_window (ts_windows s)"
| "tray_inv (Created h, s) \<longleftrightarrow> h \<noteq> 0 \<and> tw_window (ts_windows s)"
| "tray_inv (Leaving, s) \<longleftrightarrow> True"
| "tray_inv (Clearing, s) \<longleftrightarrow> \<not> tw_icon (ts_windows s)"
| "tray_inv (pc, s) \<longleftrightarrow> \<not> tw_icon (ts_windows s) \<and> tr_hwnd (ts_tray s) = 0"

lemma rank_end [simp]: "list_ex ends ms \<Longrightarrow> rank (ms @ ms') = rank ms"
  by (induction ms) (auto simp: ends_def)

lemma rank_le: "rank (ms @ [m]) \<le> Suc (length ms)"
  by (induction ms) (auto intro: le_SucI)

lemma rank_ending: "list_ex ends ms \<Longrightarrow> rank ms \<le> length ms"
  by (induction ms) (auto simp: ends_def)

lemma post_keeps [simp]:
  "ts_tray (post m s) = ts_tray s" "tw_icon (ts_windows (post m s)) = tw_icon (ts_windows s)"
  "tw_window (ts_windows (post m s)) = tw_window (ts_windows s)" "ending s \<Longrightarrow> ending (post m s)"
  "ending s \<Longrightarrow> rank (tw_queue (ts_windows (post m s))) = rank (tw_queue (ts_windows s))"
  by (simp_all add: post_def ending_def)

lemma Close_keeps [simp]:
  "tr_hwnd (ts_tray (tray_Close s)) = tr_hwnd (ts_tray s)" "tr_ctx (ts_tray (tray_Close s)) = tr_ctx (ts_tray s)"
  "tw_icon (ts_windows (tray_Close s)) = tw_icon (ts_windows s)"
  "tw_window (ts_windows (tray_Close s)) = tw_window (ts_windows s)" "ending s \<Longrightarrow> ending (tray_Close s)"
  "ending s \<Longrightarrow> rank (tw_queue (ts_windows (tray_Close s))) = rank (tw_queue (ts_windows s))"
  by (simp_all add: tray_Close_def Let_def ending_def post_def)

text \<open>A message that was taken from the queue: it ends the loop, or the queue is shorter, or \<open>WM_QUIT\<close> is next.\<close>

lemma callback_queue:
  "tm_Message m = wmClose \<and> tw_queue (ts_windows (tray_callback m s)) = [plain_message wmQuit] \<or>
   tm_Message m \<noteq> wmClose \<and> tw_queue (ts_windows (tray_callback m s)) = tw_queue (ts_windows s) \<and>
     tw_window (ts_windows (tray_callback m s)) = tw_window (ts_windows s)"
  using callback_keeps(3,4) [of m s] by blast

lemma callback_ending:
  "tm_Message m = wmClose \<or> ending s \<Longrightarrow>
   ending (tray_callback m s) \<and> rank (tw_queue (ts_windows (tray_callback m s))) \<le> rank (tw_queue (ts_windows s))"
  using callback_queue [of m s] by (auto simp: ending_def ends_def plain_message_def)

lemma GetMessage_ends:
  assumes "ending s" "tray_step GetMessage (Loop m, s) = Some (pc, t)"
  shows "case pc of Loop m' \<Rightarrow> ending t \<and> rank (tw_queue (ts_windows t)) < rank (tw_queue (ts_windows s))
                  | Leaving \<Rightarrow> True | _ \<Rightarrow> False"
proof (cases "tw_queue (ts_windows s)")
  case Nil
  with assms(2) show ?thesis by simp
next
  case (Cons m' ms)
  with assms show ?thesis
    using callback_queue [of m' "on_windows (\<lambda>w. w\<lparr>tw_queue := ms\<rparr>) s"]
    by (auto simp: tray_round_def word_le_0 get_message_result_def ending_def ends_def plain_message_def
        split: if_splits)
qed

lemma step_inv: "tray_inv x \<Longrightarrow> tray_step e x = Some y \<Longrightarrow> tray_inv y"
proof (induction e x rule: tray_step.induct)
  case (5 m s)
  then obtain m' ms where q: "tw_queue (ts_windows s) = m' # ms" by (auto split: list.splits)
  with 5 show ?case
    using callback_queue [of m' "on_windows (\<lambda>w. w\<lparr>tw_queue := ms\<rparr>) s"]
      callback_keeps(1) [of m' "on_windows (\<lambda>w. w\<lparr>tw_queue := ms\<rparr>) s"]
    by (auto simp: tray_round_def word_le_0 get_message_result_def ending_def ends_def plain_message_def
        split: if_splits)
next
  case (6 m s)
  then show ?case
    using callback_queue [of m s] callback_keeps(1) [of m s]
    by (auto simp: tray_round_def word_le_0 ending_def ends_def plain_message_def split: if_splits)
next
  case (9 pc s)
  then show ?case by (cases pc) auto
next
  case (10 m pc s)
  then show ?case by (cases pc) auto
qed (auto split: if_splits simp: tray_Start_def)

lemma reaches_inv: "tray_reaches x \<Longrightarrow> tray_inv x"
  by (induction rule: tray_reaches.induct) (auto simp: tray_start_def newSystemTray_def intro: step_inv)

lemma run_reaches: "run_tray es x = Some y \<Longrightarrow> tray_reaches x \<Longrightarrow> tray_reaches y"
  by (induction es x rule: run_tray.induct) (auto split: bind_splits intro: tray_reaches.step)

section \<open>Closing\<close>

lemma loop_step:
  assumes "ending s" "tray_step e (Loop m, s) = Some (pc, t)"
  shows "case pc of Loop m' \<Rightarrow> ending t \<and>
             count_list [e] GetMessage + rank (tw_queue (ts_windows t)) \<le> rank (tw_queue (ts_windows s))
           | Leaving \<Rightarrow> True | _ \<Rightarrow> False"
proof (cases e)
  case GetMessage
  with assms GetMessage_ends show ?thesis by (fastforce split: tray_pc.splits)
next
  case GetMessageFails
  with assms callback_ending [of m s] show ?thesis by (auto simp: tray_round_def word_le_0)
qed (use assms in auto)

fun behind_loop :: "tray_pc \<Rightarrow> bool" where
  "behind_loop Leaving = True" | "behind_loop Clearing = True" | "behind_loop Finished = True" | "behind_loop pc = False"

lemma run_behind: "run_tray es (pc, s) = Some (pc', t) \<Longrightarrow> behind_loop pc \<Longrightarrow> behind_loop pc'"
proof (induction es arbitrary: pc s)
  case (Cons e es)
  from Cons.prems(1) obtain pc1 s1 where one: "tray_step e (pc, s) = Some (pc1, s1)"
    and rest: "run_tray es (pc1, s1) = Some (pc', t)" by (auto split: bind_splits)
  from one Cons.prems(2) have "behind_loop pc1" by (cases pc; cases e) auto
  then show ?case by (rule Cons.IH [OF rest])
qed simp

lemma run_ending:
  "ending s \<Longrightarrow> run_tray es (Loop m, s) = Some (pc, t) \<Longrightarrow>
   case pc of Loop m' \<Rightarrow> ending t \<and>
       count_list es GetMessage + rank (tw_queue (ts_windows t)) \<le> rank (tw_queue (ts_windows s))
     | _ \<Rightarrow> behind_loop pc"
proof (induction es arbitrary: m s)
  case (Cons e es)
  from Cons.prems(2) obtain pc1 s1 where one: "tray_step e (Loop m, s) = Some (pc1, s1)"
    and rest: "run_tray es (pc1, s1) = Some (pc, t)" by (auto split: bind_splits)
  note step = loop_step [OF Cons.prems(1) one]
  show ?case
  proof (cases pc1)
    case (Loop m1)
    with step rest Cons.IH [of s1 m1] show ?thesis by (auto split: tray_pc.splits)
  next
    case Leaving
    with run_behind rest have "behind_loop pc" by fastforce
    then show ?thesis by (cases pc) auto
  qed (use step in auto)
qed auto

text \<open>\<open>Close\<close> in the loop: the window is there and is told, or it is gone and the loop was told.\<close>

lemma Close_ending:
  assumes "tray_inv (Loop m, s)"
  shows "ending (tray_Close s)"
    "rank (tw_queue (ts_windows (tray_Close s))) \<le> Suc (length (tw_queue (ts_windows s)))"
proof -
  show "ending (tray_Close s)"
    using assms by (auto simp: tray_Close_def Let_def post_def ending_def ends_def plain_message_def)
  show "rank (tw_queue (ts_windows (tray_Close s))) \<le> Suc (length (tw_queue (ts_windows s)))"
    using assms rank_ending [of "tw_queue (ts_windows s)"]
    by (auto simp: tray_Close_def Let_def post_def ending_def rank_le)
qed


text \<open>The icon is shown, another program posts a click, and the window closes: four messages and the icon is gone.\<close>

definition tray_running :: "tray_event list" where
  "tray_running = [Start, CreateWindow 7, SetWindow, AddIcon]"

definition click :: trayMsg where
  "click = \<lparr>tm_Message = wmTrayNotify, tm_WParam = 1, tm_LParam = wmLButtonUp\<rparr>"

lemma running_reaches: "run_tray es (Idle, tray_start) = Some y \<Longrightarrow> tray_reaches y"
  by (erule run_reaches, rule tray_reaches.start)

lemmas tray_eval = tray_start_def newSystemTray_def tray_Start_def tray_Close_def post_def on_tray_def on_windows_def
  tray_round_def word_le_0 get_message_result_def tray_callback_def showWindow_def effect_def destroy_and_quit_def
  plain_message_def click_def wmTrayNotify_def wmQuit_def wmClose_def wmCommand_def wmLButtonUp_def wmRButtonUp_def
  trayCallbackMessage_def Let_def tray_running_def


text \<open>
  \<open>Close\<close> before the goroutine has stored its window is lost: \<open>closed\<close> is set and nothing reads it, so the icon
  appears after the application has asked the tray to end, and no message is on its way that would remove it.
\<close>

lemma early_Close_lost:
  "h \<noteq> 0 \<Longrightarrow> case run_tray [Start, CreateWindow h, Close, SetWindow, AddIcon] (Idle, tray_start) of
     Some (pc, s) \<Rightarrow> pc = Loop (plain_message 0) \<and> tr_closed (ts_tray s) \<and> tw_icon (ts_windows s) \<and>
       tw_queue (ts_windows s) = []
   | None \<Rightarrow> False"
  by (simp add: tray_eval)

text \<open>
  \<open>messageResult\<close> is unsigned, so the \<open>-1\<close> of a \<open>GetMessage\<close> that fails does not end the loop: the message of
  the round before is dispatched once more, and the user's one click on \<open>Exit\<close> counts twice.
\<close>

lemma failed_GetMessage_repeats:
  "tray_step GetMessageFails (Loop m, s) = Some (Loop m, tray_callback m s)"
  by (simp add: tray_round_def word_le_0)

end
