(* ===== verification/Spec2Isabelle.thy ===== *)
theory Spec2Isabelle
  imports RoomMain HttpApiWitness RoomServiceWitness ClientWitness AppWitness AppJsonSpec DiagnosticsSpec AnonymizeSpec
    ElevationSpec InstallerSpec DesktopWindowSpec Tray
begin

text \<open>
  A verification library for SoGame: the room API, a Go service that hands out NetBird setup keys for
  room codes (\<open>room-api/\<close>), and the desktop client that creates, joins and leaves rooms with it
  (\<open>client/\<close>).

  Shared ground.  \<open>GoPrelude\<close> has the state monad with errors as sums, the calculus \<open>wp\<close> and \<open>wps\<close> of
  weakest preconditions that carries the proofs, the locale \<open>frame_relation\<close> for what a computation
  leaves alone, and \<open>on_field\<close> for a part of a state.  \<open>GoStrings\<close>, \<open>GoError\<close>, \<open>GoHttp\<close>, \<open>GoUrl\<close> and
  \<open>Json\<close> model what the code uses of the Go library; \<open>GoRuntime\<close> (contexts, timers, channels, clock,
  randomness) is a parameter.

  The room API.
    \<^item> \<open>RoomCrypto\<close>, \<open>RoomStore\<close>, \<open>NetbirdClient\<close>: \<open>internal/crypto\<close>, \<open>internal/store\<close> (tables as lists, a
      schedule of failing statements), \<open>internal/netbird\<close> (over a transport).
    \<^item> \<open>RoomService\<close>: \<open>internal/rooms/service.go\<close>; \<open>RoomServiceFrames\<close>, \<open>RoomServiceSpec\<close>,
      \<open>RoomServiceSafety\<close> and \<open>RoomServiceReconcile\<close> prove what its operations keep, what they return,
      what can never happen again and what a restart repairs; \<open>RoomServiceWitness\<close> runs it.
    \<^item> \<open>RateLimiter\<close>, \<open>HttpApi\<close>, \<open>HttpApiSpec\<close>, \<open>HttpApiWitness\<close>: \<open>internal/httpapi/server.go\<close>, with
      requests that interleave on the provisioning slots.
    \<^item> \<open>RoomConfig\<close>, \<open>RoomMain\<close>: \<open>internal/config\<close>, and \<open>cmd/room-api/main.go\<close> from its flags to the server it
      listens with.

  The client.
    \<^item> \<open>ClientHeap\<close>: the objects shared by reference (setup keys, enrollment secrets, create intents);
      everything outside the process is the component \<open>outside\<close>.
    \<^item> \<open>RoomApiClient\<close>, \<open>RoomApiClientSpec\<close>: \<open>internal/roomapi/client.go\<close>.
    \<^item> \<open>NbTypes\<close>, \<open>NbVersion\<close>, \<open>NbProfile\<close>, \<open>NbRpcAdapter\<close>, \<open>NbMonitor\<close>: \<open>internal/netbird\<close> (port, normalisation,
      version gate, managed profile, gRPC adapter, recovery monitor as a step function).
    \<^item> \<open>Disk\<close>, \<open>SecureStore\<close>, \<open>SecureStoreSpec\<close>: \<open>internal/securestore\<close> over a file system in which any
      call may fail; the locale \<open>slot_storage\<close> is what the session relies on.
    \<^item> \<open>SessionState\<close>, \<open>SessionService\<close>: \<open>internal/session\<close>.  The locale \<open>session_env\<close> (\<open>SessionEnv\<close>) states
      what the session asks of its surroundings; \<open>SessionStorage\<close> (what is saved), \<open>SessionSecrets\<close> (setup
      keys) and \<open>SessionProfiles\<close> (the user's profiles) prove its calls inside it.
    \<^item> \<open>Desktop\<close>, \<open>DesktopProfiles\<close>, \<open>DesktopSpec\<close>: the session that \<open>app/bootstrap_windows.go\<close> builds, the
      interpretation of \<open>session_env\<close> by it, and the properties of the whole client; \<open>ClientWitness\<close> runs it
      on a concrete machine.
    \<^item> \<open>AppErrors\<close>, \<open>AppController\<close>, \<open>AppControllerSpec\<close>, \<open>AppWitness\<close>: \<open>app/controller.go\<close> and \<open>app/dto.go\<close>,
      the controller behind the window.  Its commands are split where the code releases its mutex, and
      \<open>AppControllerSpec\<close> shows what holds in every order of these pieces.  \<open>AppJson\<close>, \<open>AppJsonSpec\<close>: what
      the window gets as JSON.
    \<^item> \<open>GoRegexp\<close>, \<open>Redact\<close>, \<open>RedactSpec\<close>, \<open>AnonymizeSpec\<close>: \<open>internal/observability/redact.go\<close> over the
      leftmost-first matching of Go's \<open>regexp\<close>, and what it leaves standing.
    \<^item> \<open>Diagnostics\<close>, \<open>DiagnosticsSpec\<close>: \<open>internal/diagnostics/bundle.go\<close>, bundles and crash reports.
    \<^item> \<open>BuildRelease\<close>, \<open>Platform\<close>: \<open>build/metadata.go\<close> on its embedded file, and the inspection of the service
      in \<open>internal/platform\<close>.
    \<^item> \<open>WinArgs\<close>, \<open>Installer\<close>, \<open>InstallerSpec\<close>, \<open>ElevationSpec\<close>: the rest of \<open>internal/platform\<close> and the
      elevated helper \<open>cmd/sogame-helper\<close>.  \<open>InstallerSpec\<close> records what the helper does as a list of events
      and shows what stands before \<open>msiexec\<close>; \<open>ElevationSpec\<close> takes a request of the window through the
      quoting, splitting and parsing of the command line (\<open>WinArgs\<close>) to the action of the helper.
    \<^item> \<open>DesktopWindow\<close>, \<open>DesktopWindowSpec\<close>: \<open>NewWindowsController\<close> with every error that stops it, the repair,
      the export of diagnostics, and the buttons of the window over the whole desktop.
    \<^item> \<open>Tray\<close>: \<open>tray_windows.go\<close>, the message loop of the icon as a step relation.

  Parameters and their laws.  Cryptographic primitives (round trip of the cipher, distinct random
  values where a property says so), SQLite (by its statements), the NetBird servers (any answer, except
  where \<open>profile_daemon\<close> states the daemon's contract for profiles), DPAPI (opens what it sealed), the
  clock and the network (any answer), the calls of Windows for services, signatures, elevation and
  \<open>msiexec\<close> (any answer).  No law is assumed of the code itself.

  Bounds.  Loops of the code are structural recursions on their data (delays, operations, connections),
  so no fuel is used, except that \<open>peers_Watch\<close>, the runs of \<open>Watch\<close> and the message loop of the tray are
  observed for any finite number of steps; temporary names are searched below 10000, as \<open>os.CreateTemp\<close>
  does.  \<open>io_Copy\<close> is a partial function, and \<open>DiagnosticsSpec\<close> shows that it ends.

  Not modelled: generated gRPC code and vendored packages, the pages of the user interface (\<open>frontend/\<close>) and
  the toolkit that shows them (\<open>main_windows.go\<close>), signals and listeners, and file modes.
\<close>

end
